(* ===== verification/Prelude.thy ===== *)
theory Prelude imports Complex_Main "HOL-Library.AList" "HOL-Library.Char_ord" begin

text \<open>
  Vocabulary shared by every component theory.

  Python floats and Decimals are read as exact reals once the program knows them to be
  finite.  Where the program can meet a value that is not finite (a price read from an empty
  book, a header, a balance), the model keeps Python's special values in \<open>pynum\<close> and
  branches on them as the code does.  An exception is a value of \<open>py_error\<close>, and a
  computation that can raise returns \<open>py_error + 'a\<close> (with the state it leaves behind,
  when it has one).  A Python dict keeps its insertion order, so it is an association list
  updated with \<open>AList.update\<close>.
\<close>

section \<open>Hint collections\<close>

named_theorems gate_simps "equations of the timed gates"
named_theorems acct_simps "equations of the order accounting"
named_theorems ctl_simps "equations of the controller"

section \<open>Exceptions\<close>

datatype py_error =
    ValueError | TypeError | KeyError | OverflowError | RuntimeError | ArithmeticError
  | AssertionError | TimeoutError | OtherError string

section \<open>Numbers\<close>

text \<open>The values of a Python float or Decimal: finite, the two infinities, or not a number.\<close>

datatype pynum = Num real | PosInf | NegInf | NaN

definition is_finite :: "pynum \<Rightarrow> bool" where
  "is_finite x = (case x of Num _ \<Rightarrow> True | _ \<Rightarrow> False)"

text \<open>Float order: every comparison with a NaN is false.\<close>

fun py_lt :: "pynum \<Rightarrow> pynum \<Rightarrow> bool" where
  "py_lt NaN _ = False"
| "py_lt _ NaN = False"
| "py_lt NegInf y = (y \<noteq> NegInf)"
| "py_lt _ NegInf = False"
| "py_lt (Num a) (Num b) = (a < b)"
| "py_lt (Num _) PosInf = True"
| "py_lt PosInf _ = False"

text \<open>
  The built-in \<open>max(a, b)\<close> and \<open>min(a, b)\<close> keep their first argument unless the
  second compares strictly better, so a NaN in second place is ignored and a NaN in first
  place stays.
\<close>

definition py_max :: "pynum \<Rightarrow> pynum \<Rightarrow> pynum" where
  "py_max a b = (if py_lt a b then b else a)"

definition py_min :: "pynum \<Rightarrow> pynum \<Rightarrow> pynum" where
  "py_min a b = (if py_lt b a then b else a)"

text \<open>A price the program accepts: finite and positive.\<close>

definition positive_price :: "pynum \<Rightarrow> bool" where
  "positive_price x = (case x of Num p \<Rightarrow> 0 < p | _ \<Rightarrow> False)"

text \<open>
  Converting an unbounded Python int to a binary64 float raises OverflowError from
  \<open>2^1024 - 2^970\<close> on, the point from which the nearest float would be infinite.
\<close>

definition float_of_int :: "int \<Rightarrow> py_error + real" where
  "float_of_int i = (if \<bar>i\<bar> < 2 ^ 1024 - 2 ^ 970 then Inr (real_of_int i) else Inl OverflowError)"

lemma is_finite_simps [simp]:
  "is_finite (Num x)" "\<not> is_finite PosInf" "\<not> is_finite NegInf" "\<not> is_finite NaN"
  by (simp_all add: is_finite_def)

lemma positive_price_simps [simp]:
  "positive_price (Num x) \<longleftrightarrow> 0 < x" "\<not> positive_price PosInf"
  "\<not> positive_price NegInf" "\<not> positive_price NaN"
  by (simp_all add: positive_price_def)

lemma positive_priceE:
  assumes "positive_price x" obtains p where "x = Num p" "0 < p"
  using assms by (cases x) auto

lemma py_max_Num [simp]: "py_max (Num a) (Num b) = Num (max a b)"
  by (simp add: py_max_def max_def)

lemma py_min_Num [simp]: "py_min (Num a) (Num b) = Num (min a b)"
  by (auto simp: py_min_def min_def)

lemma py_max_NaN [simp]: "py_max (Num a) NaN = Num a"
  by (simp add: py_max_def)

lemma py_max_Num_ge: "py_max (Num a) y = Num b \<Longrightarrow> a \<le> b"
  by (cases y) (auto simp: py_max_def split: if_splits)

lemma py_min_max_Num:
  "\<exists>d. py_min (py_max (Num a) y) (Num b) = Num d \<and> min a b \<le> d \<and> d \<le> b"
  by (cases y) (auto simp: py_max_def py_min_def min_def)

lemma float_of_int_Inr: "float_of_int i = Inr r \<Longrightarrow> r = real_of_int i"
  by (auto simp: float_of_int_def split: if_splits)

lemma float_of_int_pow2:
  "float_of_int (2 ^ n) = (if n < 1024 then Inr (2 ^ n) else Inl OverflowError)"
proof (cases "n < 1024")
  case True
  then have "(2::int) ^ n \<le> 2 ^ 1023"
    by (intro power_increasing) auto
  moreover have "(2::int) ^ 1023 < 2 ^ 1024 - 2 ^ 970"
    by simp
  ultimately have "(2::int) ^ n < 2 ^ 1024 - 2 ^ 970"
    by (rule le_less_trans)
  with True show ?thesis
    by (simp add: float_of_int_def)
next
  case False
  then have "(2::int) ^ 1024 \<le> 2 ^ n"
    by (intro power_increasing) auto
  moreover have "(2::int) ^ 1024 - 2 ^ 970 < 2 ^ 1024"
    by simp
  ultimately have "\<not> (2::int) ^ n < 2 ^ 1024 - 2 ^ 970"
    by linarith
  with False show ?thesis
    by (simp add: float_of_int_def)
qed

section \<open>Strings\<close>

text \<open>ASCII lower case, substring search and the prefix and suffix tests of \<open>str\<close>.\<close>

definition lower_char :: "char \<Rightarrow> char" where
  "lower_char c = (let n = (of_char c :: nat) in if 65 \<le> n \<and> n \<le> 90 then char_of (n + 32) else c)"

definition str_lower :: "string \<Rightarrow> string" where
  "str_lower s = map lower_char s"

definition upper_char :: "char \<Rightarrow> char" where
  "upper_char c = (let n = (of_char c :: nat) in if 97 \<le> n \<and> n \<le> 122 then char_of (n - 32) else c)"

definition str_upper :: "string \<Rightarrow> string" where
  "str_upper s = map upper_char s"

text \<open>\<open>str.strip\<close>: the ASCII white space.\<close>

definition white_char :: "char \<Rightarrow> bool" where
  "white_char c = (let n = (of_char c :: nat) in (9 \<le> n \<and> n \<le> 13) \<or> (28 \<le> n \<and> n \<le> 32))"

definition str_strip :: "string \<Rightarrow> string" where
  "str_strip s = rev (dropWhile white_char (rev (dropWhile white_char s)))"

text \<open>\<open>str.split\<close> at every occurrence of one character.\<close>

fun split_on :: "char \<Rightarrow> string \<Rightarrow> string list" where
  "split_on c [] = [[]]"
| "split_on c (x # xs) =
     (if x = c then [] # split_on c xs
      else case split_on c xs of y # ys \<Rightarrow> (x # y) # ys | [] \<Rightarrow> [[x]])"

text \<open>The environment of a process, and a variable that is set and not empty.\<close>

type_synonym environment = "string \<Rightarrow> string option"

definition env_truthy :: "environment \<Rightarrow> string \<Rightarrow> bool" where
  "env_truthy env key = (case env key of Some v \<Rightarrow> v \<noteq> [] | None \<Rightarrow> False)"

fun str_contains :: "string \<Rightarrow> string \<Rightarrow> bool" where
  "str_contains pat [] = (pat = [])"
| "str_contains pat (c # cs) = (take (length pat) (c # cs) = pat \<or> str_contains pat cs)"

definition str_startswith :: "string \<Rightarrow> string \<Rightarrow> bool" where
  "str_startswith pre s = (take (length pre) s = pre)"

definition str_removesuffix :: "string \<Rightarrow> string \<Rightarrow> string" where
  "str_removesuffix suf s =
     (if suf \<noteq> [] \<and> length suf \<le> length s \<and> drop (length s - length suf) s = suf
      then take (length s - length suf) s else s)"

text \<open>\<open>s.split("-")[0]\<close>: everything before the first dash, the whole string without one.\<close>

definition before_dash :: "string \<Rightarrow> string" where
  "before_dash s = takeWhile (\<lambda>c. c \<noteq> CHR ''-'') s"

lemma str_contains_append:
  "str_contains pat (u @ pat @ v)"
proof (induction u)
  case Nil
  show ?case
  proof (cases "pat @ v")
    case Nil
    then show ?thesis by simp
  next
    case (Cons c cs)
    then have "take (length pat) (c # cs) = pat"
      by (metis append_eq_conv_conj)
    with Cons show ?thesis by simp
  qed
qed simp

lemma str_contains_iff: "str_contains pat s \<longleftrightarrow> (\<exists>u v. s = u @ pat @ v)"
proof
  assume "str_contains pat s"
  then show "\<exists>u v. s = u @ pat @ v"
  proof (induction pat s rule: str_contains.induct)
    case (2 pat c cs)
    show ?case
    proof (cases "take (length pat) (c # cs) = pat")
      case True
      then have "c # cs = [] @ pat @ drop (length pat) (c # cs)"
        by (metis append_Nil append_take_drop_id)
      then show ?thesis by blast
    next
      case False
      with 2 obtain u v where "cs = u @ pat @ v" by auto
      then have "c # cs = (c # u) @ pat @ v" by simp
      then show ?thesis by blast
    qed
  qed simp
qed (auto intro: str_contains_append)

section \<open>Order sides\<close>

text \<open>The two side labels, ordered as the strings \<open>"buy"\<close> and \<open>"sell"\<close> are.\<close>

datatype side = Buy | Sell

instantiation side :: linorder
begin

definition less_eq_side :: "side \<Rightarrow> side \<Rightarrow> bool" where
  "less_eq_side a b = (a = Buy \<or> b = Sell)"

definition less_side :: "side \<Rightarrow> side \<Rightarrow> bool" where
  "less_side a b = (a = Buy \<and> b = Sell)"

instance
proof
  fix x y z :: side
  show "x < y \<longleftrightarrow> x \<le> y \<and> \<not> y \<le> x"
    by (cases x; cases y) (simp_all add: less_eq_side_def less_side_def)
  show "x \<le> x"
    by (cases x) (simp_all add: less_eq_side_def)
  show "x \<le> y \<Longrightarrow> y \<le> z \<Longrightarrow> x \<le> z"
    by (auto simp: less_eq_side_def)
  show "x \<le> y \<Longrightarrow> y \<le> x \<Longrightarrow> x = y"
    by (cases x; cases y) (simp_all add: less_eq_side_def)
  show "x \<le> y \<or> y \<le> x"
    by (cases x; cases y) (simp_all add: less_eq_side_def)
qed

end

lemma side_less_simps [simp]:
  "Buy < Sell" "\<not> Sell < Buy" "Buy \<le> s" "s \<le> Sell" "Sell \<le> Buy \<longleftrightarrow> False"
  by (simp_all add: less_side_def less_eq_side_def)

fun opposite :: "side \<Rightarrow> side" where
  "opposite Buy = Sell"
| "opposite Sell = Buy"

text \<open>The signed effect of an amount traded on a side.\<close>

fun signed :: "side \<Rightarrow> real \<Rightarrow> real" where
  "signed Buy q = q"
| "signed Sell q = - q"

section \<open>Lists and dicts\<close>

lemma sum_list_update_real:
  fixes xs :: "'a list" and f :: "'a \<Rightarrow> real"
  assumes "i < length xs"
  shows "(\<Sum>x\<leftarrow>xs[i := y]. f x) = (\<Sum>x\<leftarrow>xs. f x) - f (xs ! i) + f y"
  using assms
proof (induction xs arbitrary: i)
  case (Cons x xs)
  then show ?case by (cases i) auto
qed simp

lemma sum_list_nonneg_real:
  fixes f :: "'a \<Rightarrow> real"
  shows "(\<And>x. x \<in> set xs \<Longrightarrow> 0 \<le> f x) \<Longrightarrow> 0 \<le> (\<Sum>x\<leftarrow>xs. f x)"
  by (induction xs) auto

lemma sum_list_mono_real:
  fixes f g :: "'a \<Rightarrow> real"
  shows "(\<And>x. x \<in> set xs \<Longrightarrow> f x \<le> g x) \<Longrightarrow> (\<Sum>x\<leftarrow>xs. f x) \<le> (\<Sum>x\<leftarrow>xs. g x)"
  by (induction xs) (auto intro!: add_mono)

lemma member_le_sum_list_real:
  fixes f :: "'a \<Rightarrow> real"
  assumes "x \<in> set xs" "\<And>y. y \<in> set xs \<Longrightarrow> 0 \<le> f y"
  shows "f x \<le> (\<Sum>y\<leftarrow>xs. f y)"
  using assms
proof (induction xs)
  case (Cons a xs)
  show ?case
  proof (cases "x = a")
    case True
    with Cons.prems show ?thesis
      using sum_list_nonneg_real[of xs f] by auto
  next
    case False
    with Cons have "f x \<le> (\<Sum>y\<leftarrow>xs. f y)" by auto
    with Cons.prems show ?thesis by (simp add: add_increasing)
  qed
qed simp

text \<open>
  Writing a key a dict already has replaces its value in place; a new key goes to the end.
  The two sum lemmas say what that does to a total over the values.
\<close>

definition dict_sum :: "('v \<Rightarrow> real) \<Rightarrow> ('k \<times> 'v) list \<Rightarrow> real" where
  "dict_sum f d = (\<Sum>kv\<leftarrow>d. f (snd kv))"

lemma dict_sum_simps [simp]:
  "dict_sum f [] = 0"
  "dict_sum f (kv # d) = f (snd kv) + dict_sum f d"
  "dict_sum f (d @ e) = dict_sum f d + dict_sum f e"
  by (simp_all add: dict_sum_def)

lemma update_new: "map_of d k = None \<Longrightarrow> AList.update k v d = d @ [(k, v)]"
  by (induction d) (auto split: if_splits)

lemma dict_sum_update_new:
  "map_of d k = None \<Longrightarrow> dict_sum f (AList.update k v d) = dict_sum f d + f v"
  by (simp add: update_new)

lemma dict_sum_update:
  "map_of d k = Some old \<Longrightarrow> dict_sum f (AList.update k v d) = dict_sum f d - f old + f v"
  by (induction d) (auto split: if_splits)

lemma dict_sum_nonneg:
  "(\<And>k v. (k, v) \<in> set d \<Longrightarrow> 0 \<le> f v) \<Longrightarrow> 0 \<le> dict_sum f d"
  unfolding dict_sum_def by (intro sum_list_nonneg_real) auto

lemma dict_sum_cong:
  "(\<And>k v. (k, v) \<in> set d \<Longrightarrow> f v = g v) \<Longrightarrow> dict_sum f d = dict_sum g d"
  unfolding dict_sum_def by (intro arg_cong[where f = sum_list] map_cong) auto

lemma dict_sum_member_le:
  assumes "map_of d k = Some v" "\<And>k v. (k, v) \<in> set d \<Longrightarrow> 0 \<le> f v"
  shows "f v \<le> dict_sum f d"
  unfolding dict_sum_def
  using member_le_sum_list_real[of "(k, v)" d "\<lambda>kv. f (snd kv)"] assms
  by (auto dest: map_of_SomeD)

lemma set_update_subset: "set (AList.update k v d) \<subseteq> insert (k, v) (set d)"
  by (induction d) auto

lemma map_of_update [simp]: "map_of (AList.update k v d) k' = (if k' = k then Some v else map_of d k')"
  by (simp add: update_conv')

lemma distinct_keys_update:
  "distinct (map fst d) \<Longrightarrow> distinct (map fst (AList.update k v d))"
  by (rule distinct_update)

section \<open>Results\<close>

text \<open>What is left of a computation that returns.\<close>

fun is_ok :: "'e + 'a \<Rightarrow> bool" where
  "is_ok (Inl _) = False"
| "is_ok (Inr _) = True"

end
