(* ===== verification/Interfaces.thy ===== *)
theory Interfaces imports Prelude begin

text \<open>
  The contracts between components.  Each locale fixes the operations a client calls and
  assumes the laws the provider promises; the client's facts are proved once here and are
  instantiated in the provider's theory by interpretation on the model of the code.
\<close>

section \<open>Gates that reopen at a known time\<close>

text \<open>
  Both safety primitives of \<open>opms/resilience.py\<close> answer "may I act now?" by comparing the
  caller's clock with a stored reopening time.
\<close>

locale timed_gate =
  fixes allow :: "'s \<Rightarrow> real \<Rightarrow> bool"
    and reopen :: "'s \<Rightarrow> real"
  assumes allow_iff: "allow s t \<longleftrightarrow> reopen s \<le> t"
begin

lemma allow_mono: "allow s t \<Longrightarrow> t \<le> u \<Longrightarrow> allow s u"
  by (simp add: allow_iff)

lemma blocked_before: "t < reopen s \<Longrightarrow> \<not> allow s t"
  by (simp add: allow_iff)

lemma allow_cong: "reopen s = reopen s' \<Longrightarrow> allow s t = allow s' t"
  by (simp add: allow_iff)

end

section \<open>Request circuits\<close>

text \<open>
  A caller that asks the gate before every request: clock readings with the outcome the
  request would have (None for success).  The result lists the requests that were really
  sent, each with the delay recorded after it.
\<close>

fun guarded :: "('s \<Rightarrow> real \<Rightarrow> bool) \<Rightarrow> ('s \<Rightarrow> real \<Rightarrow> 'e \<Rightarrow> 's \<times> (py_error + real)) \<Rightarrow> ('s \<Rightarrow> 's)
    \<Rightarrow> 's \<Rightarrow> (real \<times> 'e option) list \<Rightarrow> (real \<times> real) list" where
  "guarded alw fal suc s [] = []"
| "guarded alw fal suc s ((t, outcome) # rest) =
     (if \<not> alw s t then guarded alw fal suc s rest
      else case outcome of
             None \<Rightarrow> (t, 0) # guarded alw fal suc (suc s) rest
           | Some e \<Rightarrow>
               (case fal s t e of
                  (s', Inr d) \<Rightarrow> (t, d) # guarded alw fal suc s' rest
                | (s', Inl _) \<Rightarrow> (t, 0) # guarded alw fal suc s' rest))"

definition spaced :: "(real \<times> real) list \<Rightarrow> bool" where
  "spaced xs = (\<forall>i. Suc i < length xs \<longrightarrow> fst (xs ! i) + snd (xs ! i) \<le> fst (xs ! Suc i))"

lemma spaced_Nil [simp]: "spaced []"
  by (simp add: spaced_def)

lemma spaced_Cons:
  "spaced (x # xs) \<longleftrightarrow> (xs = [] \<or> fst x + snd x \<le> fst (hd xs)) \<and> spaced xs"
proof (cases xs)
  case (Cons y ys)
  have "spaced (x # y # ys) \<longleftrightarrow> fst x + snd x \<le> fst y \<and> spaced (y # ys)" (is "?l \<longleftrightarrow> ?r")
  proof
    assume ?r
    show ?l
      unfolding spaced_def
    proof (intro allI impI)
      fix i assume "Suc i < length (x # y # ys)"
      with \<open>?r\<close> show "fst ((x # y # ys) ! i) + snd ((x # y # ys) ! i) \<le> fst ((x # y # ys) ! Suc i)"
        by (cases i) (auto simp: spaced_def)
    qed
  qed (force simp: spaced_def)
  with Cons show ?thesis by simp
qed (simp add: spaced_def)

lemma hd_guarded:
  assumes "guarded alw fal suc s xs \<noteq> []"
  shows "fst (hd (guarded alw fal suc s xs)) \<in> fst ` set xs \<and> alw s (fst (hd (guarded alw fal suc s xs)))"
  using assms
  by (induction alw fal suc s xs rule: guarded.induct)
     (auto split: if_splits option.splits prod.splits sum.splits)

text \<open>
  What the controller relies on in \<open>VenueCircuitBreaker\<close>: a recorded failure that returns
  a delay closes the gate for that long, a success opens it.
\<close>

locale request_circuit = timed_gate allow reopen
  for allow :: "'s \<Rightarrow> real \<Rightarrow> bool" and reopen :: "'s \<Rightarrow> real" +
  fixes good :: "'s \<Rightarrow> bool"
    and fail :: "'s \<Rightarrow> real \<Rightarrow> 'e \<Rightarrow> 's \<times> (py_error + real)"
    and succeed :: "'s \<Rightarrow> 's"
  assumes fail_reopen: "fail s t e = (s', Inr d) \<Longrightarrow> reopen s' = t + d"
    and fail_delay: "good s \<Longrightarrow> fail s t e = (s', Inr d) \<Longrightarrow> 0 \<le> d"
    and fail_raises: "fail s t e = (s', Inl x) \<Longrightarrow> reopen s' = reopen s"
    and fail_good: "good s \<Longrightarrow> good (fst (fail s t e))"
    and succeed_reopen: "reopen (succeed s) = 0"
    and succeed_good: "good s \<Longrightarrow> good (succeed s)"
begin

lemma fail_blocks:
  "fail s t e = (s', Inr d) \<Longrightarrow> u < t + d \<Longrightarrow> \<not> allow s' u"
  by (simp add: allow_iff fail_reopen)

lemma fail_reopens:
  "fail s t e = (s', Inr d) \<Longrightarrow> allow s' (t + d)"
  by (simp add: allow_iff fail_reopen)

lemma succeed_allows: "0 \<le> t \<Longrightarrow> allow (succeed s) t"
  by (simp add: allow_iff succeed_reopen)

text \<open>
  With a clock that never runs backwards, two requests that are both sent are at least the
  first one's recorded delay apart.
\<close>

lemma guarded_spaced:
  "good s \<Longrightarrow> sorted (map fst xs) \<Longrightarrow> spaced (guarded allow fail succeed s xs)"
proof (induction xs arbitrary: s)
  case (Cons x xs)
  obtain t outcome where x: "x = (t, outcome)" by force
  have later: "\<And>u. u \<in> fst ` set xs \<Longrightarrow> t \<le> u"
    using Cons.prems(2) by (auto simp: x)
  have sorted: "sorted (map fst xs)"
    using Cons.prems(2) by simp
  have step: "spaced ((t, d) # guarded allow fail succeed s' xs)"
    if "good s'" "\<And>u. t \<le> u \<Longrightarrow> allow s' u \<Longrightarrow> t + d \<le> u" for s' d
    using Cons.IH[OF that(1) sorted] hd_guarded[of allow fail succeed s' xs] that(2) later
    by (auto simp: spaced_Cons)
  show ?case
  proof (cases "allow s t")
    case True
    note al = True
    show ?thesis
    proof (cases outcome)
      case None
      with al show ?thesis
        using step[of "succeed s" 0] Cons.prems(1) by (simp add: x succeed_good)
    next
      case (Some e)
      obtain s' r where f: "fail s t e = (s', r)" by force
      have "good s'"
        using fail_good[OF Cons.prems(1), of t e] by (simp add: f)
      then show ?thesis
        using step[of s'] fail_blocks[of s t e s'] f al Some
        by (cases r) (auto simp: x, meson not_le)
    qed
  next
    case False
    then show ?thesis
      using Cons.IH[OF Cons.prems(1) sorted] by (simp add: x)
  qed
qed simp

lemma raising_failure_keeps_gate: "fail s t e = (s', Inl x) \<Longrightarrow> allow s' u = allow s u"
  by (rule allow_cong) (simp add: fail_raises)

end

section \<open>Quote gates\<close>

text \<open>
  What the controller relies on in \<open>QuoteLivenessWatchdog\<close>: once open, the circuit stays
  open until its reopening time whatever is called in between, and a trip closes quoting for
  at least the cooldown.
\<close>

locale quote_gate = timed_gate allow reopen
  for allow :: "'s \<Rightarrow> real \<Rightarrow> bool" and reopen :: "'s \<Rightarrow> real" +
  fixes cooldown :: "'s \<Rightarrow> real"
    and observe :: "'s \<Rightarrow> real \<Rightarrow> side set \<Rightarrow> side set \<Rightarrow> 's \<times> bool"
    and suspend :: "'s \<Rightarrow> 's"
    and trip :: "'s \<Rightarrow> real \<Rightarrow> side set \<Rightarrow> side set \<Rightarrow> 's"
  assumes suspend_reopen: "reopen (suspend s) = reopen s"
    and suspend_cooldown: "cooldown (suspend s) = cooldown s"
    and trip_reopen: "reopen (trip s t e l) = max (reopen s) (t + cooldown s)"
    and trip_cooldown: "cooldown (trip s t e l) = cooldown s"
    and observe_blocked: "\<not> allow s t \<Longrightarrow> reopen (fst (observe s t e l)) = reopen s"
    and observe_blocked_trips: "\<not> allow s t \<Longrightarrow> e \<noteq> {} \<Longrightarrow> snd (observe s t e l)"
    and observe_cooldown: "cooldown (fst (observe s t e l)) = cooldown s"
    and observe_trips:
      "allow s t \<Longrightarrow> snd (observe s t e l) \<Longrightarrow> reopen (fst (observe s t e l)) = t + cooldown s"
    and observe_quiet: "\<not> snd (observe s t e l) \<Longrightarrow> allow s t \<Longrightarrow> 0 \<le> t \<Longrightarrow>
      allow (fst (observe s t e l)) t"
begin

lemma suspend_allow [simp]: "allow (suspend s) t = allow s t"
  by (rule allow_cong) (rule suspend_reopen)

lemma trip_blocks: "u < t + cooldown s \<Longrightarrow> \<not> allow (trip s t e l) u"
  by (simp add: allow_iff trip_reopen)

lemma trip_never_shortens: "\<not> allow s u \<Longrightarrow> \<not> allow (trip s t e l) u"
  by (simp add: allow_iff trip_reopen)

lemma observed_trip_blocks:
  "allow s t \<Longrightarrow> snd (observe s t e l) \<Longrightarrow> u < t + cooldown s \<Longrightarrow> \<not> allow (fst (observe s t e l)) u"
  by (simp add: allow_iff observe_trips)

end

section \<open>Latched intents\<close>

text \<open>
  What the keeper and the controller rely on in \<open>InProcessClient\<close>: while the accepted
  non-quoting intent is pending, only an intent of at least its rank replaces it, and only a
  position report at the target releases it.  Calls are position reports and intents.
\<close>

fun client_run :: "('c \<Rightarrow> 'i \<Rightarrow> 'c) \<Rightarrow> ('c \<Rightarrow> 'p \<Rightarrow> 'c) \<Rightarrow> 'c \<Rightarrow> ('p + 'i) list \<Rightarrow> 'c" where
  "client_run ofr rep c [] = c"
| "client_run ofr rep c (Inl p # xs) = client_run ofr rep (rep c p) xs"
| "client_run ofr rep c (Inr j # xs) = client_run ofr rep (ofr c j) xs"

locale intent_latch =
  fixes pending :: "'c \<Rightarrow> 'i option"
    and rank :: "'i \<Rightarrow> nat"
    and offer :: "'c \<Rightarrow> 'i \<Rightarrow> 'c"
    and report :: "'c \<Rightarrow> 'p \<Rightarrow> 'c"
    and reached :: "'p \<Rightarrow> 'i \<Rightarrow> bool"
    and known :: "'p \<Rightarrow> 'i \<Rightarrow> bool"
  assumes offer_pending: "pending c = Some i \<Longrightarrow>
      pending (offer c j) = Some i \<or> (pending (offer c j) = Some j \<and> rank i \<le> rank j)
        \<or> (pending (offer c j) = None \<and> rank i \<le> rank j)"
    and offer_keeps: "pending c = Some i \<Longrightarrow> rank j < rank i \<Longrightarrow> offer c j = c"
    and report_pending: "pending c = Some i \<Longrightarrow> known p i \<Longrightarrow> \<not> reached p i \<Longrightarrow>
      pending (report c p) = Some i"
begin

lemma low_rank_offers_ignored:
  assumes "pending c = Some i" "\<forall>j \<in> set js. rank j < rank i"
  shows "foldl offer c js = c"
  using assms by (induction js) (auto simp: offer_keeps)

text \<open>Interleaved reports short of the target and lower-ranked intents leave it pending.\<close>

lemma run_keeps_pending:
  assumes "pending c = Some i"
    "\<forall>p. Inl p \<in> set xs \<longrightarrow> known p i \<and> \<not> reached p i"
    "\<forall>j. Inr j \<in> set xs \<longrightarrow> rank j < rank i"
  shows "pending (client_run offer report c xs) = Some i"
  using assms
proof (induction xs arbitrary: c)
  case (Cons x xs)
  then show ?case by (cases x) (auto simp: report_pending offer_keeps)
qed simp

end

section \<open>Basket stops\<close>

text \<open>
  What the controller relies on in \<open>PortfolioStopBook\<close>: an answer is an exception or a
  basket mode with a target, an emergency always targets zero, and neither a quote nor a hold
  asks for a trade.  An agreement to quote is unanimous: this leg asked to quote too.
\<close>

datatype leg_mode = LQuote | LStop | LEmergency

datatype basket_mode = BQuote | BHold | BStop | BEmergency

locale basket_stop =
  fixes good :: "'t \<Rightarrow> 'k \<Rightarrow> bool"
    and ask :: "'t \<Rightarrow> 'k \<Rightarrow> real \<Rightarrow> real \<Rightarrow> leg_mode \<Rightarrow> real \<Rightarrow> 't \<times> (py_error + basket_mode \<times> real)"
  assumes good_ask: "good t k \<Longrightarrow> good (fst (ask t j pos mid m now)) k"
    and emergency_flattens: "snd (ask t k pos mid m now) = Inr (BEmergency, q) \<Longrightarrow> q = 0"
    and quiet_keeps: "snd (ask t k pos mid m now) = Inr (b, q) \<Longrightarrow> b = BQuote \<or> b = BHold \<Longrightarrow> q = pos"
    and quote_agrees: "good t k \<Longrightarrow> snd (ask t k pos mid m now) = Inr (BQuote, q) \<Longrightarrow> m = LQuote"
    and emergency_heard: "good t k \<Longrightarrow> snd (ask t k pos mid LEmergency now) = Inr (BEmergency, 0)"
begin

lemma non_quote_request_never_quotes:
  "good t k \<Longrightarrow> m \<noteq> LQuote \<Longrightarrow> snd (ask t k pos mid m now) \<noteq> Inr (BQuote, q)"
  using quote_agrees by blast

lemma trade_only_when_stopped:
  "snd (ask t k pos mid m now) = Inr (b, q) \<Longrightarrow> q \<noteq> pos \<Longrightarrow> b = BStop \<or> b = BEmergency"
  using quiet_keeps by (cases b) auto

end

end
