(* ===== verification/PassiveAggressive.thy ===== *)
theory PassiveAggressive imports Interfaces begin

text \<open>
  \<open>src/opms/executors/passive_aggressive_executor.py\<close>: the passive-aggressive executor.

  The executor is the record \<open>executor\<close>.  An order record refers to its child slot by the
  slot's index (the program holds the object), and \<open>_orders\<close> is an association list in the
  dict's insertion order.  The calls into Hummingbot are written to \<open>ex_sent\<close>, newest first.
  The order id that \<open>place_order\<close> returns is a parameter \<open>new_id\<close>, a function of the calls
  made so far; the touch price that \<open>get_price\<close> returns comes with the tick.  A venue or
  strategy call that raises is outside the model: Hummingbot reports a rejected order through
  the failure event.
\<close>

section \<open>Configuration and state\<close>

datatype position_action = OPEN | CLOSE | NIL

record pa_config =
  pa_side :: side
  total_amount_base :: real
  child_order_quantity :: real
  child_order_time_limit :: real
  child_order_refresh_time :: real
  pa_leverage :: int
  pa_position_action :: position_action

datatype child_status = Idle | Active | Canceling | Aggressive | Done | Skipped

datatype cancel_reason = NoReason | Refresh | CycleExpired

record child_slot =
  ch_target :: real
  ch_status :: child_status
  ch_order :: "string option"
  ch_filled :: real
  ch_cycle_start :: "real option"
  ch_refresh_start :: "real option"
  ch_retry_at :: "real option"
  ch_cancel_reason :: cancel_reason

record order_rec =
  or_child :: nat
  or_amount :: real
  or_fill_sum :: real
  or_reported :: real
  or_credited :: real
  or_trades :: "string set"
  or_terminal :: bool

datatype run_status = NotStarted | Running | ShuttingDown | Terminated

datatype close_type = Completed | TimeLimit | Failed | EarlyStop | PositionHold | InsufficientBalance

datatype order_type = Limit | Market

datatype call = Place string order_type real pynum | Cancel string | StopCall

record executor =
  ex_children :: "child_slot list"
  ex_idx :: nat
  ex_filled :: real
  ex_fees :: real
  ex_orders :: "(string \<times> order_rec) list"
  ex_sweep :: "real option"
  ex_status :: run_status
  ex_close_type :: "close_type option"
  ex_close_ts :: "real option"
  ex_retries :: nat
  ex_max_retries :: nat
  ex_sent :: "call list"

abbreviation slot :: "executor \<Rightarrow> nat \<Rightarrow> child_slot" where
  "slot ex i \<equiv> ex_children ex ! i"

definition terminal_status :: "child_status \<Rightarrow> bool" where
  "terminal_status s = (s = Done \<or> s = Skipped)"

definition max_children :: nat where
  "max_children = 200"

section \<open>Setup\<close>

definition fresh_slot :: "real \<Rightarrow> child_slot" where
  "fresh_slot target =
     \<lparr>ch_target = target, ch_status = Idle, ch_order = None, ch_filled = 0, ch_cycle_start = None,
      ch_refresh_start = None, ch_retry_at = None, ch_cancel_reason = NoReason\<rparr>"

text \<open>
  Decimal's \<open>//\<close> truncates towards zero, and raises when the quotient has more digits than the
  default context's 28.
\<close>

definition decimal_floordiv :: "real \<Rightarrow> real \<Rightarrow> py_error + int" where
  "decimal_floordiv q c =
     (let n = (if 0 \<le> q / c then \<lfloor>q / c\<rfloor> else \<lceil>q / c\<rceil>)
      in if 10 ^ 28 \<le> \<bar>n\<bar> then Inl ArithmeticError else Inr n)"

definition build_child_slots :: "pa_config \<Rightarrow> py_error + child_slot list" where
  "build_child_slots cfg =
     (let q = total_amount_base cfg; child_q = child_order_quantity cfg in
      if child_q \<le> 0 then Inl ValueError
      else case decimal_floordiv q child_q of
             Inl e \<Rightarrow> Inl e
           | Inr n \<Rightarrow>
               if int max_children < n then Inl ValueError
               else
                 let remainder = q - of_int n * child_q;
                     slots = replicate (nat n) (fresh_slot child_q)
                 in Inr (if remainder > 0 then
                           (if slots \<noteq> [] then butlast slots @ [fresh_slot (child_q + remainder)]
                            else [fresh_slot remainder])
                         else slots))"

definition new_executor :: "pa_config \<Rightarrow> nat \<Rightarrow> py_error + executor" where
  "new_executor cfg max_retries =
     (case build_child_slots cfg of
        Inl e \<Rightarrow> Inl e
      | Inr slots \<Rightarrow>
          Inr \<lparr>ex_children = slots, ex_idx = 0, ex_filled = 0, ex_fees = 0, ex_orders = [],
               ex_sweep = None, ex_status = NotStarted, ex_close_type = None, ex_close_ts = None,
               ex_retries = 0, ex_max_retries = max_retries, ex_sent = []\<rparr>)"

section \<open>Accounting\<close>

definition unsettled :: "order_rec \<Rightarrow> real" where
  "unsettled r = (if or_terminal r then 0 else max (or_amount r - or_credited r) 0)"

definition outstanding :: "executor \<Rightarrow> real" where
  "outstanding ex = dict_sum unsettled (ex_orders ex)"

definition room :: "pa_config \<Rightarrow> executor \<Rightarrow> nat \<Rightarrow> real" where
  "room cfg ex i =
     min (ch_target (slot ex i) - ch_filled (slot ex i)) (total_amount_base cfg - ex_filled ex)
       - outstanding ex"

definition set_child :: "nat \<Rightarrow> (child_slot \<Rightarrow> child_slot) \<Rightarrow> executor \<Rightarrow> executor" where
  "set_child i f ex = ex\<lparr>ex_children := (ex_children ex)[i := f (slot ex i)]\<rparr>"

definition set_order :: "string \<Rightarrow> order_rec \<Rightarrow> executor \<Rightarrow> executor" where
  "set_order oid r ex = ex\<lparr>ex_orders := AList.update oid r (ex_orders ex)\<rparr>"

definition send :: "call \<Rightarrow> executor \<Rightarrow> executor" where
  "send c ex = ex\<lparr>ex_sent := c # ex_sent ex\<rparr>"

text \<open>\<open>_credit\<close>: only the increase over what was credited before counts.\<close>

definition credit :: "string \<Rightarrow> executor \<Rightarrow> executor" where
  "credit oid ex =
     (case map_of (ex_orders ex) oid of
        None \<Rightarrow> ex
      | Some r \<Rightarrow>
          let delta = max (or_fill_sum r) (or_reported r) - or_credited r in
          if delta \<le> 0 then ex
          else (set_child (or_child r) (\<lambda>c. c\<lparr>ch_filled := ch_filled c + delta\<rparr>)
                 (set_order oid (r\<lparr>or_credited := or_credited r + delta\<rparr>) ex))
                   \<lparr>ex_filled := ex_filled ex + delta\<rparr>)"

section \<open>Orders\<close>

definition submit :: "(call list \<Rightarrow> string) \<Rightarrow> nat \<Rightarrow> order_type \<Rightarrow> real \<Rightarrow> pynum \<Rightarrow> executor \<Rightarrow> executor" where
  "submit new_id i ty amount price ex =
     (let oid = new_id (ex_sent ex) in
      set_child i (\<lambda>c. c\<lparr>ch_order := Some oid\<rparr>)
        (set_order oid \<lparr>or_child = i, or_amount = amount, or_fill_sum = 0, or_reported = 0,
                         or_credited = 0, or_trades = {}, or_terminal = False\<rparr>
          (send (Place oid ty amount price) ex)))"

definition place_limit ::
  "pa_config \<Rightarrow> (call list \<Rightarrow> string) \<Rightarrow> pynum \<Rightarrow> real \<Rightarrow> nat \<Rightarrow> executor \<Rightarrow> executor" where
  "place_limit cfg new_id price now i ex =
     (if \<not> positive_price price then set_child i (\<lambda>c. c\<lparr>ch_retry_at := Some (now + 1)\<rparr>) ex
      else
        let remaining = room cfg ex i in
        if remaining \<le> 0 then set_child i (\<lambda>c. c\<lparr>ch_status := Done\<rparr>) ex
        else set_child i (\<lambda>c. c\<lparr>ch_status := Active, ch_refresh_start := Some now\<rparr>)
               (submit new_id i Limit remaining price ex))"

definition place_aggressive ::
  "pa_config \<Rightarrow> (call list \<Rightarrow> string) \<Rightarrow> nat \<Rightarrow> executor \<Rightarrow> executor" where
  "place_aggressive cfg new_id i ex0 =
     (let ex = set_child i (\<lambda>c. c\<lparr>ch_status := Idle\<rparr>) ex0 in
      if ex_status ex \<noteq> Running then ex
      else
        let remaining = room cfg ex i in
        if remaining \<le> 0 then set_child i (\<lambda>c. c\<lparr>ch_status := Done\<rparr>) ex
        else set_child i (\<lambda>c. c\<lparr>ch_status := Aggressive\<rparr>)
               (submit new_id i Market remaining NaN ex))"

definition cancel_child :: "nat \<Rightarrow> cancel_reason \<Rightarrow> executor \<Rightarrow> executor" where
  "cancel_child i reason ex =
     (case ch_order (slot ex i) of
        None \<Rightarrow> ex
      | Some oid \<Rightarrow>
          if oid = [] then ex
          else set_child i (\<lambda>c. c\<lparr>ch_cancel_reason := reason, ch_status := Canceling\<rparr>)
                 (send (Cancel oid) ex))"

definition open_orders :: "executor \<Rightarrow> string list" where
  "open_orders ex = map fst (filter (\<lambda>kv. \<not> or_terminal (snd kv)) (ex_orders ex))"

definition cancel_all_open :: "real \<Rightarrow> executor \<Rightarrow> executor" where
  "cancel_all_open now ex = fold (\<lambda>oid. send (Cancel oid)) (open_orders ex) (ex\<lparr>ex_sweep := Some now\<rparr>)"

definition close_execution_by :: "close_type \<Rightarrow> real \<Rightarrow> executor \<Rightarrow> executor" where
  "close_execution_by ct now ex =
     send StopCall (ex\<lparr>ex_close_type := Some ct, ex_close_ts := Some now, ex_status := Terminated\<rparr>)"

definition final_close_type :: "pa_config \<Rightarrow> executor \<Rightarrow> close_type" where
  "final_close_type cfg ex =
     (if ex_max_retries ex < ex_retries ex then Failed
      else if total_amount_base cfg \<le> ex_filled ex then Completed
      else TimeLimit)"

definition evaluate_max_retries :: "real \<Rightarrow> executor \<Rightarrow> executor" where
  "evaluate_max_retries now ex =
     (if ex_max_retries ex < ex_retries ex then close_execution_by Failed now ex else ex)"

section \<open>The control task\<close>

text \<open>The \<open>while\<close> loop that advances past terminal slots.\<close>

function skip_terminal :: "child_slot list \<Rightarrow> nat \<Rightarrow> nat" where
  "skip_terminal cs i =
     (if i < length cs \<and> terminal_status (ch_status (cs ! i)) then skip_terminal cs (Suc i) else i)"
  by pat_completeness auto
termination
  by (relation "measure (\<lambda>(cs, i). length cs - i)") auto

declare skip_terminal.simps [simp del]

definition step_slot ::
  "pa_config \<Rightarrow> (call list \<Rightarrow> string) \<Rightarrow> pynum \<Rightarrow> real \<Rightarrow> nat \<Rightarrow> executor \<Rightarrow> executor" where
  "step_slot cfg new_id price now i ex0 =
     (let ex = (if ch_cycle_start (slot ex0 i) = None
                then set_child i (\<lambda>c. c\<lparr>ch_cycle_start := Some now\<rparr>) ex0 else ex0);
          child = slot ex i;
          elapsed = now - (case ch_cycle_start child of Some t \<Rightarrow> t | None \<Rightarrow> now)
      in case ch_status child of
           Idle \<Rightarrow>
             if child_order_time_limit cfg \<le> elapsed then set_child i (\<lambda>c. c\<lparr>ch_status := Skipped\<rparr>) ex
             else (case ch_retry_at child of
                     Some t \<Rightarrow>
                       if now < t then ex
                       else place_limit cfg new_id price now i
                              (set_child i (\<lambda>c. c\<lparr>ch_retry_at := None\<rparr>) ex)
                   | None \<Rightarrow> place_limit cfg new_id price now i
                              (set_child i (\<lambda>c. c\<lparr>ch_retry_at := None\<rparr>) ex))
         | Active \<Rightarrow>
             if child_order_time_limit cfg \<le> elapsed then cancel_child i CycleExpired ex
             else (case ch_refresh_start child of
                     Some t \<Rightarrow> if child_order_refresh_time cfg \<le> now - t then cancel_child i Refresh ex else ex
                   | None \<Rightarrow> ex)
         | _ \<Rightarrow> ex)"

definition pa_step ::
  "pa_config \<Rightarrow> (call list \<Rightarrow> string) \<Rightarrow> pynum \<Rightarrow> real \<Rightarrow> executor \<Rightarrow> executor" where
  "pa_step cfg new_id price now ex0 =
     (let ex = ex0\<lparr>ex_idx := skip_terminal (ex_children ex0) (ex_idx ex0)\<rparr> in
      if length (ex_children ex) \<le> ex_idx ex then
        (if outstanding ex = 0 then close_execution_by (final_close_type cfg ex) now ex else ex)
      else step_slot cfg new_id price now (ex_idx ex) ex)"

definition control_task ::
  "pa_config \<Rightarrow> (call list \<Rightarrow> string) \<Rightarrow> pynum \<Rightarrow> real \<Rightarrow> executor \<Rightarrow> executor" where
  "control_task cfg new_id price now ex =
     (case ex_status ex of
        Running \<Rightarrow> pa_step cfg new_id price now ex
      | ShuttingDown \<Rightarrow>
          if outstanding ex \<noteq> 0 then
            (case ex_sweep ex of
               None \<Rightarrow> cancel_all_open now ex
             | Some t \<Rightarrow> if child_order_refresh_time cfg \<le> now - t then cancel_all_open now ex else ex)
          else close_execution_by
                 (case ex_close_type ex of Some ct \<Rightarrow> ct | None \<Rightarrow> final_close_type cfg ex) now ex
      | _ \<Rightarrow> ex)"

definition early_stop :: "bool \<Rightarrow> real \<Rightarrow> executor \<Rightarrow> executor" where
  "early_stop keep_position now ex =
     (cancel_all_open now (ex\<lparr>ex_close_type := Some (if keep_position then PositionHold else EarlyStop)\<rparr>))
       \<lparr>ex_status := ShuttingDown\<rparr>"

section \<open>Event callbacks\<close>

definition tracks :: "executor \<Rightarrow> order_rec \<Rightarrow> string \<Rightarrow> bool" where
  "tracks ex r oid = (ch_order (slot ex (or_child r)) = Some oid)"

definition process_order_filled_event ::
  "pa_config \<Rightarrow> string \<Rightarrow> string option \<Rightarrow> real \<Rightarrow> real \<Rightarrow> executor \<Rightarrow> executor" where
  "process_order_filled_event cfg oid trade_id amount fee ex =
     (case map_of (ex_orders ex) oid of
        None \<Rightarrow> ex
      | Some r \<Rightarrow>
          let tid = (case trade_id of Some (c # cs) \<Rightarrow> Some (c # cs) | _ \<Rightarrow> None) in
          if (case tid of Some t \<Rightarrow> t \<in> or_trades r | None \<Rightarrow> False) then ex
          else
            let r' = r\<lparr>or_trades := (case tid of Some t \<Rightarrow> insert t (or_trades r) | None \<Rightarrow> or_trades r),
                       or_fill_sum := or_fill_sum r + amount\<rparr>;
                ex1 = credit oid ((set_order oid r' ex)\<lparr>ex_fees := ex_fees ex + fee\<rparr>);
                i = ex_idx ex1
            in if i < length (ex_children ex1) \<and> ch_status (slot ex1 i) = Active
                  \<and> \<not> tracks ex1 r oid \<and> room cfg ex1 i < 0
               then cancel_child i Refresh ex1 else ex1)"

definition process_order_completed_event :: "string \<Rightarrow> real \<Rightarrow> executor \<Rightarrow> executor" where
  "process_order_completed_event oid base_amount ex =
     (case map_of (ex_orders ex) oid of
        None \<Rightarrow> ex
      | Some r \<Rightarrow>
          let r' = r\<lparr>or_terminal := True, or_reported := max (or_reported r) base_amount\<rparr>;
              ex1 = credit oid (set_order oid r' ex)
          in if tracks ex1 r oid then set_child (or_child r) (\<lambda>c. c\<lparr>ch_status := Done\<rparr>) ex1 else ex1)"

definition process_order_canceled_event ::
  "pa_config \<Rightarrow> (call list \<Rightarrow> string) \<Rightarrow> string \<Rightarrow> executor \<Rightarrow> executor" where
  "process_order_canceled_event cfg new_id oid ex =
     (case map_of (ex_orders ex) oid of
        None \<Rightarrow> ex
      | Some r \<Rightarrow>
          let ex1 = set_order oid (r\<lparr>or_terminal := True\<rparr>) ex; i = or_child r in
          if \<not> tracks ex1 r oid then ex1
          else
            let ex2 = set_child i (\<lambda>c. c\<lparr>ch_order := None\<rparr>) ex1 in
            if ch_cancel_reason (slot ex2 i) = CycleExpired then
              (if pa_position_action cfg = CLOSE then place_aggressive cfg new_id i ex2
               else set_child i (\<lambda>c. c\<lparr>ch_status := Skipped\<rparr>) ex2)
            else set_child i (\<lambda>c. c\<lparr>ch_status := Idle\<rparr>) ex2)"

definition reduce_only_rejection :: "string \<Rightarrow> bool" where
  "reduce_only_rejection msg =
     str_contains ''reduce only order would increase position'' (str_lower msg)"

definition process_order_failed_event ::
  "pa_config \<Rightarrow> (call list \<Rightarrow> string) \<Rightarrow> string \<Rightarrow> string \<Rightarrow> real \<Rightarrow> executor \<Rightarrow> executor" where
  "process_order_failed_event cfg new_id oid msg now ex =
     (case map_of (ex_orders ex) oid of
        None \<Rightarrow> ex
      | Some r \<Rightarrow>
          let ex1 = set_order oid (r\<lparr>or_terminal := True\<rparr>) ex; i = or_child r in
          if \<not> tracks ex1 r oid then ex1
          else if pa_position_action cfg = CLOSE \<and> reduce_only_rejection msg then
            close_execution_by EarlyStop now
              (set_child i (\<lambda>c. c\<lparr>ch_order := None, ch_status := Skipped\<rparr>) ex1)
          else
            let was_aggressive = (ch_status (slot ex1 i) = Aggressive);
                retries = Suc (ex_retries ex1);
                retry_delay = min (2 ^ min retries 4) (child_order_refresh_time cfg);
                ex2 = (set_child i (\<lambda>c. c\<lparr>ch_status := Idle, ch_order := None,
                                          ch_retry_at := Some (now + retry_delay)\<rparr>) ex1)
                        \<lparr>ex_retries := retries\<rparr>
            in if was_aggressive \<and> ex_status ex2 = Running \<and> retries \<le> ex_max_retries ex2
               then place_aggressive cfg new_id i ex2 else ex2)"

section \<open>Reports\<close>

text \<open>
  \<open>get_price\<close> may raise: \<open>filled_amount_quote\<close> and \<open>get_net_pnl_quote\<close> then report zero.
  Both are modelled at a finite mid.
\<close>

definition filled_amount_quote :: "py_error + real \<Rightarrow> executor \<Rightarrow> real" where
  "filled_amount_quote mid ex = (case mid of Inl _ \<Rightarrow> 0 | Inr m \<Rightarrow> ex_filled ex * m)"

definition get_net_pnl_quote :: "pa_config \<Rightarrow> py_error + real \<Rightarrow> executor \<Rightarrow> real" where
  "get_net_pnl_quote cfg mid ex =
     (case mid of
        Inl _ \<Rightarrow> 0
      | Inr m \<Rightarrow>
          let avg_fill = (if ex_filled ex \<noteq> 0 then filled_amount_quote mid ex / ex_filled ex else m);
              sign = (if pa_side cfg = Buy then 1 else -1)
          in sign * (m - avg_fill) * ex_filled ex - ex_fees ex)"

definition get_net_pnl_pct :: "pa_config \<Rightarrow> py_error + real \<Rightarrow> executor \<Rightarrow> real" where
  "get_net_pnl_pct cfg mid ex =
     (if filled_amount_quote mid ex = 0 then 0
      else get_net_pnl_quote cfg mid ex / filled_amount_quote mid ex)"

text \<open>
  \<open>validate_sufficient_balance\<close>: the candidate that Hummingbot's budget check returns for the
  whole amount is a parameter; a zero amount closes the executor before it trades.
\<close>

record candidate =
  cand_perpetual :: bool
  cand_side :: side
  cand_amount :: real
  cand_price :: pynum
  cand_leverage :: int
  cand_position_close :: bool

definition validate_sufficient_balance ::
  "(candidate \<Rightarrow> real) \<Rightarrow> bool \<Rightarrow> pa_config \<Rightarrow> pynum \<Rightarrow> executor \<Rightarrow> executor" where
  "validate_sufficient_balance adjusted_amount perpetual cfg mid ex =
     (let c = \<lparr>cand_perpetual = perpetual, cand_side = pa_side cfg,
               cand_amount = total_amount_base cfg, cand_price = mid,
               cand_leverage = (if perpetual then pa_leverage cfg else 1),
               cand_position_close = (perpetual \<and> pa_position_action cfg = CLOSE)\<rparr>
      in if adjusted_amount c = 0
         then send StopCall (ex\<lparr>ex_close_type := Some InsufficientBalance\<rparr>) else ex)"

section \<open>Events and runs\<close>

datatype pa_event =
    Tick real pynum
  | FillEv string "string option" real real
  | CompleteEv string real
  | CancelEv string
  | FailEv string string real
  | StopEv bool real
  | RetriesEv real

fun pa_apply :: "pa_config \<Rightarrow> (call list \<Rightarrow> string) \<Rightarrow> executor \<Rightarrow> pa_event \<Rightarrow> executor" where
  "pa_apply cfg new_id ex (Tick now price) = control_task cfg new_id price now ex"
| "pa_apply cfg new_id ex (FillEv oid tid amount fee) = process_order_filled_event cfg oid tid amount fee ex"
| "pa_apply cfg new_id ex (CompleteEv oid amount) = process_order_completed_event oid amount ex"
| "pa_apply cfg new_id ex (CancelEv oid) = process_order_canceled_event cfg new_id oid ex"
| "pa_apply cfg new_id ex (FailEv oid msg now) = process_order_failed_event cfg new_id oid msg now ex"
| "pa_apply cfg new_id ex (StopEv keep now) = early_stop keep now ex"
| "pa_apply cfg new_id ex (RetriesEv now) = evaluate_max_retries now ex"

text \<open>
  The reachable states under an environment: \<open>env ex ev\<close> says which events may happen.
  Hummingbot's \<open>start()\<close> sets a constructed executor running.
\<close>

inductive pa_reach :: "pa_config \<Rightarrow> (call list \<Rightarrow> string) \<Rightarrow> (executor \<Rightarrow> pa_event \<Rightarrow> bool) \<Rightarrow> executor \<Rightarrow> bool"
  for cfg new_id env where
  start: "new_executor cfg n = Inr ex \<Longrightarrow> pa_reach cfg new_id env (ex\<lparr>ex_status := Running\<rparr>)"
| step: "pa_reach cfg new_id env ex \<Longrightarrow> env ex ev \<Longrightarrow> pa_reach cfg new_id env (pa_apply cfg new_id ex ev)"

end
