(* ===== verification/PassiveAggressiveAccounts.thy ===== *)
theory PassiveAggressiveAccounts imports PassiveAggressive begin

text \<open>
  The accounting invariant of the passive-aggressive executor: for every order the credited
  amount is the larger of its distinct fills and its completion summary, the executor's total
  and every child's total are the sums of what was credited, whatever events arrive and in
  whatever order.
\<close>

section \<open>Frame equations\<close>

lemma set_child_frame [simp]:
  "ex_orders (set_child i f ex) = ex_orders ex" "ex_idx (set_child i f ex) = ex_idx ex"
  "ex_filled (set_child i f ex) = ex_filled ex" "ex_fees (set_child i f ex) = ex_fees ex"
  "ex_status (set_child i f ex) = ex_status ex" "ex_sent (set_child i f ex) = ex_sent ex"
  "ex_close_type (set_child i f ex) = ex_close_type ex" "ex_retries (set_child i f ex) = ex_retries ex"
  "ex_max_retries (set_child i f ex) = ex_max_retries ex" "ex_sweep (set_child i f ex) = ex_sweep ex"
  "length (ex_children (set_child i f ex)) = length (ex_children ex)"
  by (simp_all add: set_child_def)

lemma slot_set_child [simp]:
  "j < length (ex_children ex) \<Longrightarrow> slot (set_child i f ex) j = (if j = i then f (slot ex i) else slot ex j)"
  by (simp add: set_child_def nth_list_update)

lemma set_order_frame [simp]:
  "ex_children (set_order oid r ex) = ex_children ex" "ex_idx (set_order oid r ex) = ex_idx ex"
  "ex_filled (set_order oid r ex) = ex_filled ex" "ex_fees (set_order oid r ex) = ex_fees ex"
  "ex_status (set_order oid r ex) = ex_status ex" "ex_sent (set_order oid r ex) = ex_sent ex"
  "ex_close_type (set_order oid r ex) = ex_close_type ex" "ex_retries (set_order oid r ex) = ex_retries ex"
  "ex_max_retries (set_order oid r ex) = ex_max_retries ex" "ex_sweep (set_order oid r ex) = ex_sweep ex"
  "ex_orders (set_order oid r ex) = AList.update oid r (ex_orders ex)"
  by (simp_all add: set_order_def)

lemma send_frame [simp]:
  "ex_children (send c ex) = ex_children ex" "ex_idx (send c ex) = ex_idx ex"
  "ex_filled (send c ex) = ex_filled ex" "ex_fees (send c ex) = ex_fees ex"
  "ex_status (send c ex) = ex_status ex" "ex_sent (send c ex) = c # ex_sent ex"
  "ex_close_type (send c ex) = ex_close_type ex" "ex_retries (send c ex) = ex_retries ex"
  "ex_max_retries (send c ex) = ex_max_retries ex" "ex_sweep (send c ex) = ex_sweep ex"
  "ex_orders (send c ex) = ex_orders ex"
  by (simp_all add: send_def)

lemma set_order_fees: "set_order oid r (ex\<lparr>ex_fees := x\<rparr>) = (set_order oid r ex)\<lparr>ex_fees := x\<rparr>"
  by (cases ex) (simp add: set_order_def)

lemma cancel_all_open_frame [simp]:
  "ex_children (cancel_all_open now ex) = ex_children ex" "ex_idx (cancel_all_open now ex) = ex_idx ex"
  "ex_filled (cancel_all_open now ex) = ex_filled ex" "ex_fees (cancel_all_open now ex) = ex_fees ex"
  "ex_status (cancel_all_open now ex) = ex_status ex"
  "ex_close_type (cancel_all_open now ex) = ex_close_type ex"
  "ex_retries (cancel_all_open now ex) = ex_retries ex"
  "ex_max_retries (cancel_all_open now ex) = ex_max_retries ex"
  "ex_orders (cancel_all_open now ex) = ex_orders ex"
  "ex_sent (cancel_all_open now ex) = map Cancel (rev (open_orders ex)) @ ex_sent ex"
proof -
  have f: "ex_children (fold (\<lambda>oid. send (Cancel oid)) ids e) = ex_children e
    \<and> ex_idx (fold (\<lambda>oid. send (Cancel oid)) ids e) = ex_idx e
    \<and> ex_filled (fold (\<lambda>oid. send (Cancel oid)) ids e) = ex_filled e
    \<and> ex_fees (fold (\<lambda>oid. send (Cancel oid)) ids e) = ex_fees e
    \<and> ex_status (fold (\<lambda>oid. send (Cancel oid)) ids e) = ex_status e
    \<and> ex_close_type (fold (\<lambda>oid. send (Cancel oid)) ids e) = ex_close_type e
    \<and> ex_retries (fold (\<lambda>oid. send (Cancel oid)) ids e) = ex_retries e
    \<and> ex_max_retries (fold (\<lambda>oid. send (Cancel oid)) ids e) = ex_max_retries e
    \<and> ex_orders (fold (\<lambda>oid. send (Cancel oid)) ids e) = ex_orders e
    \<and> ex_sent (fold (\<lambda>oid. send (Cancel oid)) ids e) = map Cancel (rev ids) @ ex_sent e" for ids e
    by (induction ids arbitrary: e) auto
  show "ex_children (cancel_all_open now ex) = ex_children ex" "ex_idx (cancel_all_open now ex) = ex_idx ex"
    "ex_filled (cancel_all_open now ex) = ex_filled ex" "ex_fees (cancel_all_open now ex) = ex_fees ex"
    "ex_status (cancel_all_open now ex) = ex_status ex"
    "ex_close_type (cancel_all_open now ex) = ex_close_type ex"
    "ex_retries (cancel_all_open now ex) = ex_retries ex"
    "ex_max_retries (cancel_all_open now ex) = ex_max_retries ex"
    "ex_orders (cancel_all_open now ex) = ex_orders ex"
    "ex_sent (cancel_all_open now ex) = map Cancel (rev (open_orders ex)) @ ex_sent ex"
    by (simp_all add: cancel_all_open_def f)
qed

lemma outstanding_cong: "ex_orders ex' = ex_orders ex \<Longrightarrow> outstanding ex' = outstanding ex"
  by (simp add: outstanding_def)

section \<open>The invariant\<close>

definition order_ok :: "executor \<Rightarrow> order_rec \<Rightarrow> bool" where
  "order_ok ex r = (or_child r < length (ex_children ex) \<and> 0 \<le> or_fill_sum r \<and> 0 \<le> or_reported r
     \<and> or_credited r = max (or_fill_sum r) (or_reported r))"

definition child_credit :: "nat \<Rightarrow> order_rec \<Rightarrow> real" where
  "child_credit i r = (if or_child r = i then or_credited r else 0)"

definition placed :: "string \<Rightarrow> executor \<Rightarrow> bool" where
  "placed oid ex = (\<exists>ty a p. Place oid ty a p \<in> set (ex_sent ex))"

definition pa_inv :: "executor \<Rightarrow> bool" where
  "pa_inv ex =
     (distinct (map fst (ex_orders ex))
      \<and> (\<forall>oid r. map_of (ex_orders ex) oid = Some r \<longrightarrow> order_ok ex r \<and> placed oid ex)
      \<and> ex_filled ex = dict_sum or_credited (ex_orders ex)
      \<and> (\<forall>i < length (ex_children ex). ch_filled (slot ex i) = dict_sum (child_credit i) (ex_orders ex)))"

text \<open>Hummingbot's client order ids are fresh and not empty.\<close>

definition fresh_ids :: "(call list \<Rightarrow> string) \<Rightarrow> bool" where
  "fresh_ids new_id = (\<forall>log. new_id log \<noteq> [] \<and> (\<forall>ty a p. Place (new_id log) ty a p \<notin> set log))"

named_theorems pa_intros "operations that keep the accounting invariant"

lemma pa_inv_cong:
  assumes "pa_inv ex" "ex_orders ex' = ex_orders ex" "ex_filled ex' = ex_filled ex"
    "length (ex_children ex') = length (ex_children ex)"
    "\<And>i. i < length (ex_children ex) \<Longrightarrow> ch_filled (slot ex' i) = ch_filled (slot ex i)"
    "set (ex_sent ex) \<subseteq> set (ex_sent ex')"
  shows "pa_inv ex'"
  using assms by (fastforce simp: pa_inv_def order_ok_def placed_def)

lemma pa_inv_set_child [pa_intros]:
  assumes "\<And>c. ch_filled (f c) = ch_filled c" "pa_inv ex"
  shows "pa_inv (set_child i f ex)"
  by (rule pa_inv_cong[OF assms(2)]) (simp_all add: assms(1))

lemma pa_inv_send [pa_intros]: "pa_inv ex \<Longrightarrow> pa_inv (send c ex)"
  by (rule pa_inv_cong) auto

lemma pa_inv_fields [pa_intros]:
  "pa_inv ex \<Longrightarrow> pa_inv (ex\<lparr>ex_idx := n\<rparr>)"
  "pa_inv ex \<Longrightarrow> pa_inv (ex\<lparr>ex_retries := n\<rparr>)"
  "pa_inv ex \<Longrightarrow> pa_inv (ex\<lparr>ex_status := st\<rparr>)"
  "pa_inv ex \<Longrightarrow> pa_inv (ex\<lparr>ex_close_type := ct\<rparr>)"
  "pa_inv ex \<Longrightarrow> pa_inv (ex\<lparr>ex_fees := x\<rparr>)"
  by (auto elim!: pa_inv_cong)

lemma pa_inv_cancel_all_open [pa_intros]: "pa_inv ex \<Longrightarrow> pa_inv (cancel_all_open now ex)"
  by (rule pa_inv_cong) auto

lemma pa_inv_close [pa_intros]: "pa_inv ex \<Longrightarrow> pa_inv (close_execution_by ct now ex)"
  by (rule pa_inv_cong) (auto simp: close_execution_by_def)

lemma pa_inv_cancel_child [pa_intros]: "pa_inv ex \<Longrightarrow> pa_inv (cancel_child i reason ex)"
  by (auto simp: cancel_child_def split: option.splits intro!: pa_intros)

text \<open>Rewriting one order without touching what it contributes to the totals.\<close>

lemma pa_inv_set_order [pa_intros]:
  assumes "pa_inv ex" "map_of (ex_orders ex) oid = Some r" "or_child r' = or_child r"
    "or_credited r' = or_credited r" "or_fill_sum r' = or_fill_sum r" "or_reported r' = or_reported r"
  shows "pa_inv (set_order oid r' ex)"
proof -
  have "dict_sum f (AList.update oid r' (ex_orders ex)) = dict_sum f (ex_orders ex)"
    if "f r' = f r" for f :: "order_rec \<Rightarrow> real"
    using dict_sum_update[OF assms(2), of f r'] that by simp
  then show ?thesis
    using assms unfolding pa_inv_def
    by (auto simp: order_ok_def placed_def child_credit_def distinct_keys_update)
qed

text \<open>The core step: an order's evidence grows and the increase is credited.\<close>

lemma pa_inv_credit:
  assumes inv: "pa_inv ex" and r: "map_of (ex_orders ex) oid = Some r"
    and r': "or_child r' = or_child r" "or_credited r' = or_credited r"
      "or_fill_sum r \<le> or_fill_sum r'" "or_reported r \<le> or_reported r'"
  shows "pa_inv (credit oid (set_order oid r' ex))"
proof -
  let ?d = "max (or_fill_sum r') (or_reported r') - or_credited r'"
  have ok: "order_ok ex r" and pl: "placed oid ex"
    using inv r by (auto simp: pa_inv_def)
  have i: "or_child r < length (ex_children ex)"
    using ok by (simp add: order_ok_def)
  have d: "0 \<le> ?d"
    using ok r' by (auto simp: order_ok_def)
  have cr: "or_credited r' + ?d = max (or_fill_sum r') (or_reported r')"
    by simp
  define r2 where "r2 = r'\<lparr>or_credited := or_credited r' + ?d\<rparr>"
  have r2: "or_child r2 = or_child r" "or_credited r2 = or_credited r + ?d"
    using r' by (simp_all add: r2_def)
  have ok2: "order_ok ex r2"
    using ok r' by (auto simp: order_ok_def r2_def)
  have orders: "ex_orders (credit oid (set_order oid r' ex)) = AList.update oid r2 (ex_orders ex)"
  proof (cases "?d \<le> 0")
    case True
    with d have "or_credited r' + ?d = or_credited r'"
      by linarith
    then have "r2 = r'"
      by (simp add: r2_def)
    with True show ?thesis
      by (simp add: credit_def Let_def)
  next
    case False
    then show ?thesis
      by (auto simp: credit_def Let_def r2_def update_Some_unfold)
  qed
  have total: "ex_filled (credit oid (set_order oid r' ex)) = ex_filled ex + ?d"
    using d by (auto simp: credit_def Let_def)
  have child: "ch_filled (slot (credit oid (set_order oid r' ex)) j)
      = ch_filled (slot ex j) + (if j = or_child r then ?d else 0)"
    if "j < length (ex_children ex)" for j
    using d i that r'(1) by (auto simp: credit_def Let_def)
  have len: "length (ex_children (credit oid (set_order oid r' ex))) = length (ex_children ex)"
    and sent: "ex_sent (credit oid (set_order oid r' ex)) = ex_sent ex"
    by (simp_all add: credit_def Let_def)
  have sums: "dict_sum f (AList.update oid r2 (ex_orders ex)) = dict_sum f (ex_orders ex) - f r + f r2"
    for f :: "order_rec \<Rightarrow> real"
    using dict_sum_update[OF r] by simp
  show ?thesis
    using inv ok2 pl
    by (auto simp: pa_inv_def orders total child len sums distinct_keys_update order_ok_def placed_def
        sent child_credit_def r2)
qed

lemma pa_inv_submit [pa_intros]:
  assumes "fresh_ids new_id" "pa_inv ex" "i < length (ex_children ex)"
  shows "pa_inv (submit new_id i ty a p ex)"
proof -
  let ?oid = "new_id (ex_sent ex)"
  have new: "map_of (ex_orders ex) ?oid = None"
  proof (rule ccontr)
    assume "map_of (ex_orders ex) ?oid \<noteq> None"
    then obtain r where "map_of (ex_orders ex) ?oid = Some r" by blast
    with assms(2) have "placed ?oid ex" by (auto simp: pa_inv_def)
    with assms(1) show False by (auto simp: placed_def fresh_ids_def)
  qed
  have "pa_inv (set_order ?oid \<lparr>or_child = i, or_amount = a, or_fill_sum = 0, or_reported = 0,
      or_credited = 0, or_trades = {}, or_terminal = False\<rparr> (send (Place ?oid ty a p) ex))"
    using assms(2,3) new
    by (auto simp: pa_inv_def order_ok_def placed_def child_credit_def distinct_keys_update
        dict_sum_update_new)
  then show ?thesis
    by (simp add: submit_def Let_def pa_inv_set_child)
qed

lemma pa_inv_place_limit [pa_intros]:
  assumes "fresh_ids new_id" "pa_inv ex" "i < length (ex_children ex)"
  shows "pa_inv (place_limit cfg new_id price now i ex)"
  using assms by (auto simp: place_limit_def Let_def intro!: pa_intros)

lemma pa_inv_place_aggressive [pa_intros]:
  assumes "fresh_ids new_id" "pa_inv ex" "i < length (ex_children ex)"
  shows "pa_inv (place_aggressive cfg new_id i ex)"
  using assms by (auto simp: place_aggressive_def Let_def intro!: pa_intros)

lemma pa_inv_step_slot [pa_intros]:
  assumes "fresh_ids new_id" "pa_inv ex" "i < length (ex_children ex)"
  shows "pa_inv (step_slot cfg new_id price now i ex)"
  using assms
  by (auto simp: step_slot_def Let_def split: child_status.splits option.splits intro!: pa_intros)

lemma pa_inv_control_task [pa_intros]:
  assumes "fresh_ids new_id" "pa_inv ex"
  shows "pa_inv (control_task cfg new_id price now ex)"
  using assms
  by (auto simp: control_task_def pa_step_def Let_def split: run_status.splits option.splits
      intro!: pa_intros)

lemma pa_inv_order_child:
  "pa_inv ex \<Longrightarrow> map_of (ex_orders ex) oid = Some r \<Longrightarrow> or_child r < length (ex_children ex)"
  by (auto simp: pa_inv_def order_ok_def)

lemma pa_inv_filled [pa_intros]:
  assumes "pa_inv ex" "0 \<le> amount"
  shows "pa_inv (process_order_filled_event cfg oid tid amount fee ex)"
proof (cases "map_of (ex_orders ex) oid")
  case (Some r)
  have "pa_inv (credit oid ((set_order oid r' ex)\<lparr>ex_fees := x\<rparr>))"
    if "or_child r' = or_child r" "or_credited r' = or_credited r" "or_fill_sum r \<le> or_fill_sum r'"
      "or_reported r \<le> or_reported r'" for r' x
  proof -
    have "pa_inv (credit oid (set_order oid r' (ex\<lparr>ex_fees := x\<rparr>)))"
      by (rule pa_inv_credit[OF _ _ that]) (use assms Some in \<open>simp_all add: pa_intros\<close>)
    then show ?thesis by (simp add: set_order_fees)
  qed
  then show ?thesis
    using Some assms
    by (auto simp: process_order_filled_event_def Let_def intro!: pa_inv_cancel_child)
qed (simp add: process_order_filled_event_def assms)

lemma pa_inv_completed [pa_intros]:
  assumes "pa_inv ex"
  shows "pa_inv (process_order_completed_event oid amount ex)"
proof (cases "map_of (ex_orders ex) oid")
  case (Some r)
  show ?thesis
    using assms Some
    by (auto simp: process_order_completed_event_def Let_def intro!: pa_inv_set_child pa_inv_credit)
qed (simp add: process_order_completed_event_def assms)

lemma pa_inv_canceled [pa_intros]:
  assumes "fresh_ids new_id" "pa_inv ex"
  shows "pa_inv (process_order_canceled_event cfg new_id oid ex)"
proof (cases "map_of (ex_orders ex) oid")
  case (Some r)
  then have "pa_inv (set_order oid (r\<lparr>or_terminal := True\<rparr>) ex)"
    using assms by (auto intro!: pa_intros)
  then show ?thesis
    using Some assms pa_inv_order_child[OF assms(2) Some]
    by (auto simp: process_order_canceled_event_def Let_def intro!: pa_intros)
qed (simp add: process_order_canceled_event_def assms)

lemma pa_inv_failed [pa_intros]:
  assumes "fresh_ids new_id" "pa_inv ex"
  shows "pa_inv (process_order_failed_event cfg new_id oid msg now ex)"
proof (cases "map_of (ex_orders ex) oid")
  case (Some r)
  then have "pa_inv (set_order oid (r\<lparr>or_terminal := True\<rparr>) ex)"
    using assms by (auto intro!: pa_intros)
  then show ?thesis
    using Some assms pa_inv_order_child[OF assms(2) Some]
    by (auto simp: process_order_failed_event_def Let_def intro!: pa_intros)
qed (simp add: process_order_failed_event_def assms)

text \<open>The environment of the accounting theorems: any event at all, with amounts not negative.\<close>

definition any_event :: "executor \<Rightarrow> pa_event \<Rightarrow> bool" where
  "any_event ex ev = (case ev of FillEv oid tid amount fee \<Rightarrow> 0 \<le> amount | _ \<Rightarrow> True)"

lemma pa_inv_apply:
  assumes "fresh_ids new_id" "pa_inv ex" "any_event ex ev"
  shows "pa_inv (pa_apply cfg new_id ex ev)"
  using assms
  by (cases ev) (auto simp: any_event_def early_stop_def evaluate_max_retries_def intro!: pa_intros)

lemma new_executor_inv: "new_executor cfg n = Inr ex \<Longrightarrow> pa_inv (ex\<lparr>ex_status := Running\<rparr>)"
  by (auto simp: new_executor_def build_child_slots_def pa_inv_def fresh_slot_def Let_def
      nth_append nth_butlast split: sum.splits if_splits)

lemma pa_reach_inv:
  assumes "pa_reach cfg new_id env ex" "fresh_ids new_id" "\<And>ex ev. env ex ev \<Longrightarrow> any_event ex ev"
  shows "pa_inv ex"
  using assms(1) by induction (auto intro: new_executor_inv pa_inv_apply assms(2,3))

end
