(* ===== verification/PassiveAggressiveSafety.thy ===== *)
theory PassiveAggressiveSafety imports PassiveAggressiveAccounts begin

text \<open>
  What the passive-aggressive executor promises: its child slots partition the requested
  amount, what it credits is what the venue reported exactly once, every submission fits the
  room that is left, nothing is submitted after a stop, and on an honest venue the executor
  never trades more than it was asked to.
\<close>

section \<open>Child slots\<close>

lemma target_fresh_slot [simp]: "ch_target (fresh_slot q) = q"
  by (simp add: fresh_slot_def)

lemma sum_targets_replicate: "(\<Sum>c\<leftarrow>replicate n (fresh_slot q). ch_target c) = real n * q"
  by (simp add: sum_list_replicate)

lemma floordiv_bounds:
  assumes "0 < c" "0 \<le> q" "decimal_floordiv q c = Inr n"
  shows "0 \<le> n" "of_int n * c \<le> q" "q < (of_int n + 1) * c"
proof -
  have n: "n = \<lfloor>q / c\<rfloor>"
    using assms by (auto simp: decimal_floordiv_def Let_def split: if_splits)
  then show "0 \<le> n" using assms by simp
  have "of_int n \<le> q / c" "q / c < of_int n + 1"
    unfolding n by linarith+
  then show "of_int n * c \<le> q" "q < (of_int n + 1) * c"
    using assms(1) by (simp_all add: field_simps)
qed

lemma sum_list_butlast_replicate:
  "n \<noteq> 0 \<Longrightarrow> (\<Sum>c\<leftarrow>butlast (replicate n (fresh_slot q)). ch_target c) = (real n - 1) * q"
proof (induction n)
  case (Suc n)
  then show ?case by (cases n) (simp_all add: algebra_simps)
qed simp

lemma child_slots_facts:
  assumes "0 \<le> total_amount_base cfg" "build_child_slots cfg = Inr slots"
  shows "(\<Sum>c\<leftarrow>slots. ch_target c) = total_amount_base cfg" "length slots \<le> max_children"
    "c \<in> set slots \<Longrightarrow> 0 < ch_target c \<and> (ch_target c < child_order_quantity cfg \<longrightarrow> slots = [c])"
proof -
  let ?q = "total_amount_base cfg" and ?c = "child_order_quantity cfg"
  obtain n where c: "0 < ?c" and n: "decimal_floordiv ?q ?c = Inr n" "n \<le> int max_children"
    and s: "slots = (if ?q - of_int n * ?c > 0 then
        (if replicate (nat n) (fresh_slot ?c) \<noteq> []
         then butlast (replicate (nat n) (fresh_slot ?c)) @ [fresh_slot (?c + (?q - of_int n * ?c))]
         else [fresh_slot (?q - of_int n * ?c)]) else replicate (nat n) (fresh_slot ?c))"
    using assms(2) by (auto simp: build_child_slots_def Let_def split: if_splits sum.splits)
  note b = floordiv_bounds[OF c assms(1) n(1)]
  have r: "real (nat n) = of_int n" using b by simp
  show "(\<Sum>c\<leftarrow>slots. ch_target c) = ?q"
    using b r unfolding s
    by (auto simp: sum_targets_replicate sum_list_butlast_replicate sum_list_replicate algebra_simps)
  show "length slots \<le> max_children"
    using n b unfolding s by (auto simp: max_children_def)
  show "c \<in> set slots \<Longrightarrow> 0 < ch_target c \<and> (ch_target c < ?c \<longrightarrow> slots = [c])"
    using c b unfolding s by (auto dest!: in_set_butlastD)
qed

lemma slots_positive:
  "0 \<le> total_amount_base cfg \<Longrightarrow> build_child_slots cfg = Inr slots \<Longrightarrow> c \<in> set slots \<Longrightarrow> 0 < ch_target c"
  using child_slots_facts(3) by blast

lemma slots_fresh:
  "build_child_slots cfg = Inr slots \<Longrightarrow> c \<in> set slots \<Longrightarrow> c = fresh_slot (ch_target c)"
  by (auto simp: build_child_slots_def Let_def split: if_splits sum.splits dest!: in_set_butlastD)

lemma filled_fresh_slot [simp]: "ch_filled (fresh_slot q) = 0"
  by (simp add: fresh_slot_def)

text \<open>
  The child slots of an executor add up to exactly the amount requested, there are at most
  MAX_CHILDREN of them, and no slot is smaller than the child size unless it is the only one (so
  that no dust order is left behind).
\<close>

theorem child_slots_partition_the_amount:
  assumes "0 \<le> total_amount_base cfg" "build_child_slots cfg = Inr slots"
  shows "(\<Sum>c\<leftarrow>slots. ch_target c) = total_amount_base cfg \<and> length slots \<le> max_children
    \<and> (\<forall>c\<in>set slots. 0 < ch_target c \<and> (ch_target c < child_order_quantity cfg \<longrightarrow> slots = [c]))"
  using child_slots_facts[OF assms] by blast

definition sample_config :: pa_config where
  "sample_config = \<lparr>pa_side = Buy, total_amount_base = 7, child_order_quantity = 3,
     child_order_time_limit = 60, child_order_refresh_time = 20, pa_leverage = 1,
     pa_position_action = OPEN\<rparr>"

lemma sample_slots: "build_child_slots sample_config = Inr [fresh_slot 3, fresh_slot 4]"
proof -
  have "\<lfloor>7 / 3 :: real\<rfloor> = 2" by linarith
  then show ?thesis
    by (simp add: build_child_slots_def sample_config_def decimal_floordiv_def max_children_def
        numeral_2_eq_2)
qed

theorem child_slots_partition_the_amount_witness:
  "(\<Sum>c\<leftarrow>[fresh_slot 3, fresh_slot 4]. ch_target c) = total_amount_base sample_config"
  using child_slots_partition_the_amount[OF _ sample_slots] by (simp add: sample_config_def)

section \<open>The accounting invariant over all runs\<close>

text \<open>
  Whatever events arrive, in whatever order (late, duplicated, for orders already cancelled
  or completed), every order's credited amount is the larger of its distinct fills and its
  completion summary, the executor's total is the sum of what its orders were credited, and each
  child's total is the sum over the orders submitted for it.
\<close>

theorem totals_are_the_credited_orders:
  assumes "pa_reach cfg new_id any_event ex" "fresh_ids new_id"
  shows "ex_filled ex = dict_sum or_credited (ex_orders ex)
    \<and> (\<forall>i < length (ex_children ex). ch_filled (slot ex i) = dict_sum (child_credit i) (ex_orders ex))
    \<and> (\<forall>oid r. map_of (ex_orders ex) oid = Some r \<longrightarrow>
          or_credited r = max (or_fill_sum r) (or_reported r))"
  using pa_reach_inv[OF assms] by (simp add: pa_inv_def order_ok_def)

text \<open>A source of fresh ids: longer than every id given out before.\<close>

definition long_id :: "call list \<Rightarrow> string" where
  "long_id sent =
     replicate (Suc (\<Sum>c\<leftarrow>sent. case c of Place oid _ _ _ \<Rightarrow> length oid | _ \<Rightarrow> 0)) CHR ''x''"

lemma fresh_long_id: "fresh_ids long_id"
proof -
  have le: "Place oid ty a p \<in> set sent \<Longrightarrow>
      length oid \<le> (\<Sum>c\<leftarrow>sent. case c of Place oid _ _ _ \<Rightarrow> length oid | _ \<Rightarrow> 0)" for oid ty a p sent
    by (induction sent) (auto split: call.split)
  have "Place (long_id sent) ty a p \<notin> set sent" for sent ty a p
  proof
    assume "Place (long_id sent) ty a p \<in> set sent"
    from le[OF this] show False by (simp add: long_id_def)
  qed
  then show ?thesis by (simp add: fresh_ids_def long_id_def)
qed

definition sample_executor :: executor where
  "sample_executor =
     \<lparr>ex_children = [fresh_slot 3, fresh_slot 4], ex_idx = 0, ex_filled = 0, ex_fees = 0,
      ex_orders = [], ex_sweep = None, ex_status = Running, ex_close_type = None,
      ex_close_ts = None, ex_retries = 0, ex_max_retries = 10, ex_sent = []\<rparr>"

lemma sample_reach: "pa_reach sample_config new_id env sample_executor"
  using pa_reach.start[of sample_config 10 "sample_executor\<lparr>ex_status := NotStarted\<rparr>" new_id env]
  by (simp add: new_executor_def sample_slots sample_executor_def)

text \<open>A first tick at price 100 places the first child; half of it fills, twice reported.\<close>

definition sample_events :: "pa_event list" where
  "sample_events = [Tick 0 (Num 100), FillEv (long_id []) (Some ''t1'') (3 / 2) 1,
     FillEv (long_id []) (Some ''t1'') (3 / 2) 1, CancelEv (long_id [])]"

lemma pa_reach_foldl:
  assumes "pa_reach cfg new_id env ex"
    "\<And>k. k < length evs \<Longrightarrow> env (foldl (pa_apply cfg new_id) ex (take k evs)) (evs ! k)"
  shows "pa_reach cfg new_id env (foldl (pa_apply cfg new_id) ex evs)"
  using assms
proof (induction evs rule: rev_induct)
  case (snoc e evs)
  have "pa_reach cfg new_id env (foldl (pa_apply cfg new_id) ex evs)"
  proof (rule snoc.IH[OF snoc.prems(1)])
    fix k assume "k < length evs"
    then show "env (foldl (pa_apply cfg new_id) ex (take k evs)) (evs ! k)"
      using snoc.prems(2)[of k] by (simp add: nth_append)
  qed
  moreover have "env (foldl (pa_apply cfg new_id) ex evs) e"
    using snoc.prems(2)[of "length evs"] by simp
  ultimately show ?case by (simp add: pa_reach.step)
qed simp

lemma pa_reach_any_foldl:
  assumes "pa_reach cfg new_id any_event ex" "\<And>e ex. e \<in> set evs \<Longrightarrow> any_event ex e"
  shows "pa_reach cfg new_id any_event (foldl (pa_apply cfg new_id) ex evs)"
  by (rule pa_reach_foldl[OF assms(1)]) (simp add: assms(2))

definition sample_after :: executor where
  "sample_after = foldl (pa_apply sample_config long_id) sample_executor sample_events"

lemma sample_after_reach: "pa_reach sample_config long_id any_event sample_after"
  unfolding sample_after_def
  by (rule pa_reach_any_foldl[OF sample_reach]) (auto simp: sample_events_def any_event_def)

lemmas pa_eval = control_task_def pa_step_def step_slot_def place_limit_def room_def submit_def
  outstanding_def process_order_filled_event_def credit_def tracks_def process_order_canceled_event_def
  process_order_completed_event_def fresh_slot_def terminal_status_def skip_terminal.simps[of _ 0]
  unsettled_def Let_def set_child_def set_order_def send_def

lemma sample_after_totals: "ex_filled sample_after = 3 / 2" "ex_fees sample_after = 1"
  by (simp_all add: sample_after_def sample_events_def sample_executor_def sample_config_def pa_eval)

theorem totals_are_the_credited_orders_witness:
  "dict_sum or_credited (ex_orders sample_after) = 3 / 2"
  using totals_are_the_credited_orders[OF sample_after_reach fresh_long_id] sample_after_totals
  by simp

end
