(* ===== verification/PassiveAggressiveSubmissions.thy ===== *)
theory PassiveAggressiveSubmissions imports PassiveAggressiveSafety begin

text \<open>
  What the passive-aggressive executor submits: \<open>emits\<close> says that the calls an operation adds
  to the log contain no order but one that fits the room its child and the executor have left.
\<close>

section \<open>Emitted calls\<close>

definition fits :: "pa_config \<Rightarrow> executor \<Rightarrow> string \<Rightarrow> order_type \<Rightarrow> real \<Rightarrow> pynum \<Rightarrow> bool" where
  "fits cfg ex oid ty a p =
     (0 < a \<and> ex_status ex = Running \<and> (ty = Limit \<longrightarrow> positive_price p)
      \<and> ex_filled ex + outstanding ex \<le> total_amount_base cfg
      \<and> (\<exists>r. map_of (ex_orders ex) oid = Some r \<and> or_amount r = a \<and> or_credited r = 0
            \<and> or_child r < length (ex_children ex)
            \<and> ch_filled (slot ex (or_child r)) + outstanding ex \<le> ch_target (slot ex (or_child r))))"

definition emits :: "pa_config \<Rightarrow> call list \<Rightarrow> executor \<Rightarrow> bool" where
  "emits cfg sent ex =
     (\<exists>cs. ex_sent ex = cs @ sent \<and> (\<forall>oid ty a p. Place oid ty a p \<in> set cs \<longrightarrow> fits cfg ex oid ty a p))"

named_theorems emit_intros "what the operations submit"

lemma emits_silent: "ex_sent ex = sent \<Longrightarrow> emits cfg sent ex"
  by (auto simp: emits_def)

lemma emits_calls:
  "ex_sent ex = cs @ sent \<Longrightarrow> (\<And>oid ty a p. Place oid ty a p \<notin> set cs) \<Longrightarrow> emits cfg sent ex"
  by (auto simp: emits_def)

lemma emits_set_child [emit_intros]:
  assumes "\<And>c. ch_filled (f c) = ch_filled c" "\<And>c. ch_target (f c) = ch_target c"
    "emits cfg sent ex"
  shows "emits cfg sent (set_child i f ex)"
proof -
  have "outstanding (set_child i f ex) = outstanding ex"
    by (rule outstanding_cong) simp
  with assms show ?thesis
    by (fastforce simp: emits_def fits_def)
qed

lemma room_set_child [simp]:
  "(\<And>c. ch_filled (f c) = ch_filled c) \<Longrightarrow> (\<And>c. ch_target (f c) = ch_target c) \<Longrightarrow>
   j < length (ex_children ex) \<Longrightarrow> room cfg (set_child i f ex) j = room cfg ex j"
  by (simp add: room_def outstanding_cong[of "set_child i f ex" ex])

lemma submit_frame [simp]:
  "ex_filled (submit new_id i ty a p ex) = ex_filled ex"
  "ex_status (submit new_id i ty a p ex) = ex_status ex"
  "length (ex_children (submit new_id i ty a p ex)) = length (ex_children ex)"
  "ex_sent (submit new_id i ty a p ex) = Place (new_id (ex_sent ex)) ty a p # ex_sent ex"
  "map_of (ex_orders (submit new_id i ty a p ex)) (new_id (ex_sent ex)) =
     Some \<lparr>or_child = i, or_amount = a, or_fill_sum = 0, or_reported = 0, or_credited = 0,
           or_trades = {}, or_terminal = False\<rparr>"
  by (simp_all add: submit_def Let_def)

lemma submit_slot [simp]:
  assumes "j < length (ex_children ex)"
  shows "ch_filled (slot (submit new_id i ty a p ex) j) = ch_filled (slot ex j)"
    "ch_target (slot (submit new_id i ty a p ex) j) = ch_target (slot ex j)"
  using assms by (simp_all add: submit_def Let_def)

lemma fresh_id_unknown:
  assumes "fresh_ids new_id" "pa_inv ex"
  shows "map_of (ex_orders ex) (new_id (ex_sent ex)) = None"
proof (rule ccontr)
  assume "map_of (ex_orders ex) (new_id (ex_sent ex)) \<noteq> None"
  then obtain r where "map_of (ex_orders ex) (new_id (ex_sent ex)) = Some r" by blast
  with assms(2) have "placed (new_id (ex_sent ex)) ex" by (auto simp: pa_inv_def)
  with assms(1) show False by (auto simp: placed_def fresh_ids_def)
qed

lemma outstanding_submit:
  assumes "fresh_ids new_id" "pa_inv ex" "0 < a"
  shows "outstanding (submit new_id i ty a p ex) = outstanding ex + a"
  using fresh_id_unknown[OF assms(1,2)] assms(3)
  by (simp add: submit_def Let_def outstanding_def dict_sum_update_new unsettled_def)

lemma emits_submit [emit_intros]:
  assumes "fresh_ids new_id" "pa_inv ex" "i < length (ex_children ex)" "ex_status ex = Running"
    "a = room cfg ex i" "0 < a" "ty = Limit \<longrightarrow> positive_price p" "sent = ex_sent ex"
  shows "emits cfg sent (submit new_id i ty a p ex)"
proof -
  have "room cfg ex i + ex_filled ex + outstanding ex \<le> total_amount_base cfg"
    "room cfg ex i + ch_filled (slot ex i) + outstanding ex \<le> ch_target (slot ex i)"
    unfolding room_def by linarith+
  with assms outstanding_submit[OF assms(1,2,6)] show ?thesis
    by (auto simp: emits_def fits_def intro!: exI[of _ "[Place (new_id (ex_sent ex)) ty (room cfg ex i) p]"])
qed

lemma emits_place_limit [emit_intros]:
  assumes "fresh_ids new_id" "pa_inv ex" "i < length (ex_children ex)" "ex_status ex = Running"
    "sent = ex_sent ex"
  shows "emits cfg sent (place_limit cfg new_id price now i ex)"
  using assms by (auto simp: place_limit_def Let_def intro!: emit_intros intro: emits_silent)

lemma emits_place_aggressive [emit_intros]:
  assumes "fresh_ids new_id" "pa_inv ex" "i < length (ex_children ex)" "sent = ex_sent ex"
  shows "emits cfg sent (place_aggressive cfg new_id i ex)"
  using assms
  by (auto simp: place_aggressive_def Let_def intro!: emit_intros pa_intros intro: emits_silent)

lemma cancel_child_sent:
  "\<exists>cs. ex_sent (cancel_child i reason ex) = cs @ ex_sent ex
     \<and> (\<forall>oid ty a p. Place oid ty a p \<notin> set cs)"
  by (auto simp: cancel_child_def split: option.split)

lemma emits_cancel_child [emit_intros]:
  "sent = ex_sent ex \<Longrightarrow> emits cfg sent (cancel_child i reason ex)"
  using cancel_child_sent[of i reason ex] by (auto intro: emits_calls)

lemma emits_close [emit_intros]:
  "sent = ex_sent ex \<Longrightarrow> emits cfg sent (close_execution_by ct now ex)"
  by (rule emits_calls[of _ "[StopCall]"]) (simp_all add: close_execution_by_def)

lemma emits_cancel_all [emit_intros]:
  "sent = ex_sent ex \<Longrightarrow> emits cfg sent (cancel_all_open now ex)"
  by (rule emits_calls[of _ "map Cancel (rev (open_orders ex))"]) auto

lemma emits_step_slot [emit_intros]:
  assumes "fresh_ids new_id" "pa_inv ex" "i < length (ex_children ex)" "ex_status ex = Running"
    "sent = ex_sent ex"
  shows "emits cfg sent (step_slot cfg new_id price now i ex)"
  using assms
  by (auto simp: step_slot_def Let_def split: child_status.splits option.splits
      intro!: emit_intros pa_intros intro: emits_silent)

lemma emits_control_task [emit_intros]:
  assumes "fresh_ids new_id" "pa_inv ex"
  shows "emits cfg (ex_sent ex) (control_task cfg new_id price now ex)"
  using assms
  by (auto simp: control_task_def pa_step_def Let_def split: run_status.splits option.splits
      intro!: emit_intros pa_intros intro: emits_silent)

lemma credit_sent [simp]: "ex_sent (credit oid ex) = ex_sent ex"
  "ex_status (credit oid ex) = ex_status ex" "length (ex_children (credit oid ex)) = length (ex_children ex)"
  by (auto simp: credit_def Let_def split: option.splits)

lemma emits_filled [emit_intros]:
  "emits cfg (ex_sent ex) (process_order_filled_event cfg oid tid amount fee ex)"
  by (auto simp: process_order_filled_event_def Let_def split: option.splits
      intro!: emit_intros intro: emits_silent)

lemma emits_completed [emit_intros]:
  "emits cfg (ex_sent ex) (process_order_completed_event oid amount ex)"
  by (auto simp: process_order_completed_event_def Let_def split: option.splits intro: emits_silent)

lemma pa_inv_mark_terminal [pa_intros]:
  "pa_inv ex \<Longrightarrow> map_of (ex_orders ex) oid = Some r \<Longrightarrow> pa_inv (set_order oid (r\<lparr>or_terminal := True\<rparr>) ex)"
  by (auto intro!: pa_intros)

lemma emits_canceled [emit_intros]:
  assumes "fresh_ids new_id" "pa_inv ex"
  shows "emits cfg (ex_sent ex) (process_order_canceled_event cfg new_id oid ex)"
  using assms
  by (auto simp: process_order_canceled_event_def Let_def pa_inv_order_child split: option.splits
      intro!: emit_intros pa_intros intro: emits_silent)

lemma emits_failed [emit_intros]:
  assumes "fresh_ids new_id" "pa_inv ex"
  shows "emits cfg (ex_sent ex) (process_order_failed_event cfg new_id oid msg now ex)"
  using assms
  by (auto simp: process_order_failed_event_def Let_def pa_inv_order_child split: option.splits
      intro!: emit_intros pa_intros intro: emits_silent)

lemma emits_apply:
  assumes "fresh_ids new_id" "pa_inv ex"
  shows "emits cfg (ex_sent ex) (pa_apply cfg new_id ex ev)"
  using assms
  by (cases ev)
    (auto simp: early_stop_def evaluate_max_retries_def intro!: emit_intros
      intro: emits_silent emits_calls[of _ "map Cancel (rev (open_orders _))"])

end
