(* ===== verification/PassiveAggressiveVenue.thy ===== *)
theory PassiveAggressiveVenue imports PassiveAggressiveSubmissions begin

text \<open>
  The passive-aggressive executor on an honest venue: fills never exceed the order they belong
  to and stop once the order's terminal event has been delivered.  Under it the executor's total
  plus what is still working never exceeds the amount requested, child by child and overall.
\<close>

section \<open>The budget invariant\<close>

definition child_unsettled :: "nat \<Rightarrow> order_rec \<Rightarrow> real" where
  "child_unsettled i r = (if or_child r = i then unsettled r else 0)"

definition budget :: "pa_config \<Rightarrow> executor \<Rightarrow> bool" where
  "budget cfg ex =
     (ex_filled ex + outstanding ex \<le> total_amount_base cfg
      \<and> (\<forall>i < length (ex_children ex).
           ch_filled (slot ex i) + dict_sum (child_unsettled i) (ex_orders ex) \<le> ch_target (slot ex i))
      \<and> (\<forall>oid r. map_of (ex_orders ex) oid = Some r \<longrightarrow> or_credited r \<le> or_amount r))"

definition honest_event :: "executor \<Rightarrow> pa_event \<Rightarrow> bool" where
  "honest_event ex ev =
     (case ev of
        FillEv oid tid amount fee \<Rightarrow>
          0 \<le> amount \<and> (case map_of (ex_orders ex) oid of
              None \<Rightarrow> True
            | Some r \<Rightarrow> (case tid of Some (c # cs) \<Rightarrow> c # cs \<in> or_trades r | _ \<Rightarrow> False)
                        \<or> \<not> or_terminal r \<and> or_fill_sum r + amount \<le> or_amount r)
      | CompleteEv oid amount \<Rightarrow>
          (case map_of (ex_orders ex) oid of
             None \<Rightarrow> True | Some r \<Rightarrow> \<not> or_terminal r \<and> amount \<le> or_amount r)
      | _ \<Rightarrow> True)"

lemma honest_any: "honest_event ex ev \<Longrightarrow> any_event ex ev"
  by (auto simp: honest_event_def any_event_def split: pa_event.splits)

named_theorems budget_intros "operations that keep the budget"

lemma unsettled_nonneg [simp]: "0 \<le> unsettled r" "0 \<le> child_unsettled i r"
  by (simp_all add: unsettled_def child_unsettled_def)

lemma child_unsettled_le: "dict_sum (child_unsettled i) d \<le> dict_sum unsettled d"
  unfolding dict_sum_def by (intro sum_list_mono_real) (simp add: child_unsettled_def)

lemma budget_cong:
  assumes "budget cfg ex" "ex_orders ex' = ex_orders ex" "ex_filled ex' = ex_filled ex"
    "length (ex_children ex') = length (ex_children ex)"
    "\<And>i. i < length (ex_children ex) \<Longrightarrow> ch_filled (slot ex' i) = ch_filled (slot ex i)"
    "\<And>i. i < length (ex_children ex) \<Longrightarrow> ch_target (slot ex' i) = ch_target (slot ex i)"
  shows "budget cfg ex'"
  using assms by (auto simp: budget_def outstanding_def)

lemma budget_set_child [budget_intros]:
  assumes "\<And>c. ch_filled (f c) = ch_filled c" "\<And>c. ch_target (f c) = ch_target c" "budget cfg ex"
  shows "budget cfg (set_child i f ex)"
  by (rule budget_cong[OF assms(3)]) (simp_all add: assms(1,2))

lemma budget_frame [budget_intros]:
  "budget cfg ex \<Longrightarrow> budget cfg (send c ex)"
  "budget cfg ex \<Longrightarrow> budget cfg (ex\<lparr>ex_idx := n\<rparr>)"
  "budget cfg ex \<Longrightarrow> budget cfg (ex\<lparr>ex_retries := n\<rparr>)"
  "budget cfg ex \<Longrightarrow> budget cfg (ex\<lparr>ex_status := st\<rparr>)"
  "budget cfg ex \<Longrightarrow> budget cfg (ex\<lparr>ex_close_type := ct\<rparr>)"
  "budget cfg ex \<Longrightarrow> budget cfg (ex\<lparr>ex_fees := x\<rparr>)"
  "budget cfg ex \<Longrightarrow> budget cfg (cancel_all_open now ex)"
  "budget cfg ex \<Longrightarrow> budget cfg (close_execution_by ty now ex)"
  by (auto elim!: budget_cong simp: close_execution_by_def)

lemma budget_cancel_child [budget_intros]:
  "budget cfg ex \<Longrightarrow> budget cfg (cancel_child i reason ex)"
  by (auto simp: cancel_child_def split: option.split intro!: budget_intros)

lemma budget_submit [budget_intros]:
  assumes "fresh_ids new_id" "pa_inv ex" "budget cfg ex" "i < length (ex_children ex)"
    "a = room cfg ex i" "0 < a"
  shows "budget cfg (submit new_id i ty a p ex)"
proof -
  have room: "a + ex_filled ex + outstanding ex \<le> total_amount_base cfg"
    "a + ch_filled (slot ex i) + outstanding ex \<le> ch_target (slot ex i)"
    unfolding assms(5) room_def by linarith+
  have le: "dict_sum (child_unsettled i) (ex_orders ex) \<le> outstanding ex"
    by (simp add: outstanding_def child_unsettled_le)
  have orders: "ex_orders (submit new_id i ty a p ex) = AList.update (new_id (ex_sent ex))
      \<lparr>or_child = i, or_amount = a, or_fill_sum = 0, or_reported = 0, or_credited = 0,
       or_trades = {}, or_terminal = False\<rparr> (ex_orders ex)"
    by (simp add: submit_def Let_def)
  show ?thesis
    using assms(3,4,6) room le fresh_id_unknown[OF assms(1,2)] outstanding_submit[OF assms(1,2,6), of i ty p]
    by (auto simp: budget_def orders dict_sum_update_new child_unsettled_def unsettled_def)
qed

lemma budget_place_limit [budget_intros]:
  assumes "fresh_ids new_id" "pa_inv ex" "budget cfg ex" "i < length (ex_children ex)"
  shows "budget cfg (place_limit cfg new_id price now i ex)"
  using assms by (auto simp: place_limit_def Let_def intro!: budget_intros)

lemma budget_place_aggressive [budget_intros]:
  assumes "fresh_ids new_id" "pa_inv ex" "budget cfg ex" "i < length (ex_children ex)"
  shows "budget cfg (place_aggressive cfg new_id i ex)"
  using assms by (auto simp: place_aggressive_def Let_def intro!: budget_intros pa_intros)

lemma budget_step_slot [budget_intros]:
  assumes "fresh_ids new_id" "pa_inv ex" "budget cfg ex" "i < length (ex_children ex)"
  shows "budget cfg (step_slot cfg new_id price now i ex)"
  using assms
  by (auto simp: step_slot_def Let_def split: child_status.splits option.splits
      intro!: budget_intros pa_intros)

lemma budget_control_task [budget_intros]:
  assumes "fresh_ids new_id" "pa_inv ex" "budget cfg ex"
  shows "budget cfg (control_task cfg new_id price now ex)"
  using assms
  by (auto simp: control_task_def pa_step_def Let_def split: run_status.splits option.splits
      intro!: budget_intros pa_intros)

text \<open>Replacing an order record by one that works no more than before.\<close>

lemma budget_set_order:
  assumes "budget cfg ex" "map_of (ex_orders ex) oid = Some r" "or_child r' = or_child r"
    "unsettled r' \<le> unsettled r" "or_credited r' \<le> or_amount r'"
  shows "budget cfg (set_order oid r' ex)"
proof -
  have "dict_sum (child_unsettled i) (AList.update oid r' (ex_orders ex))
      \<le> dict_sum (child_unsettled i) (ex_orders ex)" for i
    using dict_sum_update[OF assms(2), of "child_unsettled i" r'] assms(3,4)
    by (auto simp: child_unsettled_def)
  moreover have "dict_sum unsettled (AList.update oid r' (ex_orders ex)) \<le> dict_sum unsettled (ex_orders ex)"
    using dict_sum_update[OF assms(2), of unsettled r'] assms(4) by simp
  ultimately show ?thesis
    using assms(1,5) unfolding budget_def outstanding_def
    by (simp, smt (verit))
qed

lemma budget_mark_terminal [budget_intros]:
  assumes "budget cfg ex" "map_of (ex_orders ex) oid = Some r"
  shows "budget cfg (set_order oid (r\<lparr>or_terminal := True\<rparr>) ex)"
  by (rule budget_set_order[OF assms]) (use assms in \<open>auto simp: unsettled_def budget_def\<close>)

text \<open>Crediting an order what it had left to fill.\<close>

lemma credit_eq:
  assumes "map_of (ex_orders ex) oid = Some r" "or_credited r \<le> max (or_fill_sum r) (or_reported r)"
    "d = max (or_fill_sum r) (or_reported r) - or_credited r"
  shows "ex_orders (credit oid ex) = AList.update oid (r\<lparr>or_credited := or_credited r + d\<rparr>) (ex_orders ex)
      \<or> d = 0 \<and> credit oid ex = ex"
    "ex_filled (credit oid ex) = ex_filled ex + d"
    "i < length (ex_children ex) \<Longrightarrow> ch_filled (slot (credit oid ex) i)
       = ch_filled (slot ex i) + (if i = or_child r then d else 0)"
    "i < length (ex_children ex) \<Longrightarrow> ch_target (slot (credit oid ex) i) = ch_target (slot ex i)"
proof -
  have c: "credit oid ex = (if d \<le> 0 then ex
      else (set_child (or_child r) (\<lambda>c. c\<lparr>ch_filled := ch_filled c + d\<rparr>)
             (set_order oid (r\<lparr>or_credited := or_credited r + d\<rparr>) ex))\<lparr>ex_filled := ex_filled ex + d\<rparr>)"
    unfolding credit_def assms(1,3) Let_def option.case by (rule refl)
  have d: "0 \<le> d" using assms(2,3) by simp
  show "ex_orders (credit oid ex) = AList.update oid (r\<lparr>or_credited := or_credited r + d\<rparr>) (ex_orders ex)
      \<or> d = 0 \<and> credit oid ex = ex"
    "ex_filled (credit oid ex) = ex_filled ex + d"
    "i < length (ex_children ex) \<Longrightarrow> ch_filled (slot (credit oid ex) i)
       = ch_filled (slot ex i) + (if i = or_child r then d else 0)"
    "i < length (ex_children ex) \<Longrightarrow> ch_target (slot (credit oid ex) i) = ch_target (slot ex i)"
    using d unfolding c by auto
qed

lemma budget_credit:
  assumes b: "budget cfg ex" and r: "map_of (ex_orders ex) oid = Some r"
    and r': "or_child r' = or_child r" "or_amount r' = or_amount r" "or_credited r' = or_credited r"
      "or_terminal r' \<longrightarrow> \<not> or_terminal r" "\<not> or_terminal r"
    and e: "or_credited r \<le> max (or_fill_sum r') (or_reported r')"
      "max (or_fill_sum r') (or_reported r') \<le> or_amount r"
  shows "budget cfg (credit oid (set_order oid r' ex))"
proof -
  let ?d = "max (or_fill_sum r') (or_reported r') - or_credited r'"
  let ?ex = "set_order oid r' ex" and ?r2 = "r'\<lparr>or_credited := or_credited r' + ?d\<rparr>"
  have m: "map_of (ex_orders ?ex) oid = Some r'" by simp
  have e': "or_credited r' \<le> max (or_fill_sum r') (or_reported r')" using e r' by simp
  note c = credit_eq[OF m e' refl]
  have uns: "unsettled ?r2 + ?d \<le> unsettled r" "unsettled r' = unsettled ?r2 + ?d \<or> unsettled r' = 0"
    "or_credited r \<le> or_amount r"
    using b r r' e by (auto simp: unsettled_def budget_def)
  have same: "?d = 0 \<Longrightarrow> ?r2 = r'" by simp
  have orders: "ex_orders (credit oid ?ex) = AList.update oid ?r2 (ex_orders ex)"
    using c(1)
  proof (elim disjE conjE)
    assume "?d = 0" "credit oid ?ex = ?ex"
    then show ?thesis by (simp only: set_order_frame) simp
  qed simp
  have total: "dict_sum unsettled (AList.update oid ?r2 (ex_orders ex)) + ?d
      \<le> dict_sum unsettled (ex_orders ex)"
    using dict_sum_update[OF r, of unsettled ?r2] uns by simp
  have child: "dict_sum (child_unsettled i) (AList.update oid ?r2 (ex_orders ex))
      + (if i = or_child r then ?d else 0) \<le> dict_sum (child_unsettled i) (ex_orders ex)" for i
    using dict_sum_update[OF r, of "child_unsettled i" ?r2] uns r' by (auto simp: child_unsettled_def)
  have "ex_filled ex + ?d + dict_sum unsettled (AList.update oid ?r2 (ex_orders ex))
      \<le> total_amount_base cfg"
    using total b by (auto simp: budget_def outstanding_def)
  moreover have "ch_filled (slot ex i) + (if i = or_child r then ?d else 0)
       + dict_sum (child_unsettled i) (AList.update oid ?r2 (ex_orders ex)) \<le> ch_target (slot ex i)"
    if "i < length (ex_children ex)" for i
    using child[of i] b that unfolding budget_def by fastforce
  moreover have "or_credited q \<le> or_amount q"
    if "map_of (AList.update oid ?r2 (ex_orders ex)) k = Some q" for k q
    using that b e r' by (auto simp: budget_def split: if_splits)
  moreover have "length (ex_children (credit oid ?ex)) = length (ex_children ex)" by simp
  ultimately show ?thesis
    using c(2) c(3) c(4) r'(1) unfolding budget_def outstanding_def orders by simp
qed


lemma pa_inv_evidence:
  assumes "pa_inv ex" "map_of (ex_orders ex) oid = Some r"
  shows "or_credited r = max (or_fill_sum r) (or_reported r)" "0 \<le> or_fill_sum r" "0 \<le> or_reported r"
  using assms by (auto simp: pa_inv_def order_ok_def)

lemma budget_evidence:
  assumes "budget cfg ex" "pa_inv ex" "map_of (ex_orders ex) oid = Some r"
  shows "or_fill_sum r \<le> or_amount r" "or_reported r \<le> or_amount r"
proof -
  have "or_credited r \<le> or_amount r" using assms(1,3) by (simp add: budget_def)
  with pa_inv_evidence[OF assms(2,3)]
  show "or_fill_sum r \<le> or_amount r" "or_reported r \<le> or_amount r" by simp_all
qed

lemma budget_filled [budget_intros]:
  assumes "pa_inv ex" "budget cfg ex" "honest_event ex (FillEv oid tid amount fee)"
  shows "budget cfg (process_order_filled_event cfg oid tid amount fee ex)"
proof (cases "map_of (ex_orders ex) oid")
  case (Some r)
  have a: "0 \<le> amount" using assms(3) by (simp add: honest_event_def)
  have new: "budget cfg (credit oid ((set_order oid r' ex)\<lparr>ex_fees := x\<rparr>))"
    if "or_child r' = or_child r" "or_amount r' = or_amount r" "or_credited r' = or_credited r"
      "or_terminal r' = or_terminal r" "or_reported r' = or_reported r"
      "or_fill_sum r' = or_fill_sum r + amount" "\<not> or_terminal r"
      "or_fill_sum r + amount \<le> or_amount r" for r' x
  proof -
    have "budget cfg (credit oid (set_order oid r' (ex\<lparr>ex_fees := x\<rparr>)))"
    proof (rule budget_credit)
      show "budget cfg (ex\<lparr>ex_fees := x\<rparr>)" by (intro budget_intros assms)
      show "map_of (ex_orders (ex\<lparr>ex_fees := x\<rparr>)) oid = Some r" using Some by simp
    qed (use that a pa_inv_evidence[OF assms(1) Some] budget_evidence[OF assms(2,1) Some] in auto)
    then show ?thesis by (simp add: set_order_fees)
  qed
  show ?thesis
    using Some assms
    by (auto simp: process_order_filled_event_def honest_event_def Let_def
        intro!: budget_cancel_child new split: option.splits list.splits if_splits)
qed (simp add: process_order_filled_event_def assms)

lemma budget_completed [budget_intros]:
  assumes "pa_inv ex" "budget cfg ex" "honest_event ex (CompleteEv oid amount)"
  shows "budget cfg (process_order_completed_event oid amount ex)"
proof (cases "map_of (ex_orders ex) oid")
  case (Some r)
  have h: "\<not> or_terminal r" "amount \<le> or_amount r"
    using assms(3) Some by (auto simp: honest_event_def)
  have "budget cfg (credit oid (set_order oid
      (r\<lparr>or_terminal := True, or_reported := max (or_reported r) amount\<rparr>) ex))"
    by (rule budget_credit[OF assms(2) Some])
      (use h pa_inv_evidence[OF assms(1) Some] budget_evidence[OF assms(2,1) Some] in auto)
  then show ?thesis
    using Some by (auto simp: process_order_completed_event_def Let_def intro!: budget_set_child)
qed (simp add: process_order_completed_event_def assms)

lemma budget_canceled [budget_intros]:
  assumes "fresh_ids new_id" "pa_inv ex" "budget cfg ex"
  shows "budget cfg (process_order_canceled_event cfg new_id oid ex)"
  using assms
  by (auto simp: process_order_canceled_event_def Let_def pa_inv_order_child split: option.splits
      intro!: budget_intros pa_intros)

lemma budget_failed [budget_intros]:
  assumes "fresh_ids new_id" "pa_inv ex" "budget cfg ex"
  shows "budget cfg (process_order_failed_event cfg new_id oid msg now ex)"
  using assms
  by (auto simp: process_order_failed_event_def Let_def pa_inv_order_child split: option.splits
      intro!: budget_intros pa_intros)

lemma budget_apply:
  assumes "fresh_ids new_id" "pa_inv ex" "budget cfg ex" "honest_event ex ev"
  shows "budget cfg (pa_apply cfg new_id ex ev)"
  using assms
  by (cases ev) (auto simp: early_stop_def evaluate_max_retries_def intro!: budget_intros)

lemma new_executor_budget:
  assumes "0 \<le> total_amount_base cfg" "new_executor cfg n = Inr ex"
  shows "budget cfg (ex\<lparr>ex_status := Running\<rparr>)"
proof -
  obtain slots where s: "build_child_slots cfg = Inr slots" "ex_children ex = slots"
    and e: "ex_filled ex = 0" "ex_orders ex = []"
    using assms(2) by (auto simp: new_executor_def split: sum.splits)
  have "0 \<le> ch_target c \<and> ch_filled c = 0" if "c \<in> set slots" for c
    using slots_positive[OF assms(1) s(1) that] slots_fresh[OF s(1) that] filled_fresh_slot
    by (metis less_imp_le)
  with s e assms(1) show ?thesis
    by (auto simp: budget_def outstanding_def)
qed

lemma pa_reach_budget:
  assumes "pa_reach cfg new_id env ex" "fresh_ids new_id" "0 \<le> total_amount_base cfg"
    "\<And>ex ev. env ex ev \<Longrightarrow> honest_event ex ev"
  shows "pa_inv ex \<and> budget cfg ex"
  using assms(1)
proof induction
  case (start n ex)
  then show ?case using new_executor_inv new_executor_budget assms(3) by blast
next
  case (step ex ev)
  with assms(2,4) show ?case by (auto intro: pa_inv_apply budget_apply honest_any)
qed

section \<open>Properties\<close>


lemma sample_after_honest: "pa_reach sample_config long_id honest_event sample_after"
  unfolding sample_after_def
proof (rule pa_reach_foldl[OF sample_reach])
  fix k assume "k < length sample_events"
  then have "k = 0 \<or> k = 1 \<or> k = 2 \<or> k = 3" by (auto simp: sample_events_def)
  then show "honest_event (foldl (pa_apply sample_config long_id) sample_executor (take k sample_events))
      (sample_events ! k)"
    by (elim disjE) (simp_all add: sample_events_def sample_executor_def sample_config_def pa_eval
        honest_event_def numeral_2_eq_2 numeral_3_eq_3)
qed


end
