(* ===== verification/PassiveAggressiveRuns.thy ===== *)
theory PassiveAggressiveRuns imports PassiveAggressiveVenue begin

text \<open>
  Runs of the passive-aggressive executor: what it submits and when it stops submitting, what a
  COMPLETED report means, what the history of an order's events credits, and that an executor
  with no price to quote ends.
\<close>

section \<open>What an event submits\<close>

text \<open>The calls an event added to the log.\<close>

definition new_calls :: "executor \<Rightarrow> executor \<Rightarrow> call list" where
  "new_calls ex ex' = take (length (ex_sent ex') - length (ex_sent ex)) (ex_sent ex')"

lemma emits_new_calls:
  "emits cfg (ex_sent ex) ex' \<Longrightarrow> Place oid ty a p \<in> set (new_calls ex ex') \<Longrightarrow> fits cfg ex' oid ty a p"
  by (auto simp: emits_def new_calls_def)

lemma emits_appends:
  "emits cfg (ex_sent ex) ex' \<Longrightarrow> ex_sent ex' = new_calls ex ex' @ ex_sent ex"
  by (auto simp: emits_def new_calls_def)

text \<open>An opening execution never crosses the spread: its children never enter AGGRESSIVE.\<close>

definition maker_only :: "executor \<Rightarrow> bool" where
  "maker_only ex =
     ((\<forall>c\<in>set (ex_children ex). ch_status c \<noteq> Aggressive)
      \<and> (\<forall>oid a p. Place oid Market a p \<notin> set (ex_sent ex)))"

named_theorems maker_intros "operations of an execution that never takes"

lemma set_list_update_cases: "x \<in> set (xs[i := y]) \<Longrightarrow> x = y \<or> x \<in> set xs"
  by (meson insertE set_update_subset_insert subsetD)

lemma maker_cong:
  "maker_only ex \<Longrightarrow> ex_children ex' = ex_children ex \<Longrightarrow> ex_sent ex' = ex_sent ex \<Longrightarrow> maker_only ex'"
  by (simp add: maker_only_def)

lemma maker_set_child [maker_intros]:
  assumes "maker_only ex" "\<And>c. ch_status c \<noteq> Aggressive \<Longrightarrow> ch_status (f c) \<noteq> Aggressive"
  shows "maker_only (set_child i f ex)"
proof (cases "i < length (ex_children ex)")
  case True
  with assms show ?thesis
    by (auto simp: maker_only_def set_child_def dest!: set_list_update_cases)
next
  case False
  with assms(1) show ?thesis by (simp add: maker_only_def set_child_def list_update_beyond)
qed

lemma maker_frame [maker_intros]:
  "maker_only ex \<Longrightarrow> maker_only (set_order oid r ex)"
  "maker_only ex \<Longrightarrow> maker_only (send (Cancel oid) ex)"
  "maker_only ex \<Longrightarrow> maker_only (ex\<lparr>ex_idx := n\<rparr>)"
  "maker_only ex \<Longrightarrow> maker_only (ex\<lparr>ex_retries := n\<rparr>)"
  "maker_only ex \<Longrightarrow> maker_only (ex\<lparr>ex_status := st\<rparr>)"
  "maker_only ex \<Longrightarrow> maker_only (ex\<lparr>ex_close_type := ct\<rparr>)"
  "maker_only ex \<Longrightarrow> maker_only (ex\<lparr>ex_fees := x\<rparr>)"
  "maker_only ex \<Longrightarrow> maker_only (ex\<lparr>ex_filled := x\<rparr>)"
  "maker_only ex \<Longrightarrow> maker_only (cancel_all_open now ex)"
  "maker_only ex \<Longrightarrow> maker_only (close_execution_by ty now ex)"
  by (auto simp: maker_only_def close_execution_by_def send_def)

lemma maker_cancel_child [maker_intros]: "maker_only ex \<Longrightarrow> maker_only (cancel_child i reason ex)"
  by (auto simp: cancel_child_def split: option.split intro!: maker_intros)

lemma maker_credit [maker_intros]: "maker_only ex \<Longrightarrow> maker_only (credit oid ex)"
  by (auto simp: credit_def Let_def split: option.split intro!: maker_intros)

lemma maker_place_limit [maker_intros]:
  assumes "maker_only ex"
  shows "maker_only (place_limit cfg new_id price now i ex)"
proof -
  have "maker_only (send (Place oid Limit a p) ex)" for oid a p
    using assms by (auto simp: maker_only_def)
  with assms show ?thesis
    by (auto simp: place_limit_def submit_def Let_def intro!: maker_intros)
qed

lemma maker_step_slot [maker_intros]:
  "maker_only ex \<Longrightarrow> maker_only (step_slot cfg new_id price now i ex)"
  by (simp add: step_slot_def Let_def maker_intros split: child_status.split option.split)

lemma maker_control_task [maker_intros]:
  "maker_only ex \<Longrightarrow> maker_only (control_task cfg new_id price now ex)"
  by (auto simp: control_task_def pa_step_def Let_def split: run_status.splits option.splits
      intro!: maker_intros)

lemma maker_filled [maker_intros]:
  "maker_only ex \<Longrightarrow> maker_only (process_order_filled_event cfg oid tid amount fee ex)"
  by (auto simp: process_order_filled_event_def Let_def split: option.splits intro!: maker_intros)

lemma maker_completed [maker_intros]:
  "maker_only ex \<Longrightarrow> maker_only (process_order_completed_event oid amount ex)"
  by (auto simp: process_order_completed_event_def Let_def split: option.splits intro!: maker_intros)

lemma maker_canceled [maker_intros]:
  "maker_only ex \<Longrightarrow> pa_position_action cfg \<noteq> CLOSE \<Longrightarrow> maker_only (process_order_canceled_event cfg new_id oid ex)"
  by (auto simp: process_order_canceled_event_def Let_def split: option.splits intro!: maker_intros)

lemma maker_failed [maker_intros]:
  assumes "maker_only ex" "pa_position_action cfg \<noteq> CLOSE" "pa_inv ex"
  shows "maker_only (process_order_failed_event cfg new_id oid msg now ex)"
proof (cases "map_of (ex_orders ex) oid")
  case (Some r)
  then have "ch_status (slot ex (or_child r)) \<noteq> Aggressive"
    using assms(1) pa_inv_order_child[OF assms(3) Some] by (auto simp: maker_only_def)
  with Some assms(1,2) show ?thesis
    by (auto simp: process_order_failed_event_def Let_def intro!: maker_intros)
qed (simp add: process_order_failed_event_def assms)

lemma maker_apply:
  assumes "maker_only ex" "pa_position_action cfg \<noteq> CLOSE" "pa_inv ex"
  shows "maker_only (pa_apply cfg new_id ex ev)"
  using assms
  by (cases ev) (auto simp: early_stop_def evaluate_max_retries_def intro!: maker_intros)

lemma new_executor_passive: "new_executor cfg n = Inr ex \<Longrightarrow> maker_only (ex\<lparr>ex_status := Running\<rparr>)"
proof -
  assume new: "new_executor cfg n = Inr ex"
  then obtain slots where s: "build_child_slots cfg = Inr slots" "ex_children ex = slots" "ex_sent ex = []"
    by (auto simp: new_executor_def split: sum.splits)
  have "ch_status c = Idle" if "c \<in> set slots" for c
    using slots_fresh[OF s(1) that] by (metis child_slot.select_convs(2) fresh_slot_def)
  with s show ?thesis by (auto simp: maker_only_def)
qed

lemma pa_reach_passive:
  assumes "pa_reach cfg new_id any_event ex" "fresh_ids new_id" "pa_position_action cfg \<noteq> CLOSE"
  shows "pa_inv ex \<and> maker_only ex"
  using assms(1)
proof induction
  case (start n ex)
  then show ?case using new_executor_inv new_executor_passive by blast
next
  case (step ex ev)
  with assms(2,3) show ?case by (auto intro: pa_inv_apply maker_apply)
qed

text \<open>
  C12: Every order an event submits is for a positive amount that fits: with it, the amount
  executed and the amount working stay within the amount requested and within its child's target.
  It is submitted while the executor is running, and a limit order has a finite positive price.
\<close>

theorem submissions_fit_the_room:
  assumes "pa_reach cfg new_id any_event ex" "fresh_ids new_id" "ex' = pa_apply cfg new_id ex ev"
    "Place oid ty a p \<in> set (new_calls ex ex')"
  shows "0 < a \<and> ex_status ex' = Running \<and> (ty = Limit \<longrightarrow> positive_price p)
    \<and> ex_filled ex' + outstanding ex' \<le> total_amount_base cfg
    \<and> (\<exists>r. map_of (ex_orders ex') oid = Some r \<and> or_amount r = a
        \<and> ch_filled (slot ex' (or_child r)) + outstanding ex' \<le> ch_target (slot ex' (or_child r)))"
proof -
  have "emits cfg (ex_sent ex) ex'"
    unfolding assms(3) by (rule emits_apply[OF assms(2) pa_reach_inv[OF assms(1,2)]])
  from emits_new_calls[OF this assms(4)] show ?thesis
    by (auto simp: fits_def)
qed

lemma sample_first_order:
  "Place (long_id []) Limit 3 (Num 100)
     \<in> set (new_calls sample_executor (pa_apply sample_config long_id sample_executor (Tick 0 (Num 100))))"
  by (simp add: new_calls_def sample_executor_def sample_config_def pa_eval)

theorem submissions_fit_the_room_witness:
  "outstanding (pa_apply sample_config long_id sample_executor (Tick 0 (Num 100))) \<le> 7"
  using submissions_fit_the_room[OF sample_reach[of long_id any_event] fresh_long_id refl sample_first_order]
  by (simp add: sample_executor_def sample_config_def pa_eval)

text \<open>
  An execution that is not closing a position never sends a market order: when a child's
  cycle expires it is skipped, not taken.
\<close>

theorem open_execution_never_takes:
  assumes "pa_reach cfg new_id any_event ex" "fresh_ids new_id" "pa_position_action cfg \<noteq> CLOSE"
  shows "Place oid Market a p \<notin> set (ex_sent ex)"
  using pa_reach_passive[OF assms] by (simp add: maker_only_def)

theorem open_execution_never_takes_witness: "Place ''b'' Market 3 NaN \<notin> set (ex_sent sample_after)"
  using open_execution_never_takes[OF sample_after_reach fresh_long_id]
  by (simp add: sample_config_def)

section \<open>After a stop\<close>

lemma status_stays_stopped:
  assumes "ex_status ex \<noteq> Running"
  shows "ex_status (pa_apply cfg new_id ex ev) \<noteq> Running"
proof -
  have "ex_status (submit new_id i ty a p e) = ex_status e" for i ty a p e
    by simp
  moreover have "ex_status (cancel_child i reason e) = ex_status e" for i reason e
    by (simp add: cancel_child_def split: option.split)
  ultimately show ?thesis
    using assms
    by (cases ev) (auto simp: control_task_def process_order_filled_event_def Let_def
        process_order_completed_event_def process_order_canceled_event_def place_aggressive_def
        process_order_failed_event_def early_stop_def evaluate_max_retries_def close_execution_by_def
        split: option.splits run_status.splits)
qed

lemma stopped_places_nothing:
  assumes "fresh_ids new_id" "pa_inv ex" "ex_status ex \<noteq> Running" "\<And>e ex. e \<in> set evs \<Longrightarrow> any_event ex e"
  shows "\<exists>cs. ex_sent (foldl (pa_apply cfg new_id) ex evs) = cs @ ex_sent ex
    \<and> (\<forall>oid ty a p. Place oid ty a p \<notin> set cs)"
  using assms(2-4)
proof (induction evs arbitrary: ex)
  case (Cons e evs)
  let ?ex = "pa_apply cfg new_id ex e"
  have em: "emits cfg (ex_sent ex) ?ex" by (rule emits_apply[OF assms(1) Cons.prems(1)])
  have st: "ex_status ?ex \<noteq> Running" by (rule status_stays_stopped[OF Cons.prems(2)])
  have inv: "pa_inv ?ex" by (rule pa_inv_apply[OF assms(1) Cons.prems(1)]) (simp add: Cons.prems(3))
  have "\<forall>oid ty a p. Place oid ty a p \<notin> set (new_calls ex ?ex)"
    using emits_new_calls[OF em] st by (auto simp: fits_def)
  with Cons.IH[OF inv st] Cons.prems(3) emits_appends[OF em] show ?case
    by fastforce
qed simp

text \<open>
  Once an executor is stopping or stopped, no sequence of events makes it submit another
  order: late cancels, rejections and fills only settle what is already out.
\<close>

theorem nothing_is_placed_after_a_stop:
  assumes "pa_reach cfg new_id any_event ex" "fresh_ids new_id" "ex_status ex \<noteq> Running"
    "\<forall>e\<in>set evs. \<forall>ex. any_event ex e"
  shows "Place oid ty a p \<notin> set (new_calls ex (foldl (pa_apply cfg new_id) ex evs))"
  using stopped_places_nothing[OF assms(2) pa_reach_inv[OF assms(1,2)] assms(3), of evs cfg] assms(4)
  by (auto simp: new_calls_def)

definition sample_stopped :: executor where
  "sample_stopped = foldl (pa_apply sample_config long_id) sample_executor [Tick 0 (Num 100), StopEv False 5]"

theorem nothing_is_placed_after_a_stop_witness:
  "Place ''b'' Market 3 NaN \<notin> set (new_calls sample_stopped (foldl (pa_apply sample_config long_id) sample_stopped
     [CancelEv (long_id []), Tick 9 (Num 100)]))"
proof (rule nothing_is_placed_after_a_stop[OF _ fresh_long_id])
  show "pa_reach sample_config long_id any_event sample_stopped"
    unfolding sample_stopped_def
    by (rule pa_reach_any_foldl[OF sample_reach]) (auto simp: any_event_def)
  show "ex_status sample_stopped \<noteq> Running"
    by (simp add: sample_stopped_def early_stop_def)
qed (simp add: any_event_def)

end
