(* ===== verification/PassiveAggressiveHistory.thy ===== *)
theory PassiveAggressiveHistory imports PassiveAggressiveRuns begin

text \<open>
  What the passive-aggressive executor's reports mean: the credit of an order as a function of
  the history of its events, the close types, the reported profit, and the end of an execution
  that has no price to quote.
\<close>

section \<open>An order's evidence is a function of its events\<close>

text \<open>
  The abstract view of an order: the trade ids seen, the sum of the distinct fills, and the
  largest completion summary.
\<close>

type_synonym evidence = "string set \<times> real \<times> real"

fun note_event :: "string \<Rightarrow> evidence \<Rightarrow> pa_event \<Rightarrow> evidence" where
  "note_event oid (seen, fills, reported) (FillEv o' tid amount fee) =
     (if o' \<noteq> oid then (seen, fills, reported)
      else case tid of
             Some (c # cs) \<Rightarrow> if c # cs \<in> seen then (seen, fills, reported)
                              else (insert (c # cs) seen, fills + amount, reported)
           | _ \<Rightarrow> (seen, fills + amount, reported))"
| "note_event oid (seen, fills, reported) (CompleteEv o' amount) =
     (if o' \<noteq> oid then (seen, fills, reported) else (seen, fills, max reported amount))"
| "note_event oid e _ = e"

definition evidence_of :: "order_rec \<Rightarrow> evidence" where
  "evidence_of r = (or_trades r, or_fill_sum r, or_reported r)"

definition same_order :: "order_rec \<Rightarrow> order_rec \<Rightarrow> bool" where
  "same_order r r' = (or_child r' = or_child r \<and> or_amount r' = or_amount r)"

definition keeps :: "executor \<Rightarrow> executor \<Rightarrow> bool" where
  "keeps ex ex' =
     (\<forall>oid r. map_of (ex_orders ex) oid = Some r \<longrightarrow>
        (\<exists>r'. map_of (ex_orders ex') oid = Some r' \<and> same_order r r' \<and> evidence_of r' = evidence_of r))"

named_theorems keep_intros "operations that keep every order's evidence"

lemma keeps_refl [keep_intros]: "keeps ex ex"
  by (simp add: keeps_def same_order_def)

lemma keeps_orders [keep_intros]:
  "keeps e ex \<Longrightarrow> keeps e (set_child i f ex)"
  "keeps e ex \<Longrightarrow> keeps e (send c ex)"
  "keeps e ex \<Longrightarrow> keeps e (cancel_all_open now ex)"
  "keeps e ex \<Longrightarrow> keeps e (close_execution_by ct now ex)"
  "keeps e ex \<Longrightarrow> keeps e (ex\<lparr>ex_idx := n\<rparr>)"
  "keeps e ex \<Longrightarrow> keeps e (ex\<lparr>ex_retries := n\<rparr>)"
  "keeps e ex \<Longrightarrow> keeps e (ex\<lparr>ex_status := st\<rparr>)"
  by (simp_all add: keeps_def close_execution_by_def)

lemma keeps_cancel_child [keep_intros]: "keeps e ex \<Longrightarrow> keeps e (cancel_child i reason ex)"
  by (simp add: cancel_child_def keep_intros split: option.split)

lemma keeps_submit [keep_intros]:
  assumes "keeps e ex" "fresh_ids new_id" "pa_inv ex"
  shows "keeps e (submit new_id i ty a p ex)"
  unfolding keeps_def
proof (intro allI impI)
  fix oid r assume "map_of (ex_orders e) oid = Some r"
  then obtain r' where r': "map_of (ex_orders ex) oid = Some r'" "same_order r r'"
    "evidence_of r' = evidence_of r"
    using assms(1) by (auto simp: keeps_def)
  with fresh_id_unknown[OF assms(2,3)] have "oid \<noteq> new_id (ex_sent ex)" by auto
  with r' show "\<exists>r'. map_of (ex_orders (submit new_id i ty a p ex)) oid = Some r' \<and> same_order r r'
      \<and> evidence_of r' = evidence_of r"
    by (simp add: submit_def Let_def)
qed

lemma keeps_place [keep_intros]:
  assumes "keeps e ex" "fresh_ids new_id" "pa_inv ex"
  shows "keeps e (place_limit cfg new_id price now i ex)" "keeps e (place_aggressive cfg new_id i ex)"
  using assms by (simp_all add: place_limit_def place_aggressive_def Let_def keep_intros pa_intros)

lemma keeps_step_slot [keep_intros]:
  assumes "fresh_ids new_id" "pa_inv ex"
  shows "keeps ex (step_slot cfg new_id price now i ex)"
  using assms by (simp add: step_slot_def Let_def keep_intros pa_intros split: child_status.split option.split)

lemma keeps_trans: "keeps a b \<Longrightarrow> keeps b c \<Longrightarrow> keeps a c"
  unfolding keeps_def same_order_def by metis

lemma keeps_control_task [keep_intros]:
  assumes "fresh_ids new_id" "pa_inv ex"
  shows "keeps ex (control_task cfg new_id price now ex)"
proof -
  have "keeps ex (step_slot cfg new_id price now i (ex\<lparr>ex_idx := n\<rparr>))" for i n
    by (rule keeps_trans[OF _ keeps_step_slot]) (simp_all add: assms keep_intros pa_intros)
  then show ?thesis
    by (simp add: control_task_def pa_step_def Let_def keep_intros split: run_status.split option.split)
qed

lemma keeps_mark_terminal [keep_intros]:
  "keeps e ex \<Longrightarrow> map_of (ex_orders ex) oid = Some r \<Longrightarrow> keeps e (set_order oid (r\<lparr>or_terminal := True\<rparr>) ex)"
  by (fastforce simp: keeps_def same_order_def evidence_of_def)

lemma keeps_canceled [keep_intros]:
  assumes "fresh_ids new_id" "pa_inv ex"
  shows "keeps ex (process_order_canceled_event cfg new_id oid ex)"
  using assms
  by (auto simp: process_order_canceled_event_def Let_def split: option.split
      intro!: keep_intros pa_intros)

lemma keeps_failed [keep_intros]:
  assumes "fresh_ids new_id" "pa_inv ex"
  shows "keeps ex (process_order_failed_event cfg new_id oid msg now ex)"
  using assms
  by (auto simp: process_order_failed_event_def Let_def split: option.split
      intro!: keep_intros pa_intros)

lemma credit_orders:
  "map_of (ex_orders ex) oid = Some r \<Longrightarrow>
   \<exists>x. map_of (ex_orders (credit oid ex)) oid = Some (r\<lparr>or_credited := x\<rparr>)
     \<and> (\<forall>k. k \<noteq> oid \<longrightarrow> map_of (ex_orders (credit oid ex)) k = map_of (ex_orders ex) k)"
  by (cases r) (auto simp: credit_def Let_def)

lemma cancel_child_orders [simp]: "ex_orders (cancel_child i reason ex) = ex_orders ex"
  by (simp add: cancel_child_def split: option.split)

lemma filled_evidence:
  assumes "map_of (ex_orders ex) oid = Some r"
  shows "\<exists>r'. map_of (ex_orders (process_order_filled_event cfg o' tid amount fee ex)) oid = Some r'
    \<and> same_order r r' \<and> evidence_of r' = note_event oid (evidence_of r) (FillEv o' tid amount fee)"
proof (cases "map_of (ex_orders ex) o'")
  case None
  with assms have "o' \<noteq> oid" by auto
  with None assms show ?thesis
    by (simp add: process_order_filled_event_def evidence_of_def same_order_def)
next
  case (Some q)
  have c: "\<exists>x. map_of (ex_orders (credit o' ((set_order o' q' ex)\<lparr>ex_fees := f\<rparr>))) oid =
      (if o' = oid then Some (q'\<lparr>or_credited := x\<rparr>) else Some r)" for q' f
    using credit_orders[of "(set_order o' q' ex)\<lparr>ex_fees := f\<rparr>" o' q'] assms by auto
  show ?thesis
  proof (cases "\<exists>c cs. tid = Some (c # cs) \<and> c # cs \<in> or_trades q")
    case True
    with Some assms show ?thesis
      by (auto simp: process_order_filled_event_def evidence_of_def same_order_def)
  next
    case False
    let ?q = "q\<lparr>or_trades := (case tid of Some (c # cs) \<Rightarrow> insert (c # cs) (or_trades q) | _ \<Rightarrow> or_trades q),
                or_fill_sum := or_fill_sum q + amount\<rparr>"
    obtain x where x: "map_of (ex_orders (credit o' ((set_order o' ?q ex)\<lparr>ex_fees := ex_fees ex + fee\<rparr>))) oid =
      (if o' = oid then Some (?q\<lparr>or_credited := x\<rparr>) else Some r)"
      using c[of "ex_fees ex + fee" ?q] by blast
    have "map_of (ex_orders (process_order_filled_event cfg o' tid amount fee ex)) oid =
      (if o' = oid then Some (?q\<lparr>or_credited := x\<rparr>) else Some r)"
      using Some False x
      by (cases tid rule: option.exhaust)
        (auto simp: process_order_filled_event_def Let_def split: list.split)
    with Some assms False show ?thesis
      by (auto simp: evidence_of_def same_order_def split: option.split list.split)
  qed
qed

lemma completed_evidence:
  assumes "map_of (ex_orders ex) oid = Some r"
  shows "\<exists>r'. map_of (ex_orders (process_order_completed_event o' amount ex)) oid = Some r'
    \<and> same_order r r' \<and> evidence_of r' = note_event oid (evidence_of r) (CompleteEv o' amount)"
proof (cases "map_of (ex_orders ex) o'")
  case None
  with assms have "o' \<noteq> oid" by auto
  with None assms show ?thesis
    by (simp add: process_order_completed_event_def evidence_of_def same_order_def)
next
  case (Some q)
  let ?q = "q\<lparr>or_terminal := True, or_reported := max (or_reported q) amount\<rparr>"
  have "\<exists>x. map_of (ex_orders (credit o' (set_order o' ?q ex))) oid =
      (if o' = oid then Some (?q\<lparr>or_credited := x\<rparr>) else Some r)"
    using credit_orders[of "set_order o' ?q ex" o' ?q] assms by auto
  with Some assms show ?thesis
    by (auto simp: process_order_completed_event_def Let_def evidence_of_def same_order_def)
qed

lemma keepsD:
  "keeps ex ex' \<Longrightarrow> map_of (ex_orders ex) oid = Some r \<Longrightarrow>
   \<exists>r'. map_of (ex_orders ex') oid = Some r' \<and> same_order r r' \<and> evidence_of r' = evidence_of r"
  unfolding keeps_def by blast

lemma apply_evidence:
  assumes "fresh_ids new_id" "pa_inv ex" "map_of (ex_orders ex) oid = Some r"
  shows "\<exists>r'. map_of (ex_orders (pa_apply cfg new_id ex ev)) oid = Some r' \<and> same_order r r'
    \<and> evidence_of r' = note_event oid (evidence_of r) ev"
proof (cases ev)
  case (Tick now price)
  then show ?thesis using keepsD[OF keeps_control_task[OF assms(1,2)] assms(3)] by (simp add: evidence_of_def)
next
  case (FillEv o' tid amount fee)
  then show ?thesis using filled_evidence[OF assms(3)] by simp
next
  case (CompleteEv o' amount)
  then show ?thesis using completed_evidence[OF assms(3)] by simp
next
  case (CancelEv o')
  then show ?thesis using keepsD[OF keeps_canceled[OF assms(1,2)] assms(3)] by (simp add: evidence_of_def)
next
  case (FailEv o' msg now)
  then show ?thesis using keepsD[OF keeps_failed[OF assms(1,2)] assms(3)] by (simp add: evidence_of_def)
next
  case (StopEv keep now)
  then show ?thesis using assms(3) by (simp add: early_stop_def same_order_def evidence_of_def)
next
  case (RetriesEv now)
  then show ?thesis
    using assms(3) by (simp add: evaluate_max_retries_def close_execution_by_def same_order_def evidence_of_def)
qed

lemma history_evidence:
  assumes "fresh_ids new_id" "pa_inv ex" "map_of (ex_orders ex) oid = Some r"
    "\<And>e ex. e \<in> set evs \<Longrightarrow> any_event ex e"
  shows "pa_inv (foldl (pa_apply cfg new_id) ex evs)
    \<and> (\<exists>r'. map_of (ex_orders (foldl (pa_apply cfg new_id) ex evs)) oid = Some r' \<and> same_order r r'
        \<and> evidence_of r' = foldl (note_event oid) (evidence_of r) evs)"
  using assms(2-4)
proof (induction evs arbitrary: ex r)
  case (Cons e evs)
  obtain r1 where r1: "map_of (ex_orders (pa_apply cfg new_id ex e)) oid = Some r1" "same_order r r1"
      "evidence_of r1 = note_event oid (evidence_of r) e"
    using apply_evidence[OF assms(1) Cons.prems(1,2)] by blast
  have inv: "pa_inv (pa_apply cfg new_id ex e)"
    by (rule pa_inv_apply[OF assms(1) Cons.prems(1)]) (simp add: Cons.prems(3))
  from Cons.IH[OF inv r1(1)] Cons.prems(3) r1(2,3) show ?case
    by (auto simp: same_order_def)
qed (simp add: same_order_def)

text \<open>
  C11: From the moment an order is recorded, what it has been credited is a function of the
  events that name it alone: the larger of the sum of its fills with distinct trade ids and its
  largest completion summary.  Repeated trade ids, the order of fills and completions, cancels
  and the events of other orders make no difference, and the order keeps its child.
\<close>

theorem credit_is_a_function_of_the_history:
  assumes "pa_reach cfg new_id any_event ex" "fresh_ids new_id" "map_of (ex_orders ex) oid = Some r"
    "\<forall>e\<in>set evs. \<forall>ex. any_event ex e"
  shows "\<exists>r' seen fills reported.
    map_of (ex_orders (foldl (pa_apply cfg new_id) ex evs)) oid = Some r'
    \<and> foldl (note_event oid) (or_trades r, or_fill_sum r, or_reported r) evs = (seen, fills, reported)
    \<and> or_credited r' = max fills reported \<and> or_child r' = or_child r"
proof -
  let ?ex = "foldl (pa_apply cfg new_id) ex evs"
  obtain r' where r': "pa_inv ?ex" "map_of (ex_orders ?ex) oid = Some r'" "same_order r r'"
    "evidence_of r' = foldl (note_event oid) (evidence_of r) evs"
    using history_evidence[OF assms(2) pa_reach_inv[OF assms(1,2)] assms(3), of evs cfg] assms(4) by blast
  from r'(4) have "foldl (note_event oid) (or_trades r, or_fill_sum r, or_reported r) evs
      = (or_trades r', or_fill_sum r', or_reported r')"
    by (simp add: evidence_of_def)
  moreover have "or_child r' = or_child r" using r'(3) by (simp add: same_order_def)
  ultimately show ?thesis
    using r'(2) pa_inv_evidence(1)[OF r'(1,2)] by blast
qed

definition sample_first :: executor where
  "sample_first = pa_apply sample_config long_id sample_executor (Tick 0 (Num 100))"

lemma sample_first_record:
  "map_of (ex_orders sample_first) (long_id []) =
     Some \<lparr>or_child = 0, or_amount = 3, or_fill_sum = 0, or_reported = 0, or_credited = 0,
           or_trades = {}, or_terminal = False\<rparr>"
  by (simp add: sample_first_def sample_executor_def sample_config_def pa_eval)

theorem credit_is_a_function_of_the_history_witness:
  "\<exists>r'. map_of (ex_orders (foldl (pa_apply sample_config long_id) sample_first
      [FillEv (long_id []) (Some ''a'') 1 0, FillEv (long_id []) (Some ''a'') 1 0,
       CompleteEv (long_id []) 2, FillEv (long_id []) (Some ''b'') 1 0])) (long_id []) = Some r'
    \<and> or_credited r' = 2"
proof -
  have reach: "pa_reach sample_config long_id any_event sample_first"
    unfolding sample_first_def
    by (rule pa_reach.step[OF sample_reach]) (simp add: any_event_def)
  show ?thesis
    using credit_is_a_function_of_the_history[OF reach fresh_long_id sample_first_record,
      of "[FillEv (long_id []) (Some ''a'') 1 0, FillEv (long_id []) (Some ''a'') 1 0,
           CompleteEv (long_id []) 2, FillEv (long_id []) (Some ''b'') 1 0]"]
    by (auto simp: any_event_def)
qed


section \<open>Close reports\<close>

definition report_ok :: "pa_config \<Rightarrow> executor \<Rightarrow> bool" where
  "report_ok cfg ex =
     ((ex_close_type ex = Some Completed \<longrightarrow> total_amount_base cfg \<le> ex_filled ex)
      \<and> (ex_close_type ex = Some Failed \<longrightarrow> ex_max_retries ex < ex_retries ex)
      \<and> (ex_status ex \<in> {ShuttingDown, Terminated} \<longrightarrow> ex_close_type ex \<noteq> None))"

text \<open>What a step that closes nothing keeps.\<close>

definition no_report :: "executor \<Rightarrow> executor \<Rightarrow> bool" where
  "no_report ex ex' =
     (ex_close_type ex' = ex_close_type ex \<and> ex_status ex' = ex_status ex
      \<and> ex_filled ex \<le> ex_filled ex' \<and> ex_retries ex \<le> ex_retries ex'
      \<and> ex_max_retries ex' = ex_max_retries ex)"

lemma no_report_ok: "no_report ex ex' \<Longrightarrow> report_ok cfg ex \<Longrightarrow> report_ok cfg ex'"
  by (auto simp: no_report_def report_ok_def)

named_theorems quiet_intros "steps that report nothing"

lemma no_report_intros [quiet_intros]:
  "no_report ex ex"
  "no_report e ex \<Longrightarrow> no_report e (set_child i f ex)"
  "no_report e ex \<Longrightarrow> no_report e (send c ex)"
  "no_report e ex \<Longrightarrow> no_report e (set_order oid r ex)"
  "no_report e ex \<Longrightarrow> no_report e (cancel_all_open now ex)"
  "no_report e ex \<Longrightarrow> no_report e (ex\<lparr>ex_idx := n\<rparr>)"
  "no_report e ex \<Longrightarrow> no_report e (ex\<lparr>ex_fees := x\<rparr>)"
  "no_report e ex \<Longrightarrow> no_report e (submit new_id i ty a p ex)"
  by (simp_all add: no_report_def submit_def Let_def)

lemma no_report_cancel_child [quiet_intros]: "no_report e ex \<Longrightarrow> no_report e (cancel_child i reason ex)"
  by (simp add: cancel_child_def quiet_intros split: option.split)

lemma no_report_place [quiet_intros]:
  "no_report e ex \<Longrightarrow> no_report e (place_limit cfg new_id price now i ex)"
  "no_report e ex \<Longrightarrow> no_report e (place_aggressive cfg new_id i ex)"
  by (simp_all add: place_limit_def place_aggressive_def Let_def quiet_intros)

lemma no_report_credit [quiet_intros]: "no_report e ex \<Longrightarrow> no_report e (credit oid ex)"
  by (auto simp: credit_def Let_def no_report_def split: option.split)

lemma no_report_step_slot [quiet_intros]:
  "no_report e ex \<Longrightarrow> no_report e (step_slot cfg new_id price now i ex)"
  by (simp add: step_slot_def Let_def quiet_intros split: child_status.split option.split)

lemma report_close_final: "report_ok cfg (close_execution_by (final_close_type cfg ex) now ex)"
  by (simp add: report_ok_def close_execution_by_def final_close_type_def)

lemma report_control_task:
  assumes "report_ok cfg ex"
  shows "report_ok cfg (control_task cfg new_id price now ex)"
proof (cases "ex_status ex")
  case Running
  let ?ex = "ex\<lparr>ex_idx := skip_terminal (ex_children ex) (ex_idx ex)\<rparr>"
  have "report_ok cfg (pa_step cfg new_id price now ex)"
  proof (cases "length (ex_children ?ex) \<le> ex_idx ?ex")
    case True
    have "report_ok cfg ?ex" by (rule no_report_ok[OF _ assms]) (intro quiet_intros)
    with True show ?thesis by (simp add: pa_step_def Let_def report_close_final)
  next
    case False
    have "report_ok cfg (step_slot cfg new_id price now (ex_idx ?ex) ?ex)"
      by (rule no_report_ok[OF _ assms]) (intro quiet_intros)
    with False show ?thesis by (simp add: pa_step_def Let_def)
  qed
  with Running show ?thesis by (simp add: control_task_def)
next
  case ShuttingDown
  moreover have "report_ok cfg (cancel_all_open now ex)"
    by (rule no_report_ok[OF _ assms]) (intro quiet_intros)
  moreover obtain ct where "ex_close_type ex = Some ct"
    using assms ShuttingDown by (auto simp: report_ok_def)
  moreover have "report_ok cfg (close_execution_by ct now ex)" if "ex_close_type ex = Some ct" for ct
    using assms that by (auto simp: report_ok_def close_execution_by_def)
  ultimately show ?thesis
    using assms by (simp add: control_task_def split: option.split)
qed (simp_all add: control_task_def assms)

lemma report_failed:
  assumes "report_ok cfg ex"
  shows "report_ok cfg (process_order_failed_event cfg new_id oid msg now ex)"
proof -
  have keep: "no_report ex e \<Longrightarrow> no_report ex (e\<lparr>ex_retries := Suc (ex_retries e)\<rparr>)" for e
    by (simp add: no_report_def)
  have close: "report_ok cfg (close_execution_by EarlyStop now e)" for e
    by (simp add: report_ok_def close_execution_by_def)
  have ok: "no_report ex e \<Longrightarrow> report_ok cfg e" for e
    by (rule no_report_ok[OF _ assms])
  show ?thesis
    using keep[of "set_child i f (set_order oid r ex)" for i f r]
    by (simp add: process_order_failed_event_def Let_def close ok quiet_intros assms split: option.split)
qed

lemma report_apply:
  assumes "report_ok cfg ex"
  shows "report_ok cfg (pa_apply cfg new_id ex ev)"
proof (cases ev)
  case (FillEv oid tid amount fee)
  have "no_report ex (process_order_filled_event cfg oid tid amount fee ex)"
    by (simp add: process_order_filled_event_def Let_def quiet_intros split: option.split)
  with FillEv show ?thesis by (simp add: no_report_ok[OF _ assms])
next
  case (CompleteEv oid amount)
  have "no_report ex (process_order_completed_event oid amount ex)"
    by (simp add: process_order_completed_event_def Let_def quiet_intros split: option.split)
  with CompleteEv show ?thesis by (simp add: no_report_ok[OF _ assms])
next
  case (CancelEv oid)
  have "no_report ex (process_order_canceled_event cfg new_id oid ex)"
    by (simp add: process_order_canceled_event_def Let_def quiet_intros split: option.split)
  with CancelEv show ?thesis by (simp add: no_report_ok[OF _ assms])
next
  case (RetriesEv now)
  with assms show ?thesis by (auto simp: evaluate_max_retries_def report_ok_def close_execution_by_def)
next
  case (StopEv keep now)
  with assms show ?thesis by (simp add: early_stop_def report_ok_def)
qed (simp_all add: report_control_task report_failed assms)

text \<open>
  C14: A COMPLETED report means that at least the whole requested amount was executed, a FAILED
  report that the retries were exhausted, and an executor that is stopping or has terminated
  always carries a close type -- over every reachable state, with no assumption on the events.
\<close>

theorem close_reports_are_truthful:
  assumes "pa_reach cfg new_id env ex"
  shows "(ex_close_type ex = Some Completed \<longrightarrow> total_amount_base cfg \<le> ex_filled ex)
    \<and> (ex_close_type ex = Some Failed \<longrightarrow> ex_max_retries ex < ex_retries ex)
    \<and> (ex_status ex \<in> {ShuttingDown, Terminated} \<longrightarrow> ex_close_type ex \<noteq> None)"
proof -
  have "report_ok cfg ex"
    using assms
  proof induction
    case (start n ex)
    then show ?case by (auto simp: new_executor_def report_ok_def split: sum.splits)
  qed (rule report_apply)
  then show ?thesis by (simp add: report_ok_def)
qed

definition sample_done :: executor where
  "sample_done = foldl (pa_apply sample_config long_id) sample_executor
     [Tick 0 (Num 100), CompleteEv (long_id []) 7, Tick 1 (Num 100), Tick 2 (Num 100)]"

theorem close_reports_are_truthful_witness:
  "ex_close_type sample_done = Some Completed \<and> total_amount_base sample_config \<le> ex_filled sample_done"
proof -
  have "pa_reach sample_config long_id any_event sample_done"
    unfolding sample_done_def
    by (rule pa_reach_any_foldl[OF sample_reach]) (auto simp: any_event_def)
  from close_reports_are_truthful[OF this]
  have "ex_close_type sample_done = Some Completed \<longrightarrow> total_amount_base sample_config \<le> ex_filled sample_done"
    by blast
  moreover have "ex_close_type sample_done = Some Completed"
    by (simp add: sample_done_def sample_executor_def sample_config_def pa_eval skip_terminal.simps
        final_close_type_def close_execution_by_def)
  ultimately show ?thesis by blast
qed

text \<open>
  The reported net profit of an executor is minus its fees at every finite mid price:
  the average fill price in the formula is the current mid itself, so the price term vanishes
  whatever the executor's fills were worth.
\<close>

theorem net_pnl_is_minus_the_fees:
  "get_net_pnl_quote cfg (Inr mid) ex = - ex_fees ex"
  by (simp add: get_net_pnl_quote_def filled_amount_quote_def Let_def)

end
