(* ===== verification/PassiveAggressiveDryBook.thy ===== *)
theory PassiveAggressiveDryBook imports PassiveAggressiveHistory begin

text \<open>
  Liveness of the passive-aggressive executor: with a book that never shows a valid price, the
  executor still ends, within two ticks per child and one more, and has submitted nothing.
\<close>

section \<open>Skipping to the first open slot\<close>

lemma skip_terminal_to:
  assumes "i \<le> k" "k \<le> length cs" "\<And>j. i \<le> j \<Longrightarrow> j < k \<Longrightarrow> terminal_status (ch_status (cs ! j))"
    "k < length cs \<Longrightarrow> \<not> terminal_status (ch_status (cs ! k))"
  shows "skip_terminal cs i = k"
  using assms
proof (induction cs i rule: skip_terminal.induct)
  case (1 cs i)
  show ?case
  proof (cases "i = k")
    case True
    with 1(5) show ?thesis by (subst skip_terminal.simps) auto
  next
    case False
    with 1(2-5) have t: "i < length cs \<and> terminal_status (ch_status (cs ! i))" by auto
    with 1 False have "skip_terminal cs (Suc i) = k" by auto
    with t show ?thesis by (subst skip_terminal.simps) simp
  qed
qed

section \<open>The states of a dry run\<close>

text \<open>
  Slots before \<open>k\<close> are skipped, slot \<open>k\<close> is idle and was first visited at \<open>started\<close> (if at all),
  the slots after it are idle and untouched, and there is no order.
\<close>

definition dry :: "nat \<Rightarrow> real option \<Rightarrow> executor \<Rightarrow> bool" where
  "dry k started ex =
     (ex_status ex = Running \<and> ex_orders ex = [] \<and> ex_filled ex = 0 \<and> ex_retries ex = 0
      \<and> ex_sent ex = [] \<and> ex_close_type ex = None \<and> ex_idx ex \<le> k \<and> k \<le> length (ex_children ex)
      \<and> (\<forall>j < k. ch_status (slot ex j) = Skipped)
      \<and> (\<forall>j < length (ex_children ex). k \<le> j \<longrightarrow> ch_status (slot ex j) = Idle)
      \<and> (\<forall>j < length (ex_children ex). k < j \<longrightarrow> ch_cycle_start (slot ex j) = None)
      \<and> (k < length (ex_children ex) \<longrightarrow> ch_cycle_start (slot ex k) = started))"

lemma dry_skip:
  assumes "dry k started ex"
  shows "skip_terminal (ex_children ex) (ex_idx ex) = k"
  using assms by (intro skip_terminal_to) (auto simp: dry_def terminal_status_def)

lemma dry_tick_first:
  assumes "dry k None ex" "k < length (ex_children ex)" "0 < child_order_time_limit cfg"
    "\<not> positive_price price"
  shows "dry k (Some now) (control_task cfg new_id price now ex)"
    "length (ex_children (control_task cfg new_id price now ex)) = length (ex_children ex)"
proof -
  have "control_task cfg new_id price now ex =
      (case ch_retry_at (slot ex k) of
         Some t \<Rightarrow> if now < t then set_child k (\<lambda>c. c\<lparr>ch_cycle_start := Some now\<rparr>) (ex\<lparr>ex_idx := k\<rparr>)
           else place_limit cfg new_id price now k (set_child k (\<lambda>c. c\<lparr>ch_retry_at := None\<rparr>)
             (set_child k (\<lambda>c. c\<lparr>ch_cycle_start := Some now\<rparr>) (ex\<lparr>ex_idx := k\<rparr>)))
       | None \<Rightarrow> place_limit cfg new_id price now k (set_child k (\<lambda>c. c\<lparr>ch_retry_at := None\<rparr>)
             (set_child k (\<lambda>c. c\<lparr>ch_cycle_start := Some now\<rparr>) (ex\<lparr>ex_idx := k\<rparr>))))"
    using assms(1-3) dry_skip[OF assms(1)]
    by (auto simp: control_task_def pa_step_def step_slot_def Let_def dry_def split: option.split)
  then show "dry k (Some now) (control_task cfg new_id price now ex)"
    "length (ex_children (control_task cfg new_id price now ex)) = length (ex_children ex)"
    using assms by (auto simp: place_limit_def dry_def split: option.split)
qed

lemma dry_tick_expired:
  assumes "dry k (Some t) ex" "k < length (ex_children ex)" "t + child_order_time_limit cfg \<le> now"
  shows "dry (Suc k) None (control_task cfg new_id price now ex)"
    "length (ex_children (control_task cfg new_id price now ex)) = length (ex_children ex)"
proof -
  have "control_task cfg new_id price now ex
      = set_child k (\<lambda>c. c\<lparr>ch_status := Skipped\<rparr>) (ex\<lparr>ex_idx := k\<rparr>)"
    using assms dry_skip[OF assms(1)]
    by (auto simp: control_task_def pa_step_def step_slot_def Let_def dry_def)
  then show "dry (Suc k) None (control_task cfg new_id price now ex)"
    "length (ex_children (control_task cfg new_id price now ex)) = length (ex_children ex)"
    using assms by (auto simp: dry_def less_Suc_eq)
qed

lemma dry_tick_end:
  assumes "dry (length (ex_children ex)) started ex" "0 < total_amount_base cfg"
  shows "ex_status (control_task cfg new_id price now ex) = Terminated
    \<and> ex_close_type (control_task cfg new_id price now ex) = Some TimeLimit
    \<and> ex_sent (control_task cfg new_id price now ex) = [StopCall]"
  using assms dry_skip[OF assms(1)]
  by (simp add: control_task_def pa_step_def Let_def dry_def outstanding_def close_execution_by_def
      final_close_type_def)

section \<open>Runs\<close>

text \<open>Ticks at times at least \<open>gap\<close> apart, at prices the executor rejects.\<close>

fun dry_ticks :: "real \<Rightarrow> (real \<times> pynum) list \<Rightarrow> bool" where
  "dry_ticks gap [] = True"
| "dry_ticks gap [tp] = (\<not> positive_price (snd tp))"
| "dry_ticks gap (tp # tq # ts) =
     (\<not> positive_price (snd tp) \<and> fst tp + gap \<le> fst tq \<and> dry_ticks gap (tq # ts))"

definition run_ticks ::
  "pa_config \<Rightarrow> (call list \<Rightarrow> string) \<Rightarrow> (real \<times> pynum) list \<Rightarrow> executor \<Rightarrow> executor" where
  "run_ticks cfg new_id ts ex = foldl (\<lambda>ex tp. control_task cfg new_id (snd tp) (fst tp) ex) ex ts"

lemma run_ticks_simps [simp]:
  "run_ticks cfg new_id [] ex = ex"
  "run_ticks cfg new_id (tp # ts) ex = run_ticks cfg new_id ts (control_task cfg new_id (snd tp) (fst tp) ex)"
  by (simp_all add: run_ticks_def)

lemma dry_ticks_tl: "dry_ticks gap (tp # ts) \<Longrightarrow> dry_ticks gap ts \<and> \<not> positive_price (snd tp)"
  by (cases ts) auto

lemma run_ticks_terminated:
  "ex_status ex = Terminated \<Longrightarrow> run_ticks cfg new_id ts ex = ex"
  by (induction ts) (simp_all add: control_task_def)

definition closed_dry :: "executor \<Rightarrow> bool" where
  "closed_dry ex =
     (ex_status ex = Terminated \<and> ex_close_type ex = Some TimeLimit \<and> ex_sent ex = [StopCall])"

lemma dry_run:
  assumes "0 < child_order_time_limit cfg" "0 < total_amount_base cfg"
    "dry_ticks (child_order_time_limit cfg) ts" "dry k None ex"
    "2 * (length (ex_children ex) - k) < length ts"
  shows "closed_dry (run_ticks cfg new_id ts ex)"
  using assms(3-5)
proof (induction "length (ex_children ex) - k" arbitrary: ts k ex)
  case 0
  then have k: "k = length (ex_children ex)" by (auto simp: dry_def)
  from 0 obtain tp rest where ts: "ts = tp # rest" by (cases ts) auto
  let ?ex = "control_task cfg new_id (snd tp) (fst tp) ex"
  have "closed_dry ?ex"
    using dry_tick_end[OF 0(3)[unfolded k] assms(2)] by (simp add: closed_dry_def)
  moreover from this have "run_ticks cfg new_id rest ?ex = ?ex"
    by (simp add: run_ticks_terminated closed_dry_def)
  ultimately show ?case by (simp add: ts)
next
  case (Suc m)
  then have k: "k < length (ex_children ex)" by linarith
  have "2 < length ts" using Suc k by linarith
  then obtain a b rest where ts: "ts = a # b # rest"
    by (cases ts; cases "tl ts") auto
  let ?ex1 = "control_task cfg new_id (snd a) (fst a) ex"
  let ?ex2 = "control_task cfg new_id (snd b) (fst b) ?ex1"
  have s1: "dry k (Some (fst a)) ?ex1" "length (ex_children ?ex1) = length (ex_children ex)"
    using dry_tick_first[OF Suc(4) k assms(1)] Suc(3) by (auto simp: ts)
  have s2: "dry (Suc k) None ?ex2" "length (ex_children ?ex2) = length (ex_children ex)"
    using dry_tick_expired[OF s1(1), of cfg "fst b"] Suc(3) k s1(2) by (auto simp: ts)
  have "closed_dry (run_ticks cfg new_id rest ?ex2)"
  proof (rule Suc(1))
    show "m = length (ex_children ?ex2) - Suc k" using Suc(2) s2(2) by simp
    show "dry_ticks (child_order_time_limit cfg) rest"
      using Suc(3) dry_ticks_tl unfolding ts by blast
    show "2 * (length (ex_children ?ex2) - Suc k) < length rest"
      using Suc(5) s2(2) k by (simp add: ts)
  qed (rule s2(1))
  then show ?case by (simp add: ts)
qed

text \<open>
  C13: An executor whose market never shows a finite positive price still ends: when ticks are
  at least one child time limit apart, 2n + 1 of them terminate an executor of n children with
  TIME_LIMIT, and it has sent no order at all.
\<close>

theorem dry_book_ends_with_time_limit:
  assumes "new_executor cfg max_retries = Inr ex" "0 < total_amount_base cfg"
    "0 < child_order_time_limit cfg" "dry_ticks (child_order_time_limit cfg) ts"
    "2 * length (ex_children ex) + 1 \<le> length ts"
    "final = run_ticks cfg new_id ts (ex\<lparr>ex_status := Running\<rparr>)"
  shows "ex_status final = Terminated \<and> ex_close_type final = Some TimeLimit \<and> ex_sent final = [StopCall]"
proof -
  obtain slots where s: "build_child_slots cfg = Inr slots" "ex_children ex = slots"
    and e: "ex_filled ex = 0" "ex_orders ex = []" "ex_sent ex = []" "ex_retries ex = 0" "ex_idx ex = 0"
      "ex_close_type ex = None"
    using assms(1) by (auto simp: new_executor_def split: sum.splits)
  have "ch_status c = Idle \<and> ch_cycle_start c = None" if "c \<in> set slots" for c
    using slots_fresh[OF s(1) that]
    by (metis child_slot.select_convs(2) child_slot.select_convs(5) fresh_slot_def)
  then have "dry 0 None (ex\<lparr>ex_status := Running\<rparr>)"
    using s e by (auto simp: dry_def)
  from dry_run[OF assms(3,2,4) this] assms(5)
  show ?thesis by (simp add: assms(6) closed_dry_def)
qed

theorem dry_book_ends_with_time_limit_witness:
  "ex_close_type (run_ticks sample_config long_id
     [(0, NaN), (60, NaN), (120, Num 0), (180, NaN), (240, PosInf)] sample_executor) = Some TimeLimit"
  using dry_book_ends_with_time_limit[of sample_config 10 "sample_executor\<lparr>ex_status := NotStarted\<rparr>"
      "[(0, NaN), (60, NaN), (120, Num 0), (180, NaN), (240, PosInf)]" _ long_id, OF _ _ _ _ _ refl]
  by (simp add: new_executor_def sample_slots sample_executor_def) (simp add: sample_config_def)

end
