(* ===== verification/Resilience.thy ===== *)
theory Resilience imports Interfaces begin

text \<open>
  \<open>src/opms/resilience.py\<close>: recognising rate-limit errors, \<open>VenueCircuitBreaker\<close> and
  \<open>QuoteLivenessWatchdog\<close>.  Neither class owns a clock, so every operation takes the time.

  An exception object is the record \<open>py_exc\<close> of what the module reads from it.  An integer
  attribute is seen through \<open>int(value)\<close>: absent or None, the integer, or the exception
  \<open>int\<close> raises; a header value through its truth value and \<open>float(value)\<close>.
\<close>

section \<open>Errors of a request\<close>

type_synonym int_attr = "(py_error + int) option"

datatype hdr_value = HVal bool "py_error + pynum"

record py_exc =
  exc_type :: string
  exc_text :: string
  exc_is_timeout :: bool
  exc_status :: int_attr
  exc_status_code :: int_attr
  exc_resp_status :: int_attr
  exc_resp_status_code :: int_attr
  exc_resp_headers :: "(string \<times> hdr_value) list option"
  exc_headers :: "(string \<times> hdr_value) list option"

text \<open>The first candidate that converts; TypeError and ValueError move on to the next one.\<close>

fun first_int :: "int_attr list \<Rightarrow> py_error + int option" where
  "first_int [] = Inr None"
| "first_int (None # cs) = first_int cs"
| "first_int (Some (Inr n) # cs) = Inr (Some n)"
| "first_int (Some (Inl e) # cs) =
     (if e = TypeError \<or> e = ValueError then first_int cs else Inl e)"

definition status_code :: "py_exc \<Rightarrow> py_error + int option" where
  "status_code e =
     first_int [exc_status e, exc_status_code e, exc_resp_status e, exc_resp_status_code e]"

text \<open>
  The pattern \<open>\b429\b|too many requests|rate[ -]?limit\<close>, ignoring case.  A word boundary
  next to a digit means that the neighbour is not a word character.
\<close>

definition word_char :: "char \<Rightarrow> bool" where
  "word_char c = (let n = (of_char c :: nat) in
     (48 \<le> n \<and> n \<le> 57) \<or> (65 \<le> n \<and> n \<le> 90) \<or> (97 \<le> n \<and> n \<le> 122) \<or> n = 95)"

fun bounded_word :: "bool \<Rightarrow> string \<Rightarrow> string \<Rightarrow> bool" where
  "bounded_word prev pat [] = False"
| "bounded_word prev pat (c # cs) =
     ((\<not> prev \<and> take (length pat) (c # cs) = pat
        \<and> (case drop (length pat) (c # cs) of [] \<Rightarrow> True | d # _ \<Rightarrow> \<not> word_char d))
      \<or> bounded_word (word_char c) pat cs)"

definition rate_limit_text :: "string \<Rightarrow> bool" where
  "rate_limit_text s = (let t = str_lower s in
     bounded_word False ''429'' t \<or> str_contains ''too many requests'' t
     \<or> str_contains ''ratelimit'' t \<or> str_contains ''rate limit'' t \<or> str_contains ''rate-limit'' t)"

definition is_rate_limit_error :: "py_exc \<Rightarrow> py_error + bool" where
  "is_rate_limit_error e =
     (case status_code e of
        Inl x \<Rightarrow> Inl x
      | Inr c \<Rightarrow> Inr (c = Some 429 \<or> rate_limit_text (exc_text e)))"

text \<open>The \<open>Retry-After\<close> header: None without one or when it is no number, else at least 0.\<close>

definition exc_header_dict :: "py_exc \<Rightarrow> (string \<times> hdr_value) list" where
  "exc_header_dict e =
     (case exc_resp_headers e of
        Some (h # hs) \<Rightarrow> h # hs
      | _ \<Rightarrow> (case exc_headers e of Some hs \<Rightarrow> hs | None \<Rightarrow> []))"

definition retry_after :: "py_exc \<Rightarrow> py_error + pynum option" where
  "retry_after e =
     (let hs = exc_header_dict e in
      if hs = [] then Inr None
      else
        let capital = map_of hs ''Retry-After'';
            value = (case capital of Some (HVal True _) \<Rightarrow> capital | _ \<Rightarrow> map_of hs ''retry-after'')
        in case value of
             None \<Rightarrow> Inr None
           | Some (HVal _ (Inr d)) \<Rightarrow> Inr (Some (py_max d (Num 0)))
           | Some (HVal _ (Inl x)) \<Rightarrow> if x = TypeError \<or> x = ValueError then Inr None else Inl x)"

section \<open>VenueCircuitBreaker\<close>

record breaker =
  failure_threshold :: nat
  base_backoff_s :: real
  max_backoff_s :: real
  consecutive_failures :: nat
  retry_at :: real
  rate_limited :: bool
  tripped :: bool
  last_error :: "string option"
  last_failure_kind :: "string option"

definition new_breaker :: "nat \<Rightarrow> real \<Rightarrow> real \<Rightarrow> breaker" where
  "new_breaker threshold base maxb =
     \<lparr>failure_threshold = threshold, base_backoff_s = base, max_backoff_s = maxb,
      consecutive_failures = 0, retry_at = 0, rate_limited = False, tripped = False,
      last_error = None, last_failure_kind = None\<rparr>"

definition allow_request :: "breaker \<Rightarrow> real \<Rightarrow> bool" where
  "allow_request b now = (retry_at b \<le> now)"

definition is_open :: "breaker \<Rightarrow> real \<Rightarrow> bool" where
  "is_open b now = (tripped b \<and> \<not> allow_request b now)"

text \<open>The real behind a finite value; \<open>delay_of_finite\<close> below shows it is only used on one.\<close>

fun finite_value :: "pynum \<Rightarrow> real" where
  "finite_value (Num x) = x"
| "finite_value _ = 0"

definition backoff_delay :: "real \<Rightarrow> pynum option \<Rightarrow> real \<Rightarrow> real" where
  "backoff_delay exponential header_delay maxb =
     finite_value (py_min (py_max (Num exponential)
       (case header_delay of None \<Rightarrow> Num 0 | Some d \<Rightarrow> d)) (Num maxb))"

text \<open>
  The state is written before each call that can raise, so an exception leaves a partly
  updated breaker behind: \<open>2 ** (n - 1)\<close> is an unbounded int that has to become a float.
\<close>

definition failure_kind :: "bool \<Rightarrow> py_exc \<Rightarrow> string" where
  "failure_kind limited e =
     (if limited then ''rate_limit'' else if exc_is_timeout e then ''timeout'' else ''transport'')"

definition record_failure :: "breaker \<Rightarrow> real \<Rightarrow> py_exc \<Rightarrow> breaker \<times> (py_error + real)" where
  "record_failure b now e =
     (let n = Suc (consecutive_failures b);
          b1 = b\<lparr>consecutive_failures := n\<rparr>
      in case is_rate_limit_error e of
           Inl x \<Rightarrow> (b1, Inl x)
         | Inr limited \<Rightarrow>
             let b2 = b1\<lparr>rate_limited := limited,
                        tripped := limited \<or> failure_threshold b \<le> n,
                        last_error := Some (exc_type e @ '': '' @ exc_text e),
                        last_failure_kind := Some (failure_kind limited e)\<rparr>
             in case float_of_int (2 ^ (n - 1)) of
                  Inl x \<Rightarrow> (b2, Inl x)
                | Inr p \<Rightarrow>
                    (case (if limited then retry_after e else Inr None) of
                       Inl x \<Rightarrow> (b2, Inl x)
                     | Inr header_delay \<Rightarrow>
                         let delay = backoff_delay (min (base_backoff_s b * p) (max_backoff_s b))
                                       header_delay (max_backoff_s b)
                         in (b2\<lparr>retry_at := now + delay\<rparr>, Inr delay)))"

definition record_success :: "breaker \<Rightarrow> breaker" where
  "record_success b =
     b\<lparr>consecutive_failures := 0, retry_at := 0, rate_limited := False, tripped := False,
       last_error := None, last_failure_kind := None\<rparr>"

datatype circuit_state = Open | HalfOpen | Backoff | Closed

record breaker_snapshot =
  snap_state :: circuit_state
  snap_failures :: nat
  snap_retry_in :: real
  snap_rate_limited :: bool
  snap_kind :: "string option"
  snap_error :: "string option"

definition breaker_snap :: "breaker \<Rightarrow> real \<Rightarrow> breaker_snapshot" where
  "breaker_snap b now =
     (let blocked = \<not> allow_request b now
      in \<lparr>snap_state = (if tripped b \<and> blocked then Open else if tripped b then HalfOpen
                        else if blocked then Backoff else Closed),
          snap_failures = consecutive_failures b,
          snap_retry_in = max (retry_at b - now) 0,
          snap_rate_limited = rate_limited b,
          snap_kind = last_failure_kind b,
          snap_error = last_error b\<rparr>)"

section \<open>QuoteLivenessWatchdog\<close>

record watchdog =
  timeout_s :: real
  recovery_cooldown_s :: real
  missing_since :: "real option"
  last_live_at :: "real option"
  open_until :: real
  trips :: nat
  expected_sides :: "side list"
  live_sides :: "side list"

definition new_watchdog :: "real \<Rightarrow> real \<Rightarrow> watchdog" where
  "new_watchdog timeout cooldown =
     \<lparr>timeout_s = timeout, recovery_cooldown_s = cooldown, missing_since = None,
      last_live_at = None, open_until = 0, trips = 0, expected_sides = [], live_sides = []\<rparr>"

definition allow_quotes :: "watchdog \<Rightarrow> real \<Rightarrow> bool" where
  "allow_quotes w now = (open_until w \<le> now)"

definition observe :: "watchdog \<Rightarrow> real \<Rightarrow> side set \<Rightarrow> side set \<Rightarrow> watchdog \<times> bool" where
  "observe w now expected live =
     (let w0 = w\<lparr>expected_sides := sorted_list_of_set expected,
                live_sides := sorted_list_of_set live\<rparr>
      in if expected = {} then (w0\<lparr>missing_since := None\<rparr>, False)
         else if \<not> allow_quotes w0 now then (w0, True)
         else
           let w1 = (if open_until w0 \<noteq> 0 then w0\<lparr>open_until := 0, missing_since := None\<rparr> else w0)
           in if expected \<subseteq> live then (w1\<lparr>last_live_at := Some now, missing_since := None\<rparr>, False)
              else case missing_since w1 of
                     None \<Rightarrow> (w1\<lparr>missing_since := Some now\<rparr>, False)
                   | Some m \<Rightarrow>
                       if now - m < timeout_s w then (w1, False)
                       else (w1\<lparr>trips := Suc (trips w1),
                               open_until := now + recovery_cooldown_s w\<rparr>, True))"

definition suspend :: "watchdog \<Rightarrow> watchdog" where
  "suspend w = w\<lparr>missing_since := None, expected_sides := [], live_sides := []\<rparr>"

definition trip :: "watchdog \<Rightarrow> real \<Rightarrow> side set \<Rightarrow> side set \<Rightarrow> watchdog" where
  "trip w now expected live =
     w\<lparr>expected_sides := sorted_list_of_set expected, live_sides := sorted_list_of_set live,
       missing_since := None, trips := Suc (trips w),
       open_until := max (open_until w) (now + recovery_cooldown_s w)\<rparr>"

datatype quote_state = QOpen | QMissing | QLive | QIdle

record watchdog_snapshot =
  wsnap_state :: quote_state
  wsnap_expected :: "side list"
  wsnap_live :: "side list"
  wsnap_missing_for :: real
  wsnap_last_live :: "real option"
  wsnap_retry_in :: real
  wsnap_trips :: nat

definition watchdog_snap :: "watchdog \<Rightarrow> real \<Rightarrow> watchdog_snapshot" where
  "watchdog_snap w now =
     \<lparr>wsnap_state = (if \<not> allow_quotes w now then QOpen
                     else if missing_since w \<noteq> None then QMissing
                     else if last_live_at w \<noteq> None then QLive else QIdle),
      wsnap_expected = expected_sides w,
      wsnap_live = live_sides w,
      wsnap_missing_for = (case missing_since w of Some m \<Rightarrow> max (now - m) 0 | None \<Rightarrow> 0),
      wsnap_last_live = last_live_at w,
      wsnap_retry_in = max (open_until w - now) 0,
      wsnap_trips = trips w\<rparr>"

section \<open>Facts about the breaker\<close>

lemmas breaker_defs = allow_request_def record_success_def breaker_snap_def is_open_def

definition breaker_ok :: "breaker \<Rightarrow> bool" where
  "breaker_ok b = (0 \<le> base_backoff_s b \<and> 0 \<le> max_backoff_s b)"

lemma backoff_delay_finite:
  "py_min (py_max (Num a) y) (Num m) = Num (finite_value (py_min (py_max (Num a) y) (Num m)))"
  using py_min_max_Num[of a y m] by auto

lemma delay_of_finite:
  "Num (backoff_delay a h m) =
     py_min (py_max (Num a) (case h of None \<Rightarrow> Num 0 | Some d \<Rightarrow> d)) (Num m)"
  unfolding backoff_delay_def using backoff_delay_finite by simp

lemma backoff_delay_bounds:
  "min a m \<le> backoff_delay a h m" "backoff_delay a h m \<le> m"
  using py_min_max_Num[of a "case h of None \<Rightarrow> Num 0 | Some d \<Rightarrow> d" m]
  by (auto simp: backoff_delay_def)

lemma backoff_delay_None:
  "0 \<le> a \<Longrightarrow> backoff_delay a None m = min a m"
  by (simp add: backoff_delay_def max_def)

lemma backoff_delay_header:
  "a \<le> h \<Longrightarrow> h \<le> m \<Longrightarrow> backoff_delay a (Some (Num h)) m = h"
  by (simp add: backoff_delay_def max_def min_def)

text \<open>Every way out of \<open>record_failure\<close>: the exception it raises, or the delay it returns.\<close>

lemma record_failure_result:
  "record_failure b now e = (b', Inr d) \<longleftrightarrow>
     (\<exists>limited h. is_rate_limit_error e = Inr limited
        \<and> (if limited then retry_after e else Inr None) = Inr h
        \<and> consecutive_failures b < 1024
        \<and> d = backoff_delay (min (base_backoff_s b * 2 ^ consecutive_failures b) (max_backoff_s b))
                 h (max_backoff_s b)
        \<and> b' = b\<lparr>consecutive_failures := Suc (consecutive_failures b),
                  rate_limited := limited,
                  tripped := limited \<or> failure_threshold b \<le> Suc (consecutive_failures b),
                  last_error := Some (exc_type e @ '': '' @ exc_text e),
                  last_failure_kind := Some (failure_kind limited e),
                  retry_at := now + d\<rparr>)"
  by (auto simp: record_failure_def float_of_int_pow2 Let_def split: sum.splits if_splits)

lemma record_failure_returns:
  assumes "is_rate_limit_error e = Inr limited" "(if limited then retry_after e else Inr None) = Inr h"
    "consecutive_failures b < 1024"
    "d = backoff_delay (min (base_backoff_s b * 2 ^ consecutive_failures b) (max_backoff_s b))
           h (max_backoff_s b)"
  obtains b' where "record_failure b now e = (b', Inr d)" "retry_at b' = now + d"
    "consecutive_failures b' = Suc (consecutive_failures b)"
    "tripped b' \<longleftrightarrow> limited \<or> failure_threshold b \<le> Suc (consecutive_failures b)"
  using assms by (simp add: record_failure_def float_of_int_pow2 Let_def)

lemma record_failure_raise:
  assumes "record_failure b now e = (b', Inl x)"
  shows "retry_at b' = retry_at b" "base_backoff_s b' = base_backoff_s b"
    "max_backoff_s b' = max_backoff_s b"
  using assms by (auto simp: record_failure_def Let_def split: sum.splits if_splits)

lemma record_failure_params:
  "base_backoff_s (fst (record_failure b now e)) = base_backoff_s b"
  "max_backoff_s (fst (record_failure b now e)) = max_backoff_s b"
  by (auto simp: record_failure_def Let_def split: sum.splits)

interpretation cb: timed_gate allow_request retry_at
  by unfold_locales (simp add: allow_request_def)

interpretation vcb: request_circuit allow_request retry_at breaker_ok record_failure record_success
proof unfold_locales
  fix s s' t d x and e :: py_exc
  show "record_failure s t e = (s', Inr d) \<Longrightarrow> retry_at s' = t + d"
    by (auto simp: record_failure_result)
  show "0 \<le> d" if "breaker_ok s" "record_failure s t e = (s', Inr d)"
  proof -
    have "min (min (base_backoff_s s * 2 ^ consecutive_failures s) (max_backoff_s s)) (max_backoff_s s) \<le> d"
      using that(2) backoff_delay_bounds(1)
        [of "min (base_backoff_s s * 2 ^ consecutive_failures s) (max_backoff_s s)" "max_backoff_s s"]
      by (auto simp: record_failure_result simp del: min.absorb1 min.absorb2)
    moreover have "0 \<le> base_backoff_s s * 2 ^ consecutive_failures s"
      using that(1) by (simp add: breaker_ok_def)
    ultimately show ?thesis
      using that(1) unfolding breaker_ok_def by linarith
  qed
  show "record_failure s t e = (s', Inl x) \<Longrightarrow> retry_at s' = retry_at s"
    by (rule record_failure_raise)
  show "breaker_ok s \<Longrightarrow> breaker_ok (fst (record_failure s t e))"
    by (simp add: breaker_ok_def record_failure_params)
qed (simp_all add: allow_request_def record_success_def breaker_ok_def)

section \<open>Facts about the watchdog\<close>

lemmas watchdog_defs = allow_quotes_def observe_def suspend_def trip_def

interpretation wd: quote_gate allow_quotes open_until recovery_cooldown_s observe suspend trip
proof unfold_locales
  fix s t e l
  show "\<not> snd (observe s t e l) \<Longrightarrow> allow_quotes s t \<Longrightarrow> 0 \<le> t \<Longrightarrow>
      allow_quotes (fst (observe s t e l)) t"
    by (auto simp: watchdog_defs Let_def split: option.splits if_splits)
qed (auto simp: watchdog_defs Let_def split: option.splits if_splits)

text \<open>
  The specification of the watchdog's timer: over a history of observations, the time since
  which every observation has missed a side.  Observations that expect nothing, or that see
  every expected side live, end the streak.
\<close>

type_synonym observation = "real \<times> side set \<times> side set"

definition misses :: "observation \<Rightarrow> bool" where
  "misses ob = (case ob of (t, expected, live) \<Rightarrow> expected \<noteq> {} \<and> \<not> expected \<subseteq> live)"

fun streak_start :: "observation list \<Rightarrow> real option" where
  "streak_start [] = None"
| "streak_start (ob # earlier) =
     (if misses ob then (case streak_start earlier of None \<Rightarrow> Some (fst ob) | Some m \<Rightarrow> Some m)
      else None)"

fun watch :: "watchdog \<Rightarrow> observation list \<Rightarrow> watchdog \<times> bool list" where
  "watch w [] = (w, [])"
| "watch w (ob # obs) =
     (let (w', tripped_now) = observe w (fst ob) (fst (snd ob)) (snd (snd ob));
          (w'', rest) = watch w' obs
      in (w'', tripped_now # rest))"

lemma streak_start_Some:
  "streak_start earlier = Some m \<Longrightarrow>
     \<exists>recent ob older. earlier = recent @ ob # older \<and> fst ob = m \<and> list_all misses (recent @ [ob])"
proof (induction earlier)
  case (Cons a xs)
  then have a: "misses a"
    by (auto split: if_splits)
  show ?case
  proof (cases "streak_start xs")
    case None
    with Cons.prems a have "a # xs = [] @ a # xs" "fst a = m" "list_all misses ([] @ [a])"
      by auto
    then show ?thesis by blast
  next
    case (Some k)
    with Cons.prems a have "k = m" by simp
    with Cons.IH Some obtain recent ob older where
      "xs = recent @ ob # older" "fst ob = m" "list_all misses (recent @ [ob])" by blast
    then have "a # xs = (a # recent) @ ob # older" "fst ob = m" "list_all misses ((a # recent) @ [ob])"
      using a by auto
    then show ?thesis by blast
  qed
qed simp

text \<open>One observation of a closed circuit follows the specification.\<close>

lemma observe_closed:
  assumes "open_until w = 0" "0 \<le> t"
  shows "snd (observe w t e l) \<longleftrightarrow>
           misses (t, e, l) \<and> (\<exists>m. missing_since w = Some m \<and> timeout_s w \<le> t - m)"
    and "\<not> snd (observe w t e l) \<Longrightarrow> open_until (fst (observe w t e l)) = 0"
    and "\<not> snd (observe w t e l) \<Longrightarrow> missing_since (fst (observe w t e l)) =
           (if misses (t, e, l) then
              (case missing_since w of None \<Rightarrow> Some t | Some m \<Rightarrow> Some m) else None)"
    and "timeout_s (fst (observe w t e l)) = timeout_s w"
  using assms
  by (auto simp: watchdog_defs misses_def Let_def not_less split: option.splits if_splits)

lemma watch_closed:
  assumes "open_until w = 0" "missing_since w = streak_start earlier"
    "\<forall>ob \<in> set obs. 0 \<le> fst ob" "True \<notin> set (snd (watch w obs))"
  shows "open_until (fst (watch w obs)) = 0
    \<and> missing_since (fst (watch w obs)) = streak_start (rev obs @ earlier)
    \<and> timeout_s (fst (watch w obs)) = timeout_s w"
  using assms
proof (induction obs arbitrary: w earlier)
  case (Cons ob obs)
  obtain t e l where ob: "ob = (t, e, l)" by (cases ob)
  let ?w = "fst (observe w t e l)"
  have t: "0 \<le> t" and quiet: "\<not> snd (observe w t e l)"
    and rest: "True \<notin> set (snd (watch ?w obs))"
    using Cons.prems by (auto simp: ob Let_def split: prod.splits)
  note closed = observe_closed[OF Cons.prems(1) t, of e l]
  have "missing_since ?w = streak_start (ob # earlier)"
    using closed(3)[OF quiet] Cons.prems(2) by (simp add: ob split: option.splits)
  from Cons.IH[OF closed(2)[OF quiet] this _ rest] Cons.prems(3) closed(4) show ?case
    by (simp add: ob case_prod_beta)
qed simp

section \<open>Calls on an open circuit\<close>

datatype wd_call = CallObserve real "side set" "side set" | CallSuspend | CallTrip real "side set" "side set"

fun call_time :: "wd_call \<Rightarrow> real option" where
  "call_time (CallObserve t _ _) = Some t"
| "call_time CallSuspend = None"
| "call_time (CallTrip t _ _) = Some t"

fun wd_apply :: "watchdog \<Rightarrow> wd_call \<Rightarrow> watchdog" where
  "wd_apply w (CallObserve t e l) = fst (observe w t e l)"
| "wd_apply w CallSuspend = suspend w"
| "wd_apply w (CallTrip t e l) = trip w t e l"

lemma wd_apply_blocked:
  assumes "\<forall>t. call_time c = Some t \<longrightarrow> t < open_until w"
  shows "open_until w \<le> open_until (wd_apply w c)"
proof (cases c)
  case (CallObserve t e l)
  with assms have "\<not> allow_quotes w t" by (simp add: allow_quotes_def)
  then show ?thesis by (simp add: CallObserve wd.observe_blocked)
qed (simp_all add: wd.suspend_reopen wd.trip_reopen)

lemma wd_apply_all_blocked:
  assumes "r \<le> open_until w" "\<forall>c \<in> set cs. \<forall>t. call_time c = Some t \<longrightarrow> t < r"
  shows "r \<le> open_until (foldl wd_apply w cs)"
  using assms
proof (induction cs arbitrary: w)
  case (Cons c cs)
  then have "r \<le> open_until (wd_apply w c)"
    using wd_apply_blocked[of c w] by force
  with Cons show ?case by simp
qed simp

lemma failures_count:
  assumes "is_rate_limit_error e = Inr False"
  shows "consecutive_failures (foldl (\<lambda>b t. fst (record_failure b t e)) b ts)
           = consecutive_failures b + length ts"
proof (induction ts arbitrary: b)
  case (Cons t ts)
  have "consecutive_failures (fst (record_failure b t e)) = Suc (consecutive_failures b)"
    using assms by (simp add: record_failure_def Let_def split: sum.splits)
  then show ?case by (simp add: Cons.IH)
qed simp

section \<open>Properties\<close>

text \<open>A transport error, for the witnesses: no status, no headers, a message without a rate limit.\<close>

definition reset_error :: py_exc where
  "reset_error =
     \<lparr>exc_type = ''ConnectionError'', exc_text = ''reset'', exc_is_timeout = False,
      exc_status = None, exc_status_code = None, exc_resp_status = None,
      exc_resp_status_code = None, exc_resp_headers = None, exc_headers = None\<rparr>"

definition throttle_error :: py_exc where
  "throttle_error = reset_error\<lparr>exc_text := ''HTTP 429: Too Many Requests'',
     exc_headers := Some [(''Retry-After'', HVal True (Inr (Num 30)))]\<rparr>"

lemma reset_error_kind: "is_rate_limit_error reset_error = Inr False"
  by code_simp

lemma throttle_error_kind: "is_rate_limit_error throttle_error = Inr True"
  by code_simp

lemma throttle_error_header: "retry_after throttle_error = Inr (Some (Num 30))"
  by (simp add: retry_after_def throttle_error_def exc_header_dict_def reset_error_def)

text \<open>a transport failure doubles the wait from the base up to the cap, closes the gate for
  exactly that long, and trips the breaker from the configured number of consecutive failures on.\<close>

theorem record_failure_backs_off:
  assumes "breaker_ok b" "is_rate_limit_error e = Inr False" "consecutive_failures b < 1024"
  shows "\<exists>b' d. record_failure b now e = (b', Inr d)
    \<and> d = min (base_backoff_s b * 2 ^ consecutive_failures b) (max_backoff_s b)
    \<and> (\<forall>t. allow_request b' t \<longleftrightarrow> now + d \<le> t)
    \<and> consecutive_failures b' = Suc (consecutive_failures b)
    \<and> (tripped b' \<longleftrightarrow> failure_threshold b \<le> Suc (consecutive_failures b))"
proof -
  let ?a = "min (base_backoff_s b * 2 ^ consecutive_failures b) (max_backoff_s b)"
  have "0 \<le> ?a"
    using assms(1) by (simp add: breaker_ok_def)
  then have "backoff_delay ?a None (max_backoff_s b) = ?a"
    using backoff_delay_None[of ?a] by simp
  then show ?thesis
    using record_failure_returns[OF assms(2) _ assms(3) refl, of None now]
    by (simp add: allow_request_def) metis
qed

theorem record_failure_backs_off_witness:
  "\<exists>b' d. record_failure (new_breaker 3 2 60) 100 reset_error = (b', Inr d) \<and> d = 2
     \<and> (\<forall>t. allow_request b' t \<longleftrightarrow> 100 + d \<le> t)"
proof -
  have "breaker_ok (new_breaker 3 2 60)" "consecutive_failures (new_breaker 3 2 60) < 1024"
    by (simp_all add: breaker_ok_def new_breaker_def)
  from record_failure_backs_off[OF this(1) reset_error_kind this(2), of 100]
  show ?thesis by (simp add: new_breaker_def) blast
qed

text \<open>one rate-limit error opens the circuit at once; the wait honours a Retry-After header
  up to the cap and never drops below the exponential backoff.\<close>

theorem rate_limit_opens_circuit:
  assumes "is_rate_limit_error e = Inr True" "retry_after e = Inr h" "consecutive_failures b < 1024"
  shows "\<exists>b' d. record_failure b now e = (b', Inr d)
    \<and> min (base_backoff_s b * 2 ^ consecutive_failures b) (max_backoff_s b) \<le> d
    \<and> d \<le> max_backoff_s b
    \<and> (\<forall>s. h = Some (Num s) \<longrightarrow> min s (max_backoff_s b) \<le> d)
    \<and> (\<forall>t. is_open b' t \<longleftrightarrow> t < now + d)"
proof -
  let ?m = "max_backoff_s b"
  let ?a = "min (base_backoff_s b * 2 ^ consecutive_failures b) ?m"
  have "min s ?m \<le> backoff_delay ?a (Some (Num s)) ?m" for s
    by (simp add: backoff_delay_def)
  moreover have "?a \<le> backoff_delay ?a h ?m"
    using backoff_delay_bounds(1)[of ?a ?m h] by simp
  moreover obtain b' where "record_failure b now e = (b', Inr (backoff_delay ?a h ?m))"
    "retry_at b' = now + backoff_delay ?a h ?m" "tripped b'"
    using record_failure_returns[OF assms(1) _ assms(3) refl, of h now] assms(2) by auto
  ultimately show ?thesis
    using backoff_delay_bounds(2)[of ?a h ?m]
    by (intro exI[of _ b'] exI[of _ "backoff_delay ?a h ?m"])
       (auto simp: is_open_def allow_request_def not_le)
qed

theorem rate_limit_opens_circuit_witness:
  "\<exists>b' d. record_failure (new_breaker 3 2 60) 100 throttle_error = (b', Inr d) \<and> 30 \<le> d \<and> d \<le> 60
     \<and> (\<forall>t. is_open b' t \<longleftrightarrow> t < 100 + d)"
proof -
  have "consecutive_failures (new_breaker 3 2 60) < 1024"
    by (simp add: new_breaker_def)
  from rate_limit_opens_circuit[OF throttle_error_kind throttle_error_header this, of 100]
  show ?thesis by (fastforce simp: new_breaker_def)
qed

text \<open>a run of consecutive transport failures ends in an OverflowError exactly from the
  1025th failure on, and that failure leaves the reopening time as it was, so the backoff is lost.\<close>

theorem long_outage_overflows:
  assumes "is_rate_limit_error e = Inr False"
  shows "let b = foldl (\<lambda>b t. fst (record_failure b t e)) (new_breaker threshold base maxb) ts
    in (snd (record_failure b now e) = Inl OverflowError \<longleftrightarrow> 1024 \<le> length ts)
      \<and> (1024 \<le> length ts \<longrightarrow> retry_at (fst (record_failure b now e)) = retry_at b)"
  using failures_count[OF assms, of "new_breaker threshold base maxb" ts] assms
  by (simp add: Let_def new_breaker_def record_failure_def float_of_int_pow2 split: sum.splits)

theorem long_outage_overflows_witness:
  "snd (record_failure (foldl (\<lambda>b t. fst (record_failure b t reset_error)) (new_breaker 3 2 60)
      (replicate 1024 0)) 5 reset_error) = Inl OverflowError"
  using long_outage_overflows[OF reset_error_kind, of 3 2 60 "replicate 1024 0" 5] by (simp add: Let_def)

text \<open>C15: over any history without a trip the watchdog's timer is the start of the current streak
  of observations that missed an expected side, and the next observation trips exactly when that
  streak is at least the timeout old.\<close>

theorem watchdog_follows_history:
  assumes "open_until w = 0" "missing_since w = None" "\<forall>ob \<in> set obs. 0 \<le> fst ob" "0 \<le> t"
    "True \<notin> set (snd (watch w obs))"
  shows "missing_since (fst (watch w obs)) = streak_start (rev obs)
    \<and> (snd (observe (fst (watch w obs)) t e l) \<longleftrightarrow>
        misses (t, e, l) \<and> (\<exists>m. streak_start (rev obs) = Some m \<and> timeout_s w \<le> t - m))"
  using watch_closed[of w "[]" obs] observe_closed(1)[of "fst (watch w obs)" t e l] assms by simp

theorem watchdog_follows_history_witness:
  "snd (observe (fst (watch (new_watchdog 15 30) [(1, {Buy, Sell}, {Buy})])) 16 {Buy, Sell} {})"
proof -
  have q: "True \<notin> set (snd (watch (new_watchdog 15 30) [(1, {Buy, Sell}, {Buy})]))"
    by (simp add: new_watchdog_def observe_def allow_quotes_def Let_def)
  have "open_until (new_watchdog 15 30) = 0" "missing_since (new_watchdog 15 30) = None"
    by (simp_all add: new_watchdog_def)
  from watchdog_follows_history[OF this _ _ q, of 16 "{Buy, Sell}" "{}"]
  show ?thesis by (simp add: misses_def new_watchdog_def)
qed

text \<open>while the circuit is open no sequence of observations, suspensions and further trips
  made before the reopening time lets a quote through before it.\<close>

theorem cooldown_cannot_be_cut_short:
  assumes "\<forall>c \<in> set cs. \<forall>t. call_time c = Some t \<longrightarrow> t < open_until w" "u < open_until w"
  shows "\<not> allow_quotes (foldl wd_apply w cs) u"
  using wd_apply_all_blocked[OF order_refl assms(1)] assms(2) wd.blocked_before by fastforce

theorem cooldown_cannot_be_cut_short_witness:
  "\<not> allow_quotes (foldl wd_apply (trip (new_watchdog 15 30) 100 {} {})
      [CallObserve 110 {Buy} {Buy}, CallSuspend]) 129"
proof -
  have "open_until (trip (new_watchdog 15 30) 100 {} {}) = 130"
    by (simp add: trip_def new_watchdog_def)
  then show ?thesis
    using cooldown_cannot_be_cut_short
      [of "[CallObserve 110 {Buy} {Buy}, CallSuspend]" "trip (new_watchdog 15 30) 100 {} {}" 129]
    by simp
qed

end
