(* ===== verification/PerpBridge.thy ===== *)
theory PerpBridge imports Interfaces begin

text \<open>
  \<open>src/opms/controllers/generic/perp_mm_bridge.py\<close>: the keeper's decision as plain order
  instructions, and \<open>InProcessClient\<close>, the in-process stand-in for the OPMS client.

  \<open>ExecIntent\<close>, \<open>PortfolioExecIntent\<close> and the portfolio gate belong to mm_core, which is
  not in this repository: an intent is the record of the fields the bridge reads, its
  \<open>validation_errors\<close> and the gate's \<open>admit\<close> and \<open>commit\<close> are parameters.
\<close>

section \<open>Data\<close>

datatype urgency = Passive | Normal | Immediate | Emergency

record quote =
  bid_price :: "real option"
  bid_size :: real
  ask_price :: "real option"
  ask_size :: real

record exec_intent =
  in_venue :: string
  in_coin :: string
  in_account :: string
  target_inventory :: real
  current_inventory :: "real option"
  in_quote :: "quote option"
  in_urgency :: urgency

record position =
  pos_position :: real
  pos_equity :: pynum
  pos_margin_available :: real

record order_spec =
  os_side :: "side option"
  os_price :: "real option"
  os_amount :: real
  os_reduce_only :: bool
  os_urgency :: urgency

record execution_request =
  rq_side :: side
  rq_amount :: real
  rq_urgency :: urgency
  rq_reduce_only :: bool

text \<open>Inventories closer than this count as equal: the bridge's \<open>1e-12\<close>.\<close>

abbreviation dust :: real where
  "dust \<equiv> 1 / 10 ^ 12"

section \<open>Routing an intent\<close>

definition intent_is_quoting :: "exec_intent option \<Rightarrow> bool" where
  "intent_is_quoting intent = (case intent of None \<Rightarrow> False | Some i \<Rightarrow> in_quote i \<noteq> None)"

definition current_or_zero :: "exec_intent \<Rightarrow> real" where
  "current_or_zero i = (case current_inventory i of Some c \<Rightarrow> c | None \<Rightarrow> 0)"

definition intent_to_execution_request :: "exec_intent option \<Rightarrow> execution_request option" where
  "intent_to_execution_request intent =
     (case intent of
        None \<Rightarrow> None
      | Some i \<Rightarrow>
          if in_quote i \<noteq> None then None
          else let gap = target_inventory i - current_or_zero i in
            if \<bar>gap\<bar> < dust then None
            else Some \<lparr>rq_side = (if gap > 0 then Buy else Sell), rq_amount = \<bar>gap\<bar>,
                       rq_urgency = in_urgency i, rq_reduce_only = True\<rparr>)"

definition intent_to_order_specs :: "exec_intent option \<Rightarrow> order_spec list" where
  "intent_to_order_specs intent =
     (case intent of
        None \<Rightarrow> []
      | Some i \<Rightarrow>
          (case in_quote i of
             None \<Rightarrow> []
           | Some q \<Rightarrow>
               let current = current_or_zero i in
               (if bid_price q \<noteq> None \<and> bid_size q > 0
                then [\<lparr>os_side = Some Buy, os_price = bid_price q, os_amount = bid_size q,
                       os_reduce_only = (current < 0), os_urgency = in_urgency i\<rparr>] else [])
             @ (if ask_price q \<noteq> None \<and> ask_size q > 0
                then [\<lparr>os_side = Some Sell, os_price = ask_price q, os_amount = ask_size q,
                       os_reduce_only = (current > 0), os_urgency = in_urgency i\<rparr>] else [])))"

section \<open>InProcessClient\<close>

record ('p, 'g) client =
  cl_positions :: "string \<Rightarrow> position option"
  last_intent :: "exec_intent option"
  last_portfolio_intent :: "'p option"
  portfolio_gate :: 'g

definition at_target :: "(string \<Rightarrow> position option) \<Rightarrow> exec_intent \<Rightarrow> bool" where
  "at_target ps i =
     (case ps (in_coin i) of
        Some p \<Rightarrow> \<bar>pos_position p - target_inventory i\<bar> < dust
      | None \<Rightarrow> False)"

definition set_positions ::
  "('p, 'g) client \<Rightarrow> (string \<Rightarrow> position option) \<Rightarrow> ('p, 'g) client" where
  "set_positions c ps =
     (let c' = c\<lparr>cl_positions := ps\<rparr> in
      case last_intent c of
        None \<Rightarrow> c'
      | Some i \<Rightarrow> if in_quote i = None \<and> at_target ps i then c'\<lparr>last_intent := None\<rparr> else c')"

text \<open>\<open>{"immediate": 1, "emergency": 2}.get(urgency, 0)\<close>\<close>

fun priority :: "urgency \<Rightarrow> nat" where
  "priority Immediate = 1"
| "priority Emergency = 2"
| "priority _ = 0"

text \<open>The accepted intent still has work to do: not quoting, its position known and off target.\<close>

definition holding :: "('p, 'g) client \<Rightarrow> exec_intent option" where
  "holding c =
     (case last_intent c of
        None \<Rightarrow> None
      | Some i \<Rightarrow>
          (case cl_positions c (in_coin i) of
             None \<Rightarrow> None
           | Some p \<Rightarrow>
               if in_quote i = None \<and> dust \<le> \<bar>pos_position p - target_inventory i\<bar>
               then Some i else None))"

definition send_exec_intent ::
  "(exec_intent \<Rightarrow> string list) \<Rightarrow> ('p, 'g) client \<Rightarrow> exec_intent \<Rightarrow> py_error + ('p, 'g) client" where
  "send_exec_intent validation_errors c i =
     (if validation_errors i \<noteq> [] then Inl ValueError
      else case holding c of
             Some cur \<Rightarrow>
               if in_quote i \<noteq> None \<or> priority (in_urgency i) < priority (in_urgency cur)
               then Inr c
               else Inr (c\<lparr>last_intent := Some i\<rparr>)
           | None \<Rightarrow> Inr (c\<lparr>last_intent := Some i\<rparr>))"

datatype admission_status = Rejected | Duplicate | Admitted

record 'a admission =
  adm_status :: admission_status
  adm_errors :: "string list"
  adm_previous :: "string list option"
  adm_token :: 'a

datatype portfolio_reply =
    ReplyRejected "string list"
  | ReplyDuplicate "string list"
  | ReplyShadowAccepted

definition send_portfolio_intent ::
  "('g \<Rightarrow> 'p \<Rightarrow> real \<Rightarrow> 'g \<times> 'a admission) \<Rightarrow> ('g \<Rightarrow> 'a admission \<Rightarrow> 'g) \<Rightarrow> real
     \<Rightarrow> ('p, 'g) client \<Rightarrow> 'p \<Rightarrow> ('p, 'g) client \<times> portfolio_reply" where
  "send_portfolio_intent admit commit now c i =
     (let (g, adm) = admit (portfolio_gate c) i now; c1 = c\<lparr>portfolio_gate := g\<rparr> in
      case adm_status adm of
        Rejected \<Rightarrow> (c1, ReplyRejected (adm_errors adm))
      | Duplicate \<Rightarrow>
          (c1, ReplyDuplicate (case adm_previous adm of Some ids \<Rightarrow> ids | None \<Rightarrow> []))
      | Admitted \<Rightarrow>
          (c1\<lparr>last_portfolio_intent := Some i, portfolio_gate := commit g adm\<rparr>, ReplyShadowAccepted))"

datatype 'p any_intent = Single exec_intent | Grouped 'p

definition send_intent ::
  "(exec_intent \<Rightarrow> string list) \<Rightarrow> ('g \<Rightarrow> 'p \<Rightarrow> real \<Rightarrow> 'g \<times> 'a admission)
     \<Rightarrow> ('g \<Rightarrow> 'a admission \<Rightarrow> 'g) \<Rightarrow> real \<Rightarrow> ('p, 'g) client \<Rightarrow> 'p any_intent
     \<Rightarrow> py_error + ('p, 'g) client \<times> portfolio_reply option" where
  "send_intent validation_errors admit commit now c any =
     (case any of
        Grouped p \<Rightarrow> (let (c', r) = send_portfolio_intent admit commit now c p in Inr (c', Some r))
      | Single i \<Rightarrow>
          (case send_exec_intent validation_errors c i of
             Inl e \<Rightarrow> Inl e
           | Inr c' \<Rightarrow> Inr (c', None)))"

section \<open>The latch\<close>

text \<open>A refused intent raises and leaves the client as it was.\<close>

definition offer_intent ::
  "(exec_intent \<Rightarrow> string list) \<Rightarrow> ('p, 'g) client \<Rightarrow> exec_intent \<Rightarrow> ('p, 'g) client" where
  "offer_intent validation_errors c i =
     (case send_exec_intent validation_errors c i of Inl _ \<Rightarrow> c | Inr c' \<Rightarrow> c')"

text \<open>A quote ranks below every pending intent, whatever its urgency.\<close>

definition intent_rank :: "exec_intent \<Rightarrow> nat" where
  "intent_rank i = (if in_quote i \<noteq> None then 0 else Suc (priority (in_urgency i)))"

lemma holding_Some:
  "holding c = Some i \<longleftrightarrow> last_intent c = Some i \<and> in_quote i = None
     \<and> (\<exists>p. cl_positions c (in_coin i) = Some p \<and> dust \<le> \<bar>pos_position p - target_inventory i\<bar>)"
  by (auto simp: holding_def split: option.splits if_splits)

lemma holding_rank: "holding c = Some i \<Longrightarrow> 0 < intent_rank i"
  by (simp add: holding_Some intent_rank_def)

lemma offer_intent_cases:
  "offer_intent ve c j = c \<or>
     (offer_intent ve c j = c\<lparr>last_intent := Some j\<rparr> \<and> ve j = []
      \<and> (\<forall>i. holding c = Some i \<longrightarrow> intent_rank i \<le> intent_rank j))"
proof (cases "holding c")
  case None
  then show ?thesis
    by (simp add: offer_intent_def send_exec_intent_def)
next
  case (Some i)
  then have "in_quote i = None"
    by (simp add: holding_Some)
  with Some show ?thesis
    by (auto simp: offer_intent_def send_exec_intent_def intent_rank_def not_less)
qed

interpretation latch: intent_latch holding intent_rank "offer_intent ve" set_positions at_target
    "\<lambda>ps i. ps (in_coin i) \<noteq> None"
  for ve
proof unfold_locales
  fix c :: "('p, 'g) client" and i j
  assume h: "holding c = Some i"
  show "holding (offer_intent ve c j) = Some i
      \<or> (holding (offer_intent ve c j) = Some j \<and> intent_rank i \<le> intent_rank j)
      \<or> (holding (offer_intent ve c j) = None \<and> intent_rank i \<le> intent_rank j)"
    using offer_intent_cases[of ve c j] h by (auto simp: holding_def split: option.splits)
  show "intent_rank j < intent_rank i \<Longrightarrow> offer_intent ve c j = c"
    using offer_intent_cases[of ve c j] h by auto
  show "ps (in_coin i) \<noteq> None \<Longrightarrow> \<not> at_target ps i \<Longrightarrow> holding (set_positions c ps) = Some i" for ps
    using h by (auto simp: holding_Some set_positions_def at_target_def)
qed

section \<open>Properties\<close>

definition flatten_intent :: "string \<Rightarrow> real \<Rightarrow> urgency \<Rightarrow> exec_intent" where
  "flatten_intent coin current urg =
     \<lparr>in_venue = ''hyperliquid'', in_coin = coin, in_account = ''a'', target_inventory = 0,
      current_inventory = Some current, in_quote = None, in_urgency = urg\<rparr>"

definition two_sided :: "string \<Rightarrow> real \<Rightarrow> exec_intent" where
  "two_sided coin current =
     (flatten_intent coin current Normal)
       \<lparr>in_quote := Some \<lparr>bid_price = Some 99, bid_size = 1, ask_price = Some 101, ask_size = 1\<rparr>\<rparr>"

definition held_at :: "real \<Rightarrow> string \<Rightarrow> position option" where
  "held_at x = (\<lambda>coin. Some \<lparr>pos_position = x, pos_equity = Num 1000, pos_margin_available = 500\<rparr>)"

text \<open>a routed execution request moves the inventory exactly onto the target, is reduce-only
  and has a size above the dust bound; there is none exactly for quoting intents and closed gaps.\<close>

theorem execution_request_closes_gap:
  "case intent_to_execution_request (Some i) of
     Some r \<Rightarrow> in_quote i = None \<and> current_or_zero i + signed (rq_side r) (rq_amount r) = target_inventory i
       \<and> dust \<le> rq_amount r \<and> rq_reduce_only r \<and> rq_urgency r = in_urgency i
   | None \<Rightarrow> in_quote i \<noteq> None \<or> \<bar>target_inventory i - current_or_zero i\<bar> < dust"
  by (auto simp: intent_to_execution_request_def Let_def not_less split: option.splits)

theorem execution_request_closes_gap_witness:
  "intent_to_execution_request (Some (flatten_intent ''ETH'' 2 Emergency)) =
     Some \<lparr>rq_side = Sell, rq_amount = 2, rq_urgency = Emergency, rq_reduce_only = True\<rparr>
   \<and> current_or_zero (flatten_intent ''ETH'' 2 Emergency) + signed Sell 2 = 0"
  using execution_request_closes_gap[of "flatten_intent ''ETH'' 2 Emergency"]
  by (simp add: intent_to_execution_request_def flatten_intent_def current_or_zero_def)

text \<open>a quoting intent gives at most one leg per side, buy first, each of positive size at the
  intent's price, and a leg is reduce-only exactly when it trades against the inventory.\<close>

theorem order_specs_are_the_quote_legs:
  assumes "s \<in> set (intent_to_order_specs (Some i))"
  shows "distinct (map os_side (intent_to_order_specs (Some i)))
    \<and> (\<exists>q d. in_quote i = Some q \<and> os_side s = Some d \<and> 0 < os_amount s
        \<and> os_price s = (case d of Buy \<Rightarrow> bid_price q | Sell \<Rightarrow> ask_price q) \<and> os_price s \<noteq> None
        \<and> (os_reduce_only s \<longleftrightarrow> signed d (current_or_zero i) < 0))"
proof (cases "in_quote i")
  case (Some q)
  with assms show ?thesis
    by (auto simp: intent_to_order_specs_def Let_def split: if_splits)
qed (use assms in \<open>simp add: intent_to_order_specs_def\<close>)

theorem order_specs_are_the_quote_legs_witness:
  "distinct (map os_side (intent_to_order_specs (Some (two_sided ''ETH'' 2))))"
proof -
  have "\<exists>s. s \<in> set (intent_to_order_specs (Some (two_sided ''ETH'' 2)))"
    by (auto simp: intent_to_order_specs_def two_sided_def Let_def)
  then obtain s where "s \<in> set (intent_to_order_specs (Some (two_sided ''ETH'' 2)))" ..
  from order_specs_are_the_quote_legs[OF this] show ?thesis by blast
qed

text \<open>once the client holds a non-quoting intent whose position is off target, no sequence of
  position reports short of the target and of quotes or lower-ranked intents displaces it.\<close>

theorem pending_flatten_is_not_displaced:
  assumes "holding c = Some i"
    "\<forall>ps. Inl ps \<in> set xs \<longrightarrow> ps (in_coin i) \<noteq> None \<and> \<not> at_target ps i"
    "\<forall>j. Inr j \<in> set xs \<longrightarrow> in_quote j \<noteq> None \<or> priority (in_urgency j) < priority (in_urgency i)"
  shows "holding (client_run (offer_intent ve) set_positions c xs) = Some i"
proof (rule latch.run_keeps_pending[OF assms(1)])
  show "\<forall>j. Inr j \<in> set xs \<longrightarrow> intent_rank j < intent_rank i"
    using assms(3) holding_rank[OF assms(1)] assms(1) by (auto simp: intent_rank_def holding_Some)
qed (use assms(2) in auto)

definition latched_example :: "(unit, unit) client" where
  "latched_example =
     \<lparr>cl_positions = held_at 2, last_intent = Some (flatten_intent ''ETH'' 2 Emergency),
      last_portfolio_intent = None, portfolio_gate = ()\<rparr>"

theorem pending_flatten_is_not_displaced_witness:
  "holding (client_run (offer_intent (\<lambda>_. [])) set_positions latched_example
      [Inr (two_sided ''ETH'' 2), Inl (held_at 1), Inr (flatten_intent ''ETH'' 1 Immediate)])
     = Some (flatten_intent ''ETH'' 2 Emergency)"
  by (rule pending_flatten_is_not_displaced)
     (auto simp: holding_def latched_example_def held_at_def flatten_intent_def at_target_def two_sided_def)

text \<open>a position report releases the accepted intent exactly when the intent does not quote
  and the reported position of its coin is at the target; nothing else is changed.\<close>

theorem position_report_releases_at_target:
  "last_intent (set_positions c ps) =
     (case last_intent c of
        None \<Rightarrow> None
      | Some i \<Rightarrow> if in_quote i = None \<and> at_target ps i then None else Some i)
   \<and> cl_positions (set_positions c ps) = ps
   \<and> portfolio_gate (set_positions c ps) = portfolio_gate c
   \<and> last_portfolio_intent (set_positions c ps) = last_portfolio_intent c"
  by (simp add: set_positions_def Let_def split: option.splits)

end
