(* ===== verification/PortfolioStop.thy ===== *)
theory PortfolioStop imports Interfaces begin

text \<open>
  \<open>src/opms/controllers/generic/portfolio_stop.py\<close>: the stop book that the two Hummingbot
  processes of a basket share through one SQLite file.

  The table \<open>legs\<close> is an association list from member names to rows (an upsert replaces the
  row of an existing primary key and appends a new one).  \<open>mm_core.usdc_flat_targets\<close> is not
  in this repository and is a parameter: from the legs' positions and mids to the target of
  each leg.
\<close>

section \<open>Data\<close>

type_synonym member = "string \<times> string"

record leg_row =
  row_ts :: real
  row_position :: real
  row_mid :: real
  row_mode :: leg_mode

type_synonym leg_table = "(string \<times> leg_row) list"

record stop_book =
  book_path :: string
  members :: "member list"
  stale_s :: real

type_synonym flat_targets = "(member \<Rightarrow> (real \<times> real) option) \<Rightarrow> member \<Rightarrow> real option"

definition member_name :: "member \<Rightarrow> string" where
  "member_name k = fst k @ '':'' @ snd k"

definition member_names :: "stop_book \<Rightarrow> string list" where
  "member_names b = map member_name (members b)"

section \<open>Operations\<close>

text \<open>The constructor's checks; \<open>members\<close> is a set, so the list has no duplicates.\<close>

definition new_stop_book :: "string \<Rightarrow> member list \<Rightarrow> pynum \<Rightarrow> py_error + stop_book" where
  "new_stop_book path ms stale =
     (if path = [] \<or> \<not> str_startswith ''/'' path then Inl ValueError
      else if length (remdups ms) < 2 \<or> length (remdups (map fst ms)) < 2 then Inl ValueError
      else case stale of
             Num s \<Rightarrow> if s \<le> 0 then Inl ValueError
                       else Inr \<lparr>book_path = path, members = remdups ms, stale_s = s\<rparr>
           | _ \<Rightarrow> Inl ValueError)"

definition parse_mode :: "string \<Rightarrow> leg_mode option" where
  "parse_mode m = (if m = ''quote'' then Some LQuote else if m = ''stop'' then Some LStop
                   else if m = ''emergency'' then Some LEmergency else None)"

text \<open>The rows a reading counts: a member's, not older than \<open>stale_s\<close>, at most 1 s ahead.\<close>

definition fresh_rows :: "stop_book \<Rightarrow> leg_table \<Rightarrow> real \<Rightarrow> leg_table" where
  "fresh_rows b table now =
     filter (\<lambda>(name, r). now - stale_s b \<le> row_ts r \<and> row_ts r \<le> now + 1
                          \<and> name \<in> set (member_names b)) table"

definition legs_of :: "stop_book \<Rightarrow> leg_table \<Rightarrow> member \<Rightarrow> (real \<times> real) option" where
  "legs_of b fresh k =
     (if k \<in> set (members b)
      then map_option (\<lambda>r. (row_position r, row_mid r)) (map_of fresh (member_name k)) else None)"

text \<open>The decision over the rows read back, for a leg that has just written its own.\<close>

definition decide :: "flat_targets \<Rightarrow> stop_book \<Rightarrow> leg_table \<Rightarrow> member \<Rightarrow> real
    \<Rightarrow> py_error + basket_mode \<times> real" where
  "decide targets b fresh k pos =
     (if \<exists>nr \<in> set fresh. row_mode (snd nr) = LEmergency then Inr (BEmergency, 0)
      else if length fresh \<noteq> length (members b) then Inr (BHold, pos)
      else if \<not> (\<exists>nr \<in> set fresh. row_mode (snd nr) = LStop) then Inr (BQuote, pos)
      else case targets (legs_of b fresh) k of
             None \<Rightarrow> Inl KeyError
           | Some q \<Rightarrow> Inr (BStop, q))"

definition update_leg :: "flat_targets \<Rightarrow> stop_book \<Rightarrow> leg_table \<Rightarrow> member \<Rightarrow> real \<Rightarrow> real
    \<Rightarrow> leg_mode \<Rightarrow> real \<Rightarrow> leg_table \<times> (py_error + basket_mode \<times> real)" where
  "update_leg targets b table k pos mid m now =
     (let table' = AList.update (member_name k)
                     \<lparr>row_ts = now, row_position = pos, row_mid = mid, row_mode = m\<rparr> table
      in (table', decide targets b (fresh_rows b table' now) k pos))"

definition update_book :: "flat_targets \<Rightarrow> stop_book \<Rightarrow> leg_table \<Rightarrow> member \<Rightarrow> pynum \<Rightarrow> pynum
    \<Rightarrow> string \<Rightarrow> pynum \<Rightarrow> leg_table \<times> (py_error + basket_mode \<times> real)" where
  "update_book targets b table k position mid mode now =
     (case parse_mode mode of
        None \<Rightarrow> (table, Inl ValueError)
      | Some m \<Rightarrow>
          if k \<notin> set (members b) then (table, Inl ValueError)
          else case (position, mid) of
                 (Num pos, Num md) \<Rightarrow>
                   if md \<le> 0 then (table, Inl ValueError)
                   else (case now of
                           Num t \<Rightarrow> update_leg targets b table k pos md m t
                         | _ \<Rightarrow> (table, Inl ValueError))
               | _ \<Rightarrow> (table, Inl ValueError))"

section \<open>Lemmas\<close>

definition book_ok :: "stop_book \<Rightarrow> bool" where
  "book_ok b = (2 \<le> length (members b) \<and> distinct (members b) \<and> 0 < stale_s b)"

definition table_ok :: "leg_table \<Rightarrow> bool" where
  "table_ok table = distinct (map fst table)"

lemma new_stop_book_ok: "new_stop_book path ms stale = Inr b \<Longrightarrow> book_ok b"
  by (auto simp: new_stop_book_def book_ok_def split: if_splits pynum.splits)

lemma update_leg_table_ok: "table_ok table \<Longrightarrow> table_ok (fst (update_leg tg b table k pos mid m now))"
  by (simp add: update_leg_def table_ok_def distinct_keys_update Let_def)

lemma fresh_distinct: "table_ok table \<Longrightarrow> distinct (map fst (fresh_rows b table now))"
  by (auto simp: fresh_rows_def table_ok_def distinct_map inj_on_def)

lemma map_of_fresh:
  assumes "table_ok table"
  shows "map_of (fresh_rows b table now) name = Some r \<longleftrightarrow>
    map_of table name = Some r \<and> now - stale_s b \<le> row_ts r \<and> row_ts r \<le> now + 1
      \<and> name \<in> set (member_names b)"
  using assms fresh_distinct[OF assms]
  by (auto simp: map_of_eq_Some_iff table_ok_def fresh_rows_def)

lemma fresh_subset: "fst ` set (fresh_rows b table now) \<subseteq> set (member_names b)"
  by (auto simp: fresh_rows_def)

text \<open>When as many rows are fresh as there are members, every member has one.\<close>

lemma all_fresh:
  assumes "table_ok table" "book_ok b" "length (fresh_rows b table now) = length (members b)"
    "k \<in> set (members b)"
  shows "\<exists>r. map_of (fresh_rows b table now) (member_name k) = Some r"
proof -
  let ?F = "fst ` set (fresh_rows b table now)"
  have "card ?F = length (fresh_rows b table now)"
    using distinct_card[OF fresh_distinct[OF assms(1), of b now]] by simp
  moreover have "card (set (member_names b)) \<le> length (members b)"
    using card_length[of "member_names b"] by (simp add: member_names_def)
  ultimately have "card (set (member_names b)) \<le> card ?F"
    using assms(3) by simp
  from card_seteq[OF _ fresh_subset this] have "?F = set (member_names b)"
    by simp
  then have "member_name k \<in> ?F"
    using assms(4) by (auto simp: member_names_def)
  then show ?thesis
    by (metis map_of_eq_None_iff not_Some_eq)
qed

lemma own_row_fresh:
  assumes "table_ok table" "book_ok b" "k \<in> set (members b)"
  shows "map_of (fresh_rows b (fst (update_leg tg b table k pos mid m now)) now) (member_name k)
    = Some \<lparr>row_ts = now, row_position = pos, row_mid = mid, row_mode = m\<rparr>"
  using assms update_leg_table_ok[OF assms(1)]
  by (auto simp: map_of_fresh update_leg_def book_ok_def member_names_def Let_def)

lemma update_leg_answer:
  "snd (update_leg tg b table k pos mid m now)
     = decide tg b (fresh_rows b (fst (update_leg tg b table k pos mid m now)) now) k pos"
  by (simp add: update_leg_def Let_def)

lemma decide_result:
  "decide tg b fresh k pos = Inr (bm, q) \<longleftrightarrow>
     (if \<exists>nr \<in> set fresh. row_mode (snd nr) = LEmergency then bm = BEmergency \<and> q = 0
      else if length fresh \<noteq> length (members b) then bm = BHold \<and> q = pos
      else if \<not> (\<exists>nr \<in> set fresh. row_mode (snd nr) = LStop) then bm = BQuote \<and> q = pos
      else bm = BStop \<and> tg (legs_of b fresh) k = Some q)"
  by (auto simp: decide_def split: option.splits)

lemma own_row_in_fresh:
  assumes "table_ok table" "book_ok b" "k \<in> set (members b)"
  shows "(member_name k, \<lparr>row_ts = now, row_position = pos, row_mid = mid, row_mode = m\<rparr>)
    \<in> set (fresh_rows b (fst (update_leg tg b table k pos mid m now)) now)"
  using own_row_fresh[OF assms] by (rule map_of_SomeD)

interpretation book: basket_stop "\<lambda>t k. table_ok t \<and> book_ok b \<and> k \<in> set (members b)" "update_leg tg b"
  for tg b
proof unfold_locales
  fix t k pos mid m now q bm j
  show "table_ok t \<and> book_ok b \<and> k \<in> set (members b) \<Longrightarrow>
      table_ok (fst (update_leg tg b t j pos mid m now)) \<and> book_ok b \<and> k \<in> set (members b)"
    by (simp add: update_leg_table_ok)
  show "snd (update_leg tg b t k pos mid m now) = Inr (BEmergency, q) \<Longrightarrow> q = 0"
    by (auto simp: update_leg_answer decide_result split: if_splits)
  show "snd (update_leg tg b t k pos mid m now) = Inr (bm, q) \<Longrightarrow> bm = BQuote \<or> bm = BHold \<Longrightarrow> q = pos"
    by (auto simp: update_leg_answer decide_result split: if_splits)
  show "m = LQuote"
    if "table_ok t \<and> book_ok b \<and> k \<in> set (members b)"
      "snd (update_leg tg b t k pos mid m now) = Inr (BQuote, q)"
    using that own_row_in_fresh[of t b k now pos mid m tg]
    by (cases m) (force simp: update_leg_answer decide_result split: if_splits)+
  show "snd (update_leg tg b t k pos mid LEmergency now) = Inr (BEmergency, 0)"
    if "table_ok t \<and> book_ok b \<and> k \<in> set (members b)"
    using that own_row_in_fresh[of t b k now pos mid LEmergency tg]
    by (force simp: update_leg_answer decide_result)
qed

text \<open>Account names without a colon make the member names distinct.\<close>

lemma member_name_inj:
  assumes "CHR '':'' \<notin> set (fst j)" "CHR '':'' \<notin> set (fst k)" "member_name j = member_name k"
  shows "j = k"
proof -
  have "takeWhile (\<lambda>c. c \<noteq> CHR '':'') (member_name x) = fst x"
    if "CHR '':'' \<notin> set (fst x)" for x
    using that by (subst member_name_def, subst takeWhile_append2) auto
  with assms have "fst j = fst k"
    by metis
  with assms(3) show ?thesis
    by (simp add: member_name_def prod_eq_iff)
qed

definition plain_accounts :: "stop_book \<Rightarrow> bool" where
  "plain_accounts b = (\<forall>k \<in> set (members b). CHR '':'' \<notin> set (fst k))"

lemma fresh_length:
  assumes "table_ok table" "book_ok b" "plain_accounts b"
  shows "length (fresh_rows b table now) = length (members b) \<longleftrightarrow>
    (\<forall>k \<in> set (members b). \<exists>r. map_of (fresh_rows b table now) (member_name k) = Some r)"
proof
  assume all: "\<forall>k \<in> set (members b). \<exists>r. map_of (fresh_rows b table now) (member_name k) = Some r"
  let ?F = "fst ` set (fresh_rows b table now)"
  have "set (member_names b) \<subseteq> ?F"
  proof
    fix n assume "n \<in> set (member_names b)"
    then obtain k where "k \<in> set (members b)" "n = member_name k"
      by (auto simp: member_names_def)
    with all show "n \<in> ?F"
      by (metis map_of_eq_None_iff option.distinct(1))
  qed
  with fresh_subset have "?F = set (member_names b)" by blast
  moreover have "card ?F = length (fresh_rows b table now)"
    using distinct_card[OF fresh_distinct[OF assms(1), of b now]] by simp
  moreover have "distinct (member_names b)"
    using assms(2,3) member_name_inj
    by (fastforce simp: member_names_def distinct_map inj_on_def book_ok_def plain_accounts_def)
  then have "card (set (member_names b)) = length (members b)"
    using distinct_card by (fastforce simp: member_names_def)
  ultimately show "length (fresh_rows b table now) = length (members b)" by simp
qed (use all_fresh[OF assms(1,2)] in blast)

lemma fresh_member:
  assumes "table_ok table" "(name, r) \<in> set (fresh_rows b table now)"
  obtains k where "k \<in> set (members b)" "name = member_name k"
    "map_of (fresh_rows b table now) (member_name k) = Some r"
proof -
  have "name \<in> set (member_names b)"
    using assms(2) by (auto simp: fresh_rows_def)
  then obtain k where "k \<in> set (members b)" "name = member_name k"
    by (auto simp: member_names_def)
  with assms fresh_distinct[OF assms(1)] show thesis
    by (intro that[of k]) (simp_all add: map_of_eq_Some_iff)
qed

lemma all_quote:
  "(\<forall>x \<in> A. f x = LQuote) \<longleftrightarrow> \<not> (\<exists>x \<in> A. f x = LEmergency) \<and> \<not> (\<exists>x \<in> A. f x = LStop)"
  by (metis leg_mode.exhaust leg_mode.distinct(1) leg_mode.distinct(3))

lemma fresh_modes:
  assumes "table_ok table" "\<forall>j \<in> set (members b). \<exists>r. map_of (fresh_rows b table now) (member_name j) = Some r"
  shows "(\<forall>nr \<in> set (fresh_rows b table now). row_mode (snd nr) = m) \<longleftrightarrow>
    (\<forall>j \<in> set (members b). \<exists>r. map_of (fresh_rows b table now) (member_name j) = Some r \<and> row_mode r = m)"
    (is "?l \<longleftrightarrow> ?r")
proof
  assume ?l
  with assms(2) show ?r by (metis map_of_SomeD snd_conv)
next
  assume r: ?r
  show ?l
  proof
    fix nr assume "nr \<in> set (fresh_rows b table now)"
    then have "(fst nr, snd nr) \<in> set (fresh_rows b table now)" by simp
    then obtain k where "k \<in> set (members b)"
      "map_of (fresh_rows b table now) (member_name k) = Some (snd nr)"
      by (rule fresh_member[OF assms(1)])
    with r show "row_mode (snd nr) = m" by auto
  qed
qed

section \<open>Runs of both processes\<close>

record leg_report =
  rep_member :: member
  rep_position :: real
  rep_mid :: real
  rep_mode :: leg_mode
  rep_now :: real

definition apply_report :: "flat_targets \<Rightarrow> stop_book \<Rightarrow> leg_table \<Rightarrow> leg_report \<Rightarrow> leg_table" where
  "apply_report tg b table u =
     fst (update_leg tg b table (rep_member u) (rep_position u) (rep_mid u) (rep_mode u) (rep_now u))"

lemma apply_reports_ok: "table_ok table \<Longrightarrow> table_ok (foldl (apply_report tg b) table us)"
  by (induction us arbitrary: table) (auto simp: apply_report_def update_leg_table_ok)

lemma apply_reports_keep:
  assumes "\<forall>u \<in> set us. member_name (rep_member u) \<noteq> name"
  shows "map_of (foldl (apply_report tg b) table us) name = map_of table name"
  using assms
proof (induction us arbitrary: table)
  case (Cons u us)
  then have "map_of (apply_report tg b table u) name = map_of table name"
    by (auto simp: apply_report_def update_leg_def Let_def)
  with Cons show ?case by simp
qed simp

section \<open>Properties\<close>

text \<open>C16: the book answers "quote" exactly when every member's latest report is fresh and asks to
  quote; an absent, stale or stopped leg of either process is enough to withdraw the agreement.\<close>

theorem quote_needs_every_leg:
  assumes "table_ok table" "book_ok b" "plain_accounts b" "k \<in> set (members b)"
  shows "snd (update_leg tg b table k pos mid m now) = Inr (BQuote, q) \<longleftrightarrow>
    q = pos \<and> (\<forall>j \<in> set (members b). \<exists>r.
      map_of (fst (update_leg tg b table k pos mid m now)) (member_name j) = Some r
      \<and> row_mode r = LQuote \<and> now - stale_s b \<le> row_ts r \<and> row_ts r \<le> now + 1)" (is "?l \<longleftrightarrow> ?r")
proof -
  let ?T = "fst (update_leg tg b table k pos mid m now)"
  let ?F = "fresh_rows b ?T now"
  have T: "table_ok ?T" by (rule update_leg_table_ok[OF assms(1)])
  have "?l \<longleftrightarrow> q = pos \<and> length ?F = length (members b) \<and> (\<forall>nr \<in> set ?F. row_mode (snd nr) = LQuote)"
    by (auto simp: update_leg_answer decide_result all_quote)
  also have "\<dots> \<longleftrightarrow> q = pos \<and> (\<forall>j \<in> set (members b). \<exists>r. map_of ?F (member_name j) = Some r \<and> row_mode r = LQuote)"
    unfolding fresh_length[OF T assms(2,3)] using fresh_modes[OF T] by blast
  also have "\<dots> \<longleftrightarrow> ?r"
    by (auto simp: map_of_fresh[OF T] member_names_def)
  finally show ?thesis .
qed

text \<open>an emergency written by one leg is the answer, with target zero, to every later update of
  any other leg for as long as that row is fresh, whatever the legs have reported in between.\<close>

theorem emergency_reaches_every_leg:
  assumes "table_ok table" "map_of table (member_name e) = Some r" "row_mode r = LEmergency"
    "e \<in> set (members b)" "\<forall>u \<in> set us. member_name (rep_member u) \<noteq> member_name e"
    "member_name k \<noteq> member_name e" "now - stale_s b \<le> row_ts r" "row_ts r \<le> now + 1"
  shows "snd (update_leg tg b (foldl (apply_report tg b) table us) k pos mid m now) = Inr (BEmergency, 0)"
proof -
  let ?t = "foldl (apply_report tg b) table us"
  let ?T = "fst (update_leg tg b ?t k pos mid m now)"
  have "map_of ?T (member_name e) = Some r"
    using apply_reports_keep[OF assms(5)] assms(2,6) by (simp add: update_leg_def Let_def)
  moreover have "table_ok ?T"
    by (intro update_leg_table_ok apply_reports_ok assms(1))
  ultimately have "map_of (fresh_rows b ?T now) (member_name e) = Some r"
    using assms(4,7,8) by (simp add: map_of_fresh member_names_def)
  then have "\<exists>nr \<in> set (fresh_rows b ?T now). row_mode (snd nr) = LEmergency"
    using assms(3) by (metis map_of_SomeD snd_conv)
  then show ?thesis
    by (simp add: update_leg_answer decide_result)
qed

text \<open>a basket stop is answered only over a complete set of fresh reports without an emergency,
  and its target is the flat target of those reported positions and mids.\<close>

theorem stop_uses_fresh_positions:
  assumes "table_ok table" "book_ok b" "k \<in> set (members b)"
    "snd (update_leg tg b table k pos mid m now) = Inr (BStop, q)"
  shows "\<exists>F. F = fresh_rows b (fst (update_leg tg b table k pos mid m now)) now
    \<and> tg (legs_of b F) k = Some q \<and> dom (legs_of b F) = set (members b)
    \<and> legs_of b F k = Some (pos, mid) \<and> (\<forall>nr \<in> set F. row_mode (snd nr) \<noteq> LEmergency)"
proof -
  let ?T = "fst (update_leg tg b table k pos mid m now)"
  let ?F = "fresh_rows b ?T now"
  from assms(4) have "length ?F = length (members b)" "tg (legs_of b ?F) k = Some q"
    "\<forall>nr \<in> set ?F. row_mode (snd nr) \<noteq> LEmergency"
    by (auto simp: update_leg_answer decide_result split: if_splits)
  moreover have "dom (legs_of b ?F) = set (members b)"
    using all_fresh[OF update_leg_table_ok[OF assms(1)] assms(2) calculation(1)]
    by (auto simp: legs_of_def dom_def)
  moreover have "legs_of b ?F k = Some (pos, mid)"
    using own_row_fresh[OF assms(1-3)] assms(3) by (simp add: legs_of_def)
  ultimately show ?thesis by blast
qed

section \<open>Witnesses\<close>

definition two_legs :: stop_book where
  "two_legs = \<lparr>book_path = ''/tmp/stop.db'', members = [(''e2'', ''ETH''), (''e3'', ''ETH'')], stale_s = 20\<rparr>"

definition peer_row :: "leg_mode \<Rightarrow> leg_row" where
  "peer_row m = \<lparr>row_ts = 100, row_position = -2, row_mid = 2000, row_mode = m\<rparr>"

definition peer_table :: "leg_mode \<Rightarrow> leg_table" where
  "peer_table m = [(''e3:ETH'', peer_row m)]"

lemma example_ok:
  "table_ok (peer_table m)" "book_ok two_legs" "plain_accounts two_legs" "(''e2'', ''ETH'') \<in> set (members two_legs)"
  by (simp_all add: table_ok_def peer_table_def book_ok_def two_legs_def plain_accounts_def)

theorem quote_needs_every_leg_witness:
  "snd (update_leg (\<lambda>_ _. None) two_legs (peer_table LQuote) (''e2'', ''ETH'') 2 2000 LQuote 110) = Inr (BQuote, 2)"
  by (rule quote_needs_every_leg[OF example_ok(1)[of LQuote] example_ok(2-4), THEN iffD2])
     (simp add: two_legs_def peer_table_def peer_row_def update_leg_def Let_def member_name_def)

theorem emergency_reaches_every_leg_witness:
  "snd (update_leg (\<lambda>_ _. None) two_legs (foldl (apply_report (\<lambda>_ _. None) two_legs) (peer_table LEmergency)
      [\<lparr>rep_member = (''e2'', ''ETH''), rep_position = 2, rep_mid = 2000, rep_mode = LQuote, rep_now = 105\<rparr>])
     (''e2'', ''ETH'') 2 2000 LQuote 110) = Inr (BEmergency, 0)"
  by (rule emergency_reaches_every_leg[where e = "(''e3'', ''ETH'')" and r = "peer_row LEmergency"])
     (simp_all add: table_ok_def two_legs_def peer_table_def peer_row_def member_name_def)

theorem stop_uses_fresh_positions_witness:
  "\<exists>F. dom (legs_of two_legs F) = {(''e2'', ''ETH''), (''e3'', ''ETH'')}
     \<and> legs_of two_legs F (''e2'', ''ETH'') = Some (2, 2000)"
proof -
  have "snd (update_leg (\<lambda>_ _. Some 1) two_legs (peer_table LStop) (''e2'', ''ETH'') 2 2000 LQuote 110)
      = Inr (BStop, 1)"
    by (simp add: two_legs_def peer_table_def peer_row_def update_leg_def Let_def member_name_def
        decide_def fresh_rows_def member_names_def del: set_filter)
  from stop_uses_fresh_positions[OF example_ok(1,2,4) this] show ?thesis
    by (auto simp: two_legs_def)
qed

end
