(* ===== verification/BufferedMaker.thy ===== *)
theory BufferedMaker imports Interfaces begin

text \<open>
  \<open>src/opms/executors/buffered_maker_executor.py\<close>: the maker-only order executor.

  \<open>OrderExecutor\<close> is Hummingbot's; the step it takes when the retry gate lets it through
  (\<open>super().control_order()\<close>) is a parameter \<open>hb_control\<close>, and the touch price
  \<open>current_market_price\<close> is an argument.  A tracked order is its client id, its price, and
  the venue's id once the in-flight order has one.
\<close>

section \<open>Configuration and state\<close>

record maker_config =
  mk_side :: side
  mk_price :: "real option"
  mk_buffer_bps :: real
  retry_initial_s :: real
  retry_max_s :: real

record tracked_order =
  to_id :: string
  to_price :: "real option"
  to_order :: "string option option"

record maker =
  mk_order :: "tracked_order option"
  mk_failed :: "tracked_order list"
  mk_retries :: nat
  mk_retry_at :: real

definition new_maker :: maker where
  "new_maker = \<lparr>mk_order = None, mk_failed = [], mk_retries = 0, mk_retry_at = 0\<rparr>"

section \<open>Operations\<close>

text \<open>A touch moved away from the market by the buffer.\<close>

definition buffered_touch :: "real \<Rightarrow> side \<Rightarrow> real \<Rightarrow> real" where
  "buffered_touch bps sd touch = (let edge = bps / 10000 in touch * (if sd = Buy then 1 - edge else 1 + edge))"

text \<open>The more passive of two prices on a side: lower for a buy, higher for a sell.\<close>

definition more_passive :: "side \<Rightarrow> real \<Rightarrow> real \<Rightarrow> real" where
  "more_passive sd p q = (if sd = Buy then min p q else max p q)"

definition get_order_price :: "maker_config \<Rightarrow> pynum \<Rightarrow> py_error + real" where
  "get_order_price cfg touch =
     (case touch of
        Num t \<Rightarrow>
          if t \<le> 0 then Inl ValueError
          else let buffered = buffered_touch (mk_buffer_bps cfg) (mk_side cfg) t in
            (case mk_price cfg of
               None \<Rightarrow> Inr buffered
             | Some p \<Rightarrow> Inr (more_passive (mk_side cfg) p buffered))
      | _ \<Rightarrow> Inl ValueError)"

definition control_order :: "(maker \<Rightarrow> maker) \<Rightarrow> real \<Rightarrow> maker \<Rightarrow> maker" where
  "control_order hb_control now m =
     (if mk_order m = None \<and> now < mk_retry_at m then m else hb_control m)"

text \<open>The two entries the executor adds to Hummingbot's \<open>custom_info\<close>.\<close>

definition maker_custom_info :: "maker \<Rightarrow> real option \<times> string option" where
  "maker_custom_info m =
     (case mk_order m of
        None \<Rightarrow> (None, None)
      | Some ord \<Rightarrow> (to_price ord, case to_order ord of Some ex \<Rightarrow> ex | None \<Rightarrow> None))"

text \<open>
  The retry delay doubles with an unbounded int exponent, like the venue circuit's: the state
  is already updated when the conversion to float fails.
\<close>

definition maker_order_failed ::
  "maker_config \<Rightarrow> string \<Rightarrow> real \<Rightarrow> maker \<Rightarrow> maker \<times> (py_error + unit)" where
  "maker_order_failed cfg oid now m =
     (case mk_order m of
        None \<Rightarrow> (m, Inr ())
      | Some ord \<Rightarrow>
          if oid \<noteq> to_id ord then (m, Inr ())
          else let m1 = m\<lparr>mk_failed := mk_failed m @ [ord], mk_order := None, mk_retries := Suc (mk_retries m)\<rparr>
            in case float_of_int (2 ^ (mk_retries m1 - 1)) of
                 Inl e \<Rightarrow> (m1, Inl e)
               | Inr p \<Rightarrow> (m1\<lparr>mk_retry_at := now + min (retry_initial_s cfg * p) (retry_max_s cfg)\<rparr>, Inr ()))"

section \<open>Properties\<close>

lemma more_passive_le [simp]:
  "more_passive Buy p q \<le> p" "more_passive Buy p q \<le> q"
  "p \<le> more_passive Sell p q" "q \<le> more_passive Sell p q"
  by (simp_all add: more_passive_def)

interpretation retry_gate: timed_gate "\<lambda>m t. \<not> t < mk_retry_at m" mk_retry_at
  by unfold_locales auto

text \<open>
  A maker order is priced exactly when the touch is finite and positive, and then at the
  touch moved away by the buffer or further: a buy never above the buffered bid nor above the
  configured price, a sell never below.
\<close>

theorem maker_price_stays_behind_the_touch:
  "case get_order_price cfg touch of
     Inl e \<Rightarrow> e = ValueError \<and> positive_price touch = False
   | Inr p \<Rightarrow> (case touch of Num t \<Rightarrow>
         0 < t \<and> (mk_side cfg = Buy \<and> p \<le> t * (1 - mk_buffer_bps cfg / 10000)
              \<or> mk_side cfg = Sell \<and> t * (1 + mk_buffer_bps cfg / 10000) \<le> p)
         \<and> (case mk_price cfg of None \<Rightarrow> p = buffered_touch (mk_buffer_bps cfg) (mk_side cfg) t
            | Some q \<Rightarrow> p = more_passive (mk_side cfg) q (buffered_touch (mk_buffer_bps cfg) (mk_side cfg) t))
       | _ \<Rightarrow> False)"
  by (cases touch; cases "mk_side cfg"; cases "mk_price cfg")
     (auto simp: get_order_price_def buffered_touch_def Let_def more_passive_def)

text \<open>
  A venue rejection of the current order frees it, counts one retry, and no new order is
  attempted before the doubled delay, capped at the maximum, has passed; a rejection of any
  other order changes nothing.  The delay of the n-th retry is the initial one times
  2 to the power n - 1.
\<close>

theorem rejected_maker_waits_out_its_backoff:
  assumes "maker_order_failed cfg oid now m = (m', Inr ())" "mk_order m = Some ord"
    "now \<le> later" "later < now + min (retry_initial_s cfg * 2 ^ mk_retries m) (retry_max_s cfg)"
  shows "if oid = to_id ord
    then mk_order m' = None \<and> mk_retries m' = Suc (mk_retries m) \<and> mk_failed m' = mk_failed m @ [ord]
      \<and> control_order hb_control later m' = m'
    else m' = m"
  using assms
  by (auto simp: maker_order_failed_def control_order_def Let_def float_of_int_pow2 split: if_splits)

definition sample_maker :: maker where
  "sample_maker = new_maker\<lparr>mk_order := Some \<lparr>to_id = ''o1'', to_price = Some 99, to_order = None\<rparr>, mk_retries := 2\<rparr>"

definition sample_maker_config :: maker_config where
  "sample_maker_config = \<lparr>mk_side = Buy, mk_price = Some 99, mk_buffer_bps = 8, retry_initial_s = 2, retry_max_s = 16\<rparr>"

theorem rejected_maker_waits_out_its_backoff_witness:
  "control_order (\<lambda>m. new_maker) 107 (fst (maker_order_failed sample_maker_config ''o1'' 100 sample_maker))
     = fst (maker_order_failed sample_maker_config ''o1'' 100 sample_maker)"
proof -
  have "maker_order_failed sample_maker_config ''o1'' 100 sample_maker
      = (fst (maker_order_failed sample_maker_config ''o1'' 100 sample_maker), Inr ())"
    by (simp add: maker_order_failed_def sample_maker_def new_maker_def sample_maker_config_def Let_def
        float_of_int_def)
  from rejected_maker_waits_out_its_backoff[OF this, of _ 107 "\<lambda>m. new_maker"]
  show ?thesis
    by (simp add: sample_maker_def sample_maker_config_def)
qed

end
