(* ===== verification/PerpController.thy ===== *)
theory PerpController imports Resilience PerpBridge PortfolioStop PassiveAggressive BufferedMaker begin

text \<open>
  \<open>src/opms/controllers/generic/perp_mm_controller.py\<close>, the decision half: how one control
  cycle turns the accepted intent into executor actions (\<open>determine_executor_actions\<close> and what
  it calls).

  A \<open>cycle\<close> holds what the cycle reads from Hummingbot: the clock, the active executors, the
  trading rules, the prices, the feed metrics and the account's positions; a cycle reads each of
  them once here.  The controller's own state is the record \<open>ctl\<close>.  \<open>mm_core\<close>'s
  \<open>quote_refresh_reason\<close> and \<open>usdc_flat_targets\<close> are parameters.
\<close>

section \<open>Configuration\<close>

record ctl_config =
  cf_venue :: string
  cf_coin :: string
  cf_account :: string
  cf_pair :: string
  cf_leverage :: int
  cf_shadow :: bool
  cf_max_data_age :: "real option"
  cf_reprice_bps :: real
  cf_fee_bps :: real
  cf_edge_bps :: real
  cf_buffer_bps :: real
  cf_liveness_timeout :: real
  cf_cooldown :: real
  cf_refresh_interval :: real
  cf_stop_limit :: real
  cf_collateral :: string
  cf_margin_ttl :: real
  cf_backoff_initial :: real
  cf_position_side :: "string option"
  cf_book :: "stop_book option"

section \<open>Executors and actions\<close>

datatype exec_strategy = LimitMaker | MarketStrategy | OtherStrategy

text \<open>
  An executor config as the controller's duck typing reads it: an attribute that a config type
  does not have is None.
\<close>

record exec_config =
  ec_type :: string
  ec_timestamp :: real
  ec_side :: side
  ec_total_base :: "real option"
  ec_total_quote :: "real option"
  ec_amount :: "real option"
  ec_price :: "real option"
  ec_strategy :: "exec_strategy option"
  ec_child_qty :: "real option"
  ec_time_limit :: "real option"
  ec_refresh_time :: "real option"
  ec_leverage :: int
  ec_action :: position_action
  ec_buffer_bps :: "real option"

text \<open>
  A running executor: its id, config and the entries of \<open>custom_info\<close> the controller reads.
  \<open>h_exchange_id\<close> is None when the key is missing.
\<close>

record handle =
  h_id :: string
  h_config :: exec_config
  h_order_id :: "string option"
  h_exchange_id :: "string option option"
  h_executed :: real
  h_order_price :: "real option"

datatype action = Create exec_config | Stop string

record trading_rules =
  min_order_size :: real
  min_notional :: real
  base_increment :: real

record held_position =
  hp_pair :: string
  hp_side :: string
  hp_amount :: real

record cycle =
  cy_now :: real
  cy_wall :: pynum
  cy_perf :: real
  cy_active :: "handle list"
  cy_rules :: trading_rules
  cy_mid :: pynum
  cy_bid :: pynum
  cy_ask :: pynum
  cy_feed :: "((py_error + pynum) \<times> (py_error + pynum)) option"
  cy_feed_healthy :: bool
  cy_positions :: "held_position list"
  cy_last_mid :: "pynum option"

section \<open>The controller's state\<close>

record ctl =
  c_watchdog :: watchdog
  c_breaker :: breaker
  c_pending :: bool
  c_cancel_started :: "real option"
  c_cancel_latency :: "real option"
  c_refresh_reason :: "string option"
  c_suspension :: "string option"
  c_equity_resolved :: "bool option"
  c_baseline :: "string option"
  c_unready :: bool
  c_settled :: "string set"
  c_table :: leg_table

definition new_ctl :: "ctl_config \<Rightarrow> nat \<Rightarrow> real \<Rightarrow> real \<Rightarrow> leg_table \<Rightarrow> ctl" where
  "new_ctl cfg threshold base maxb table =
     \<lparr>c_watchdog = new_watchdog (cf_liveness_timeout cfg) (cf_cooldown cfg),
      c_breaker = new_breaker threshold base maxb, c_pending = False, c_cancel_started = None,
      c_cancel_latency = None, c_refresh_reason = None, c_suspension = None,
      c_equity_resolved = None, c_baseline = None, c_unready = False, c_settled = {},
      c_table = table\<rparr>"

section \<open>Reading executors\<close>

definition config_notional :: "exec_config \<Rightarrow> real option" where
  "config_notional e =
     (case ec_total_base e of
        Some v \<Rightarrow> Some v
      | None \<Rightarrow> (case ec_total_quote e of Some v \<Rightarrow> Some v | None \<Rightarrow> ec_amount e))"

definition execution_signature :: "exec_config \<Rightarrow> string \<times> side \<times> real option \<times> real option" where
  "execution_signature e = (ec_type e, ec_side e, ec_time_limit e, config_notional e)"

definition is_quote_config :: "exec_config \<Rightarrow> bool" where
  "is_quote_config e =
     (ec_type e \<in> {''order_executor'', ''buffered_maker_executor''} \<and> ec_strategy e = Some LimitMaker)"

abbreviation is_quote_executor :: "handle \<Rightarrow> bool" where
  "is_quote_executor h \<equiv> is_quote_config (h_config h)"

definition truthy :: "string option \<Rightarrow> bool" where
  "truthy s = (case s of Some (c # cs) \<Rightarrow> True | _ \<Rightarrow> False)"

definition live_quote_sides :: "handle list \<Rightarrow> side set" where
  "live_quote_sides active =
     set (map (\<lambda>h. ec_side (h_config h))
       (filter (\<lambda>h. is_quote_executor h \<and> truthy (h_order_id h)
                      \<and> (case h_exchange_id h of None \<Rightarrow> True | Some x \<Rightarrow> truthy x)) active))"

text \<open>
  The age of the public book from the connector's feed metrics: \<open>float(value)\<close> may raise (the
  value is skipped), only positive finite stamps count, and no usable stamp or an unhealthy feed
  is infinitely old.
\<close>

definition usable_stamps :: "(py_error + pynum) list \<Rightarrow> real list" where
  "usable_stamps vs =
     concat (map (\<lambda>v. case v of Inr (Num x) \<Rightarrow> (if 0 < x then [x] else []) | _ \<Rightarrow> []) vs)"

definition market_data_age_s :: "cycle \<Rightarrow> pynum" where
  "market_data_age_s cy =
     (case cy_feed cy of
        None \<Rightarrow> PosInf
      | Some (d, s) \<Rightarrow>
          if \<not> cy_feed_healthy cy then PosInf
          else case usable_stamps [d, s] of
                 [] \<Rightarrow> PosInf
               | t # ts \<Rightarrow> (let age = cy_perf cy - foldl max t ts in if 0 \<le> age then Num age else PosInf))"

text \<open>\<open>_current_base_position\<close>: the venue's positions in this pair, on this leg in hedge mode.\<close>

definition upper_char :: "char \<Rightarrow> char" where
  "upper_char c = (let n = (of_char c :: nat) in if 97 \<le> n \<and> n \<le> 122 then char_of (n - 32) else c)"

definition current_base_position :: "ctl_config \<Rightarrow> held_position list \<Rightarrow> real" where
  "current_base_position cfg ps =
     (let own_side = (case cf_position_side cfg of Some s \<Rightarrow> map upper_char s | None \<Rightarrow> []) in
      \<Sum>p\<leftarrow>filter (\<lambda>p. hp_pair p = cf_pair cfg \<and> (own_side = [] \<or> hp_side p = own_side)) ps. hp_amount p)"

section \<open>Quotes\<close>

definition executable_quote_specs :: "trading_rules \<Rightarrow> order_spec list \<Rightarrow> order_spec list" where
  "executable_quote_specs r specs =
     filter (\<lambda>s. os_side s \<noteq> None \<and> os_price s \<noteq> None \<and> min_order_size r \<le> os_amount s
                   \<and> min_notional r \<le> os_amount s * (case os_price s of Some p \<Rightarrow> p | None \<Rightarrow> 0)) specs"

definition buffered_maker_price :: "ctl_config \<Rightarrow> cycle \<Rightarrow> order_spec \<Rightarrow> real option" where
  "buffered_maker_price cfg cy s =
     (case (os_side s, os_price s) of
        (Some sd, Some p) \<Rightarrow>
          (case (if sd = Buy then cy_bid cy else cy_ask cy) of
             Num t \<Rightarrow> if t \<le> 0 then None
                       else Some (more_passive sd p (buffered_touch (cf_buffer_bps cfg) sd t))
           | _ \<Rightarrow> None)
      | _ \<Rightarrow> None)"

text \<open>Decimal's \<open>to_integral_value\<close> with ROUND_FLOOR and ROUND_CEILING, in steps.\<close>

definition floor_to_step :: "real \<Rightarrow> real \<Rightarrow> real" where
  "floor_to_step x step = (if 0 < step then of_int \<lfloor>x / step\<rfloor> * step else x)"

definition ceil_to_step :: "real \<Rightarrow> real \<Rightarrow> real" where
  "ceil_to_step x step = of_int \<lceil>x / step\<rceil> * step"

definition quote_config :: "ctl_config \<Rightarrow> real \<Rightarrow> side \<Rightarrow> real \<Rightarrow> real \<Rightarrow> bool \<Rightarrow> exec_config" where
  "quote_config cfg ts sd amount price reduce_only =
     \<lparr>ec_type = ''buffered_maker_executor'', ec_timestamp = ts, ec_side = sd, ec_total_base = None,
      ec_total_quote = None, ec_amount = Some amount, ec_price = Some price,
      ec_strategy = Some LimitMaker, ec_child_qty = None, ec_time_limit = None,
      ec_refresh_time = None, ec_leverage = cf_leverage cfg,
      ec_action = (if reduce_only then CLOSE else OPEN), ec_buffer_bps = Some (cf_buffer_bps cfg)\<rparr>"

text \<open>The checks come after buffering the price and quantizing the amount.\<close>

definition quote_create :: "ctl_config \<Rightarrow> cycle \<Rightarrow> real \<Rightarrow> order_spec \<Rightarrow> action list" where
  "quote_create cfg cy ts s =
     (case os_side s of
        None \<Rightarrow> []
      | Some sd \<Rightarrow>
          if os_amount s \<le> 0 then []
          else case buffered_maker_price cfg cy s of
                 None \<Rightarrow> []
               | Some price \<Rightarrow>
                   let amount = floor_to_step (os_amount s) (base_increment (cy_rules cy)) in
                   if amount < min_order_size (cy_rules cy) \<or> amount * price < min_notional (cy_rules cy)
                   then []
                   else [Create (quote_config cfg ts sd amount price (os_reduce_only s))])"

definition quote_create_actions :: "ctl_config \<Rightarrow> cycle \<Rightarrow> order_spec list \<Rightarrow> action list" where
  "quote_create_actions cfg cy specs = concat (map (quote_create cfg cy (cy_now cy)) specs)"

section \<open>Closing executors\<close>

definition min_child_quantity :: "cycle \<Rightarrow> real" where
  "min_child_quantity cy =
     (case cy_mid cy of
        Num m \<Rightarrow>
          if m = 0 \<or> min_notional (cy_rules cy) = 0 \<or> base_increment (cy_rules cy) = 0 then 0
          else ceil_to_step (min_notional (cy_rules cy) * (11 / 10) / m) (base_increment (cy_rules cy))
      | _ \<Rightarrow> 0)"

definition pa_exec_config ::
  "ctl_config \<Rightarrow> real \<Rightarrow> execution_request \<Rightarrow> real \<Rightarrow> real \<Rightarrow> real \<Rightarrow> exec_config" where
  "pa_exec_config cfg ts req child limit refresh =
     \<lparr>ec_type = ''passive_aggressive_executor'', ec_timestamp = ts, ec_side = rq_side req,
      ec_total_base = Some (rq_amount req), ec_total_quote = None, ec_amount = None, ec_price = None,
      ec_strategy = None, ec_child_qty = Some child, ec_time_limit = Some limit,
      ec_refresh_time = Some refresh, ec_leverage = cf_leverage cfg,
      ec_action = (if rq_reduce_only req then CLOSE else OPEN), ec_buffer_bps = None\<rparr>"

definition market_exec_config :: "ctl_config \<Rightarrow> real \<Rightarrow> execution_request \<Rightarrow> exec_config" where
  "market_exec_config cfg ts req =
     \<lparr>ec_type = ''order_executor'', ec_timestamp = ts, ec_side = rq_side req,
      ec_total_base = None, ec_total_quote = None, ec_amount = Some (rq_amount req), ec_price = None,
      ec_strategy = Some MarketStrategy, ec_child_qty = None, ec_time_limit = None,
      ec_refresh_time = None, ec_leverage = cf_leverage cfg,
      ec_action = (if rq_reduce_only req then CLOSE else OPEN), ec_buffer_bps = None\<rparr>"

definition execution_config :: "ctl_config \<Rightarrow> cycle \<Rightarrow> execution_request \<Rightarrow> exec_config" where
  "execution_config cfg cy req =
     (let ts = cy_now cy; amount = rq_amount req in
      case rq_urgency req of
        Emergency \<Rightarrow>
          if amount < min_order_size (cy_rules cy) then market_exec_config cfg ts req
          else pa_exec_config cfg ts req amount 5 5
      | Immediate \<Rightarrow> pa_exec_config cfg ts req amount (cf_stop_limit cfg) (cf_stop_limit cfg)
      | _ \<Rightarrow> pa_exec_config cfg ts req (min amount (max (amount / 5) (min_child_quantity cy))) 60 20)"

definition execution_actions :: "ctl_config \<Rightarrow> cycle \<Rightarrow> execution_request \<Rightarrow> action list" where
  "execution_actions cfg cy req = [Create (execution_config cfg cy req)]"

definition quote_failsafe_request :: "exec_intent \<Rightarrow> execution_request option" where
  "quote_failsafe_request i =
     (let current = current_or_zero i in
      if \<bar>current\<bar> < dust then None
      else Some \<lparr>rq_side = (if current > 0 then Sell else Buy), rq_amount = \<bar>current\<bar>,
                 rq_urgency = Immediate, rq_reduce_only = True\<rparr>)"

section \<open>Publishing an emergency to the basket\<close>

text \<open>\<open>_last_mid or 1.0\<close>; an exception of the book is logged, and the table stays as it was left.\<close>

definition publish_portfolio_emergency :: "flat_targets \<Rightarrow> ctl_config \<Rightarrow> cycle \<Rightarrow> real \<Rightarrow> ctl \<Rightarrow> ctl" where
  "publish_portfolio_emergency targets cfg cy position c =
     (case cf_book cfg of
        None \<Rightarrow> c
      | Some b \<Rightarrow>
          let mid = (case cy_last_mid cy of
                       Some m \<Rightarrow> (if m = Num 0 then Num 1 else m) | None \<Rightarrow> Num 1)
          in c\<lparr>c_table := fst (update_book targets b (c_table c) (cf_account cfg, cf_coin cfg)
                              (Num position) mid ''emergency'' (cy_wall cy))\<rparr>)"

definition cancel_timed_out ::
  "flat_targets \<Rightarrow> ctl_config \<Rightarrow> cycle \<Rightarrow> side set \<Rightarrow> side set \<Rightarrow> ctl \<Rightarrow> ctl" where
  "cancel_timed_out targets cfg cy expected live c =
     (case c_cancel_started c of
        None \<Rightarrow> c
      | Some started \<Rightarrow>
          if cy_now cy - started < cf_liveness_timeout cfg then c
          else publish_portfolio_emergency targets cfg cy (current_base_position cfg (cy_positions cy))
                 (c\<lparr>c_cancel_latency := Some (cy_now cy - started),
                    c_refresh_reason := Some ''cancel_timeout'', c_pending := False,
                    c_cancel_started := None,
                    c_watchdog := trip (c_watchdog c) (cy_now cy) expected live\<rparr>))"

section \<open>Refresh reasons\<close>

text \<open>
  \<open>quote_refresh_reason\<close> of \<open>mm_core\<close>: side, working price, desired price, mid, age.  The
  configured limits are passed by name in the code and are the same for every call.
\<close>

type_synonym refresh_policy = "side \<Rightarrow> real \<Rightarrow> real \<Rightarrow> pynum \<Rightarrow> real \<Rightarrow> string option"

fun find_reason :: "('a \<Rightarrow> string option) \<Rightarrow> 'a list \<Rightarrow> string option" where
  "find_reason f [] = None"
| "find_reason f (x # xs) = (case f x of Some r \<Rightarrow> Some r | None \<Rightarrow> find_reason f xs)"

definition working_price :: "handle \<Rightarrow> real option" where
  "working_price h =
     (case h_order_price h of
        Some p \<Rightarrow> if p = 0 then ec_price (h_config h) else Some p
      | None \<Rightarrow> ec_price (h_config h))"

definition quote_reason :: "refresh_policy \<Rightarrow> ctl_config \<Rightarrow> cycle \<Rightarrow> order_spec list \<Rightarrow> handle \<Rightarrow> string option" where
  "quote_reason policy cfg cy specs h =
     (case map_of (map (\<lambda>s. (os_side s, s)) (rev specs)) (Some (ec_side (h_config h))) of
        None \<Rightarrow> Some ''side_removed''
      | Some s \<Rightarrow>
          if os_amount s + dust < (case ec_amount (h_config h) of Some a \<Rightarrow> a | None \<Rightarrow> 0) - h_executed h
          then Some ''size_risk''
          else (case (working_price h, buffered_maker_price cfg cy s) of
                  (Some price, Some wanted) \<Rightarrow>
                    (case policy (ec_side (h_config h)) price wanted (cy_mid cy)
                            (cy_now cy - ec_timestamp (h_config h)) of
                       Some r \<Rightarrow> if r = [] then None else Some r
                     | None \<Rightarrow> None)
                | _ \<Rightarrow> Some ''invalid_price''))"

definition economic_refresh_reason ::
  "refresh_policy \<Rightarrow> ctl_config \<Rightarrow> cycle \<Rightarrow> handle list \<Rightarrow> order_spec list \<Rightarrow> string option" where
  "economic_refresh_reason policy cfg cy quotes specs = find_reason (quote_reason policy cfg cy specs) quotes"

section \<open>One decision\<close>

text \<open>What a branch decides: the executors to keep and the executors to create.\<close>

type_synonym decision = "ctl \<times> string set \<times> action list"

definition stop_others :: "handle list \<Rightarrow> decision \<Rightarrow> ctl \<times> action list" where
  "stop_others active d =
     (case d of (c, keep, new_actions) \<Rightarrow>
        (c, map (\<lambda>h. Stop (h_id h)) (filter (\<lambda>h. h_id h \<notin> keep) active) @ new_actions))"

definition suspended_cycle :: "handle list \<Rightarrow> ctl \<Rightarrow> ctl \<times> action list" where
  "suspended_cycle active c =
     (c\<lparr>c_watchdog := suspend (c_watchdog c), c_pending := False\<rparr>,
      map (\<lambda>h. Stop (h_id h)) (filter is_quote_executor active))"

definition stale_cycle :: "flat_targets \<Rightarrow> ctl_config \<Rightarrow> cycle \<Rightarrow> ctl \<Rightarrow> ctl \<times> action list" where
  "stale_cycle targets cfg cy c =
     (let now = cy_now cy;
          quotes = filter is_quote_executor (cy_active cy);
          c1 = c\<lparr>c_refresh_reason := Some ''stale_market_data'', c_watchdog := suspend (c_watchdog c)\<rparr>;
          c2 = (if quotes \<noteq> [] \<and> \<not> c_pending c1 \<and> allow_quotes (c_watchdog c1) now
                then c1\<lparr>c_pending := True, c_cancel_started := Some now\<rparr> else c1);
          c3 = (if c_pending c2
                then cancel_timed_out targets cfg cy (set (map (\<lambda>h. ec_side (h_config h)) quotes))
                       (live_quote_sides quotes) c2
                else c2)
      in (c3, map (\<lambda>h. Stop (h_id h)) quotes))"

definition refresh_cycle :: "flat_targets \<Rightarrow> ctl_config \<Rightarrow> cycle \<Rightarrow> order_spec list \<Rightarrow> ctl \<Rightarrow> decision" where
  "refresh_cycle targets cfg cy specs c =
     (let now = cy_now cy; active = cy_active cy;
          expected = set (map (\<lambda>s. the (os_side s)) specs);
          c1 = c\<lparr>c_watchdog := suspend (c_watchdog c)\<rparr>
      in if active \<noteq> [] then (cancel_timed_out targets cfg cy expected (live_quote_sides active) c1, {}, [])
         else
           let c2 = c1\<lparr>c_pending := False\<rparr>;
               c3 = (case c_cancel_started c of
                       Some started \<Rightarrow> c2\<lparr>c_cancel_latency := Some (now - started), c_cancel_started := None\<rparr>
                     | None \<Rightarrow> c2)
           in (c3, {}, quote_create_actions cfg cy specs))"

definition tripped_cycle ::
  "flat_targets \<Rightarrow> ctl_config \<Rightarrow> cycle \<Rightarrow> exec_intent \<Rightarrow> ctl \<Rightarrow> decision" where
  "tripped_cycle targets cfg cy i c =
     (publish_portfolio_emergency targets cfg cy (current_base_position cfg (cy_positions cy)) c, {},
      (case quote_failsafe_request i of
         Some req \<Rightarrow> if cy_active cy = [] then execution_actions cfg cy req else []
       | None \<Rightarrow> []))"

text \<open>Whether the running quote pair may stay: exactly the expected sides, no economic reason,
  and still waiting for venue ids or young enough.\<close>

definition keep_pair :: "refresh_policy \<Rightarrow> ctl_config \<Rightarrow> cycle \<Rightarrow> order_spec list \<Rightarrow> bool" where
  "keep_pair policy cfg cy specs =
     (let now = cy_now cy;
          quotes = filter is_quote_executor (cy_active cy);
          expected = set (map (\<lambda>s. the (os_side s)) specs);
          configured = set (map (\<lambda>h. ec_side (h_config h)) quotes);
          ages = map (\<lambda>h. now - ec_timestamp (h_config h)) quotes;
          exact = (configured = expected \<and> length quotes = card expected);
          waiting = (\<not> expected \<subseteq> live_quote_sides (cy_active cy));
          fresh = (foldl max (hd ages) (tl ages) < cf_refresh_interval cfg)
      in exact \<and> economic_refresh_reason policy cfg cy quotes specs = None \<and> (waiting \<or> fresh))"

definition standing_cycle ::
  "refresh_policy \<Rightarrow> ctl_config \<Rightarrow> cycle \<Rightarrow> order_spec list \<Rightarrow> ctl \<Rightarrow> decision" where
  "standing_cycle policy cfg cy specs c =
     (if keep_pair policy cfg cy specs then (c, set (map h_id (cy_active cy)), [])
      else (c\<lparr>c_refresh_reason := Some
                (case economic_refresh_reason policy cfg cy (filter is_quote_executor (cy_active cy)) specs of
                   Some r \<Rightarrow> r | None \<Rightarrow> ''sides_or_max_age''),
              c_pending := True, c_cancel_started := Some (cy_now cy),
              c_watchdog := suspend (c_watchdog c)\<rparr>, {}, []))"

definition quoting_cycle ::
  "flat_targets \<Rightarrow> refresh_policy \<Rightarrow> ctl_config \<Rightarrow> cycle \<Rightarrow> exec_intent \<Rightarrow> ctl \<Rightarrow> decision" where
  "quoting_cycle targets policy cfg cy i c =
     (let specs = executable_quote_specs (cy_rules cy) (intent_to_order_specs (Some i));
          now = cy_now cy; active = cy_active cy;
          execution_active = filter (\<lambda>h. \<not> is_quote_executor h) active
      in if execution_active \<noteq> [] then
           (c\<lparr>c_watchdog := suspend (c_watchdog c), c_pending := False\<rparr>,
            set (map h_id execution_active), [])
         else if c_pending c then refresh_cycle targets cfg cy specs c
         else if \<not> allow_quotes (c_watchdog c) now then tripped_cycle targets cfg cy i c
         else
           let expected = set (map (\<lambda>s. the (os_side s)) specs);
               (w, tripped) = observe (c_watchdog c) now expected (live_quote_sides active);
               c1 = c\<lparr>c_watchdog := w\<rparr>
           in if tripped then tripped_cycle targets cfg cy i c1
              else if active \<noteq> [] then standing_cycle policy cfg cy specs c1
              else (c1, {}, quote_create_actions cfg cy specs))"

definition closing_cycle :: "ctl_config \<Rightarrow> cycle \<Rightarrow> exec_intent option \<Rightarrow> ctl \<Rightarrow> decision" where
  "closing_cycle cfg cy intent c =
     (let c1 = c\<lparr>c_watchdog := suspend (c_watchdog c), c_pending := False\<rparr>;
          active = cy_active cy;
          quotes = filter is_quote_executor active
      in case intent_to_execution_request intent of
           Some req \<Rightarrow>
             if quotes = [] then
               (let wanted = execution_signature (execution_config cfg cy req);
                    keep = set (map h_id (filter (\<lambda>h. execution_signature (h_config h) = wanted) active))
                in (c1, keep, if keep \<noteq> {} then [] else execution_actions cfg cy req))
             else (c1, set (map h_id (filter (\<lambda>h. \<not> is_quote_executor h) active)), [])
         | None \<Rightarrow>
             (c1, if quotes \<noteq> [] then set (map h_id (filter (\<lambda>h. \<not> is_quote_executor h) active)) else {}, []))"

definition determine_executor_actions ::
  "flat_targets \<Rightarrow> refresh_policy \<Rightarrow> ctl_config \<Rightarrow> cycle \<Rightarrow> exec_intent option \<Rightarrow> ctl \<Rightarrow> ctl \<times> action list" where
  "determine_executor_actions targets policy cfg cy intent c =
     (if cf_shadow cfg then (c, [])
      else if c_suspension c \<noteq> None \<and> intent_is_quoting intent \<and> allow_quotes (c_watchdog c) (cy_now cy)
      then suspended_cycle (cy_active cy) c
      else if intent_is_quoting intent
              \<and> (case cf_max_data_age cfg of None \<Rightarrow> False | Some a \<Rightarrow> py_lt (Num a) (market_data_age_s cy))
      then stale_cycle targets cfg cy c
      else stop_others (cy_active cy)
             (case intent of
                Some i \<Rightarrow> if in_quote i \<noteq> None then quoting_cycle targets policy cfg cy i c
                           else closing_cycle cfg cy intent c
              | None \<Rightarrow> closing_cycle cfg cy intent c))"

end
