(* ===== verification/PerpControllerSafety.thy ===== *)
theory PerpControllerSafety imports PerpController begin

text \<open>
  What one decision of the perp controller may do, and what holds over a run of decisions with
  a clock that does not run backwards: quotes are created only with nothing else working and
  the liveness circuit closed, closes only reduce, and a fail-safe decision stops every quote.
\<close>

section \<open>Created executors\<close>

lemma Create_in_stop_others [simp]:
  "Create e \<in> set (snd (stop_others active d)) \<longleftrightarrow> Create e \<in> set (snd (snd d))"
  by (cases d) (auto simp: stop_others_def)

lemma Stop_in_stop_others:
  "h \<in> set active \<Longrightarrow> h_id h \<notin> fst (snd d) \<Longrightarrow> Stop (h_id h) \<in> set (snd (stop_others active d))"
  by (cases d) (auto simp: stop_others_def)

lemma fst_stop_others [simp]: "fst (stop_others active d) = fst d"
  by (cases d) (simp add: stop_others_def)

lemma no_Create_map_Stop [simp]: "Create e \<notin> set (map (\<lambda>h. Stop (h_id h)) hs)"
  by auto

lemma quote_config_is_quote [simp]: "is_quote_config (quote_config cfg ts sd amount price ro)"
  by (simp add: is_quote_config_def quote_config_def)

lemma execution_config_not_quote [simp]: "\<not> is_quote_config (execution_config cfg cy req)"
  by (simp add: is_quote_config_def execution_config_def pa_exec_config_def market_exec_config_def Let_def
      split: urgency.split)

lemma Create_execution [simp]:
  "Create e \<in> set (execution_actions cfg cy req) \<longleftrightarrow> e = execution_config cfg cy req"
  by (auto simp: execution_actions_def)

lemma quote_create_Create:
  assumes "Create e \<in> set (quote_create_actions cfg cy specs)"
  obtains s sd amount price where "s \<in> set specs" "os_side s = Some sd" "0 < os_amount s"
    "buffered_maker_price cfg cy s = Some price"
    "amount = floor_to_step (os_amount s) (base_increment (cy_rules cy))"
    "min_order_size (cy_rules cy) \<le> amount" "min_notional (cy_rules cy) \<le> amount * price"
    "e = quote_config cfg (cy_now cy) sd amount price (os_reduce_only s)"
proof -
  obtain s where s: "s \<in> set specs" "Create e \<in> set (quote_create cfg cy (cy_now cy) s)"
    using assms by (auto simp: quote_create_actions_def)
  obtain sd where sd: "os_side s = Some sd" and pos: "0 < os_amount s"
    using s(2) by (cases "os_side s") (auto simp: quote_create_def split: if_splits)
  obtain price where price: "buffered_maker_price cfg cy s = Some price"
    using s(2) sd pos by (cases "buffered_maker_price cfg cy s") (auto simp: quote_create_def)
  show thesis
    by (rule that[OF s(1) sd pos price refl])
      (use s(2) sd pos price in \<open>auto simp: quote_create_def Let_def split: if_splits\<close>)
qed

lemma quote_create_is_quote: "Create e \<in> set (quote_create_actions cfg cy specs) \<Longrightarrow> is_quote_config e"
  by (erule quote_create_Create) simp

text \<open>The branch a created executor comes from.\<close>

lemma quoting_Create:
  assumes "Create e \<in> set (snd (snd (quoting_cycle targets policy cfg cy i c)))"
  shows "if is_quote_config e
    then cy_active cy = []
      \<and> Create e \<in> set (quote_create_actions cfg cy
                     (executable_quote_specs (cy_rules cy) (intent_to_order_specs (Some i))))
      \<and> (c_pending c \<or> allow_quotes (c_watchdog c) (cy_now cy))
    else cy_active cy = [] \<and> (\<exists>req. quote_failsafe_request i = Some req \<and> e = execution_config cfg cy req)"
proof -
  let ?specs = "executable_quote_specs (cy_rules cy) (intent_to_order_specs (Some i))"
  show ?thesis
    using assms quote_create_is_quote[of e cfg cy ?specs]
    by (auto simp: quoting_cycle_def refresh_cycle_def tripped_cycle_def standing_cycle_def Let_def
        eq_commute[of "Some _" "quote_failsafe_request _"]
        split: if_splits prod.splits option.splits)
qed

lemma closing_Create:
  assumes "Create e \<in> set (snd (snd (closing_cycle cfg cy intent c)))"
  shows "\<exists>req. intent_to_execution_request intent = Some req \<and> e = execution_config cfg cy req
    \<and> filter is_quote_executor (cy_active cy) = []
    \<and> (\<forall>h\<in>set (cy_active cy). execution_signature (h_config h) \<noteq> execution_signature e)"
  using assms
  by (auto simp: closing_cycle_def Let_def split: option.splits if_splits)

text \<open>When the age gate of the public book is closed.\<close>

definition book_stale :: "ctl_config \<Rightarrow> cycle \<Rightarrow> bool" where
  "book_stale cfg cy =
     (case cf_max_data_age cfg of None \<Rightarrow> False | Some a \<Rightarrow> py_lt (Num a) (market_data_age_s cy))"

lemma determine_Create:
  assumes "Create e \<in> set (snd (determine_executor_actions targets policy cfg cy intent c))"
  shows "\<not> cf_shadow cfg
    \<and> (case intent of
         Some i \<Rightarrow>
           if in_quote i \<noteq> None
           then \<not> (c_suspension c \<noteq> None \<and> allow_quotes (c_watchdog c) (cy_now cy)) \<and> \<not> book_stale cfg cy
             \<and> Create e \<in> set (snd (snd (quoting_cycle targets policy cfg cy i c)))
           else Create e \<in> set (snd (snd (closing_cycle cfg cy intent c)))
       | None \<Rightarrow> Create e \<in> set (snd (snd (closing_cycle cfg cy intent c))))"
  using assms
  by (auto simp: determine_executor_actions_def intent_is_quoting_def book_stale_def suspended_cycle_def
      stale_cycle_def Let_def split: if_splits option.splits)

section \<open>Runs\<close>

text \<open>
  A run: decisions at times that do not decrease, and between them any change by the rest of the
  controller or by the basket's other processes, none of which touches the watchdog, the pending
  refresh or its start.
\<close>

inductive ctl_run :: "flat_targets \<Rightarrow> refresh_policy \<Rightarrow> ctl_config \<Rightarrow> real \<Rightarrow> ctl \<Rightarrow> real \<Rightarrow> ctl \<Rightarrow> bool"
  for targets policy cfg t0 c0 where
  here: "ctl_run targets policy cfg t0 c0 t0 c0"
| decide: "ctl_run targets policy cfg t0 c0 t c \<Longrightarrow> t \<le> cy_now cy \<Longrightarrow>
    ctl_run targets policy cfg t0 c0 (cy_now cy) (fst (determine_executor_actions targets policy cfg cy intent c))"
| rest: "ctl_run targets policy cfg t0 c0 t c \<Longrightarrow> c_watchdog c' = c_watchdog c \<Longrightarrow>
    c_pending c' = c_pending c \<Longrightarrow> c_cancel_started c' = c_cancel_started c \<Longrightarrow>
    ctl_run targets policy cfg t0 c0 t c'"

lemma publish_frame [simp]:
  "c_watchdog (publish_portfolio_emergency targets cfg cy p c) = c_watchdog c"
  "c_pending (publish_portfolio_emergency targets cfg cy p c) = c_pending c"
  "c_cancel_started (publish_portfolio_emergency targets cfg cy p c) = c_cancel_started c"
  by (simp_all add: publish_portfolio_emergency_def Let_def split: option.split)

lemma cancel_timed_out_cases:
  "cancel_timed_out targets cfg cy expected live c = c
   \<or> (\<not> c_pending (cancel_timed_out targets cfg cy expected live c)
      \<and> c_watchdog (cancel_timed_out targets cfg cy expected live c)
          = trip (c_watchdog c) (cy_now cy) expected live)"
  by (auto simp: cancel_timed_out_def split: option.split)

text \<open>A pending refresh was started with the circuit closed, and the circuit stays closed.\<close>

definition pending_ok :: "real \<Rightarrow> ctl \<Rightarrow> bool" where
  "pending_ok t c = (c_pending c \<longrightarrow> allow_quotes (c_watchdog c) t)"

lemma pending_ok_mono: "pending_ok t c \<Longrightarrow> t \<le> u \<Longrightarrow> pending_ok u c"
  by (auto simp: pending_ok_def intro: wd.allow_mono)

lemma pending_ok_cancel:
  "pending_ok t c \<Longrightarrow> pending_ok t (cancel_timed_out targets cfg cy expected live c)"
  using cancel_timed_out_cases[of targets cfg cy expected live c] by (auto simp: pending_ok_def)

lemma pending_ok_quoting:
  assumes "pending_ok (cy_now cy) c" "0 \<le> cy_now cy"
  shows "pending_ok (cy_now cy) (fst (quoting_cycle targets policy cfg cy i c))"
proof -
  have quiet: "allow_quotes w (cy_now cy)"
    if "observe (c_watchdog c) (cy_now cy) E L = (w, False)" "allow_quotes (c_watchdog c) (cy_now cy)" for E L w
    using wd.observe_quiet[of "c_watchdog c" "cy_now cy" E L] that assms(2) by simp
  have susp: "pending_ok (cy_now cy) (c\<lparr>c_watchdog := suspend (c_watchdog c)\<rparr>)"
    using assms(1) by (simp add: pending_ok_def)
  show ?thesis
    using assms(1) pending_ok_cancel[OF susp] quiet
    by (auto simp: quoting_cycle_def refresh_cycle_def tripped_cycle_def standing_cycle_def Let_def
        pending_ok_def split: if_splits prod.splits option.splits)
qed

lemma pending_ok_stale:
  assumes "pending_ok (cy_now cy) c"
  shows "pending_ok (cy_now cy) (fst (stale_cycle targets cfg cy c))"
proof -
  have "pending_ok (cy_now cy) (if P then cancel_timed_out targets cfg cy E L d else d)"
    if "pending_ok (cy_now cy) d" for P E L d
    using that pending_ok_cancel by simp
  with assms show ?thesis
    by (auto simp: stale_cycle_def Let_def pending_ok_def)
qed

lemma pending_ok_determine:
  assumes "pending_ok (cy_now cy) c" "0 \<le> cy_now cy"
  shows "pending_ok (cy_now cy) (fst (determine_executor_actions targets policy cfg cy intent c))"
  using assms pending_ok_quoting[OF assms] pending_ok_stale[OF assms(1)]
  by (auto simp: determine_executor_actions_def suspended_cycle_def pending_ok_def closing_cycle_def Let_def
      split: option.splits)

lemma ctl_run_pending_ok:
  assumes "ctl_run targets policy cfg t0 c0 t c" "0 \<le> t0" "pending_ok t0 c0"
  shows "t0 \<le> t \<and> pending_ok t c"
  using assms(1)
proof induction
  case here
  then show ?case using assms(3) by simp
next
  case (decide t c cy intent)
  then have "pending_ok (cy_now cy) c" "0 \<le> cy_now cy"
    using assms(2) pending_ok_mono by auto
  with decide show ?case using pending_ok_determine by auto
next
  case (rest t c c')
  then show ?case by (simp add: pending_ok_def)
qed


lemma quote_created_conditions:
  assumes "pending_ok (cy_now cy) c"
    "Create e \<in> set (snd (determine_executor_actions targets policy cfg cy intent c))" "is_quote_config e"
  shows "cy_active cy = [] \<and> intent_is_quoting intent \<and> allow_quotes (c_watchdog c) (cy_now cy)
    \<and> c_suspension c = None \<and> \<not> book_stale cfg cy \<and> \<not> cf_shadow cfg"
proof -
  obtain i where i: "intent = Some i" "in_quote i \<noteq> None"
    using determine_Create[OF assms(2)] closing_Create[of e cfg cy intent c] assms(3)
    by (auto split: option.splits if_splits)
  with determine_Create[OF assms(2)] quoting_Create[of e targets policy cfg cy i c] assms(3,1)
  show ?thesis
    by (auto simp: intent_is_quoting_def pending_ok_def)
qed

section \<open>The circuit over a run\<close>

text \<open>What a decision can do to the watchdog.\<close>

inductive watchdog_step :: "real \<Rightarrow> watchdog \<Rightarrow> watchdog \<Rightarrow> bool" for t w where
  same: "watchdog_step t w w"
| suspended: "watchdog_step t w (suspend w)"
| observed: "allow_quotes w t \<Longrightarrow> watchdog_step t w (fst (observe w t E L))"
| observed_suspended: "allow_quotes w t \<Longrightarrow> \<not> snd (observe w t E L) \<Longrightarrow>
    watchdog_step t w (suspend (fst (observe w t E L)))"
| tripped: "watchdog_step t w (trip (suspend w) t E L)"

lemma cancel_watchdog_step:
  "watchdog_step (cy_now cy) w
     (c_watchdog (cancel_timed_out targets cfg cy E L (c\<lparr>c_watchdog := suspend w\<rparr>)))"
  using cancel_timed_out_cases[of targets cfg cy E L "c\<lparr>c_watchdog := suspend w\<rparr>"]
  by (auto intro: watchdog_step.intros)

lemma observe_step:
  assumes "observe w t E L = (w', hit)" "allow_quotes w t"
  shows "watchdog_step t w w'" "\<not> hit \<Longrightarrow> watchdog_step t w (suspend w')"
  using watchdog_step.observed[of w t E L] watchdog_step.observed_suspended[of w t E L] assms by auto

lemma quoting_watchdog_step:
  "watchdog_step (cy_now cy) (c_watchdog c) (c_watchdog (fst (quoting_cycle targets policy cfg cy i c)))"
  using cancel_watchdog_step[of cy "c_watchdog c" targets cfg]
  by (auto simp: quoting_cycle_def refresh_cycle_def tripped_cycle_def standing_cycle_def Let_def
      intro: watchdog_step.intros observe_step split: prod.splits option.splits)

lemma stale_watchdog_step:
  "watchdog_step (cy_now cy) (c_watchdog c) (c_watchdog (fst (stale_cycle targets cfg cy c)))"
proof -
  have "watchdog_step (cy_now cy) w (c_watchdog (if P then cancel_timed_out targets cfg cy E L d else d))"
    if "c_watchdog d = suspend w" for P E L d w
    using cancel_timed_out_cases[of targets cfg cy E L d] that by (auto intro: watchdog_step.intros)
  then show ?thesis by (simp add: stale_cycle_def Let_def)
qed

lemma determine_watchdog_step:
  "watchdog_step (cy_now cy) (c_watchdog c)
     (c_watchdog (fst (determine_executor_actions targets policy cfg cy intent c)))"
  using quoting_watchdog_step stale_watchdog_step
  by (auto simp: determine_executor_actions_def suspended_cycle_def closing_cycle_def Let_def
      intro: watchdog_step.intros split: option.splits)

lemma watchdog_step_blocked:
  "watchdog_step t w w' \<Longrightarrow> t < D \<Longrightarrow> D \<le> open_until w \<Longrightarrow> D \<le> open_until w'"
  by (induction rule: watchdog_step.induct)
    (simp_all add: wd.suspend_reopen wd.trip_reopen wd.allow_iff)

lemma watchdog_step_trip:
  "watchdog_step t w w' \<Longrightarrow> trips w' \<noteq> trips w \<Longrightarrow> t + recovery_cooldown_s w \<le> open_until w'"
proof (induction rule: watchdog_step.induct)
  case (observed E L)
  have "trips (fst (observe w t E L)) = trips w" if "\<not> snd (observe w t E L)"
    using that by (auto simp: observe_def Let_def split: option.splits if_splits)
  with observed show ?case
    using wd.observe_trips[of w t E L] by (cases "snd (observe w t E L)") auto
next
  case (observed_suspended E L)
  then show ?case by (auto simp: observe_def suspend_def Let_def split: option.splits if_splits)
next
  case (tripped E L)
  then show ?case by (simp add: wd.trip_reopen wd.suspend_cooldown)
qed (auto simp: suspend_def)

lemma ctl_run_blocked:
  assumes "ctl_run targets policy cfg t0 c0 t c" "t < D" "D \<le> open_until (c_watchdog c0)"
  shows "D \<le> open_until (c_watchdog c)"
  using assms(1,2)
proof induction
  case here
  then show ?case using assms(3) by simp
next
  case (decide t c cy intent)
  then show ?case
    using watchdog_step_blocked[OF determine_watchdog_step] by auto
next
  case (rest t c c')
  then show ?case by simp
qed

end
