(* ===== verification/FillAnalytics.thy ===== *)
theory FillAnalytics imports Prelude begin

text \<open>
  \<open>src/opms/analytics/fill_observer.py\<close>: the observer of a connector's fills.

  The ledger and the markout tracker are \<open>mm_core\<close>'s: their states are type parameters and
  their operations arguments (a ledger may refuse a fill with a ValueError).  A mid is a
  \<open>pynum\<close>, since the controller passes on whatever the connector reports; a fill's price and
  size are finite.
\<close>

section \<open>State\<close>

record fill =
  fl_ts :: real
  fl_side :: side
  fl_price :: real
  fl_size :: real
  fl_fee :: real
  fl_mid :: "pynum option"
  fl_label :: string

record ('l, 'm) observer =
  ob_symbol :: string
  ob_ledger :: 'l
  ob_markout :: 'm
  ob_slippage :: "pynum list"
  ob_last_mid :: "pynum option"
  ob_buffer :: "(real \<times> pynum) list"
  ob_last_fill :: "real option"
  ob_connector :: "string option"

record fill_event =
  fe_pair :: string
  fe_ts :: real
  fe_side :: side
  fe_price :: real
  fe_size :: real
  fe_order_id :: string
  fe_fee :: "py_error + real"

definition mid_buffer_maxlen :: nat where
  "mid_buffer_maxlen = 4096"

definition new_observer :: "string \<Rightarrow> 'l \<Rightarrow> 'm \<Rightarrow> ('l, 'm) observer" where
  "new_observer symbol ledger markout =
     \<lparr>ob_symbol = symbol, ob_ledger = ledger, ob_markout = markout, ob_slippage = [],
      ob_last_mid = None, ob_buffer = [], ob_last_fill = None, ob_connector = None\<rparr>"

section \<open>Lifecycle\<close>

text \<open>Calls on a connector, by its name: \<open>Removed\<close> is \<open>remove_listener\<close>, \<open>Added\<close> is \<open>add_listener\<close>.\<close>

datatype listener_call = Added string | Removed string

definition unregister :: "string \<Rightarrow> ('l, 'm) observer \<Rightarrow> ('l, 'm) observer \<times> listener_call list" where
  "unregister conn ob =
     ((if ob_connector ob = Some conn then ob\<lparr>ob_connector := None\<rparr> else ob), [Removed conn])"

definition register :: "string \<Rightarrow> ('l, 'm) observer \<Rightarrow> ('l, 'm) observer \<times> listener_call list" where
  "register conn ob =
     (let (ob1, calls) = (case ob_connector ob of Some old \<Rightarrow> unregister old ob | None \<Rightarrow> (ob, []))
      in (ob1\<lparr>ob_connector := Some conn\<rparr>, calls @ [Added conn]))"

section \<open>Mids\<close>

text \<open>Appending to a bounded deque drops the oldest entry.\<close>

definition deque_append :: "nat \<Rightarrow> 'a list \<Rightarrow> 'a \<Rightarrow> 'a list" where
  "deque_append maxlen xs x = (let ys = xs @ [x] in drop (length ys - maxlen) ys)"

definition update_mid :: "('m \<Rightarrow> real \<Rightarrow> pynum \<Rightarrow> 'm) \<Rightarrow> pynum \<Rightarrow> real \<Rightarrow> ('l, 'm) observer \<Rightarrow> ('l, 'm) observer" where
  "update_mid on_mid mid ts ob =
     ob\<lparr>ob_last_mid := Some mid, ob_buffer := deque_append mid_buffer_maxlen (ob_buffer ob) (ts, mid),
        ob_markout := on_mid (ob_markout ob) ts mid\<rparr>"

fun latest_before :: "real \<Rightarrow> (real \<times> pynum) list \<Rightarrow> pynum option" where
  "latest_before ts [] = None"
| "latest_before ts ((t, m) # rest) = (if t \<le> ts then Some m else latest_before ts rest)"

definition mid_at :: "('l, 'm) observer \<Rightarrow> real \<Rightarrow> pynum option" where
  "mid_at ob ts =
     (case latest_before ts (rev (ob_buffer ob)) of Some m \<Rightarrow> Some m | None \<Rightarrow> ob_last_mid ob)"

section \<open>Fills\<close>

definition fee_in_quote_token :: "fill_event \<Rightarrow> real" where
  "fee_in_quote_token ev = (case fe_fee ev of Inr f \<Rightarrow> f | Inl _ \<Rightarrow> 0)"

definition fill_of_event :: "('l, 'm) observer \<Rightarrow> fill_event \<Rightarrow> fill" where
  "fill_of_event ob ev =
     \<lparr>fl_ts = fe_ts ev, fl_side = fe_side ev, fl_price = fe_price ev, fl_size = fe_size ev,
      fl_fee = fee_in_quote_token ev, fl_mid = mid_at ob (fe_ts ev),
      fl_label = (if fe_order_id ev \<noteq> [] then ''order_'' @ take 8 (fe_order_id ev) else [])\<rparr>"

text \<open>\<open>if mid_at_fill and mid_at_fill > 0\<close>: a NaN is not above zero, and against an infinite mid the
  quotient is NaN.\<close>

definition fill_slippage :: "side \<Rightarrow> real \<Rightarrow> pynum option \<Rightarrow> pynum list" where
  "fill_slippage sd price mid =
     (case mid of
        Some (Num m) \<Rightarrow> if 0 < m then [Num (signed sd ((price - m) / m * 10000))] else []
      | Some PosInf \<Rightarrow> [NaN]
      | _ \<Rightarrow> [])"

definition on_fill_event ::
  "('l \<Rightarrow> fill \<Rightarrow> py_error + 'l) \<Rightarrow> ('m \<Rightarrow> real \<Rightarrow> side \<Rightarrow> real \<Rightarrow> real \<Rightarrow> 'm) \<Rightarrow> real \<Rightarrow> fill_event
     \<Rightarrow> ('l, 'm) observer \<Rightarrow> ('l, 'm) observer \<times> (py_error + unit)" where
  "on_fill_event ledger_fill markout_fill wall ev ob =
     (if fe_pair ev \<noteq> ob_symbol ob then (ob, Inr ())
      else
        let ob1 = ob\<lparr>ob_last_fill := Some wall\<rparr>; fill = fill_of_event ob1 ev in
        case ledger_fill (ob_ledger ob1) fill of
          Inl e \<Rightarrow> (ob1, if e = ValueError then Inr () else Inl e)
        | Inr ledger \<Rightarrow>
            (ob1\<lparr>ob_ledger := ledger,
                 ob_markout := markout_fill (ob_markout ob1) (fe_ts ev) (fe_side ev) (fe_price ev) (fe_size ev),
                 ob_slippage := ob_slippage ob1 @ fill_slippage (fe_side ev) (fe_price ev) (fl_mid fill)\<rparr>,
             Inr ()))"

section \<open>Analytics\<close>

definition explain_mid :: "pynum option \<Rightarrow> ('l, 'm) observer \<Rightarrow> pynum" where
  "explain_mid mid ob =
     (case mid of
        Some m \<Rightarrow> m
      | None \<Rightarrow> (case ob_last_mid ob of Some m \<Rightarrow> if m = Num 0 then Num 0 else m | None \<Rightarrow> Num 0))"

definition slippage_stats :: "real list \<Rightarrow> nat \<times> real option \<times> real option" where
  "slippage_stats xs =
     (if xs = [] then (0, None, None)
      else (length xs, Some (sum_list xs / real (length xs)), Some (foldl max (hd xs) (tl xs))))"

section \<open>Properties\<close>

lemma deque_append_history:
  "deque_append n (drop (length h - n) h) x = drop (Suc (length h) - n) (h @ [x])"
proof -
  have "drop (length h - n) h @ [x] = drop (length h - n) (h @ [x])" by simp
  then show ?thesis by (cases "n \<le> length h") (simp_all add: deque_append_def Let_def Suc_diff_le)
qed

definition observe_mids ::
  "('m \<Rightarrow> real \<Rightarrow> pynum \<Rightarrow> 'm) \<Rightarrow> (real \<times> pynum) list \<Rightarrow> ('l, 'm) observer \<Rightarrow> ('l, 'm) observer" where
  "observe_mids on_mid h ob = foldl (\<lambda>ob (t, m). update_mid on_mid m t ob) ob h"

lemma observe_mids_buffer:
  "ob_buffer ob = [] \<Longrightarrow>
   ob_buffer (observe_mids on_mid h ob) = drop (length h - mid_buffer_maxlen) h
   \<and> ob_last_mid (observe_mids on_mid h ob) = (if h = [] then ob_last_mid ob else Some (snd (last h)))"
proof (induction h rule: rev_induct)
  case (snoc x h)
  then show ?case
    by (cases x) (simp add: observe_mids_def update_mid_def deque_append_history)
qed (simp add: observe_mids_def)

lemma latest_before_Some:
  "latest_before ts xs = Some m \<longleftrightarrow> (\<exists>us t vs. xs = us @ (t, m) # vs \<and> t \<le> ts \<and> (\<forall>u\<in>set us. ts < fst u))"
proof (induction xs)
  case (Cons x xs)
  obtain t m' where x: "x = (t, m')" by force
  show ?case
  proof (cases "t \<le> ts")
    case True
    show ?thesis
    proof
      assume "latest_before ts (x # xs) = Some m"
      with True have "x # xs = [] @ (t, m) # xs \<and> t \<le> ts \<and> (\<forall>u\<in>set []. ts < fst u)" by (simp add: x)
      then show "\<exists>us t vs. x # xs = us @ (t, m) # vs \<and> t \<le> ts \<and> (\<forall>u\<in>set us. ts < fst u)" by blast
    next
      assume "\<exists>us t vs. x # xs = us @ (t, m) # vs \<and> t \<le> ts \<and> (\<forall>u\<in>set us. ts < fst u)"
      with True show "latest_before ts (x # xs) = Some m"
        by (auto simp: x Cons_eq_append_conv)
    qed
  next
    case False
    then have step: "latest_before ts (x # xs) = latest_before ts xs" "ts < fst x" by (simp_all add: x)
    show ?thesis
    proof
      assume "latest_before ts (x # xs) = Some m"
      with step Cons.IH obtain us t vs where "xs = us @ (t, m) # vs" "t \<le> ts" "\<forall>u\<in>set us. ts < fst u"
        by auto
      with step have "x # xs = (x # us) @ (t, m) # vs \<and> t \<le> ts \<and> (\<forall>u\<in>set (x # us). ts < fst u)" by simp
      then show "\<exists>us t vs. x # xs = us @ (t, m) # vs \<and> t \<le> ts \<and> (\<forall>u\<in>set us. ts < fst u)" by blast
    next
      assume "\<exists>us t vs. x # xs = us @ (t, m) # vs \<and> t \<le> ts \<and> (\<forall>u\<in>set us. ts < fst u)"
      then obtain us s vs where *: "x # xs = us @ (s, m) # vs" "s \<le> ts" "\<forall>u\<in>set us. ts < fst u" by blast
      with step(2) obtain us' where "us = x # us'" "xs = us' @ (s, m) # vs"
        by (cases us) auto
      with * have "\<exists>us t vs. xs = us @ (t, m) # vs \<and> t \<le> ts \<and> (\<forall>u\<in>set us. ts < fst u)" by auto
      with Cons.IH step(1) show "latest_before ts (x # xs) = Some m" by simp
    qed
  qed
qed simp

lemma latest_before_None: "latest_before ts xs = None \<longleftrightarrow> (\<forall>x\<in>set xs. ts < fst x)"
  by (induction xs) (auto simp: not_le split: if_splits)

text \<open>
  After any history of mids, the mid a fill is judged against is the last one observed at or
  before the fill's own time among the most recent 4096, and only when all of those are later
  than the fill it is the latest mid.
\<close>

theorem fill_mid_is_the_one_in_force:
  assumes "ob_buffer ob = []" "h \<noteq> []"
  shows "(let recent = drop (length h - mid_buffer_maxlen) h in
    case mid_at (observe_mids on_mid h ob) ts of
      None \<Rightarrow> False
    | Some m \<Rightarrow> if \<forall>x\<in>set recent. ts < fst x then m = snd (last h)
        else \<exists>us t vs. recent = us @ (t, m) # vs \<and> t \<le> ts \<and> (\<forall>v\<in>set vs. ts < fst v))"
proof -
  let ?r = "drop (length h - mid_buffer_maxlen) h"
  note b = observe_mids_buffer[OF assms(1), of on_mid h]
  show ?thesis
  proof (cases "latest_before ts (rev ?r)")
    case None
    then have "\<forall>x\<in>set ?r. ts < fst x" unfolding latest_before_None by simp
    with b None assms(2) show ?thesis by (simp add: mid_at_def Let_def)
  next
    case (Some m)
    then obtain us t vs where r: "rev ?r = us @ (t, m) # vs" "t \<le> ts" "\<forall>u\<in>set us. ts < fst u"
      unfolding latest_before_Some by blast
    then have "?r = rev vs @ (t, m) # rev us"
      by (metis (no_types, lifting) append.assoc append_Cons append_Nil rev.simps(2) rev_append rev_rev_ident)
    moreover from this r have "\<not> (\<forall>x\<in>set ?r. ts < fst x)" by auto
    ultimately show ?thesis
      using b Some r(2,3) unfolding mid_at_def Let_def
      by (simp only: option.case if_False) (metis set_rev)
  qed
qed

theorem fill_mid_is_the_one_in_force_witness:
  "mid_at (observe_mids (\<lambda>m t p. m) [(1, Num 10), (2, Num 20), (3, Num 30)] (new_observer ''X'' () ())) 2 = Some (Num 20)"
  using fill_mid_is_the_one_in_force[where ob = "new_observer ''X'' () ()" and h = "[(1, Num 10), (2, Num 20), (3, Num 30)]"
      and on_mid = "\<lambda>m t p. m" and ts = 2]
  by (simp add: new_observer_def observe_mids_def update_mid_def deque_append_def mid_buffer_maxlen_def
      mid_at_def Let_def)

text \<open>
  A fill of another pair changes nothing.  A fill of this pair that the ledger accepts is
  recorded once in the ledger with the mid in force at its own time, and a slippage sample is
  added exactly when that mid is positive: positive when the fill is worse than the mid (a buy
  above it, a sell below it).  A fill the ledger refuses leaves ledger, markout and slippage as
  they were and does not raise.
\<close>

theorem fills_are_recorded_once:
  "case on_fill_event ledger_fill markout_fill wall ev ob of (ob', r) \<Rightarrow>
     if fe_pair ev \<noteq> ob_symbol ob then ob' = ob \<and> r = Inr ()
     else ob_last_fill ob' = Some wall \<and>
       (case ledger_fill (ob_ledger ob) (fill_of_event ob ev) of
          Inl e \<Rightarrow> ob' = ob\<lparr>ob_last_fill := Some wall\<rparr> \<and> (e = ValueError \<longrightarrow> r = Inr ())
        | Inr l \<Rightarrow> ob_ledger ob' = l \<and> r = Inr ()
            \<and> (\<forall>m. mid_at ob (fe_ts ev) = Some (Num m) \<longrightarrow> 0 < m \<longrightarrow>
                (\<exists>x. ob_slippage ob' = ob_slippage ob @ [Num x]
                    \<and> (0 < x \<longleftrightarrow> (if fe_side ev = Buy then m < fe_price ev else fe_price ev < m))))
            \<and> ((\<forall>m. mid_at ob (fe_ts ev) = Some (Num m) \<longrightarrow> m \<le> 0) \<and> mid_at ob (fe_ts ev) \<noteq> Some PosInf
                \<longrightarrow> ob_slippage ob' = ob_slippage ob))"
proof -
  have f: "fill_of_event (ob\<lparr>ob_last_fill := Some wall\<rparr>) ev = fill_of_event ob ev"
    by (simp add: fill_of_event_def mid_at_def split: option.split)
  have "fl_mid (fill_of_event ob ev) = mid_at ob (fe_ts ev)"
    by (simp add: fill_of_event_def)
  moreover have "0 < signed s ((p - m) / m * 10000) \<longleftrightarrow> (if s = Buy then m < p else p < m)" if "0 < m" for s p m
    using that by (cases s) (simp_all add: field_simps zero_less_divide_iff divide_less_0_iff)
  ultimately show ?thesis
    by (auto simp: on_fill_event_def Let_def f fill_slippage_def zero_less_divide_iff divide_less_0_iff
        split: sum.split option.split pynum.split)
qed

theorem fills_are_recorded_once_witness:
  "ob_slippage (fst (on_fill_event (\<lambda>l f. Inr (f # l)) (\<lambda>m _ _ _ _. m) 7
     \<lparr>fe_pair = ''X'', fe_ts = 2, fe_side = Sell, fe_price = 99, fe_size = 1, fe_order_id = ''o'', fe_fee = Inr 0\<rparr>
     (update_mid (\<lambda>m _ _. m) (Num 100) 1 (new_observer ''X'' [] ())))) = [Num 100]"
  using fills_are_recorded_once[where ledger_fill = "\<lambda>l f. Inr (f # l)" and markout_fill = "\<lambda>m _ _ _ _. m"
     and wall = 7 and ev = "\<lparr>fe_pair = ''X'', fe_ts = 2, fe_side = Sell, fe_price = 99, fe_size = 1, fe_order_id = ''o'', fe_fee = Inr 0\<rparr>"
     and ob = "update_mid (\<lambda>m _ _. m) (Num 100) 1 (new_observer ''X'' [] ())"]
  by (simp add: on_fill_event_def fill_of_event_def new_observer_def update_mid_def deque_append_def
      mid_buffer_maxlen_def mid_at_def Let_def fill_slippage_def)

end
