(* ===== verification/PerpCycle.thy ===== *)
theory PerpCycle imports PerpControllerSafety FillAnalytics begin

text \<open>
  \<open>src/opms/controllers/generic/perp_mm_controller.py\<close>, the other half of the control cycle: what
  the controller reads (position, margin, equity), how it talks to the basket's stop book, and
  \<open>control_task\<close> with its fail-safe path.

  The keeper is \<open>perp_bot\<close>'s and its state a type parameter.  The cycle's data update may be cut
  short anywhere by its deadline, so \<open>control_task\<close> takes the state and the exception the update
  left behind; \<open>update_processed_data\<close> is the update that runs to its end.
\<close>

section \<open>Venue requests\<close>

text \<open>The outcome a request has when it is sent: an exception or a reply.\<close>

definition venue_request ::
  "breaker \<Rightarrow> real \<Rightarrow> py_exc + 'a \<Rightarrow> breaker \<times> (py_error + 'a)" where
  "venue_request b now outcome =
     (if \<not> allow_request b now then (b, Inl RuntimeError)
      else case outcome of
             Inl e \<Rightarrow>
               (case record_failure b now e of
                  (b', Inl x) \<Rightarrow> (b', Inl x)
                | (b', Inr d) \<Rightarrow> (b', Inl (OtherError (exc_type e))))
           | Inr v \<Rightarrow> (record_success b, Inr v))"

section \<open>The margin reading\<close>

text \<open>
  The connector carries the cache and the backoff that its controllers share.  The reply is
  parsed to the entry of token 0, which can raise; \<open>fail_closed\<close> is
  \<open>perp_bot.margin_health.fail_closed_margin_available\<close>.
\<close>

record margin_state =
  mg_breaker :: breaker
  mg_cache :: "(real \<times> real) option"
  mg_retry_at :: real

definition margin_read ::
  "('v option \<Rightarrow> real) \<Rightarrow> ctl_config \<Rightarrow> real \<Rightarrow> py_exc + (py_error + 'v option) \<Rightarrow> margin_state \<Rightarrow> margin_state \<times> real" where
  "margin_read fail_closed cfg now outcome m =
     (if now < mg_retry_at m \<or> \<not> allow_request (mg_breaker m) now then (m, fail_closed None)
      else case venue_request (mg_breaker m) now outcome of
             (b, Inr (Inr entry)) \<Rightarrow>
               (m\<lparr>mg_breaker := b, mg_cache := Some (fail_closed entry, now), mg_retry_at := 0\<rparr>, fail_closed entry)
           | (b, _) \<Rightarrow>
               (m\<lparr>mg_breaker := b,
                  mg_retry_at := now + max (snap_retry_in (breaker_snap b now)) (cf_backoff_initial cfg)\<rparr>,
                fail_closed None))"

definition current_margin_available ::
  "('v option \<Rightarrow> real) \<Rightarrow> ctl_config \<Rightarrow> real \<Rightarrow> py_exc + (py_error + 'v option) \<Rightarrow> margin_state \<Rightarrow> margin_state \<times> real" where
  "current_margin_available fail_closed cfg now outcome m =
     (case mg_cache m of
        Some (v, t) \<Rightarrow> if now - t < cf_margin_ttl cfg then (m, v) else margin_read fail_closed cfg now outcome m
      | None \<Rightarrow> margin_read fail_closed cfg now outcome m)"

section \<open>Equity\<close>

text \<open>
  A balance is read as \<open>Decimal(str(...))\<close>, which may raise.  Key presence decides, so a
  present zero is a reading and an absent key is none.
\<close>

definition equity_labels :: "ctl_config \<Rightarrow> string list" where
  "equity_labels cfg = [cf_collateral cfg, ''USD'', ''USDC'', ''USDT'']"

definition equity_key :: "ctl_config \<Rightarrow> (string \<times> 'b) list \<Rightarrow> string option" where
  "equity_key cfg balances =
     (case find (\<lambda>l. map_of balances l \<noteq> None) (equity_labels cfg) of
        Some l \<Rightarrow> Some l
      | None \<Rightarrow> (case balances of [(k, _)] \<Rightarrow> Some k | _ \<Rightarrow> None))"

definition current_equity ::
  "ctl_config \<Rightarrow> (string \<times> (py_error + pynum)) list \<Rightarrow> py_error + real option" where
  "current_equity cfg balances =
     (case equity_key cfg balances of
        None \<Rightarrow> Inr None
      | Some k \<Rightarrow>
          (case map_of balances k of
             None \<Rightarrow> Inl KeyError
           | Some (Inl e) \<Rightarrow> if e = ArithmeticError \<or> e = ValueError then Inr None else Inl e
           | Some (Inr v) \<Rightarrow> Inr (case v of Num x \<Rightarrow> Some x | _ \<Rightarrow> None)))"

definition note_equity :: "real option \<Rightarrow> ctl \<Rightarrow> ctl" where
  "note_equity equity c =
     c\<lparr>c_equity_resolved := Some (equity \<noteq> None),
       c_suspension := (if equity \<noteq> None then None else Some ''equity_unresolved'')\<rparr>"

definition note_peak_equity :: "pynum \<Rightarrow> ctl \<Rightarrow> ctl" where
  "note_peak_equity peak c =
     (if positive_price peak then (if c_baseline c \<noteq> Some ''armed'' then c\<lparr>c_baseline := Some ''armed''\<rparr> else c)
      else if c_baseline c = None then c\<lparr>c_baseline := Some ''blind''\<rparr> else c)"

section \<open>Positions\<close>

definition position_for_decision ::
  "('l \<Rightarrow> real) \<Rightarrow> ctl_config \<Rightarrow> cycle \<Rightarrow> real \<Rightarrow> ('l, 'm) observer \<Rightarrow> real" where
  "position_for_decision ledger_position cfg cy wall ob =
     (case ob_last_fill ob of
        None \<Rightarrow> current_base_position cfg (cy_positions cy)
      | Some t \<Rightarrow>
          if 30 < wall - t then current_base_position cfg (cy_positions cy)
          else ledger_position (ob_ledger ob))"

text \<open>An executor's id, whether it is done, and its filled quote amount.\<close>

definition refresh_positions_after_fills :: "(string \<times> bool \<times> real) list \<Rightarrow> string set \<Rightarrow> string set" where
  "refresh_positions_after_fills infos settled =
     (settled \<inter> set (map fst infos))
       \<union> set (map fst (filter (\<lambda>(i, done, filled). done \<and> 0 < filled) infos))"

section \<open>The basket\<close>

datatype keeper_decision = EmergencyExit | StopQuoting | OtherDecision

definition flat_intent :: "ctl_config \<Rightarrow> real \<Rightarrow> real \<Rightarrow> urgency \<Rightarrow> exec_intent" where
  "flat_intent cfg target current urg =
     \<lparr>in_venue = cf_venue cfg, in_coin = cf_coin cfg, in_account = cf_account cfg,
      target_inventory = target, current_inventory = Some current, in_quote = None, in_urgency = urg\<rparr>"

definition local_mode :: "keeper_decision \<Rightarrow> bool \<Rightarrow> string" where
  "local_mode d quotes_allowed =
     (if \<not> quotes_allowed then ''emergency''
      else case d of EmergencyExit \<Rightarrow> ''emergency'' | StopQuoting \<Rightarrow> ''stop'' | OtherDecision \<Rightarrow> ''quote'')"

definition portfolio_transform ::
  "flat_targets \<Rightarrow> ctl_config \<Rightarrow> cycle \<Rightarrow> keeper_decision \<Rightarrow> exec_intent option \<Rightarrow> pynum \<Rightarrow> pynum \<Rightarrow> ctl
     \<Rightarrow> ctl \<times> (py_error + exec_intent option)" where
  "portfolio_transform targets cfg cy d intent position mid c =
     (case cf_book cfg of
        None \<Rightarrow> (c, Inr intent)
      | Some b \<Rightarrow>
          (case update_book targets b (c_table c) (cf_account cfg, cf_coin cfg) position mid
                  (local_mode d (allow_quotes (c_watchdog c) (cy_now cy))) (cy_wall cy) of
             (table, Inl e) \<Rightarrow> (c\<lparr>c_table := table\<rparr>, Inl e)
           | (table, Inr (mode, target)) \<Rightarrow>
               (c\<lparr>c_table := table\<rparr>,
                Inr (if mode = BQuote then intent
                     else Some (flat_intent cfg target (finite_value position)
                                  (if mode = BEmergency then Emergency else Immediate))))))"

section \<open>The data update\<close>

text \<open>
  What one update reads besides the cycle: the margin request's outcome, the balances, the
  funding rate, the executors' reports, the session peak after the tick, and the wall clock.
  The keeper is stepped by a snapshot, by its tick (which sees the positions through the client
  and may send intents through it), or only has its positions applied.
\<close>

record 'v readings =
  rd_margin :: "py_exc + (py_error + 'v option)"
  rd_balances :: "(string \<times> (py_error + pynum)) list"
  rd_funding :: "pynum option"
  rd_reports :: "(string \<times> bool \<times> real) list"
  rd_wall :: real

record ('k, 'l, 'm) world =
  w_ctl :: ctl
  w_client :: "(unit, unit) client"
  w_cache :: "(real \<times> real) option"
  w_retry_at :: real
  w_observer :: "('l, 'm) observer"
  w_keeper :: 'k

record ('v, 'k, 'l, 'm) externals =
  x_fail_closed :: "'v option \<Rightarrow> real"
  x_on_mid :: "'m \<Rightarrow> real \<Rightarrow> pynum \<Rightarrow> 'm"
  x_ledger_position :: "'l \<Rightarrow> real"
  x_limits :: "'k \<Rightarrow> real \<Rightarrow> real option \<Rightarrow> 'k"
  x_snapshot :: "'k \<Rightarrow> real \<Rightarrow> pynum \<Rightarrow> pynum option \<Rightarrow> 'k"
  x_tick :: "'k \<Rightarrow> (unit, unit) client \<Rightarrow> ctl \<Rightarrow> ('k \<times> (unit, unit) client \<times> ctl) \<times> py_exc option"
  x_apply :: "'k \<Rightarrow> (string \<Rightarrow> position option) \<Rightarrow> 'k"
  x_position :: "'k \<Rightarrow> real"
  x_peak :: "'k \<Rightarrow> pynum"
  x_errors :: "exec_intent \<Rightarrow> string list"
  x_shadow :: "'k \<Rightarrow> bool"

text \<open>An exception that carries no response and no status.\<close>

definition exc_of :: "py_error \<Rightarrow> py_exc" where
  "exc_of e =
     \<lparr>exc_type = (case e of ValueError \<Rightarrow> ''ValueError'' | KeyError \<Rightarrow> ''KeyError'' | TypeError \<Rightarrow> ''TypeError''
                   | RuntimeError \<Rightarrow> ''RuntimeError'' | TimeoutError \<Rightarrow> ''TimeoutError'' | OtherError n \<Rightarrow> n
                   | _ \<Rightarrow> ''Exception''),
      exc_text = [], exc_is_timeout = (e = TimeoutError), exc_status = None, exc_status_code = None,
      exc_resp_status = None, exc_resp_status_code = None, exc_resp_headers = None, exc_headers = None\<rparr>"

definition read_margin ::
  "('v, 'k, 'l, 'm) externals \<Rightarrow> ctl_config \<Rightarrow> cycle \<Rightarrow> 'v readings \<Rightarrow> ('k, 'l, 'm) world \<Rightarrow> ('k, 'l, 'm) world \<times> real" where
  "read_margin X cfg cy rd w =
     (let (m, v) = current_margin_available (x_fail_closed X) cfg (cy_now cy) (rd_margin rd)
                     \<lparr>mg_breaker = c_breaker (w_ctl w), mg_cache = w_cache w, mg_retry_at = w_retry_at w\<rparr>
      in (w\<lparr>w_ctl := (w_ctl w)\<lparr>c_breaker := mg_breaker m\<rparr>, w_cache := mg_cache m, w_retry_at := mg_retry_at m\<rparr>, v))"

text \<open>The step with no equity reading: no risk evaluation, only the positions and the basket.\<close>

definition blind_step ::
  "flat_targets \<Rightarrow> ('v, 'k, 'l, 'm) externals \<Rightarrow> ctl_config \<Rightarrow> cycle \<Rightarrow> (string \<Rightarrow> position option)
     \<Rightarrow> ('k, 'l, 'm) world \<Rightarrow> ('k, 'l, 'm) world \<times> py_exc option" where
  "blind_step targets X cfg cy positions w =
     (let k = x_apply X (w_keeper w) positions; w1 = w\<lparr>w_keeper := k\<rparr> in
      case portfolio_transform targets cfg cy OtherDecision None (Num (x_position X k)) (cy_mid cy) (w_ctl w1) of
        (c, Inl e) \<Rightarrow> (w1\<lparr>w_ctl := c\<rparr>, Some (exc_of e))
      | (c, Inr intent) \<Rightarrow>
          (let w2 = w1\<lparr>w_ctl := c\<rparr> in
           case intent of
             None \<Rightarrow> (w2, None)
           | Some i \<Rightarrow>
               if x_shadow X k \<or> \<bar>target_inventory i - current_or_zero i\<bar> < dust then (w2, None)
               else (case send_exec_intent (x_errors X) (w_client w2) i of
                       Inl e \<Rightarrow> (w2, Some (exc_of e))
                     | Inr cl \<Rightarrow> (w2\<lparr>w_client := cl\<rparr>, None))))"

definition update_processed_data ::
  "flat_targets \<Rightarrow> ('v, 'k, 'l, 'm) externals \<Rightarrow> ctl_config \<Rightarrow> cycle \<Rightarrow> 'v readings
     \<Rightarrow> ('k, 'l, 'm) world \<Rightarrow> ('k, 'l, 'm) world \<times> py_exc option" where
  "update_processed_data targets X cfg cy rd w =
     (let w1 = w\<lparr>w_ctl := (w_ctl w)\<lparr>c_settled := refresh_positions_after_fills (rd_reports rd) (c_settled (w_ctl w))\<rparr>\<rparr>;
          (w2, margin) = read_margin X cfg cy rd w1;
          w3 = w2\<lparr>w_observer := update_mid (x_on_mid X) (cy_mid cy) (rd_wall rd) (w_observer w2),
                  w_keeper := x_limits X (w_keeper w2) (min_notional (cy_rules cy))
                     (if base_increment (cy_rules cy) = 0 then None else Some (base_increment (cy_rules cy)))\<rparr>;
          position = position_for_decision (x_ledger_position X) cfg cy (rd_wall rd) (w_observer w3)
      in case current_equity cfg (rd_balances rd) of
           Inl e \<Rightarrow> (w3, Some (exc_of e))
         | Inr equity \<Rightarrow>
             let positions = (\<lambda>coin. if coin = cf_coin cfg
                    then Some \<lparr>pos_position = position,
                               pos_equity = (case equity of Some x \<Rightarrow> Num x | None \<Rightarrow> NaN),
                               pos_margin_available = margin\<rparr> else None);
                 w4 = w3\<lparr>w_client := set_positions (w_client w3) positions,
                         w_keeper := x_snapshot X (w_keeper w3) (cy_now cy) (cy_mid cy) (rd_funding rd)\<rparr>;
                 w5 = w4\<lparr>w_ctl := note_equity equity (w_ctl w4)\<rparr>;
                 (w6, err) = (if equity \<noteq> None
                    then (case x_tick X (w_keeper w5) (w_client w5) (w_ctl w5) of
                            ((k, cl, c), e) \<Rightarrow> (w5\<lparr>w_keeper := k, w_client := cl, w_ctl := c\<rparr>, e))
                    else blind_step targets X cfg cy positions w5)
             in (case err of
                   Some e \<Rightarrow> (w6, Some e)
                 | None \<Rightarrow> (w6\<lparr>w_ctl := note_peak_equity (x_peak X (w_keeper w6)) (w_ctl w6)\<rparr>, None)))"

section \<open>The control task\<close>

text \<open>
  \<open>force_flatten_intent\<close> writes the client's intent directly, past the latch.  When the positions
  cannot be read it falls back on the keeper's inventory.
\<close>

definition force_flatten_intent ::
  "flat_targets \<Rightarrow> ('v, 'k, 'l, 'm) externals \<Rightarrow> ctl_config \<Rightarrow> cycle \<Rightarrow> bool \<Rightarrow> ('k, 'l, 'm) world \<Rightarrow> ('k, 'l, 'm) world" where
  "force_flatten_intent targets X cfg cy positions_readable w =
     (let current = (if positions_readable then current_base_position cfg (cy_positions cy)
                     else x_position X (w_keeper w))
      in w\<lparr>w_client := (w_client w)\<lparr>last_intent := Some (flat_intent cfg 0 current Emergency)\<rparr>,
           w_ctl := publish_portfolio_emergency targets cfg cy current (w_ctl w)\<rparr>)"

definition decide_world ::
  "flat_targets \<Rightarrow> refresh_policy \<Rightarrow> ctl_config \<Rightarrow> cycle \<Rightarrow> ('k, 'l, 'm) world \<Rightarrow> ('k, 'l, 'm) world \<times> (py_error + action list)" where
  "decide_world targets policy cfg cy w =
     (let (c, acts) = determine_executor_actions targets policy cfg cy (last_intent (w_client w)) (w_ctl w)
      in (w\<lparr>w_ctl := c\<rparr>, Inr acts))"

definition controller_task ::
  "flat_targets \<Rightarrow> refresh_policy \<Rightarrow> ('v, 'k, 'l, 'm) externals \<Rightarrow> ctl_config \<Rightarrow> cycle \<Rightarrow> bool \<Rightarrow> bool \<Rightarrow> bool
     \<Rightarrow> (('k, 'l, 'm) world \<Rightarrow> ('k, 'l, 'm) world \<times> py_exc option)
     \<Rightarrow> ('k, 'l, 'm) world \<Rightarrow> ('k, 'l, 'm) world \<times> (py_error + action list)" where
  "controller_task targets policy X cfg cy event_set ready positions_readable update w =
     (if \<not> event_set then (w, Inr [])
      else if \<not> ready then
        decide_world targets policy cfg cy
          (force_flatten_intent targets X cfg cy positions_readable
             (w\<lparr>w_ctl := (w_ctl w)\<lparr>c_unready := True\<rparr>\<rparr>))
      else
        case update (w\<lparr>w_ctl := (w_ctl w)\<lparr>c_unready := False\<rparr>\<rparr>) of
          (w1, None) \<Rightarrow> decide_world targets policy cfg cy w1
        | (w1, Some e) \<Rightarrow>
            if allow_request (c_breaker (w_ctl w1)) (cy_now cy) then
              (case record_failure (c_breaker (w_ctl w1)) (cy_now cy) e of
                 (b, Inl x) \<Rightarrow> (w1\<lparr>w_ctl := (w_ctl w1)\<lparr>c_breaker := b\<rparr>\<rparr>, Inl x)
               | (b, Inr d) \<Rightarrow>
                   decide_world targets policy cfg cy
                     (force_flatten_intent targets X cfg cy positions_readable
                        (w1\<lparr>w_ctl := (w_ctl w1)\<lparr>c_breaker := b\<rparr>\<rparr>)))
            else decide_world targets policy cfg cy
                   (force_flatten_intent targets X cfg cy positions_readable w1))"

end
