(* ===== verification/PerpControllerProperties.thy ===== *)
theory PerpControllerProperties imports PerpControllerSafety begin

text \<open>
  The promises of the perp controller's decision, over runs and over single cycles, with a
  concrete controller for their witnesses.
\<close>

section \<open>A concrete controller\<close>

definition sample_cfg :: ctl_config where
  "sample_cfg =
     \<lparr>cf_venue = ''hyperliquid'', cf_coin = ''ETH'', cf_account = ''a'', cf_pair = ''ETH-USD'',
      cf_leverage = 1, cf_shadow = False, cf_max_data_age = None, cf_reprice_bps = 2,
      cf_fee_bps = 3 / 2, cf_edge_bps = 0, cf_buffer_bps = 10, cf_liveness_timeout = 15,
      cf_cooldown = 30, cf_refresh_interval = 20, cf_stop_limit = 15, cf_collateral = ''USD'',
      cf_margin_ttl = 10, cf_backoff_initial = 2, cf_position_side = None, cf_book = None\<rparr>"

definition sample_cycle :: "real \<Rightarrow> handle list \<Rightarrow> cycle" where
  "sample_cycle now active =
     \<lparr>cy_now = now, cy_wall = Num now, cy_perf = now, cy_active = active,
      cy_rules = \<lparr>min_order_size = 0, min_notional = 10, base_increment = 1 / 2\<rparr>,
      cy_mid = Num 100, cy_bid = Num 100, cy_ask = Num 102, cy_feed = None, cy_feed_healthy = False,
      cy_positions = [], cy_last_mid = None\<rparr>"

definition sample_ctl :: ctl where
  "sample_ctl = new_ctl sample_cfg 3 2 60 []"

definition quoting_intent :: exec_intent where
  "quoting_intent = two_sided ''ETH'' 2"

definition sample_maker_handle :: "side \<Rightarrow> real \<Rightarrow> handle" where
  "sample_maker_handle sd ts =
     \<lparr>h_id = (if sd = Buy then ''b'' else ''s''),
      h_config = quote_config sample_cfg ts sd 1 99 False,
      h_order_id = Some ''o'', h_exchange_id = Some (Some ''x''), h_executed = 0, h_order_price = None\<rparr>"

lemmas ctl_eval = sample_cfg_def sample_cycle_def sample_ctl_def quoting_intent_def two_sided_def
  flatten_intent_def new_ctl_def new_watchdog_def determine_executor_actions_def intent_is_quoting_def
  quoting_cycle_def executable_quote_specs_def intent_to_order_specs_def allow_quotes_def observe_def
  live_quote_sides_def current_or_zero_def

section \<open>Quotes\<close>

text \<open>
  C2: Over any run with a clock that does not run backwards, a decision that creates a quote
  finds nothing else working: no executor is active (so old and new quotes never overlap and no
  close is running), the accepted intent quotes, the liveness circuit is closed, quoting is not
  suspended for unresolved equity, the public book is not stale, and the controller is not in
  shadow mode.
\<close>

theorem quotes_are_created_alone:
  assumes "ctl_run targets policy cfg t0 (new_ctl cfg n b m table) t c" "0 \<le> t0" "t \<le> cy_now cy"
    "Create e \<in> set (snd (determine_executor_actions targets policy cfg cy intent c))" "is_quote_config e"
  shows "cy_active cy = [] \<and> intent_is_quoting intent \<and> allow_quotes (c_watchdog c) (cy_now cy)
    \<and> c_suspension c = None \<and> \<not> book_stale cfg cy \<and> \<not> cf_shadow cfg"
proof -
  have "pending_ok t0 (new_ctl cfg n b m table)" by (simp add: pending_ok_def new_ctl_def)
  from ctl_run_pending_ok[OF assms(1,2) this] assms(3)
  have "pending_ok (cy_now cy) c" using pending_ok_mono by blast
  from quote_created_conditions[OF this assms(4,5)] show ?thesis .
qed

lemma sample_creates_bid:
  "Create (quote_config sample_cfg 5 Buy 1 99 False)
     \<in> set (snd (determine_executor_actions targets policy sample_cfg (sample_cycle 5 []) (Some quoting_intent) sample_ctl))"
  by (simp add: ctl_eval stop_others_def quote_create_actions_def quote_create_def buffered_maker_price_def
      more_passive_def buffered_touch_def floor_to_step_def quote_config_def Let_def)

theorem quotes_are_created_alone_witness:
  "allow_quotes (c_watchdog sample_ctl) 5"
  using quotes_are_created_alone[of "\<lambda>_ _. None" "\<lambda>_ _ _ _ _. None" sample_cfg 0 3 2 60 "[]" 0 sample_ctl
      "sample_cycle 5 []" "quote_config sample_cfg 5 Buy 1 99 False" "Some quoting_intent"]
    ctl_run.here sample_creates_bid
  by (simp add: sample_ctl_def[symmetric]) (simp add: sample_cycle_def)

text \<open>
  C4: Every quote a decision creates comes from a leg of the intent: it is post-only, on the
  leg's side, no closer to the market than the leg's price nor than the touch moved away by the
  configured buffer; its amount is the leg's amount rounded down to the venue's step and meets
  the venue's minimum size and notional, and it may only reduce the position when the leg is
  reduce-only.
\<close>

theorem created_quotes_are_bounded:
  assumes "Create e \<in> set (snd (determine_executor_actions targets policy cfg cy (Some i) c))" "is_quote_config e"
  shows "\<exists>s sd p amount price touch. s \<in> set (intent_to_order_specs (Some i)) \<and> os_side s = Some sd
    \<and> os_price s = Some p \<and> e = quote_config cfg (cy_now cy) sd amount price (os_reduce_only s)
    \<and> (if sd = Buy then cy_bid cy else cy_ask cy) = Num touch \<and> 0 < touch
    \<and> (sd = Buy \<longrightarrow> price \<le> p \<and> price \<le> touch * (1 - cf_buffer_bps cfg / 10000))
    \<and> (sd = Sell \<longrightarrow> p \<le> price \<and> touch * (1 + cf_buffer_bps cfg / 10000) \<le> price)
    \<and> amount = floor_to_step (os_amount s) (base_increment (cy_rules cy)) \<and> amount \<le> os_amount s
    \<and> min_order_size (cy_rules cy) \<le> amount \<and> min_notional (cy_rules cy) \<le> amount * price"
proof -
  let ?specs = "executable_quote_specs (cy_rules cy) (intent_to_order_specs (Some i))"
  have q: "Create e \<in> set (quote_create_actions cfg cy ?specs)"
    using determine_Create[OF assms(1)] closing_Create[of e cfg cy "Some i" c]
      quoting_Create[of e targets policy cfg cy i c] assms(2)
    by (auto split: if_splits)
  then obtain s sd amount price where s: "s \<in> set ?specs" "os_side s = Some sd" "0 < os_amount s"
    "buffered_maker_price cfg cy s = Some price"
    "amount = floor_to_step (os_amount s) (base_increment (cy_rules cy))"
    "min_order_size (cy_rules cy) \<le> amount" "min_notional (cy_rules cy) \<le> amount * price"
    "e = quote_config cfg (cy_now cy) sd amount price (os_reduce_only s)"
    by (rule quote_create_Create)
  obtain p touch where p: "os_price s = Some p" "(if sd = Buy then cy_bid cy else cy_ask cy) = Num touch"
    "0 < touch" "price = more_passive sd p (buffered_touch (cf_buffer_bps cfg) sd touch)"
    using s(2,4) by (auto simp: buffered_maker_price_def not_le split: option.splits pynum.splits if_splits)
  have "amount \<le> os_amount s"
    using s(5) floor_divide_lower[of "base_increment (cy_rules cy)" "os_amount s"]
    by (auto simp: floor_to_step_def)
  moreover have "s \<in> set (intent_to_order_specs (Some i))"
    using s(1) by (auto simp: executable_quote_specs_def)
  moreover have "(sd = Buy \<longrightarrow> price \<le> p \<and> price \<le> touch * (1 - cf_buffer_bps cfg / 10000))
    \<and> (sd = Sell \<longrightarrow> p \<le> price \<and> touch * (1 + cf_buffer_bps cfg / 10000) \<le> price)"
    using p(4) by (auto simp: more_passive_def buffered_touch_def Let_def)
  ultimately show ?thesis using s p by blast
qed

theorem created_quotes_are_bounded_witness:
  "\<exists>s sd p. s \<in> set (intent_to_order_specs (Some quoting_intent)) \<and> os_side s = Some sd \<and> os_price s = Some p"
  using created_quotes_are_bounded[OF sample_creates_bid[of "\<lambda>_ _. None" "\<lambda>_ _ _ _ _. None"]] by fastforce

section \<open>Closes\<close>

text \<open>
  C3: Every other executor a decision creates is a close: it is created only when no quote
  executor is active, it may only reduce the position, and its amount and side move the
  intent's inventory exactly to the target (to zero when the liveness circuit closes out a
  quoting intent).
\<close>

theorem closes_reduce_to_the_target:
  assumes "Create e \<in> set (snd (determine_executor_actions targets policy cfg cy intent c))" "\<not> is_quote_config e"
  shows "\<exists>i amount. intent = Some i \<and> config_notional e = Some amount \<and> dust \<le> amount
    \<and> current_or_zero i + signed (ec_side e) amount = (if in_quote i = None then target_inventory i else 0)
    \<and> ec_action e = CLOSE \<and> filter is_quote_executor (cy_active cy) = []"
proof -
  have exec: "config_notional (execution_config cfg cy req) = Some (rq_amount req)"
    "ec_side (execution_config cfg cy req) = rq_side req"
    "ec_action (execution_config cfg cy req) = (if rq_reduce_only req then CLOSE else OPEN)" for req
    by (simp_all add: execution_config_def config_notional_def pa_exec_config_def market_exec_config_def
        Let_def split: urgency.split)
  show ?thesis
  proof (cases "\<exists>i. intent = Some i \<and> in_quote i \<noteq> None")
    case True
    then obtain i where i: "intent = Some i" "in_quote i \<noteq> None" by blast
    then obtain req where "quote_failsafe_request i = Some req" "e = execution_config cfg cy req" "cy_active cy = []"
      using determine_Create[OF assms(1)] quoting_Create[of e targets policy cfg cy i c] assms(2)
      by auto
    with i show ?thesis
      by (auto simp: exec quote_failsafe_request_def Let_def split: if_splits)
  next
    case False
    then have "Create e \<in> set (snd (snd (closing_cycle cfg cy intent c)))"
      using determine_Create[OF assms(1)] by (auto split: option.splits)
    from closing_Create[OF this] obtain req where
      req: "intent_to_execution_request intent = Some req" "e = execution_config cfg cy req"
        "filter is_quote_executor (cy_active cy) = []"
      by blast
    then show ?thesis
      by (auto simp: exec intent_to_execution_request_def Let_def split: option.splits if_splits)
  qed
qed

definition sample_close :: exec_config where
  "sample_close = execution_config sample_cfg (sample_cycle 5 [])
     \<lparr>rq_side = Sell, rq_amount = 2, rq_urgency = Emergency, rq_reduce_only = True\<rparr>"

lemma sample_creates_close:
  "Create sample_close \<in> set (snd (determine_executor_actions targets policy sample_cfg (sample_cycle 5 [])
     (Some (flatten_intent ''ETH'' 2 Emergency)) sample_ctl))"
  by (simp add: determine_executor_actions_def sample_close_def intent_is_quoting_def flatten_intent_def
      closing_cycle_def intent_to_execution_request_def current_or_zero_def execution_actions_def
      stop_others_def Let_def) (simp add: sample_cfg_def sample_cycle_def)

lemma sample_close_not_quote: "\<not> is_quote_config sample_close"
  by (simp add: sample_close_def)

theorem closes_reduce_to_the_target_witness: "ec_action sample_close = CLOSE"
  using closes_reduce_to_the_target[OF sample_creates_close[of "\<lambda>_ _. None" "\<lambda>_ _ _ _ _. None"]
      sample_close_not_quote] by blast




text \<open>
  A close that is already working the requested amount on the requested side with the
  requested deadline is left alone: it is not stopped and nothing is created beside it, so its
  clock reaches the deadline at which it crosses.
\<close>

theorem running_close_keeps_its_clock:
  assumes "intent_to_execution_request intent = Some req" "h \<in> set (cy_active cy)"
    "execution_signature (h_config h) = execution_signature (execution_config cfg cy req)"
    "filter is_quote_executor (cy_active cy) = []"
  shows "Stop (h_id h) \<notin> set (snd (determine_executor_actions targets policy cfg cy intent c))
    \<and> (\<forall>e. Create e \<notin> set (snd (determine_executor_actions targets policy cfg cy intent c)))"
proof -
  let ?keep = "set (map h_id (filter (\<lambda>h. execution_signature (h_config h)
      = execution_signature (execution_config cfg cy req)) (cy_active cy)))"
  obtain i where i: "intent = Some i" "in_quote i = None"
    using assms(1) by (auto simp: intent_to_execution_request_def split: option.splits if_splits)
  have h: "h_id h \<in> ?keep" using assms(2,3) by simp
  have "closing_cycle cfg cy intent c
      = (c\<lparr>c_watchdog := suspend (c_watchdog c), c_pending := False\<rparr>, ?keep, [])"
    using assms(1,4) h unfolding closing_cycle_def Let_def by (auto simp: execution_actions_def)
  moreover have "determine_executor_actions targets policy cfg cy intent c
      = (if cf_shadow cfg then (c, []) else stop_others (cy_active cy) (closing_cycle cfg cy intent c))"
    using i by (simp add: determine_executor_actions_def intent_is_quoting_def)
  ultimately show ?thesis
    using h by (auto simp: stop_others_def)
qed

definition sample_close_handle :: handle where
  "sample_close_handle =
     \<lparr>h_id = ''c'', h_config = sample_close, h_order_id = None, h_exchange_id = None, h_executed = 0,
      h_order_price = None\<rparr>"

theorem running_close_keeps_its_clock_witness:
  "Stop ''c'' \<notin> set (snd (determine_executor_actions (\<lambda>_ _. None) (\<lambda>_ _ _ _ _. None) sample_cfg
     (sample_cycle 9 [sample_close_handle]) (Some (flatten_intent ''ETH'' 2 Emergency)) sample_ctl))"
proof -
  have "intent_to_execution_request (Some (flatten_intent ''ETH'' 2 Emergency))
      = Some \<lparr>rq_side = Sell, rq_amount = 2, rq_urgency = Emergency, rq_reduce_only = True\<rparr>"
    by (simp add: flatten_intent_def intent_to_execution_request_def current_or_zero_def)
  moreover have "sample_close_handle \<in> set (cy_active (sample_cycle 9 [sample_close_handle]))"
    "filter is_quote_executor (cy_active (sample_cycle 9 [sample_close_handle])) = []"
    by (simp_all add: sample_cycle_def sample_close_handle_def sample_close_not_quote)
  moreover have "execution_signature (h_config sample_close_handle)
      = execution_signature (execution_config sample_cfg (sample_cycle 9 [sample_close_handle])
          \<lparr>rq_side = Sell, rq_amount = 2, rq_urgency = Emergency, rq_reduce_only = True\<rparr>)"
    by (simp add: sample_close_handle_def sample_close_def sample_cycle_def execution_signature_def
        execution_config_def Let_def pa_exec_config_def config_notional_def)
  ultimately have "Stop (h_id sample_close_handle) \<notin> set (snd (determine_executor_actions (\<lambda>_ _. None)
      (\<lambda>_ _ _ _ _. None) sample_cfg (sample_cycle 9 [sample_close_handle])
      (Some (flatten_intent ''ETH'' 2 Emergency)) sample_ctl))"
    by (blast dest: running_close_keeps_its_clock)
  then show ?thesis by (simp add: sample_close_handle_def)
qed

text \<open>
  C5: Once a decision trips the liveness circuit (the sides it expected stayed without venue
  orders, or a cancel was not confirmed in time), no decision creates a quote before the recovery
  cooldown has passed, whatever the decisions and the rest of the controller do in between.
\<close>

theorem tripped_circuit_blocks_quotes_for_the_cooldown:
  assumes "ctl_run targets policy cfg s0 (new_ctl cfg n b m table) t0 c0" "0 \<le> s0" "t0 \<le> cy_now cy0"
    "c1 = fst (determine_executor_actions targets policy cfg cy0 intent0 c0)"
    "trips (c_watchdog c1) \<noteq> trips (c_watchdog c0)"
    "ctl_run targets policy cfg (cy_now cy0) c1 t c" "t \<le> cy_now cy"
    "Create e \<in> set (snd (determine_executor_actions targets policy cfg cy intent c))" "is_quote_config e"
  shows "cy_now cy0 + recovery_cooldown_s (c_watchdog c0) \<le> cy_now cy"
proof (rule ccontr)
  let ?D = "cy_now cy0 + recovery_cooldown_s (c_watchdog c0)"
  assume *: "\<not> ?D \<le> cy_now cy"
  have D: "?D \<le> open_until (c_watchdog c1)"
    using watchdog_step_trip[OF determine_watchdog_step] assms(4,5) by blast
  have "pending_ok s0 (new_ctl cfg n b m table)" by (simp add: pending_ok_def new_ctl_def)
  from ctl_run_pending_ok[OF assms(1,2) this] assms(2,3)
  have p0: "pending_ok (cy_now cy0) c0" "0 \<le> cy_now cy0" using pending_ok_mono by auto
  have "pending_ok (cy_now cy0) c1"
    unfolding assms(4) by (rule pending_ok_determine[OF p0])
  from ctl_run_pending_ok[OF assms(6) p0(2) this] have "pending_ok (cy_now cy) c"
    using assms(7) pending_ok_mono by blast
  from quote_created_conditions[OF this assms(8,9)] have "allow_quotes (c_watchdog c) (cy_now cy)" by simp
  moreover have "?D \<le> open_until (c_watchdog c)"
    using ctl_run_blocked[OF assms(6) _ D] * assms(7) by simp
  ultimately show False using * by (simp add: wd.allow_iff)
qed

definition missing_ctl :: ctl where
  "missing_ctl = fst (determine_executor_actions (\<lambda>_ _. None) (\<lambda>_ _ _ _ _. None) sample_cfg
     (sample_cycle 1 []) (Some quoting_intent) sample_ctl)"

definition tripped_ctl :: ctl where
  "tripped_ctl = fst (determine_executor_actions (\<lambda>_ _. None) (\<lambda>_ _ _ _ _. None) sample_cfg
     (sample_cycle 16 []) (Some quoting_intent) missing_ctl)"

lemma tripped_trips: "trips (c_watchdog tripped_ctl) = 1" "open_until (c_watchdog tripped_ctl) = 46"
  by (simp_all add: tripped_ctl_def missing_ctl_def ctl_eval tripped_cycle_def publish_portfolio_emergency_def Let_def)

theorem tripped_circuit_blocks_quotes_for_the_cooldown_witness:
  "Create (quote_config sample_cfg 45 Buy 1 99 False) \<notin> set (snd (determine_executor_actions (\<lambda>_ _. None)
     (\<lambda>_ _ _ _ _. None) sample_cfg (sample_cycle 45 []) (Some quoting_intent) tripped_ctl))"
proof
  assume *: "Create (quote_config sample_cfg 45 Buy 1 99 False) \<in> set (snd (determine_executor_actions (\<lambda>_ _. None)
     (\<lambda>_ _ _ _ _. None) sample_cfg (sample_cycle 45 []) (Some quoting_intent) tripped_ctl))"
  have now: "cy_now (sample_cycle t hs) = t" for t hs by (simp add: sample_cycle_def)
  have w: "trips (c_watchdog missing_ctl) = 0" "recovery_cooldown_s (c_watchdog missing_ctl) = 30"
    by (simp_all add: missing_ctl_def ctl_eval Let_def)
  have r: "ctl_run (\<lambda>_ _. None) (\<lambda>_ _ _ _ _. None) sample_cfg 0 (new_ctl sample_cfg 3 2 60 []) 1 missing_ctl"
    using ctl_run.decide[OF ctl_run.here, of 0 "sample_cycle 1 []" "\<lambda>_ _. None" "\<lambda>_ _ _ _ _. None" sample_cfg
      sample_ctl "Some quoting_intent"]
    by (simp add: missing_ctl_def now) (simp add: sample_ctl_def)
  from tripped_circuit_blocks_quotes_for_the_cooldown[OF r _ _ tripped_ctl_def _ _ _ *] tripped_trips(1) w
  show False
    using ctl_run.here[of "\<lambda>_ _. None" "\<lambda>_ _ _ _ _. None" sample_cfg 16 tripped_ctl] by (force simp: now)
qed

section \<open>Closes that can be executed\<close>

text \<open>The passive-aggressive executor's view of a config the controller created.\<close>

definition pa_config_of :: "exec_config \<Rightarrow> pa_config" where
  "pa_config_of e =
     \<lparr>pa_side = ec_side e, total_amount_base = (case ec_total_base e of Some v \<Rightarrow> v | None \<Rightarrow> 0),
      child_order_quantity = (case ec_child_qty e of Some v \<Rightarrow> v | None \<Rightarrow> 0),
      child_order_time_limit = (case ec_time_limit e of Some v \<Rightarrow> v | None \<Rightarrow> 60),
      child_order_refresh_time = (case ec_refresh_time e of Some v \<Rightarrow> v | None \<Rightarrow> 20),
      pa_leverage = ec_leverage e, pa_position_action = ec_action e\<rparr>"

lemma floordiv_small:
  assumes "0 < c" "c \<le> q" "q \<le> 5 * c"
  shows "\<exists>n. decimal_floordiv q c = Inr n \<and> 1 \<le> n \<and> n \<le> 5"
proof -
  have "1 \<le> q / c" "q / c \<le> 5" using assms by (simp_all add: field_simps)
  then have "1 \<le> \<lfloor>q / c\<rfloor>" "\<lfloor>q / c\<rfloor> \<le> 5" "0 \<le> q / c" by linarith+
  then show ?thesis by (auto simp: decimal_floordiv_def Let_def)
qed

lemma build_small:
  assumes "0 < child_order_quantity cfg" "child_order_quantity cfg \<le> total_amount_base cfg"
    "total_amount_base cfg \<le> 5 * child_order_quantity cfg"
  shows "\<exists>slots. build_child_slots cfg = Inr slots \<and> length slots \<le> 5 \<and> slots \<noteq> []"
proof -
  obtain n where n: "decimal_floordiv (total_amount_base cfg) (child_order_quantity cfg) = Inr n" "1 \<le> n" "n \<le> 5"
    using floordiv_small[OF assms] by blast
  then have r: "replicate (nat n) (fresh_slot (child_order_quantity cfg)) \<noteq> []" by simp
  show ?thesis
    using assms(1) n r by (auto simp: build_child_slots_def max_children_def Let_def)
qed

text \<open>
  Every passive-aggressive close the controller creates is one that executor accepts: its
  child slots can be built, and there are at least one and at most five of them, whatever the
  venue's minimum notional and the mid are (a mid that is not a number included).
\<close>

theorem created_closes_can_be_built:
  assumes "Create e \<in> set (snd (determine_executor_actions targets policy cfg cy intent c))"
    "ec_type e = ''passive_aggressive_executor''"
  shows "\<exists>slots. build_child_slots (pa_config_of e) = Inr slots \<and> length slots \<le> 5 \<and> slots \<noteq> []"
proof -
  have nq: "\<not> is_quote_config e" using assms(2) by (simp add: is_quote_config_def)
  obtain req where req: "e = execution_config cfg cy req" "0 < rq_amount req"
  proof (cases "\<exists>i. intent = Some i \<and> in_quote i \<noteq> None")
    case True
    then obtain i where "intent = Some i" "in_quote i \<noteq> None" by blast
    then obtain req where "quote_failsafe_request i = Some req" "e = execution_config cfg cy req"
      using determine_Create[OF assms(1)] quoting_Create[of e targets policy cfg cy i c] nq by auto
    then show ?thesis
      by (intro that[of req]) (auto simp: quote_failsafe_request_def Let_def split: if_splits)
  next
    case False
    then have "Create e \<in> set (snd (snd (closing_cycle cfg cy intent c)))"
      using determine_Create[OF assms(1)] by (auto split: option.splits)
    from closing_Create[OF this] obtain req where
      "intent_to_execution_request intent = Some req" "e = execution_config cfg cy req" by blast
    then show ?thesis
      by (intro that[of req]) (auto simp: intent_to_execution_request_def Let_def split: option.splits if_splits)
  qed
  let ?child = "child_order_quantity (pa_config_of e)" and ?total = "total_amount_base (pa_config_of e)"
  have "?total = rq_amount req \<and> 0 < ?child \<and> ?child \<le> ?total \<and> ?total \<le> 5 * ?child"
    using req assms(2)
    by (cases "rq_urgency req")
      (auto simp: execution_config_def pa_config_of_def pa_exec_config_def market_exec_config_def Let_def
        min_def max_def split: if_splits)
  then show ?thesis using build_small by blast
qed

theorem created_closes_can_be_built_witness:
  "\<exists>slots. build_child_slots (pa_config_of sample_close) = Inr slots \<and> length slots \<le> 5 \<and> slots \<noteq> []"
proof (rule created_closes_can_be_built[OF sample_creates_close])
  show "ec_type sample_close = ''passive_aggressive_executor''"
    by (simp add: sample_close_def execution_config_def sample_cycle_def pa_exec_config_def Let_def)
qed

end
