(* ===== verification/PerpCycleProperties.thy ===== *)
theory PerpCycleProperties imports PerpCycle PerpControllerProperties begin

text \<open>
  The promises of the control cycle: a cycle that fails turns into a flatten that stops every
  quote, unknown equity suspends quoting without a risk evaluation, the margin reading fails
  closed and backs off, and a basket quotes only together.
\<close>

section \<open>The fail-safe path\<close>

lemma decide_world_actions:
  "snd (decide_world targets policy cfg cy w) =
     Inr (snd (determine_executor_actions targets policy cfg cy (last_intent (w_client w)) (w_ctl w)))"
  by (simp add: decide_world_def split: prod.split)

lemma decide_world_client [simp]: "w_client (fst (decide_world targets policy cfg cy w)) = w_client w"
  by (simp add: decide_world_def split: prod.split)

lemma flat_intent_not_quoting [simp]: "\<not> intent_is_quoting (Some (flat_intent cfg q c u))"
  by (simp add: intent_is_quoting_def flat_intent_def)

lemma closing_stops_quotes:
  assumes "\<not> intent_is_quoting intent" "\<not> cf_shadow cfg" "h \<in> set (cy_active cy)" "is_quote_executor h"
    "distinct (map h_id (cy_active cy))"
  shows "Stop (h_id h) \<in> set (snd (determine_executor_actions targets policy cfg cy intent c))"
proof -
  have d: "determine_executor_actions targets policy cfg cy intent c
      = stop_others (cy_active cy) (closing_cycle cfg cy intent c)"
    using assms(1,2) by (auto simp: determine_executor_actions_def intent_is_quoting_def split: option.splits)
  have "h_id h \<noteq> h_id g" if "g \<in> set (cy_active cy)" "\<not> is_quote_executor g" for g
    using assms(3-5) that by (auto simp: distinct_map dest!: inj_onD)
  moreover have "filter is_quote_executor (cy_active cy) \<noteq> []"
    using assms(3,4) by (auto simp: filter_empty_conv)
  ultimately have "h_id h \<notin> fst (snd (closing_cycle cfg cy intent c))"
    by (auto simp: closing_cycle_def Let_def split: option.split)
  from Stop_in_stop_others[where d = "closing_cycle cfg cy intent c", OF assms(3) this]
  show ?thesis by (simp add: d)
qed

lemma closing_creates_no_quote:
  assumes "\<not> intent_is_quoting intent"
    "Create e \<in> set (snd (determine_executor_actions targets policy cfg cy intent c))"
  shows "\<not> is_quote_config e"
  using determine_Create[OF assms(2)] closing_Create[of e cfg cy intent c] assms(1)
  by (auto simp: intent_is_quoting_def split: option.splits if_splits)

text \<open>
  C1: A cycle whose market data is not ready, or whose update ends in any exception or deadline,
  still decides: the accepted intent becomes an emergency flatten to zero, every active quote
  executor is stopped and no quote is created.  (Recording the failure must itself return: the
  exception's kind can be read and fewer than 1024 failures came before it.)
\<close>

theorem failing_cycle_fails_safe:
  assumes "\<not> cf_shadow cfg" "distinct (map h_id (cy_active cy))"
    "\<not> ready \<or> (\<exists>e w1. update (w\<lparr>w_ctl := (w_ctl w)\<lparr>c_unready := False\<rparr>\<rparr>) = (w1, Some e)
        \<and> is_ok (snd (record_failure (c_breaker (w_ctl w1)) (cy_now cy) e)))"
    "controller_task targets policy X cfg cy True ready positions_readable update w = (w', outcome)"
  shows "\<exists>actions current. outcome = Inr actions
    \<and> last_intent (w_client w') = Some (flat_intent cfg 0 current Emergency)
    \<and> (\<forall>h\<in>set (cy_active cy). is_quote_executor h \<longrightarrow> Stop (h_id h) \<in> set actions)
    \<and> (\<forall>e. Create e \<in> set actions \<longrightarrow> \<not> is_quote_config e)"
proof -
  have "\<exists>w0. controller_task targets policy X cfg cy True ready positions_readable update w
      = decide_world targets policy cfg cy (force_flatten_intent targets X cfg cy positions_readable w0)"
    using assms(3) by (fastforce simp: controller_task_def split: prod.splits sum.splits)
  then obtain w0 where d: "(w', outcome)
      = decide_world targets policy cfg cy (force_flatten_intent targets X cfg cy positions_readable w0)"
    using assms(4) by metis
  let ?w = "force_flatten_intent targets X cfg cy positions_readable w0"
  let ?acts = "snd (determine_executor_actions targets policy cfg cy (last_intent (w_client ?w)) (w_ctl ?w))"
  obtain current where i: "last_intent (w_client ?w) = Some (flat_intent cfg 0 current Emergency)"
    by (simp add: force_flatten_intent_def Let_def)
  have q: "\<not> intent_is_quoting (last_intent (w_client ?w))"
    by (simp add: i)
  have "outcome = Inr ?acts" "w_client w' = w_client ?w"
    using decide_world_actions[of targets policy cfg cy ?w] decide_world_client[of targets policy cfg cy ?w]
    unfolding d[symmetric] by simp_all
  with i closing_stops_quotes[OF q assms(1) _ _ assms(2)] closing_creates_no_quote[OF q]
  show ?thesis by metis
qed

definition plain_externals :: "(real, unit, real, unit) externals" where
  "plain_externals =
     \<lparr>x_fail_closed = (\<lambda>v. case v of Some x \<Rightarrow> x | None \<Rightarrow> 0), x_on_mid = (\<lambda>m _ _. m),
      x_ledger_position = (\<lambda>l. l), x_limits = (\<lambda>k _ _. k), x_snapshot = (\<lambda>k _ _ _. k),
      x_tick = (\<lambda>k cl c. ((k, cl, c), None)), x_apply = (\<lambda>k _. k), x_position = (\<lambda>_. 0),
      x_peak = (\<lambda>_. NaN), x_errors = (\<lambda>_. []), x_shadow = (\<lambda>_. False)\<rparr>"

definition sample_world :: "(unit, real, unit) world" where
  "sample_world =
     \<lparr>w_ctl = sample_ctl,
      w_client = \<lparr>cl_positions = (\<lambda>_. None), last_intent = Some quoting_intent,
                  last_portfolio_intent = None, portfolio_gate = ()\<rparr>,
      w_cache = None, w_retry_at = 0, w_observer = new_observer ''ETH-USD'' 0 (), w_keeper = ()\<rparr>"

theorem failing_cycle_fails_safe_witness:
  "\<exists>actions. snd (controller_task (\<lambda>_ _. None) (\<lambda>_ _ _ _ _. None) plain_externals sample_cfg
      (sample_cycle 9 [sample_maker_handle Buy 1]) True False True (\<lambda>w. (w, None)) sample_world) = Inr actions
    \<and> Stop ''b'' \<in> set actions"
proof -
  let ?r = "controller_task (\<lambda>_ _. None) (\<lambda>_ _ _ _ _. None) plain_externals sample_cfg
      (sample_cycle 9 [sample_maker_handle Buy 1]) True False True (\<lambda>w. (w, None)) sample_world"
  have "\<not> cf_shadow sample_cfg" "distinct (map h_id (cy_active (sample_cycle 9 [sample_maker_handle Buy 1])))"
    by (simp_all add: sample_cfg_def sample_cycle_def)
  from failing_cycle_fails_safe[OF this, where ready = False and w' = "fst ?r" and outcome = "snd ?r"
      and targets = "\<lambda>_ _. None" and policy = "\<lambda>_ _ _ _ _. None" and X = plain_externals
      and positions_readable = True and update = "\<lambda>w. (w, None)" and w = sample_world]
  obtain actions where "snd ?r = Inr actions"
    "\<forall>h\<in>set (cy_active (sample_cycle 9 [sample_maker_handle Buy 1])). is_quote_executor h \<longrightarrow> Stop (h_id h) \<in> set actions"
    by auto
  then show ?thesis by (simp add: sample_cycle_def sample_maker_handle_def)
qed

text \<open>
  C8: When 1024 transport failures in a row have been recorded and a cycle's update fails once
  more with the gate open, recording the failure raises an OverflowError out of the control task:
  the cycle emits no action and leaves the accepted intent as the update left it -- the fail-safe
  flatten is not reached.
\<close>

theorem long_outage_skips_the_failsafe:
  assumes "update (w\<lparr>w_ctl := (w_ctl w)\<lparr>c_unready := False\<rparr>\<rparr>) = (w1, Some e)"
    "is_rate_limit_error e = Inr False" "1024 \<le> consecutive_failures (c_breaker (w_ctl w1))"
    "allow_request (c_breaker (w_ctl w1)) (cy_now cy)"
    "controller_task targets policy X cfg cy True True positions_readable update w = (w', outcome)"
  shows "outcome = Inl OverflowError \<and> w_client w' = w_client w1
    \<and> retry_at (c_breaker (w_ctl w')) = retry_at (c_breaker (w_ctl w1))"
  using assms
  by (auto simp: controller_task_def record_failure_def float_of_int_pow2 Let_def)

theorem long_outage_skips_the_failsafe_witness:
  "snd (controller_task (\<lambda>_ _. None) (\<lambda>_ _ _ _ _. None) plain_externals sample_cfg (sample_cycle 9 []) True True True
     (\<lambda>w. (w\<lparr>w_ctl := (w_ctl w)\<lparr>c_breaker := (c_breaker (w_ctl w))\<lparr>consecutive_failures := 1024\<rparr>\<rparr>\<rparr>, Some reset_error))
     sample_world) = Inl OverflowError"
  (is "snd ?r = _")
proof -
  have "retry_at (c_breaker (w_ctl sample_world)) = 0"
    by (simp add: sample_world_def sample_ctl_def new_ctl_def new_breaker_def)
  then show ?thesis
    using long_outage_skips_the_failsafe[OF _ reset_error_kind _ _ prod.collapse[symmetric],
      where w = sample_world and cy = "sample_cycle 9 []" and targets = "\<lambda>_ _. None" and
        policy = "\<lambda>_ _ _ _ _. None" and X = plain_externals and cfg = sample_cfg and positions_readable = True and
        update = "\<lambda>w. (w\<lparr>w_ctl := (w_ctl w)\<lparr>c_breaker := (c_breaker (w_ctl w))\<lparr>consecutive_failures := 1024\<rparr>\<rparr>\<rparr>, Some reset_error)"]
    by (simp add: allow_request_def sample_cycle_def)
qed

section \<open>Equity\<close>

text \<open>
  An equity reading exists exactly when a collateral label (the configured one, or one of the
  usual labels, or the only balance there is) is present with a finite value, and it is that
  value: a present zero is a zero, an absent key, an unreadable or a non-finite balance is
  unknown, never a zero.
\<close>

theorem equity_is_read_or_unknown:
  "current_equity cfg balances = Inr (Some x) \<longleftrightarrow>
     (\<exists>k. map_of balances k = Some (Inr (Num x))
       \<and> (find (\<lambda>l. map_of balances l \<noteq> None) [cf_collateral cfg, ''USD'', ''USDC'', ''USDT''] = Some k
          \<or> (find (\<lambda>l. map_of balances l \<noteq> None) [cf_collateral cfg, ''USD'', ''USDC'', ''USDT''] = None
             \<and> map fst balances = [k])))"
proof -
  have "(case balances of [(k, _)] \<Rightarrow> Some k | _ \<Rightarrow> None) = Some k \<longleftrightarrow> map fst balances = [k]" for k
    by (auto split: list.split)
  then have key: "equity_key cfg balances = Some k \<longleftrightarrow>
      find (\<lambda>l. map_of balances l \<noteq> None) (equity_labels cfg) = Some k
      \<or> (find (\<lambda>l. map_of balances l \<noteq> None) (equity_labels cfg) = None \<and> map fst balances = [k])" for k
    by (auto simp: equity_key_def split: option.split)
  have "current_equity cfg balances = Inr (Some x) \<longleftrightarrow>
      (\<exists>k. equity_key cfg balances = Some k \<and> map_of balances k = Some (Inr (Num x)))"
    by (auto simp: current_equity_def split: option.splits sum.splits pynum.splits)
  then show ?thesis
    unfolding key equity_labels_def by (rule trans) (rule arg_cong[where f = Ex], rule ext, rule conj_commute)
qed

theorem equity_is_read_or_unknown_witness:
  "current_equity sample_cfg [(''USDC'', Inr (Num 0))] = Inr (Some 0)"
  by (rule iffD2[OF equity_is_read_or_unknown], rule exI[of _ "''USDC''"]) (simp add: sample_cfg_def)

text \<open>
  C7: While equity is unknown the keeper's risk evaluation is not run, and the decision that
  follows, with a quoting intent and the liveness circuit closed, is cancel-only: it stops
  exactly the active quote executors and creates nothing.
\<close>

theorem unknown_equity_suspends_quoting:
  assumes "update_processed_data targets X cfg cy rd w = (w', None)"
    "current_equity cfg (rd_balances rd) = Inr None"
    "intent_is_quoting (last_intent (w_client w'))" "allow_quotes (c_watchdog (w_ctl w')) (cy_now cy)"
    "\<not> cf_shadow cfg"
  shows "update_processed_data targets (X\<lparr>x_tick := any_tick\<rparr>) cfg cy rd w = (w', None)
    \<and> snd (determine_executor_actions targets policy cfg cy (last_intent (w_client w')) (w_ctl w'))
        = map (\<lambda>h. Stop (h_id h)) (filter is_quote_executor (cy_active cy))"
proof -
  have transform: "c_suspension (fst (portfolio_transform targets cfg cy d i p m c)) = c_suspension c" for d i p m c
    by (auto simp: portfolio_transform_def split: option.split prod.split sum.split)
  have peak: "c_suspension (note_peak_equity p c) = c_suspension c" for p c
    by (simp add: note_peak_equity_def)
  have blind: "c_suspension (w_ctl (fst (blind_step targets Y cfg cy ps v))) = c_suspension (w_ctl v)" for Y ps v
    using transform[of OtherDecision None _ _ "w_ctl v"]
    by (auto simp: blind_step_def Let_def split: prod.split sum.split option.split) (metis fst_conv)+
  have tick: "blind_step targets (X\<lparr>x_tick := any_tick\<rparr>) cfg cy ps v = blind_step targets X cfg cy ps v"
    "read_margin (X\<lparr>x_tick := any_tick\<rparr>) cfg cy rd v = read_margin X cfg cy rd v" for ps v
    by (simp_all add: blind_step_def read_margin_def Let_def split: prod.split sum.split option.split)
  have susp: "c_suspension (w_ctl w') = Some ''equity_unresolved''"
    using assms(1) unfolding update_processed_data_def Let_def assms(2) sum.case prod.case_eq_if
    by (auto simp: peak blind note_equity_def split: option.splits)
  have "update_processed_data targets (X\<lparr>x_tick := any_tick\<rparr>) cfg cy rd w = (w', None)"
    using assms(1,2) by (simp add: update_processed_data_def Let_def tick)
  with susp assms(3-5) show ?thesis
    by (simp add: determine_executor_actions_def suspended_cycle_def)
qed


definition sample_readings :: "real readings" where
  "sample_readings =
     \<lparr>rd_margin = Inr (Inr (Some 500)), rd_balances = [], rd_funding = None, rd_reports = [], rd_wall = 9\<rparr>"

lemma no_balances: "current_equity sample_cfg (rd_balances sample_readings) = Inr None"
  by (simp add: sample_readings_def current_equity_def equity_key_def equity_labels_def)

lemma sample_world_quotes: "last_intent (set_positions (w_client sample_world) ps) = Some quoting_intent"
  by (simp add: sample_world_def set_positions_def quoting_intent_def two_sided_def flatten_intent_def Let_def)

lemma read_margin_frame [simp]:
  "w_client (fst (read_margin X cfg cy rd w)) = w_client w"
  "c_watchdog (w_ctl (fst (read_margin X cfg cy rd w))) = c_watchdog (w_ctl w)"
  by (simp_all add: read_margin_def split: prod.split)

lemma blind_step_alone:
  assumes "cf_book cfg = None"
  shows "blind_step targets X cfg cy ps w = (w\<lparr>w_keeper := x_apply X (w_keeper w) ps\<rparr>, None)"
  using assms by (simp add: blind_step_def portfolio_transform_def Let_def)

lemma sample_update:
  "snd (update_processed_data targets plain_externals sample_cfg (sample_cycle 9 hs) sample_readings sample_world) = None"
  "last_intent (w_client (fst (update_processed_data targets plain_externals sample_cfg (sample_cycle 9 hs)
     sample_readings sample_world))) = Some quoting_intent"
  "c_watchdog (w_ctl (fst (update_processed_data targets plain_externals sample_cfg (sample_cycle 9 hs)
     sample_readings sample_world))) = c_watchdog sample_ctl"
proof -
  have "cf_book sample_cfg = None" by (simp add: sample_cfg_def)
  note b = blind_step_alone[OF this]
  show "snd (update_processed_data targets plain_externals sample_cfg (sample_cycle 9 hs) sample_readings sample_world) = None"
    "last_intent (w_client (fst (update_processed_data targets plain_externals sample_cfg (sample_cycle 9 hs)
       sample_readings sample_world))) = Some quoting_intent"
    unfolding update_processed_data_def Let_def prod.case_eq_if no_balances sum.case b
    by (simp_all add: sample_world_quotes)
  have "c_watchdog (w_ctl sample_world) = c_watchdog sample_ctl" by (simp add: sample_world_def)
  moreover have "c_watchdog (note_peak_equity p c) = c_watchdog c" for p c
    by (simp add: note_peak_equity_def)
  ultimately show "c_watchdog (w_ctl (fst (update_processed_data targets plain_externals sample_cfg (sample_cycle 9 hs)
     sample_readings sample_world))) = c_watchdog sample_ctl"
    unfolding update_processed_data_def Let_def prod.case_eq_if no_balances sum.case b
    by (simp add: note_equity_def)
qed

theorem unknown_equity_suspends_quoting_witness:
  "snd (determine_executor_actions (\<lambda>_ _. None) (\<lambda>_ _ _ _ _. None) sample_cfg
      (sample_cycle 9 [sample_maker_handle Buy 1]) (Some quoting_intent)
      (w_ctl (fst (update_processed_data (\<lambda>_ _. None) plain_externals sample_cfg
        (sample_cycle 9 [sample_maker_handle Buy 1]) sample_readings sample_world)))) = [Stop ''b'']"
proof -
  let ?cy = "sample_cycle 9 [sample_maker_handle Buy 1]"
  let ?u = "update_processed_data (\<lambda>_ _. None) plain_externals sample_cfg ?cy sample_readings sample_world"
  have u: "?u = (fst ?u, None)"
    using sample_update(1) by (metis prod.collapse)
  from unknown_equity_suspends_quoting[OF u no_balances, where any_tick = "x_tick plain_externals"
      and policy = "\<lambda>_ _ _ _ _. None"]
  show ?thesis
    by (simp add: sample_update intent_is_quoting_def quoting_intent_def two_sided_def sample_ctl_def new_ctl_def
        new_watchdog_def allow_quotes_def)
      (simp add: sample_cfg_def sample_cycle_def sample_maker_handle_def quote_config_is_quote)
qed

section \<open>The margin reading\<close>

text \<open>
  A margin reading is never invented: it is a cached reading younger than the time to live,
  or the venue's current entry, or the fail-closed zero.  After a failed request at some time no
  request is sent, whatever its outcome would be, before both the circuit's delay and the initial
  backoff have passed: the reading is then zero and nothing is cached.
\<close>

theorem margin_fails_closed_and_backs_off:
  assumes "fail_closed None = 0" "0 < cf_margin_ttl cfg"
    "current_margin_available fail_closed cfg now outcome m = (m', v)"
  shows "(\<exists>t. mg_cache m = Some (v, t) \<and> now - t < cf_margin_ttl cfg \<and> m' = m)
    \<or> (\<exists>entry. outcome = Inr (Inr entry) \<and> v = fail_closed entry \<and> mg_cache m' = Some (v, now))
    \<or> (v = 0 \<and> mg_cache m' = mg_cache m
       \<and> (mg_breaker m' \<noteq> mg_breaker m \<longrightarrow>
           (\<forall>later outcome'. now \<le> later \<and> later < now + max (snap_retry_in (breaker_snap (mg_breaker m') now)) (cf_backoff_initial cfg)
              \<longrightarrow> current_margin_available fail_closed cfg later outcome' m' = (m', 0))))"
proof -
  have fresh: "v = a \<and> m' = m" if "mg_cache m = Some (a, t)" "now - t < cf_margin_ttl cfg" for a t
    using assms(3) that by (auto simp: current_margin_available_def)
  show ?thesis
  proof (cases "\<exists>a t. mg_cache m = Some (a, t) \<and> now - t < cf_margin_ttl cfg")
    case True
    then show ?thesis using fresh by blast
  next
    case False
    then have r: "margin_read fail_closed cfg now outcome m = (m', v)"
      using assms(3) by (auto simp: current_margin_available_def split: option.splits prod.splits if_splits)
    show ?thesis
    proof (cases "now < mg_retry_at m \<or> \<not> allow_request (mg_breaker m) now")
      case True
      with r assms(1) show ?thesis by (auto simp: margin_read_def)
    next
      case False
      note sent = this
      obtain b res where vr: "venue_request (mg_breaker m) now outcome = (b, res)" by force
      show ?thesis
      proof (cases "\<exists>entry. res = Inr (Inr entry)")
        case True
        then obtain entry where "res = Inr (Inr entry)" by blast
        then have "outcome = Inr (Inr entry)"
          using vr sent by (auto simp: venue_request_def split: sum.splits prod.splits)
        with r sent vr \<open>res = Inr (Inr entry)\<close> show ?thesis by (auto simp: margin_read_def)
      next
        case False
        then have m': "v = 0" "m' = m\<lparr>mg_breaker := b,
            mg_retry_at := now + max (snap_retry_in (breaker_snap b now)) (cf_backoff_initial cfg)\<rparr>"
          using r sent vr assms(1) by (auto simp: margin_read_def split: sum.splits)
        have old: "later - t \<ge> cf_margin_ttl cfg" if "mg_cache m = Some (a, t)" "now \<le> later" for a t later
          using \<open>\<nexists>a t. mg_cache m = Some (a, t) \<and> now - t < cf_margin_ttl cfg\<close> that by force
        have "current_margin_available fail_closed cfg later outcome' m' = (m', 0)"
          if "now \<le> later" "later < now + max (snap_retry_in (breaker_snap (mg_breaker m') now)) (cf_backoff_initial cfg)"
          for later outcome'
          using that m'(2) old[of _ _ later] assms(1)
          by (auto simp: current_margin_available_def margin_read_def split: option.split prod.split)
        with m' show ?thesis by simp
      qed
    qed
  qed
qed

definition down_margin :: margin_state where
  "down_margin = \<lparr>mg_breaker = new_breaker 3 2 60, mg_cache = None, mg_retry_at = 0\<rparr>"

theorem margin_fails_closed_and_backs_off_witness:
  "current_margin_available (\<lambda>v. case v of Some x \<Rightarrow> x | None \<Rightarrow> 0) sample_cfg 101 (Inr (Inr (Some 500)))
     (fst (current_margin_available (\<lambda>v. case v of Some x \<Rightarrow> x | None \<Rightarrow> 0) sample_cfg 100 (Inl reset_error) down_margin))
   = (fst (current_margin_available (\<lambda>v. case v of Some x \<Rightarrow> x | None \<Rightarrow> 0) sample_cfg 100 (Inl reset_error) down_margin), 0)"
  (is "_ = (fst ?r, 0)")
proof -
  have b: "mg_breaker (fst ?r) \<noteq> mg_breaker down_margin"
  proof -
    have "consecutive_failures (mg_breaker (fst ?r)) = 1"
      using reset_error_kind
      by (simp add: current_margin_available_def down_margin_def margin_read_def new_breaker_def allow_request_def
          venue_request_def record_failure_def float_of_int_def Let_def)
    then show ?thesis by (auto simp: down_margin_def new_breaker_def)
  qed
  have "cf_backoff_initial sample_cfg = 2" "0 < cf_margin_ttl sample_cfg" by (simp_all add: sample_cfg_def)
  with margin_fails_closed_and_backs_off[where fail_closed = "\<lambda>v. case v of Some x \<Rightarrow> x | None \<Rightarrow> 0"
      and cfg = sample_cfg and now = 100 and outcome = "Inl reset_error" and m = down_margin
      and m' = "fst ?r" and v = "snd ?r"] b
  show ?thesis by (auto simp: down_margin_def)
qed

section \<open>The basket\<close>

text \<open>
  With a basket stop configured, a leg whose liveness circuit is open, or whose own risk
  decision is an emergency, is given an emergency flatten to zero; and the keeper's own intent
  passes through only when this leg itself asks to quote with its circuit closed and the basket
  agrees.  Every other answer is a non-quoting intent to the basket's target.
\<close>

theorem basket_overrides_the_leg:
  assumes "cf_book cfg = Some b" "book_ok b" "table_ok (c_table c)" "(cf_account cfg, cf_coin cfg) \<in> set (members b)"
    "0 < m" "cy_wall cy = Num t"
    "portfolio_transform targets cfg cy d intent (Num pos) (Num m) c = (c', r)"
  shows "(\<not> allow_quotes (c_watchdog c) (cy_now cy) \<or> d = EmergencyExit \<longrightarrow>
        r = Inr (Some (flat_intent cfg 0 pos Emergency)))
    \<and> (r = Inr (Some i) \<and> in_quote i \<noteq> None \<longrightarrow>
        intent = Some i \<and> d = OtherDecision \<and> allow_quotes (c_watchdog c) (cy_now cy))"
proof -
  let ?k = "(cf_account cfg, cf_coin cfg)"
  let ?allow = "allow_quotes (c_watchdog c) (cy_now cy)"
  have good: "table_ok (c_table c) \<and> book_ok b \<and> ?k \<in> set (members b)" using assms by simp
  obtain lm where lm: "parse_mode (local_mode d ?allow) = Some lm"
    "lm = (if \<not> ?allow \<or> d = EmergencyExit then LEmergency else if d = StopQuoting then LStop else LQuote)"
    by (cases d) (auto simp: local_mode_def parse_mode_def)
  then have u: "update_book targets b (c_table c) ?k (Num pos) (Num m) (local_mode d ?allow) (cy_wall cy)
      = update_leg targets b (c_table c) ?k pos m lm t"
    using assms(4-6) by (simp add: update_book_def)
  show ?thesis
  proof (cases "lm = LEmergency")
    case True
    with book.emergency_heard[OF good, of targets pos m t] assms(1,7) u lm(2)
    show ?thesis
      by (cases "update_leg targets b (c_table c) ?k pos m LEmergency t")
        (auto simp: portfolio_transform_def flat_intent_def)
  next
    case False
    then have "?allow" "d \<noteq> EmergencyExit" using lm(2) by (auto split: if_splits)
    moreover have "d = OtherDecision" if "snd (update_leg targets b (c_table c) ?k pos m lm t) = Inr (BQuote, q)" for q
      using book.quote_agrees[OF good that] lm(2) False by (cases d) (auto split: if_splits)
    ultimately show ?thesis
      using assms(1,7) u
      by (cases "update_leg targets b (c_table c) ?k pos m lm t")
        (auto simp: portfolio_transform_def flat_intent_def split: sum.splits if_splits)
  qed
qed

definition basket_cfg :: ctl_config where
  "basket_cfg = sample_cfg\<lparr>cf_account := ''e2'', cf_book := Some two_legs\<rparr>"

theorem basket_overrides_the_leg_witness:
  "snd (portfolio_transform (\<lambda>_ _. None) basket_cfg (sample_cycle 9 []) EmergencyExit (Some quoting_intent)
     (Num 2) (Num 2000) sample_ctl) = Inr (Some (flat_intent basket_cfg 0 2 Emergency))"
proof -
  have "book_ok two_legs" "table_ok (c_table sample_ctl)" "(cf_account basket_cfg, cf_coin basket_cfg) \<in> set (members two_legs)"
    "cf_book basket_cfg = Some two_legs" "cy_wall (sample_cycle 9 []) = Num 9"
    by (simp_all add: book_ok_def two_legs_def table_ok_def sample_ctl_def new_ctl_def basket_cfg_def sample_cfg_def
        sample_cycle_def)
  from basket_overrides_the_leg[OF this(4,1,2,3) _ this(5) prod.collapse[symmetric]]
  show ?thesis by simp
qed

section \<open>Positions\<close>

text \<open>
  C9: After a fill the ledger refuses (a malformed fill), the position the next decisions use is
  for thirty seconds the ledger's, which does not contain that fill, whatever the venue reports.
\<close>

theorem refused_fill_hides_the_venue_position:
  assumes "fe_pair ev = ob_symbol ob" "ledger_fill (ob_ledger ob) (fill_of_event ob ev) = Inl ValueError"
    "on_fill_event ledger_fill markout_fill wall ev ob = (ob', r)" "wall \<le> later" "later \<le> wall + 30"
  shows "r = Inr () \<and> position_for_decision ledger_position cfg cy later ob' = ledger_position (ob_ledger ob)"
proof -
  have f: "fill_of_event (ob\<lparr>ob_last_fill := Some wall\<rparr>) ev = fill_of_event ob ev"
    by (simp add: fill_of_event_def mid_at_def split: option.split)
  show ?thesis
    using assms by (auto simp: on_fill_event_def Let_def f position_for_decision_def)
qed

definition odd_fill :: fill_event where
  "odd_fill = \<lparr>fe_pair = ''ETH-USD'', fe_ts = 1, fe_side = Buy, fe_price = 100, fe_size = 0, fe_order_id = ''o'', fe_fee = Inr 0\<rparr>"

theorem refused_fill_hides_the_venue_position_witness:
  "position_for_decision (\<lambda>l. l) sample_cfg
      ((sample_cycle 20 [])\<lparr>cy_positions := [\<lparr>hp_pair = ''ETH-USD'', hp_side = ''LONG'', hp_amount = 5\<rparr>]\<rparr>) 20
      (fst (on_fill_event (\<lambda>l f. if fl_size f \<le> 0 then Inl ValueError else Inr (l + fl_size f)) (\<lambda>m _ _ _ _. m) 10
        odd_fill (new_observer ''ETH-USD'' (1 :: real) ()))) = 1"
  using refused_fill_hides_the_venue_position[where ev = odd_fill and ob = "new_observer ''ETH-USD'' (1 :: real) ()"
      and ledger_fill = "\<lambda>l f. if fl_size f \<le> 0 then Inl ValueError else Inr (l + fl_size f)"
      and markout_fill = "\<lambda>m _ _ _ _. m" and wall = 10 and later = 20 and ledger_position = "\<lambda>l. l",
      OF _ _ prod.collapse[symmetric]]
  by (simp add: odd_fill_def new_observer_def fill_of_event_def)

end
