(* ===== verification/ACMath.thy ===== *)
theory ACMath imports Prelude begin

text \<open>
  \<open>src/opms/executors/_ac_math.py\<close>: the Almgren-Chriss schedule.

  Floats and Decimals are reals here: \<open>Decimal(str(frac))\<close> is the fraction itself.  The schedule
  uses \<open>exp\<close> and \<open>sqrt\<close> of the reals; everything else computes.
\<close>

section \<open>The schedule\<close>

definition sinh_ratio :: "real \<Rightarrow> real \<Rightarrow> real" where
  "sinh_ratio u a =
     (if a \<le> 0 then u
      else (exp (a * (u - 1)) - exp (- a * (u + 1))) / (1 - exp (- 2 * a)))"

text \<open>\<open>if not min_order_size or min_order_size <= 0: return sizes\<close>; the loop carries what is merged
  so far, newest first, and the accumulator.\<close>

fun merge_loop :: "real \<Rightarrow> real list \<Rightarrow> real list \<Rightarrow> real \<Rightarrow> real list \<times> real" where
  "merge_loop m [] merged acc = (merged, acc)"
| "merge_loop m (s # sizes) merged acc =
     (if m \<le> acc + s then merge_loop m sizes ((acc + s) # merged) 0 else merge_loop m sizes merged (acc + s))"

definition merge_min_size :: "real list \<Rightarrow> real option \<Rightarrow> real list" where
  "merge_min_size sizes min_order_size =
     (case min_order_size of
        None \<Rightarrow> sizes
      | Some m \<Rightarrow>
          if m \<le> 0 then sizes
          else (let (merged, acc) = merge_loop m sizes [] 0 in
                rev (if acc > 0 then (case merged of x # xs \<Rightarrow> (x + acc) # xs | [] \<Rightarrow> [acc]) else merged)))"

definition bad_fractions :: "real list \<Rightarrow> bool" where
  "bad_fractions vs =
     (list_ex (\<lambda>(a, b). \<not> (0 \<le> a \<and> a \<le> b)) (zip vs (tl vs)) \<or> 1 + 1 / 10 ^ 9 < last vs)"

text \<open>The slices: differences of the holdings, and for the last one what is left of the quantity.\<close>

fun slice_sizes :: "real \<Rightarrow> real list \<Rightarrow> real \<Rightarrow> real list" where
  "slice_sizes q (h0 # h1 # hs) cumulative =
     (if hs = [] then [q - cumulative]
      else (h0 - h1) * q # slice_sizes q (h1 # hs) (cumulative + (h0 - h1) * q))"
| "slice_sizes q _ cumulative = []"

definition clock_fractions :: "nat \<Rightarrow> real list" where
  "clock_fractions n = map (\<lambda>j. real j / real n) [0..<Suc n]"

definition build_schedule ::
  "real \<Rightarrow> real \<Rightarrow> int \<Rightarrow> real \<Rightarrow> real \<Rightarrow> real \<Rightarrow> real \<Rightarrow> real option \<Rightarrow> real list option \<Rightarrow> py_error + real list" where
  "build_schedule q duration intervals risk volatility eta gamma min_size fractions =
     (if duration \<le> 0 then Inl ValueError
      else if intervals \<le> 0 then Inl ValueError
      else if risk < 0 then Inl ValueError
      else if volatility < 0 then Inl ValueError
      else
        let tau = duration / of_int intervals; eta_tilde = eta - 1 / 2 * gamma * tau in
        if eta_tilde \<le> 0 then Inl ValueError
        else
          let a = sqrt (risk * volatility ^ 2 / eta_tilde) * duration;
              schedule = (\<lambda>vs. Inr (merge_min_size
                (slice_sizes q (map (\<lambda>v. sinh_ratio (1 - v) a) vs) 0) min_size))
          in case fractions of
               None \<Rightarrow> schedule (clock_fractions (nat intervals))
             | Some vs \<Rightarrow>
                 if vs = [] then Inl (OtherError ''IndexError'')
                 else if bad_fractions vs then Inl ValueError
                 else schedule vs)"

section \<open>The holding curve\<close>

lemma sinh_ratio_sinh: "0 < a \<Longrightarrow> sinh_ratio u a = sinh (a * u) / sinh a"
proof -
  assume a: "0 < a"
  have d: "1 - exp (- 2 * a) \<noteq> 0" "exp a - exp (- a) \<noteq> 0" using a by auto
  have e: "exp a * exp (a * (u - 1)) = exp (a * u)" "exp a * exp (- a * (u + 1)) = exp (- (a * u))"
    "exp a * exp (- 2 * a) = exp (- a)"
    unfolding exp_add[symmetric] by (simp_all add: algebra_simps)
  have key: "(exp (a * (u - 1)) - exp (- a * (u + 1))) * (exp a - exp (- a))
      = (exp (a * u) - exp (- (a * u))) * (1 - exp (- 2 * a))"
    unfolding e(1)[symmetric] e(2)[symmetric] e(3)[symmetric] by (simp add: algebra_simps)
  have "sinh_ratio u a = (exp (a * u) - exp (- (a * u))) / (exp a - exp (- a))"
    unfolding frac_eq_eq[OF d] using a key by (simp only: sinh_ratio_def not_le[symmetric] if_False frac_eq_eq[OF d] key)
  moreover have c: "x / 2 / (y / 2) = x / y" for x y :: real by simp
  ultimately show ?thesis unfolding sinh_field_def c by simp
qed

lemma sinh_ratio_mono:
  assumes "u \<le> v"
  shows "sinh_ratio u a \<le> sinh_ratio v a"
proof (cases "0 < a")
  case True
  have "exp (a * (u - 1)) \<le> exp (a * (v - 1))" "exp (- a * (v + 1)) \<le> exp (- a * (u + 1))"
    using assms True by auto
  then have "exp (a * (u - 1)) - exp (- a * (u + 1)) \<le> exp (a * (v - 1)) - exp (- a * (v + 1))"
    by (rule diff_mono)
  with True show ?thesis
    by (simp add: sinh_ratio_def divide_right_mono)
qed (use assms in \<open>simp add: sinh_ratio_def\<close>)

lemma sinh_ratio_ends: "sinh_ratio 0 a = 0" "sinh_ratio 1 a = 1"
  by (cases "0 < a"; simp add: sinh_ratio_sinh sinh_ratio_def)+

lemma sinh_ratio_bounds: "0 \<le> u \<Longrightarrow> u \<le> 1 \<Longrightarrow> 0 \<le> sinh_ratio u a \<and> sinh_ratio u a \<le> 1"
  using sinh_ratio_mono[of 0 u a] sinh_ratio_mono[of u 1 a] by (simp add: sinh_ratio_ends)

section \<open>Slices\<close>

lemma slice_sizes_sum: "2 \<le> length hs \<Longrightarrow> cumulative + sum_list (slice_sizes q hs cumulative) = q"
  by (induction q hs cumulative rule: slice_sizes.induct) (auto simp: add.assoc[symmetric] Suc_le_eq)

lemma slice_sizes_length: "length (slice_sizes q hs cumulative) = length hs - 1"
  by (induction q hs cumulative rule: slice_sizes.induct) auto

lemma slice_sizes_nonneg:
  assumes "0 \<le> q" "sorted_wrt (\<ge>) hs" "\<forall>h\<in>set hs. 0 \<le> h" "hs \<noteq> [] \<Longrightarrow> cumulative \<le> (1 - hd hs) * q"
    "s \<in> set (slice_sizes q hs cumulative)"
  shows "0 \<le> s"
  using assms
proof (induction q hs cumulative rule: slice_sizes.induct)
  case (1 q h0 h1 hs cumulative)
  show ?case
  proof (cases "hs = []")
    case True
    with 1 have s: "s = q - cumulative" by simp
    have "cumulative \<le> (1 - h0) * q" using 1(5) by simp
    also have "\<dots> \<le> q" using 1(2,4) by (simp add: algebra_simps)
    finally show ?thesis by (simp add: s)
  next
    case False
    then consider "s = (h0 - h1) * q" | "s \<in> set (slice_sizes q (h1 # hs) (cumulative + (h0 - h1) * q))"
      using 1(6) by auto
    then show ?thesis
    proof cases
      case 1
      then show ?thesis using 1 "1.prems"(1,2) by simp
    next
      case 2
      show ?thesis
        by (rule "1.IH"[OF False "1.prems"(1) _ _ _ 2])
          (use "1.prems" in \<open>auto simp: algebra_simps\<close>)
    qed
  qed
qed auto

section \<open>Merging\<close>

lemma merge_loop_sum:
  "sum_list (fst (merge_loop m sizes merged acc)) + snd (merge_loop m sizes merged acc)
     = sum_list merged + acc + sum_list sizes"
  by (induction m sizes merged acc rule: merge_loop.induct) auto

lemma merge_loop_min:
  "\<forall>x\<in>set merged. m \<le> x \<Longrightarrow> \<forall>x\<in>set (fst (merge_loop m sizes merged acc)). m \<le> x"
proof (induction m sizes merged acc rule: merge_loop.induct)
  case (2 m s sizes merged acc)
  then show ?case by (cases "m \<le> acc + s") simp_all
qed simp

lemma merge_loop_acc:
  "0 < m \<Longrightarrow> 0 \<le> acc \<Longrightarrow> \<forall>s\<in>set sizes. 0 \<le> s \<Longrightarrow> 0 \<le> snd (merge_loop m sizes merged acc)"
  by (induction m sizes merged acc rule: merge_loop.induct) auto

lemma merge_sum:
  assumes "\<forall>s\<in>set sizes. 0 \<le> s"
  shows "sum_list (merge_min_size sizes ms) = sum_list sizes"
proof (cases "\<exists>m. ms = Some m \<and> 0 < m")
  case True
  then obtain m where m: "ms = Some m" "0 < m" by blast
  obtain merged acc where l: "merge_loop m sizes [] 0 = (merged, acc)" by force
  have "sum_list merged + acc = sum_list sizes" "0 \<le> acc"
    using merge_loop_sum[of m sizes "[]" 0] merge_loop_acc[of m 0 sizes "[]"] assms m l by auto
  with m l show ?thesis
    by (auto simp: merge_min_size_def sum_list_rev split: list.split)
next
  case False
  then show ?thesis by (auto simp: merge_min_size_def split: option.split)
qed

lemma merge_min:
  assumes "0 < m" "\<forall>s\<in>set sizes. 0 \<le> s" "x \<in> set (merge_min_size sizes (Some m))"
  shows "m \<le> x \<or> merge_min_size sizes (Some m) = [x]"
proof -
  obtain merged acc where l: "merge_loop m sizes [] 0 = (merged, acc)" by force
  have "\<forall>x\<in>set merged. m \<le> x" using merge_loop_min[of "[]" m sizes 0] l by auto
  with assms l show ?thesis
    by (auto simp: merge_min_size_def not_less split: list.splits if_splits)
qed

section \<open>Properties\<close>

lemma fractions_sorted:
  "\<not> bad_fractions vs \<Longrightarrow> sorted vs \<and> (2 \<le> length vs \<longrightarrow> (\<forall>v\<in>set vs. 0 \<le> v))"
proof (induction vs)
  case (Cons v vs)
  show ?case
  proof (cases vs)
    case (Cons w ws)
    then have "\<not> bad_fractions vs" "0 \<le> v" "v \<le> w"
      using Cons.prems by (auto simp: bad_fractions_def)
    with Cons.IH Cons show ?thesis by (cases ws) auto
  qed simp
qed simp

lemma build_schedule_Inr:
  assumes "build_schedule q duration n risk volatility eta gamma min_size fractions = Inr slices"
  shows "\<exists>a. slices = merge_min_size (slice_sizes q (map (\<lambda>v. sinh_ratio (1 - v) a)
      (case fractions of None \<Rightarrow> clock_fractions (nat n) | Some vs \<Rightarrow> vs)) 0) min_size
    \<and> 0 < n \<and> (\<forall>vs. fractions = Some vs \<longrightarrow> \<not> bad_fractions vs)"
  using assms by (auto simp: build_schedule_def Let_def split: if_splits option.splits)

lemma sorted_le_last: "sorted vs \<Longrightarrow> v \<in> set vs \<Longrightarrow> v \<le> last (vs :: real list)"
  by (induction vs) auto

lemma clock_fractions_sorted:
  "0 < n \<Longrightarrow> sorted (clock_fractions n) \<and> (\<forall>v\<in>set (clock_fractions n). 0 \<le> v \<and> v \<le> 1)
    \<and> 2 \<le> length (clock_fractions n)"
  by (auto simp: clock_fractions_def sorted_iff_nth_mono divide_right_mono simp del: upt_Suc)

lemma schedule_facts:
  assumes "build_schedule q duration n risk volatility eta gamma min_size fractions = Inr slices" "0 \<le> q"
    "\<forall>vs. fractions = Some vs \<longrightarrow> 2 \<le> length vs \<and> last vs \<le> 1"
  shows "sum_list slices = q \<and> (\<forall>s\<in>set slices. 0 \<le> s)
    \<and> (\<forall>m. min_size = Some m \<longrightarrow> 0 < m \<longrightarrow> (\<forall>s\<in>set slices. m \<le> s \<or> slices = [s]))"
proof -
  obtain vs a where vs: "slices = merge_min_size (slice_sizes q (map (\<lambda>v. sinh_ratio (1 - v) a) vs) 0) min_size"
    "2 \<le> length vs" "sorted vs" "\<forall>v\<in>set vs. 0 \<le> v \<and> v \<le> 1"
  proof -
    obtain a where b: "slices = merge_min_size (slice_sizes q (map (\<lambda>v. sinh_ratio (1 - v) a)
        (case fractions of None \<Rightarrow> clock_fractions (nat n) | Some vs \<Rightarrow> vs)) 0) min_size" "0 < n"
      "\<forall>vs. fractions = Some vs \<longrightarrow> \<not> bad_fractions vs"
      using build_schedule_Inr[OF assms(1)] by blast
    show thesis
    proof (cases fractions)
      case None
      with that[of a "clock_fractions (nat n)"] b clock_fractions_sorted[of "nat n"] show thesis by simp
    next
      case (Some vs)
      with b(3) assms(3) have ok: "\<not> bad_fractions vs" "2 \<le> length vs" "last vs \<le> 1" by auto
      have s: "sorted vs" "\<forall>v\<in>set vs. 0 \<le> v" using fractions_sorted[OF ok(1)] ok(2) by auto
      have "v \<le> 1" if "v \<in> set vs" for v
        using sorted_le_last[OF s(1) that] ok(3) by simp
      with that[of a vs] b(1) Some ok s show thesis by simp
    qed
  qed
  let ?hs = "map (\<lambda>v. sinh_ratio (1 - v) a) vs"
  let ?sizes = "slice_sizes q ?hs 0"
  have "sorted_wrt (\<ge>) ?hs"
    using vs(3) by (auto simp: sorted_wrt_map intro!: sorted_wrt_mono_rel[OF _ vs(3)] sinh_ratio_mono)
  moreover have h: "\<forall>h\<in>set ?hs. 0 \<le> h \<and> h \<le> 1" using vs(4) sinh_ratio_bounds by auto
  moreover have "(0::real) \<le> (1 - hd ?hs) * q" if "?hs \<noteq> []"
    using h assms(2) that by (cases vs) auto
  ultimately have nn: "\<forall>s\<in>set ?sizes. 0 \<le> s"
    using slice_sizes_nonneg[OF assms(2)] by blast
  have sum: "sum_list slices = q"
    using merge_sum[OF nn] slice_sizes_sum[of ?hs 0 q] vs(1,2) by simp
  have mins: "m \<le> s \<or> slices = [s]" if "min_size = Some m" "0 < m" "s \<in> set slices" for m s
    using merge_min[OF that(2) nn] that vs(1) by simp
  have "0 \<le> s" if "s \<in> set slices" for s
  proof (cases "\<exists>m. min_size = Some m \<and> 0 < m")
    case True
    then obtain m where m: "min_size = Some m" "0 < m" by blast
    from mins[OF this that] show ?thesis
      using m sum assms(2) by auto
  next
    case False
    with that nn vs(1) show ?thesis by (auto simp: merge_min_size_def split: option.splits if_splits)
  qed
  with sum mins show ?thesis by blast
qed

lemmas schedule_total = schedule_facts[THEN conjunct1]


lemma twap_schedule: "build_schedule 6 60 3 0 1 1 0 None None = Inr [2, 2, 2]"
  by (simp add: build_schedule_def clock_fractions_def sinh_ratio_def merge_min_size_def Let_def
      numeral_3_eq_3 upt_rec)



end
