(* ===== verification/VolumeForecast.thy ===== *)
theory VolumeForecast imports Prelude begin

text \<open>
  \<open>src/opms/forecasting/historical_profile.py\<close>: the volume forecast from hourly candles.

  A candle is its opening and closing time in milliseconds and its volume.  The provider is
  outside: what its \<open>get_candles\<close> returned or raised is an argument, and \<open>None\<close> stands for no
  provider at all.
\<close>

record candle =
  cd_open :: int
  cd_close :: int
  cd_volume :: real

definition ms_per_hour :: int where "ms_per_hour = 3600000"

definition hours_per_day :: nat where "hours_per_day = 24"

definition hour_of :: "int \<Rightarrow> nat" where
  "hour_of ms = nat ((ms div ms_per_hour) mod int hours_per_day)"

definition uniform_profile :: "int \<Rightarrow> real \<Rightarrow> real list" where
  "uniform_profile n whole = (if n \<le> 0 then [] else replicate (nat n) (whole / of_int n))"

text \<open>The connector call of \<open>HBCandlesProvider\<close>: a missing or empty answer and any exception are no candles.\<close>

definition hb_get_candles :: "(py_error + candle list) option \<Rightarrow> (py_error + candle list option) option \<Rightarrow> candle list" where
  "hb_get_candles direct historical =
     (case direct of
        Some (Inr cs) \<Rightarrow> cs
      | Some (Inl _) \<Rightarrow> []
      | None \<Rightarrow> (case historical of
                   Some (Inr (Some cs)) \<Rightarrow> cs
                 | _ \<Rightarrow> []))"

section \<open>The hourly profile\<close>

definition duration_s :: "candle \<Rightarrow> real" where
  "duration_s c = of_int (cd_close c - cd_open c) / 1000"

definition add_candle :: "real list \<times> nat list \<Rightarrow> candle \<Rightarrow> real list \<times> nat list" where
  "add_candle sc c =
     (if duration_s c \<le> 0 then sc
      else (let h = hour_of (cd_open c) in
            ((fst sc)[h := fst sc ! h + cd_volume c / duration_s c], (snd sc)[h := Suc (snd sc ! h)])))"

definition hourly_rates :: "candle list \<Rightarrow> real list option" where
  "hourly_rates candles =
     (let (rsum, counts) = foldl add_candle (replicate hours_per_day 0, replicate hours_per_day 0) candles in
      if \<forall>n\<in>set counts. n = 0 then None
      else
        let populated = map (\<lambda>h. rsum ! h / real (counts ! h)) (filter (\<lambda>h. counts ! h \<noteq> 0) [0..<hours_per_day]);
            global_mean = sum_list populated / real (length populated)
        in Some (map (\<lambda>h. if counts ! h \<noteq> 0 then rsum ! h / real (counts ! h) else global_mean) [0..<hours_per_day]))"

definition build_hourly_rate_profile :: "(py_error + candle list) option \<Rightarrow> real list option" where
  "build_hourly_rate_profile fetched =
     (case fetched of
        None \<Rightarrow> None
      | Some (Inl _) \<Rightarrow> None
      | Some (Inr candles) \<Rightarrow> if candles = [] then None else hourly_rates candles)"

section \<open>The forecast\<close>

text \<open>\<open>int(x)\<close> of a float truncates towards zero.\<close>

definition int_of_float :: "real \<Rightarrow> int" where
  "int_of_float x = (if 0 \<le> x then \<lfloor>x\<rfloor> else \<lceil>x\<rceil>)"

definition bucket_volume :: "real list \<Rightarrow> int \<Rightarrow> real \<Rightarrow> nat \<Rightarrow> real" where
  "bucket_volume rates start_time bucket_seconds j =
     rates ! hour_of (start_time + int_of_float ((real j + 1 / 2) * (bucket_seconds * 1000))) * bucket_seconds"

definition forecast :: "(py_error + candle list) option \<Rightarrow> int \<Rightarrow> real \<Rightarrow> int \<Rightarrow> py_error + real list" where
  "forecast fetched num_buckets bucket_seconds start_time =
     (if num_buckets \<le> 0 then Inr []
      else if bucket_seconds \<le> 0 then Inl ValueError
      else case build_hourly_rate_profile fetched of
             None \<Rightarrow> Inr (uniform_profile num_buckets 1)
           | Some rates \<Rightarrow>
               (let volumes = map (bucket_volume rates start_time bucket_seconds) [0..<nat num_buckets] in
                Inr (if sum_list volumes \<le> 0 then uniform_profile num_buckets 1 else volumes)))"

section \<open>Facts\<close>

lemma hour_of_bound: "hour_of ms < hours_per_day"
  by (simp add: hour_of_def hours_per_day_def nat_less_iff)

text \<open>What counts for an hour: the rates of the candles that open in it and have a length.\<close>

definition candle_rates :: "nat \<Rightarrow> candle list \<Rightarrow> real list" where
  "candle_rates h cs =
     map (\<lambda>c. cd_volume c / duration_s c) (filter (\<lambda>c. 0 < duration_s c \<and> hour_of (cd_open c) = h) cs)"

lemma foldl_add_candle:
  assumes "length rsum = hours_per_day" "length counts = hours_per_day"
  shows "length (fst (foldl add_candle (rsum, counts) cs)) = hours_per_day
    \<and> length (snd (foldl add_candle (rsum, counts) cs)) = hours_per_day
    \<and> (\<forall>h < hours_per_day.
         fst (foldl add_candle (rsum, counts) cs) ! h = rsum ! h + sum_list (candle_rates h cs)
       \<and> snd (foldl add_candle (rsum, counts) cs) ! h = counts ! h + length (candle_rates h cs))"
  using assms
proof (induction cs arbitrary: rsum counts)
  case (Cons c cs)
  let ?h = "hour_of (cd_open c)"
  show ?case
  proof (cases "duration_s c \<le> 0")
    case True
    with Cons show ?thesis by (simp add: add_candle_def candle_rates_def)
  next
    case False
    let ?s = "rsum[?h := rsum ! ?h + cd_volume c / duration_s c]" and ?n = "counts[?h := Suc (counts ! ?h)]"
    have "length ?s = hours_per_day" "length ?n = hours_per_day" using Cons.prems by simp_all
    note IH = Cons.IH[OF this]
    have step: "add_candle (rsum, counts) c = (?s, ?n)" using False by (simp add: add_candle_def Let_def)
    have r: "candle_rates h (c # cs) = (if ?h = h then cd_volume c / duration_s c # candle_rates h cs else candle_rates h cs)"
      for h using False by (simp add: candle_rates_def)
    show ?thesis
      using IH hour_of_bound[of "cd_open c"] Cons.prems by (auto simp: step r nth_list_update)
  qed
qed (simp add: candle_rates_def)

lemma hourly_rates_spec:
  assumes "hourly_rates cs = Some rates"
  shows "length rates = hours_per_day"
    "h < hours_per_day \<Longrightarrow> candle_rates h cs \<noteq> [] \<Longrightarrow>
       rates ! h = sum_list (candle_rates h cs) / real (length (candle_rates h cs))"
    "h < hours_per_day \<Longrightarrow> candle_rates h cs = [] \<Longrightarrow>
       (let populated = filter (\<lambda>h. candle_rates h cs \<noteq> []) [0..<hours_per_day] in
        rates ! h = (\<Sum>h\<leftarrow>populated. sum_list (candle_rates h cs) / real (length (candle_rates h cs)))
          / real (length populated))"
proof -
  define sc where "sc = foldl add_candle (replicate hours_per_day 0, replicate hours_per_day 0) cs"
  have f: "fst sc ! h = sum_list (candle_rates h cs)" "snd sc ! h = length (candle_rates h cs)"
    if "h < hours_per_day" for h
    using foldl_add_candle[of "replicate hours_per_day 0" "replicate hours_per_day 0" cs] that
    by (simp_all add: sc_def)
  let ?P = "map (\<lambda>h. fst sc ! h / real (snd sc ! h)) (filter (\<lambda>h. snd sc ! h \<noteq> 0) [0..<hours_per_day])"
  have r: "rates = map (\<lambda>h. if snd sc ! h \<noteq> 0 then fst sc ! h / real (snd sc ! h)
      else sum_list ?P / real (length ?P)) [0..<hours_per_day]"
    using assms unfolding hourly_rates_def Let_def sc_def[symmetric]
    by (auto split: prod.splits if_splits)
  have pop: "filter (\<lambda>h. snd sc ! h \<noteq> 0) [0..<hours_per_day] = filter (\<lambda>h. candle_rates h cs \<noteq> []) [0..<hours_per_day]"
    by (rule filter_cong) (simp_all add: f)
  have P: "?P = map (\<lambda>h. sum_list (candle_rates h cs) / real (length (candle_rates h cs)))
      (filter (\<lambda>h. candle_rates h cs \<noteq> []) [0..<hours_per_day])"
    unfolding pop by (rule map_cong) (auto simp: f)
  show "length rates = hours_per_day" by (simp add: r)
  show "rates ! h = sum_list (candle_rates h cs) / real (length (candle_rates h cs))"
    if "h < hours_per_day" "candle_rates h cs \<noteq> []"
    using that by (simp add: r f)
  show "(let populated = filter (\<lambda>h. candle_rates h cs \<noteq> []) [0..<hours_per_day] in
        rates ! h = (\<Sum>h\<leftarrow>populated. sum_list (candle_rates h cs) / real (length (candle_rates h cs)))
          / real (length populated))"
    if "h < hours_per_day" "candle_rates h cs = []"
    using that unfolding r P by (simp add: f Let_def)
qed

lemma hourly_rates_nonneg:
  assumes "hourly_rates cs = Some rates" "\<forall>c\<in>set cs. 0 \<le> cd_volume c" "h < hours_per_day"
  shows "0 \<le> rates ! h"
proof -
  have nn: "0 \<le> sum_list (candle_rates h cs) / real (length (candle_rates h cs))" for h
    using assms(2) by (intro divide_nonneg_nonneg sum_list_nonneg) (auto simp: candle_rates_def)
  show ?thesis
  proof (cases "candle_rates h cs = []")
    case True
    note spec = hourly_rates_spec(3)[OF assms(1,3) this, unfolded Let_def]
    show ?thesis
      unfolding spec by (intro divide_nonneg_nonneg sum_list_nonneg_real nn of_nat_0_le_iff)
  next
    case False
    with hourly_rates_spec(2)[OF assms(1,3)] nn show ?thesis by simp
  qed
qed

text \<open>
  A forecast over a positive number of buckets of positive length always returns, whatever
  the provider does: one volume per bucket, none negative when the candles' are not, with a
  positive total; and it is the uniform profile when the provider is missing, raises, or has no
  usable candle.
\<close>

theorem forecast_is_usable:
  assumes "0 < n" "0 < bucket_seconds"
    "\<forall>cs. fetched = Some (Inr cs) \<longrightarrow> (\<forall>c\<in>set cs. 0 \<le> cd_volume c)"
  shows "\<exists>volumes. forecast fetched n bucket_seconds start = Inr volumes \<and> length volumes = nat n
    \<and> 0 < sum_list volumes \<and> (\<forall>v\<in>set volumes. 0 \<le> v)
    \<and> (build_hourly_rate_profile fetched = None \<longrightarrow> volumes = uniform_profile n 1)"
proof -
  have u: "length (uniform_profile n 1) = nat n" "sum_list (uniform_profile n 1) = 1"
    "\<forall>v\<in>set (uniform_profile n 1). 0 \<le> v"
    using assms(1) by (auto simp: uniform_profile_def sum_list_replicate)
  show ?thesis
  proof (cases "build_hourly_rate_profile fetched")
    case None
    with assms u show ?thesis by (simp add: forecast_def)
  next
    case (Some rates)
    then obtain cs where cs: "fetched = Some (Inr cs)" "hourly_rates cs = Some rates"
      by (auto simp: build_hourly_rate_profile_def split: option.splits sum.splits if_splits)
    define v where "v = map (bucket_volume rates start bucket_seconds) [0..<nat n]"
    have f: "forecast fetched n bucket_seconds start = Inr (if sum_list v \<le> 0 then uniform_profile n 1 else v)"
      using assms(1,2) Some by (simp add: forecast_def v_def[symmetric] Let_def)
    have "\<forall>x\<in>set v. 0 \<le> x"
      using assms(2,3) hourly_rates_nonneg[OF cs(2)] hour_of_bound cs(1) by (auto simp: v_def bucket_volume_def)
    moreover have "length v = nat n" by (simp add: v_def)
    ultimately show ?thesis
      using f u Some by (cases "sum_list v \<le> 0") (simp_all add: not_le)
  qed
qed

theorem forecast_is_usable_witness:
  "\<exists>volumes. forecast (Some (Inr [\<lparr>cd_open = 0, cd_close = 3600000, cd_volume = 7\<rparr>])) 4 900 0 = Inr volumes
    \<and> length volumes = 4"
  using forecast_is_usable[of 4 900 "Some (Inr [\<lparr>cd_open = 0, cd_close = 3600000, cd_volume = 7\<rparr>])" 0]
  by fastforce

end
