(* ===== verification/ACSchedule.thy ===== *)
theory ACSchedule imports ACMath VolumeForecast PassiveAggressive begin

text \<open>
  \<open>src/opms/executors/ac_schedule_executor.py\<close>: the Almgren-Chriss executor.

  Calls into Hummingbot are written to \<open>ac_sent\<close>, newest first, as for the passive-aggressive
  executor, with ids from a parameter \<open>new_id\<close>.  What Hummingbot knows of a submitted order
  (whether it is done, what it has executed) is a parameter \<open>venue\<close> read at each call.
\<close>

section \<open>Configuration\<close>

record ac_config =
  ac_side :: side
  ac_total :: real
  ac_duration :: pynum
  ac_intervals :: int
  ac_risk :: real
  ac_volatility :: real
  ac_eta :: real
  ac_gamma :: real
  ac_min_size :: "real option"
  ac_forecast :: bool
  ac_leverage :: int
  ac_action :: position_action

definition max_ac_intervals :: int where "max_ac_intervals = 200"

definition min_ac_interval_s :: real where "min_ac_interval_s = 1"

definition validate_ac_config :: "ac_config \<Rightarrow> py_error + real" where
  "validate_ac_config cfg =
     (if ac_action cfg \<noteq> OPEN then Inl ValueError
      else if \<not> (1 \<le> ac_intervals cfg \<and> ac_intervals cfg \<le> max_ac_intervals) then Inl ValueError
      else case ac_duration cfg of
             Num d \<Rightarrow>
               if d \<le> 0 then Inl ValueError
               else if d / of_int (ac_intervals cfg) < min_ac_interval_s then Inl ValueError
               else Inr d
           | _ \<Rightarrow> Inl ValueError)"

section \<open>State\<close>

record tracked_slice =
  ts_id :: string
  ts_amount :: real

record ac_state =
  ac_schedule :: "real list"
  ac_interval :: real
  ac_resolved :: bool
  ac_idx :: nat
  ac_submitted :: "tracked_slice list"
  ac_failed :: "tracked_slice list"
  ac_filled :: real
  ac_fees :: real
  ac_start :: "real option"
  ac_last :: "real option"
  ac_status :: run_status
  ac_close_type :: "close_type option"
  ac_close_ts :: "real option"
  ac_retries :: nat
  ac_max_retries :: nat
  ac_sent :: "call list"

record venue =
  vn_done :: "string \<Rightarrow> bool"
  vn_executed :: "string \<Rightarrow> real"

definition schedule_of :: "ac_config \<Rightarrow> real \<Rightarrow> real list option \<Rightarrow> py_error + real list" where
  "schedule_of cfg d fractions =
     build_schedule (ac_total cfg) d (ac_intervals cfg) (ac_risk cfg) (ac_volatility cfg) (ac_eta cfg)
       (ac_gamma cfg) (ac_min_size cfg) fractions"

text \<open>An empty schedule (everything merged away) makes the interval a division by zero.\<close>

definition new_ac :: "ac_config \<Rightarrow> nat \<Rightarrow> py_error + ac_state" where
  "new_ac cfg max_retries =
     (case validate_ac_config cfg of
        Inl e \<Rightarrow> Inl e
      | Inr d \<Rightarrow>
          (case schedule_of cfg d None of
             Inl e \<Rightarrow> Inl e
           | Inr schedule \<Rightarrow>
               if schedule = [] then Inl (OtherError ''ZeroDivisionError'')
               else Inr \<lparr>ac_schedule = schedule, ac_interval = d / real (length schedule),
                         ac_resolved = (\<not> ac_forecast cfg), ac_idx = 0, ac_submitted = [], ac_failed = [],
                         ac_filled = 0, ac_fees = 0, ac_start = None, ac_last = None,
                         ac_status = NotStarted, ac_close_type = None, ac_close_ts = None, ac_retries = 0,
                         ac_max_retries = max_retries, ac_sent = []\<rparr>))"

section \<open>The volume-aware schedule\<close>

text \<open>Cumulative fractions of the forecast volumes, with the last one set to exactly 1.\<close>

fun cumulate :: "real \<Rightarrow> real list \<Rightarrow> real list" where
  "cumulate acc [] = []"
| "cumulate acc (v # vs) = (acc + v) # cumulate (acc + v) vs"

definition volume_fractions :: "real list \<Rightarrow> real list" where
  "volume_fractions volumes =
     (let total_v = sum_list volumes in
      (0 # butlast (map (\<lambda>c. c / total_v) (cumulate 0 volumes))) @ [1])"

text \<open>
  Any exception of the forecast or of the schedule keeps the clock-time schedule; a new schedule
  is stored before the interval is computed, so an empty one is kept together with the old
  interval.
\<close>

definition resolve_volume_schedule :: "ac_config \<Rightarrow> real \<Rightarrow> py_error + real list \<Rightarrow> ac_state \<Rightarrow> ac_state" where
  "resolve_volume_schedule cfg d volumes s =
     (if ac_resolved s then s
      else
        let s1 = s\<lparr>ac_resolved := True\<rparr> in
        case volumes of
          Inl _ \<Rightarrow> s1
        | Inr vs \<Rightarrow>
            if vs = [] \<or> sum_list vs \<le> 0 then s1
            else (case schedule_of cfg d (Some (volume_fractions vs)) of
                    Inl _ \<Rightarrow> s1
                  | Inr schedule \<Rightarrow>
                      if schedule = [] then s1\<lparr>ac_schedule := []\<rparr>
                      else s1\<lparr>ac_schedule := schedule, ac_interval := d / real (length schedule)\<rparr>))"

section \<open>Slices\<close>

definition working_executed :: "venue \<Rightarrow> ac_state \<Rightarrow> real" where
  "working_executed vn s =
     (\<Sum>t\<leftarrow>filter (\<lambda>t. \<not> vn_done vn (ts_id t)) (ac_submitted s). vn_executed vn (ts_id t))"

definition slice_amount :: "ac_config \<Rightarrow> venue \<Rightarrow> ac_state \<Rightarrow> real" where
  "slice_amount cfg vn s =
     (if Suc (ac_idx s) = length (ac_schedule s) then ac_total cfg - ac_filled s - working_executed vn s
      else ac_schedule s ! ac_idx s)"

definition submit_next_slice :: "ac_config \<Rightarrow> (call list \<Rightarrow> string) \<Rightarrow> venue \<Rightarrow> real \<Rightarrow> ac_state \<Rightarrow> ac_state" where
  "submit_next_slice cfg new_id vn now s =
     (if length (ac_schedule s) \<le> ac_idx s then s
      else
        let amount = slice_amount cfg vn s in
        if Suc (ac_idx s) = length (ac_schedule s) \<and> amount \<le> 0 then s\<lparr>ac_idx := Suc (ac_idx s)\<rparr>
        else
          let oid = new_id (ac_sent s) in
          s\<lparr>ac_sent := Place oid Market amount NaN # ac_sent s,
            ac_submitted := ac_submitted s @ [\<lparr>ts_id = oid, ts_amount = amount\<rparr>],
            ac_last := Some now, ac_idx := Suc (ac_idx s)\<rparr>)"

definition ac_all_done :: "venue \<Rightarrow> ac_state \<Rightarrow> bool" where
  "ac_all_done vn s =
     (length (ac_schedule s) \<le> ac_idx s \<and> list_all (\<lambda>t. vn_done vn (ts_id t)) (ac_submitted s))"

definition ac_final_close_type :: "ac_config \<Rightarrow> ac_state \<Rightarrow> close_type" where
  "ac_final_close_type cfg s =
     (if ac_max_retries s < ac_retries s then Failed
      else if ac_total cfg \<le> ac_filled s then Completed else TimeLimit)"

definition ac_close :: "close_type \<Rightarrow> real \<Rightarrow> ac_state \<Rightarrow> ac_state" where
  "ac_close ct now s =
     s\<lparr>ac_close_type := Some ct, ac_close_ts := Some now, ac_status := Terminated,
       ac_sent := StopCall # ac_sent s\<rparr>"

definition ac_tick ::
  "ac_config \<Rightarrow> real \<Rightarrow> (call list \<Rightarrow> string) \<Rightarrow> venue \<Rightarrow> py_error + real list \<Rightarrow> real \<Rightarrow> ac_state \<Rightarrow> ac_state" where
  "ac_tick cfg d new_id vn volumes now s0 =
     (let s1 = resolve_volume_schedule cfg d volumes s0;
          s = (if ac_start s1 = None then s1\<lparr>ac_start := Some now\<rparr> else s1)
      in if length (ac_schedule s) \<le> ac_idx s then
           (if ac_all_done vn s then ac_close (ac_final_close_type cfg s) now s else s)
         else case ac_last s of
                Some t \<Rightarrow> if now - t < ac_interval s then s else submit_next_slice cfg new_id vn now s
              | None \<Rightarrow> submit_next_slice cfg new_id vn now s)"

definition ac_control_task ::
  "ac_config \<Rightarrow> real \<Rightarrow> (call list \<Rightarrow> string) \<Rightarrow> venue \<Rightarrow> py_error + real list \<Rightarrow> real \<Rightarrow> ac_state \<Rightarrow> ac_state" where
  "ac_control_task cfg d new_id vn volumes now s =
     (case ac_status s of
        Running \<Rightarrow> ac_tick cfg d new_id vn volumes now s
      | ShuttingDown \<Rightarrow>
          ac_close (case ac_close_type s of Some ct \<Rightarrow> ct | None \<Rightarrow> ac_final_close_type cfg s) now s
      | _ \<Rightarrow> s)"

section \<open>Events\<close>

definition find_tracked :: "string \<Rightarrow> ac_state \<Rightarrow> tracked_slice option" where
  "find_tracked oid s = find (\<lambda>t. ts_id t = oid) (ac_submitted s)"

definition ac_completed :: "venue \<Rightarrow> string \<Rightarrow> real \<Rightarrow> ac_state \<Rightarrow> ac_state" where
  "ac_completed vn oid executed s =
     (case find_tracked oid s of
        None \<Rightarrow> s
      | Some t \<Rightarrow>
          let s1 = s\<lparr>ac_filled := ac_filled s + executed\<rparr> in
          if ac_all_done vn s1 then s1\<lparr>ac_status := ShuttingDown\<rparr> else s1)"

text \<open>A failure takes the first tracked order of that id back and rewinds by one slice.\<close>

definition ac_failed_event :: "string \<Rightarrow> ac_state \<Rightarrow> ac_state" where
  "ac_failed_event oid s =
     (case find_tracked oid s of
        None \<Rightarrow> s
      | Some t \<Rightarrow>
          s\<lparr>ac_failed := ac_failed s @ [t], ac_submitted := remove1 t (ac_submitted s),
            ac_idx := ac_idx s - 1, ac_retries := Suc (ac_retries s)\<rparr>)"

definition ac_early_stop :: "bool \<Rightarrow> ac_state \<Rightarrow> ac_state" where
  "ac_early_stop keep s =
     s\<lparr>ac_close_type := Some (if keep then PositionHold else EarlyStop), ac_status := ShuttingDown\<rparr>"

definition ac_evaluate_max_retries :: "real \<Rightarrow> ac_state \<Rightarrow> ac_state" where
  "ac_evaluate_max_retries now s = (if ac_max_retries s < ac_retries s then ac_close Failed now s else s)"

text \<open>Market orders are not cancelled in normal operation: the event is only logged.\<close>

definition ac_canceled_event :: "string \<Rightarrow> ac_state \<Rightarrow> ac_state" where
  "ac_canceled_event oid s = s"

text \<open>
  \<open>validate_sufficient_balance\<close>: the candidate is that of the passive-aggressive executor, which
  opens; the amount that Hummingbot's budget check leaves of it is a parameter.
\<close>

definition ac_validate_balance :: "(candidate \<Rightarrow> real) \<Rightarrow> bool \<Rightarrow> ac_config \<Rightarrow> pynum \<Rightarrow> ac_state \<Rightarrow> ac_state" where
  "ac_validate_balance adjusted_amount perpetual cfg mid s =
     (let c = \<lparr>cand_perpetual = perpetual, cand_side = ac_side cfg, cand_amount = ac_total cfg, cand_price = mid,
               cand_leverage = (if perpetual then ac_leverage cfg else 1), cand_position_close = False\<rparr>
      in if adjusted_amount c = 0
         then s\<lparr>ac_close_type := Some InsufficientBalance, ac_sent := StopCall # ac_sent s\<rparr> else s)"

text \<open>\<open>get_custom_info\<close>: slice index, number of slices, filled amount, total, forecast flag.\<close>

definition ac_custom_info :: "ac_config \<Rightarrow> ac_state \<Rightarrow> nat \<times> nat \<times> real \<times> real \<times> bool" where
  "ac_custom_info cfg s = (ac_idx s, length (ac_schedule s), ac_filled s, ac_total cfg, ac_forecast cfg)"

definition ac_filled_amount_quote :: "py_error + real \<Rightarrow> ac_state \<Rightarrow> real" where
  "ac_filled_amount_quote mid s = (case mid of Inl _ \<Rightarrow> 0 | Inr m \<Rightarrow> ac_filled s * m)"

definition ac_net_pnl_quote :: "ac_config \<Rightarrow> py_error + real \<Rightarrow> ac_state \<Rightarrow> real" where
  "ac_net_pnl_quote cfg mid s =
     (case mid of
        Inl _ \<Rightarrow> 0
      | Inr m \<Rightarrow>
          let avg = (if ac_filled s \<noteq> 0 then ac_filled_amount_quote mid s / ac_filled s else m);
              sign = (if ac_side cfg = Buy then 1 else -1)
          in sign * (m - avg) * ac_filled s - ac_fees s)"

definition ac_net_pnl_pct :: "ac_config \<Rightarrow> py_error + real \<Rightarrow> ac_state \<Rightarrow> real" where
  "ac_net_pnl_pct cfg mid s =
     (if ac_filled_amount_quote mid s = 0 then 0
      else ac_net_pnl_quote cfg mid s / ac_filled_amount_quote mid s)"

section \<open>Lemmas\<close>

lemma validate_Inr:
  "validate_ac_config cfg = Inr d \<longleftrightarrow> ac_action cfg = OPEN \<and> 1 \<le> ac_intervals cfg \<and> ac_intervals cfg \<le> max_ac_intervals
    \<and> ac_duration cfg = Num d \<and> 0 < d \<and> of_int (ac_intervals cfg) \<le> d"
  by (auto simp: validate_ac_config_def min_ac_interval_s_def field_simps split: if_splits pynum.splits)

lemma merge_loop_length: "length (fst (merge_loop m xs merged acc)) \<le> length xs + length merged"
proof (induction m xs merged acc rule: merge_loop.induct)
  case (2 m s sizes merged acc)
  then show ?case by (cases "m \<le> acc + s") simp_all
qed simp

lemma merge_length: "length (merge_min_size xs ms) \<le> length xs"
proof (cases "\<exists>m. ms = Some m \<and> 0 < m \<and> xs \<noteq> []")
  case True
  then obtain m where m: "ms = Some m" "0 < m" "xs \<noteq> []" by blast
  obtain merged acc where l: "merge_loop m xs [] 0 = (merged, acc)" by force
  have "length merged \<le> length xs" using merge_loop_length[of m xs "[]" 0] l by simp
  moreover have "1 \<le> length xs" using m(3) by (cases xs) simp_all
  ultimately show ?thesis
    using m l by (cases merged) (simp_all add: merge_min_size_def)
next
  case False
  then show ?thesis by (auto simp: merge_min_size_def split: option.split)
qed

lemma schedule_length:
  assumes "schedule_of cfg d None = Inr schedule"
  shows "length schedule \<le> nat (ac_intervals cfg)"
proof -
  obtain a where "schedule = merge_min_size (slice_sizes (ac_total cfg) (map (\<lambda>v. sinh_ratio (1 - v) a)
      (clock_fractions (nat (ac_intervals cfg)))) 0) (ac_min_size cfg)"
    using build_schedule_Inr[OF assms[unfolded schedule_of_def]] by auto
  also have "length \<dots> \<le> nat (ac_intervals cfg)"
    by (rule order_trans[OF merge_length]) (simp add: slice_sizes_length clock_fractions_def)
  finally show ?thesis .
qed

text \<open>
  An executor that is constructed paces its slices at least a second apart: it opens only,
  its schedule has between 1 and 200 slices, and a slice is not submitted until the interval
  since the last one has passed.
\<close>

theorem ac_slices_are_paced:
  assumes "new_ac cfg max_retries = Inr s0"
  shows "ac_action cfg = OPEN \<and> 1 \<le> ac_interval s0 \<and> ac_schedule s0 \<noteq> [] \<and> length (ac_schedule s0) \<le> 200
    \<and> (\<forall>s t now. ac_last s = Some t \<longrightarrow> ac_resolved s \<longrightarrow> now < t + ac_interval s \<longrightarrow>
        ac_submitted (ac_control_task cfg d new_id vn volumes now s) = ac_submitted s)"
proof -
  obtain d' where v: "validate_ac_config cfg = Inr d'" "schedule_of cfg d' None = Inr (ac_schedule s0)"
    "ac_schedule s0 \<noteq> []" "ac_interval s0 = d' / real (length (ac_schedule s0))"
    using assms by (auto simp: new_ac_def split: sum.splits if_splits)
  have n: "length (ac_schedule s0) \<le> nat (ac_intervals cfg)" by (rule schedule_length[OF v(2)])
  have "real (length (ac_schedule s0)) \<le> d'"
  proof -
    have "real (length (ac_schedule s0)) \<le> of_int (ac_intervals cfg)"
      using n v(1) by (simp add: validate_Inr) linarith
    also have "\<dots> \<le> d'" using v(1) by (simp add: validate_Inr)
    finally show ?thesis .
  qed
  with v have "1 \<le> ac_interval s0" by (simp add: le_divide_eq)
  moreover have "ac_submitted (ac_control_task cfg d new_id vn volumes now s) = ac_submitted s"
    if "ac_last s = Some t" "ac_resolved s" "now < t + ac_interval s" for s t now
    using that
    by (auto simp: ac_control_task_def ac_tick_def Let_def resolve_volume_schedule_def ac_close_def split: run_status.split)
  ultimately show ?thesis
    using v n by (auto simp: validate_Inr max_ac_intervals_def)
qed

definition sample_ac :: ac_config where
  "sample_ac = \<lparr>ac_side = Buy, ac_total = 6, ac_duration = Num 60, ac_intervals = 3, ac_risk = 0, ac_volatility = 1,
     ac_eta = 1, ac_gamma = 0, ac_min_size = None, ac_forecast = False, ac_leverage = 1, ac_action = OPEN\<rparr>"

definition sample_ac_state :: ac_state where
  "sample_ac_state = \<lparr>ac_schedule = [2, 2, 2], ac_interval = 20, ac_resolved = True, ac_idx = 0, ac_submitted = [],
     ac_failed = [], ac_filled = 0, ac_fees = 0, ac_start = None, ac_last = None, ac_status = NotStarted,
     ac_close_type = None, ac_close_ts = None, ac_retries = 0, ac_max_retries = 3, ac_sent = []\<rparr>"

lemma sample_new_ac: "new_ac sample_ac 3 = Inr sample_ac_state"
proof -
  have "validate_ac_config sample_ac = Inr 60"
    by (simp add: validate_Inr) (simp add: sample_ac_def max_ac_intervals_def)
  then show ?thesis
    using twap_schedule by (simp add: new_ac_def schedule_of_def sample_ac_def sample_ac_state_def)
qed

theorem ac_slices_are_paced_witness: "1 \<le> ac_interval sample_ac_state"
  using ac_slices_are_paced[OF sample_new_ac] by blast

text \<open>
  After the last slice, the amounts submitted and not withdrawn sum to the requested total
  plus everything the earlier slices still have working: the last slice subtracts only what has
  been credited or executed, not what is outstanding.  When all earlier slices were credited in
  full this is exactly the total; when none was, the last slice alone is the whole total.
\<close>

theorem last_slice_ignores_outstanding_slices:
  assumes "Suc (ac_idx s) = length (ac_schedule s)" "0 < slice_amount cfg vn s"
    "s' = submit_next_slice cfg new_id vn now s"
  shows "(\<Sum>t\<leftarrow>ac_submitted s'. ts_amount t)
      = ac_total cfg + ((\<Sum>t\<leftarrow>ac_submitted s. ts_amount t) - ac_filled s - working_executed vn s)
    \<and> ((\<Sum>t\<leftarrow>ac_submitted s. ts_amount t) = ac_filled s + working_executed vn s \<longrightarrow>
        (\<Sum>t\<leftarrow>ac_submitted s'. ts_amount t) = ac_total cfg)
    \<and> (ac_filled s = 0 \<and> working_executed vn s = 0 \<longrightarrow> ts_amount (last (ac_submitted s')) = ac_total cfg)"
  using assms by (auto simp: submit_next_slice_def slice_amount_def Let_def)

theorem last_slice_ignores_outstanding_slices_witness:
  "(\<Sum>t\<leftarrow>ac_submitted (submit_next_slice sample_ac (\<lambda>_. ''o3'') \<lparr>vn_done = (\<lambda>_. False), vn_executed = (\<lambda>_. 0)\<rparr> 40
      (sample_ac_state\<lparr>ac_idx := 2, ac_submitted := [\<lparr>ts_id = ''o1'', ts_amount = 2\<rparr>, \<lparr>ts_id = ''o2'', ts_amount = 2\<rparr>]\<rparr>)).
     ts_amount t) = 10"
  using last_slice_ignores_outstanding_slices[OF _ _ refl, of
      "sample_ac_state\<lparr>ac_idx := 2, ac_submitted := [\<lparr>ts_id = ''o1'', ts_amount = 2\<rparr>, \<lparr>ts_id = ''o2'', ts_amount = 2\<rparr>]\<rparr>"
      sample_ac "\<lparr>vn_done = (\<lambda>_. False), vn_executed = (\<lambda>_. 0)\<rparr>" "\<lambda>_. ''o3''" 40]
  by (simp add: sample_ac_state_def slice_amount_def working_executed_def sample_ac_def)

section \<open>The volume-aware schedule\<close>

lemma cumulate_le: "\<forall>v\<in>set vs. 0 \<le> v \<Longrightarrow> c \<in> set (cumulate acc vs) \<Longrightarrow> acc \<le> c \<and> c \<le> acc + sum_list vs"
proof (induction acc vs rule: cumulate.induct)
  case (2 acc v vs)
  have "0 \<le> sum_list vs" using 2(2) by (intro sum_list_nonneg) simp
  with 2 show ?case by (cases "c = acc + v") auto
qed simp

lemma sorted_scaled: "sorted xs \<Longrightarrow> 0 < t \<Longrightarrow> sorted (map (\<lambda>c. c / t) xs)" for t :: real
  by (induction xs) (auto simp: divide_right_mono)

lemma sorted_not_bad:
  "sorted vs \<Longrightarrow> \<forall>v\<in>set vs. 0 \<le> v \<Longrightarrow> vs \<noteq> [] \<Longrightarrow> last vs \<le> 1 \<Longrightarrow> \<not> bad_fractions vs"
proof (induction vs)
  case (Cons v vs)
  show ?case
  proof (cases vs)
    case Nil
    with Cons.prems show ?thesis by (simp add: bad_fractions_def)
  next
    case (Cons w ws)
    with Cons.IH Cons.prems have "\<not> bad_fractions (w # ws)" by simp
    with Cons.prems Cons show ?thesis by (simp add: bad_fractions_def)
  qed
qed simp

lemma cumulate_sorted: "\<forall>v\<in>set vs. 0 \<le> v \<Longrightarrow> sorted (cumulate acc vs)"
proof (induction acc vs rule: cumulate.induct)
  case (2 acc v vs)
  then show ?case using cumulate_le[of vs _ "acc + v"] by auto
qed simp

text \<open>
  Volumes that are not negative and not all zero give cumulative fractions the schedule
  accepts (they start at 0, end at 1 and never fall), so a schedule resolved from such a
  forecast still adds up to the requested total.
\<close>

theorem volume_schedule_keeps_the_total:
  assumes "volumes \<noteq> []" "\<forall>v\<in>set volumes. 0 \<le> v" "0 < sum_list volumes" "0 \<le> ac_total cfg"
    "\<not> ac_resolved s" "sum_list (ac_schedule s) = ac_total cfg"
  shows "\<not> bad_fractions (volume_fractions volumes) \<and> hd (volume_fractions volumes) = 0
    \<and> last (volume_fractions volumes) = 1
    \<and> sum_list (ac_schedule (resolve_volume_schedule cfg d (Inr volumes) s)) = ac_total cfg"
proof -
  let ?c = "map (\<lambda>c. c / sum_list volumes) (cumulate 0 volumes)"
  have rng: "\<forall>x\<in>set (butlast ?c). 0 \<le> x \<and> x \<le> 1"
  proof
    fix x assume "x \<in> set (butlast ?c)"
    then have "x \<in> set ?c" by (rule in_set_butlastD)
    then obtain c where "c \<in> set (cumulate 0 volumes)" "x = c / sum_list volumes" by auto
    with cumulate_le[OF assms(2)] assms(3) show "0 \<le> x \<and> x \<le> 1" by (force simp: field_simps)
  qed
  have "sorted (butlast ?c)"
    using sorted_scaled[OF cumulate_sorted[OF assms(2)] assms(3)] by (rule sorted_butlast)
  with rng have "sorted (volume_fractions volumes)"
    by (simp add: volume_fractions_def Let_def sorted_append)
  then have nb: "\<not> bad_fractions (volume_fractions volumes)"
    using rng by (intro sorted_not_bad) (auto simp: volume_fractions_def Let_def)
  have ends: "hd (volume_fractions volumes) = 0" "last (volume_fractions volumes) = 1" "2 \<le> length (volume_fractions volumes)"
    by (simp_all add: volume_fractions_def Let_def)
  have total: "sum_list schedule = ac_total cfg"
    if "schedule_of cfg d (Some (volume_fractions volumes)) = Inr schedule" for schedule
    using schedule_total[OF that[unfolded schedule_of_def] assms(4)] ends by simp
  then have "sum_list (ac_schedule (resolve_volume_schedule cfg d (Inr volumes) s)) = ac_total cfg"
    using assms(1,3,5,6) by (auto simp: resolve_volume_schedule_def Let_def split: sum.split)
  with nb ends show ?thesis by blast
qed

theorem volume_schedule_keeps_the_total_witness:
  "sum_list (ac_schedule (resolve_volume_schedule sample_ac 60 (Inr [1, 3]) (sample_ac_state\<lparr>ac_resolved := False\<rparr>))) = 6"
  using volume_schedule_keeps_the_total[of "[1, 3]" sample_ac "sample_ac_state\<lparr>ac_resolved := False\<rparr>" 60]
  by (simp add: sample_ac_def sample_ac_state_def)

end
