(* ===== verification/Hedging.thy ===== *)
theory Hedging imports PassiveAggressive begin

text \<open>
  The DLMM inventory hedge: \<open>shared_risk_book.py\<close>, \<open>hedge_controller.py\<close> and
  \<open>dlmm_controller.py\<close> of \<open>src/opms/controllers/generic\<close>.

  Two controllers share a risk book through a registry.  The registry is a dict from keys to
  books and a controller keeps the key it looked up, so that writing through one controller is
  seen by the other.  The hedge engine \<open>dlmm_bot.hedge.HedgeController.evaluate\<close> and the DLMM
  keeper are parameters, with states of their own.  Floats are exact reals.
\<close>

section \<open>Shared risk book\<close>

record risk_book =
  dlmm_net_delta :: real
  dlmm_inventory_value_usd :: real
  dlmm_sigma :: real
  dlmm_mid :: real
  hedge_action :: string
  hedge_target_short :: real
  hedge_urgency :: string
  gamma_relaxation :: real
  last_dlmm_ts :: real
  last_hedge_ts :: real

definition new_risk_book :: risk_book where
  "new_risk_book =
     \<lparr>dlmm_net_delta = 0, dlmm_inventory_value_usd = 0, dlmm_sigma = 0, dlmm_mid = 0,
      hedge_action = ''no_trade'', hedge_target_short = 0, hedge_urgency = ''normal'',
      gamma_relaxation = 1, last_dlmm_ts = 0, last_hedge_ts = 0\<rparr>"

type_synonym registry = "(string \<times> risk_book) list"

text \<open>\<open>setdefault\<close>: the book of the key, created when it is new.\<close>

definition get_shared_book :: "string \<Rightarrow> registry \<Rightarrow> risk_book \<times> registry" where
  "get_shared_book key reg =
     (case map_of reg key of
        Some b \<Rightarrow> (b, reg)
      | None \<Rightarrow> (new_risk_book, AList.update key new_risk_book reg))"

definition on_book :: "string \<Rightarrow> (risk_book \<Rightarrow> risk_book) \<Rightarrow> registry \<Rightarrow> registry" where
  "on_book key f reg = (case map_of reg key of Some b \<Rightarrow> AList.update key (f b) reg | None \<Rightarrow> reg)"

text \<open>A controller with an empty key has no book.\<close>

definition attach_book :: "string \<Rightarrow> registry \<Rightarrow> string option \<times> registry" where
  "attach_book key reg = (if key = '''' then (None, reg) else (Some key, snd (get_shared_book key reg)))"

section \<open>Hedge controller\<close>

text \<open>
  The amount of a held position is a float or a Decimal.  The running total starts as a float,
  and adding a Decimal to a float raises a TypeError.
\<close>

datatype py_amount = FloatAmt real | DecimalAmt real

record perp_held =
  ph_connector :: string
  ph_pair :: string
  ph_side :: side
  ph_amount :: py_amount

record hedge_config =
  hc_connector :: string
  hc_pair :: string
  hc_coin :: string
  hc_shared_book_key :: string
  hc_tau_h :: real
  hc_tau_min :: real
  hc_tau_max :: real
  hc_sigma_ref :: real
  hc_deadband_base_bps :: real
  hc_per_trade_cost_bps :: real
  hc_delta_cap_bps :: real
  hc_cube_root_constant :: real
  hc_deadband_base :: real
  hc_refresh_interval :: real

definition default_hedge_config :: "string \<Rightarrow> string \<Rightarrow> string \<Rightarrow> hedge_config" where
  "default_hedge_config connector pair key =
     \<lparr>hc_connector = connector, hc_pair = pair, hc_coin = '''', hc_shared_book_key = key,
      hc_tau_h = 3600, hc_tau_min = 900, hc_tau_max = 7200, hc_sigma_ref = 1 / 2,
      hc_deadband_base_bps = 10, hc_per_trade_cost_bps = 2, hc_delta_cap_bps = 1200,
      hc_cube_root_constant = 1, hc_deadband_base = 0, hc_refresh_interval = 5\<rparr>"

text \<open>What the controller hands to the hedge engine; an empty coin falls back to the pair's.\<close>

record engine_config =
  ec_tau :: "real \<times> real \<times> real"
  ec_sigma_ref :: real
  ec_deadband_base_bps :: real
  ec_per_trade_cost_bps :: real
  ec_delta_cap_bps :: real
  ec_cube_root_constant :: real
  ec_deadband_base :: real
  ec_venue :: string
  ec_coin :: string
  ec_enabled :: bool

definition engine_config_of :: "hedge_config \<Rightarrow> engine_config" where
  "engine_config_of cfg =
     \<lparr>ec_tau = (hc_tau_h cfg, hc_tau_min cfg, hc_tau_max cfg), ec_sigma_ref = hc_sigma_ref cfg,
      ec_deadband_base_bps = hc_deadband_base_bps cfg, ec_per_trade_cost_bps = hc_per_trade_cost_bps cfg,
      ec_delta_cap_bps = hc_delta_cap_bps cfg, ec_cube_root_constant = hc_cube_root_constant cfg,
      ec_deadband_base = hc_deadband_base cfg, ec_venue = hc_connector cfg,
      ec_coin = (if hc_coin cfg = '''' then before_dash (hc_pair cfg) else hc_coin cfg), ec_enabled = True\<rparr>"

fun add_held :: "hedge_config \<Rightarrow> perp_held list \<Rightarrow> real \<Rightarrow> py_error + real" where
  "add_held cfg [] x = Inr x"
| "add_held cfg (p # ps) x =
     (if ph_connector p \<noteq> hc_connector cfg \<or> ph_pair p \<noteq> hc_pair cfg then add_held cfg ps x
      else case ph_amount p of
             FloatAmt a \<Rightarrow> add_held cfg ps (x + (if ph_side p = Buy then a else - a))
           | DecimalAmt _ \<Rightarrow> Inl TypeError)"

definition current_perp_position :: "hedge_config \<Rightarrow> perp_held list \<Rightarrow> py_error + real" where
  "current_perp_position cfg held = add_held cfg held 0"

record eval_args =
  ea_inventory_base :: real
  ea_current_short :: real
  ea_inventory_value_usd :: real
  ea_price :: real
  ea_sigma_now :: real
  ea_dt :: real

definition new_hedge :: "(engine_config \<Rightarrow> 'h) \<Rightarrow> hedge_config \<Rightarrow> registry \<Rightarrow> 'h \<times> string option \<times> registry" where
  "new_hedge make_engine cfg reg =
     (make_engine (engine_config_of cfg), attach_book (hc_shared_book_key cfg) reg)"

type_synonym 'h engine = "'h \<Rightarrow> eval_args \<Rightarrow> 'h \<times> (py_error + string \<times> real)"

definition hedge_args :: "hedge_config \<Rightarrow> risk_book \<Rightarrow> real \<Rightarrow> eval_args" where
  "hedge_args cfg b perp_position =
     \<lparr>ea_inventory_base = dlmm_net_delta b, ea_current_short = - perp_position,
      ea_inventory_value_usd = dlmm_inventory_value_usd b, ea_price = dlmm_mid b,
      ea_sigma_now = dlmm_sigma b, ea_dt = hc_refresh_interval cfg\<rparr>"

definition write_hedge :: "string \<Rightarrow> real \<Rightarrow> real \<Rightarrow> risk_book \<Rightarrow> risk_book" where
  "write_hedge act target now b =
     b\<lparr>hedge_action := act, hedge_target_short := target,
       hedge_urgency := (if act = ''rehedge'' then ''passive'' else ''normal''),
       gamma_relaxation := (if act = ''force_hedge'' then 1 / 2 else 1), last_hedge_ts := now\<rparr>"

text \<open>
  A controller that holds a key looked it up in the registry, which never loses a key
  (\<open>attached_book_stays\<close> below), so the case of a key that is not there does not occur.
\<close>

definition hedge_update ::
  "'h engine \<Rightarrow> hedge_config \<Rightarrow> string option \<Rightarrow> perp_held list \<Rightarrow> real \<Rightarrow> 'h \<times> registry
     \<Rightarrow> ('h \<times> registry) \<times> (py_error + unit)" where
  "hedge_update evaluate cfg book held now st =
     (case book of
        None \<Rightarrow> (st, Inr ())
      | Some key \<Rightarrow>
          (case current_perp_position cfg held of
             Inl e \<Rightarrow> (st, Inl e)
           | Inr perp_position \<Rightarrow>
               (case map_of (snd st) key of
                  None \<Rightarrow> (st, Inr ())
                | Some b \<Rightarrow>
                    (case evaluate (fst st) (hedge_args cfg b perp_position) of
                       (h, Inl e) \<Rightarrow> ((h, snd st), Inl e)
                     | (h, Inr (act, target)) \<Rightarrow>
                         ((h, on_book key (write_hedge act target now) (snd st)), Inr ())))))"

record hedge_order =
  ho_connector :: string
  ho_pair :: string
  ho_timestamp :: real
  ho_executor :: pa_config

definition hedge_order_for :: "hedge_config \<Rightarrow> real \<Rightarrow> real \<Rightarrow> hedge_order" where
  "hedge_order_for cfg now delta =
     \<lparr>ho_connector = hc_connector cfg, ho_pair = hc_pair cfg, ho_timestamp = now,
      ho_executor =
        \<lparr>pa_side = (if delta < 0 then Sell else Buy), total_amount_base = \<bar>delta\<bar>,
         child_order_quantity = \<bar>delta\<bar> / 3, child_order_time_limit = 60, child_order_refresh_time = 20,
         pa_leverage = 1, pa_position_action = OPEN\<rparr>\<rparr>"

definition hedge_actions ::
  "hedge_config \<Rightarrow> risk_book option \<Rightarrow> perp_held list \<Rightarrow> real \<Rightarrow> py_error + hedge_order list" where
  "hedge_actions cfg book held now =
     (case book of
        None \<Rightarrow> Inr []
      | Some b \<Rightarrow>
          if hedge_action b = ''no_trade'' then Inr []
          else case current_perp_position cfg held of
                 Inl e \<Rightarrow> Inl e
               | Inr current \<Rightarrow>
                   let delta = - hedge_target_short b - current in
                   if \<bar>delta\<bar> < 1 / 1000000 then Inr [] else Inr [hedge_order_for cfg now delta])"

section \<open>DLMM controller\<close>

record cycle_record =
  cr_ts :: real
  cr_mid :: real
  cr_net_delta :: real
  cr_inventory_base :: real
  cr_inventory_quote :: real
  cr_sigma :: real

record 'k dlmm_keeper =
  dk_cycle :: "'k \<Rightarrow> 'k \<times> (py_error + unit)"
  dk_log :: "'k \<Rightarrow> cycle_record list"

record 'k dlmm_ctl =
  dc_keeper :: 'k
  dc_cycle_count :: nat
  dc_book :: "string option"

definition inventory_value :: "cycle_record \<Rightarrow> real" where
  "inventory_value r =
     cr_mid r * (if 0 < cr_mid r then cr_inventory_base r + cr_inventory_quote r / cr_mid r else 0)"

definition write_dlmm :: "cycle_record \<Rightarrow> risk_book \<Rightarrow> risk_book" where
  "write_dlmm r b =
     b\<lparr>dlmm_net_delta := cr_net_delta r, dlmm_inventory_value_usd := inventory_value r,
       dlmm_sigma := cr_sigma r, dlmm_mid := cr_mid r, last_dlmm_ts := cr_ts r\<rparr>"

text \<open>Every exception of a keeper cycle is logged; the cycle then writes nothing.\<close>

definition dlmm_update :: "'k dlmm_keeper \<Rightarrow> 'k dlmm_ctl \<times> registry \<Rightarrow> 'k dlmm_ctl \<times> registry" where
  "dlmm_update kp st =
     (case st of (c, reg) \<Rightarrow>
       case dk_cycle kp (dc_keeper c) of
         (k, Inl _) \<Rightarrow> (c\<lparr>dc_keeper := k\<rparr>, reg)
       | (k, Inr _) \<Rightarrow>
           let c' = c\<lparr>dc_keeper := k, dc_cycle_count := Suc (dc_cycle_count c)\<rparr> in
           (c', case dc_book c of
                  None \<Rightarrow> reg
                | Some key \<Rightarrow> if dk_log kp k = [] then reg else on_book key (write_dlmm (last (dk_log kp k))) reg))"

definition dlmm_actions :: "'k dlmm_ctl \<Rightarrow> hedge_order list" where
  "dlmm_actions c = []"

section \<open>Lemmas\<close>

lemma on_book_same [simp]: "map_of reg key = Some b \<Longrightarrow> map_of (on_book key f reg) key = Some (f b)"
  by (simp add: on_book_def)

lemma on_book_other [simp]: "key' \<noteq> key \<Longrightarrow> map_of (on_book key f reg) key' = map_of reg key'"
  by (simp add: on_book_def split: option.split)

lemma attach_book_has: "key \<noteq> '''' \<Longrightarrow> attach_book key reg = (Some key, reg') \<Longrightarrow> map_of reg' key \<noteq> None"
  by (auto simp: attach_book_def get_shared_book_def split: option.splits)

lemma attached_book_stays:
  "map_of reg key \<noteq> None \<Longrightarrow> map_of (on_book key' f reg) key \<noteq> None"
  "map_of reg key \<noteq> None \<Longrightarrow> map_of (snd (attach_book key' reg)) key \<noteq> None"
  by (auto simp: on_book_def attach_book_def get_shared_book_def split: option.split)

definition matching :: "hedge_config \<Rightarrow> perp_held \<Rightarrow> bool" where
  "matching cfg p = (ph_connector p = hc_connector cfg \<and> ph_pair p = hc_pair cfg)"

fun float_value :: "py_amount \<Rightarrow> real" where
  "float_value (FloatAmt a) = a"
| "float_value (DecimalAmt a) = a"

lemma add_held_ok:
  "add_held cfg held acc = Inr x \<longleftrightarrow>
     (\<forall>p\<in>set held. matching cfg p \<longrightarrow> (\<exists>a. ph_amount p = FloatAmt a))
   \<and> x = acc + (\<Sum>p\<leftarrow>filter (matching cfg) held. signed (ph_side p) (float_value (ph_amount p)))"
proof (induction cfg held acc rule: add_held.induct)
  case (2 cfg p ps acc)
  show ?case
  proof (cases "matching cfg p")
    case True
    with 2 show ?thesis
      by (cases "ph_amount p"; cases "ph_side p") (auto simp: matching_def)
  next
    case False
    with 2 show ?thesis by (auto simp: matching_def)
  qed
qed auto

lemma add_held_error: "add_held cfg held acc = Inl e \<Longrightarrow> e = TypeError"
  by (induction cfg held acc rule: add_held.induct) (auto split: if_splits py_amount.splits)

section \<open>What the hedge does\<close>

text \<open>
  A hedge order trades exactly the gap between the signed perp position and minus the
  target short, in children of a third of it, and only when the book asks for a hedge and the
  gap is at least a millionth; whenever that is so and the position can be read, the order is
  made.
\<close>

theorem hedge_order_closes_the_gap:
  assumes "current_perp_position cfg held = Inr x"
  shows "(hedge_actions cfg (Some b) held now = Inr [] \<longleftrightarrow>
           hedge_action b = ''no_trade'' \<or> \<bar>hedge_target_short b + x\<bar> < 1 / 1000000)
    \<and> (\<forall>ords. hedge_actions cfg (Some b) held now = Inr ords \<longrightarrow> ords \<noteq> [] \<longrightarrow>
        (\<exists>r. ords = [r] \<and> ho_connector r = hc_connector cfg \<and> ho_pair r = hc_pair cfg
           \<and> x + signed (pa_side (ho_executor r)) (total_amount_base (ho_executor r)) = - hedge_target_short b
           \<and> 3 * child_order_quantity (ho_executor r) = total_amount_base (ho_executor r)
           \<and> 1 / 1000000 \<le> total_amount_base (ho_executor r)))"
  using assms by (auto simp: hedge_actions_def Let_def hedge_order_for_def abs_if split: if_splits)

definition sample_hedge :: hedge_config where
  "sample_hedge = default_hedge_config ''hl'' ''SOL-USD'' ''k''"

definition short_two :: "perp_held list" where
  "short_two = [\<lparr>ph_connector = ''hl'', ph_pair = ''SOL-USD'', ph_side = Sell, ph_amount = FloatAmt 2\<rparr>]"

definition asked_book :: risk_book where
  "asked_book = new_risk_book\<lparr>hedge_action := ''rehedge'', hedge_target_short := 5\<rparr>"

lemma sample_position: "current_perp_position sample_hedge short_two = Inr (-2)"
  by (simp add: current_perp_position_def sample_hedge_def default_hedge_config_def short_two_def)

lemma sample_orders: "hedge_actions sample_hedge (Some asked_book) short_two 0 = Inr [hedge_order_for sample_hedge 0 (-3)]"
  by (simp add: hedge_actions_def sample_position asked_book_def new_risk_book_def Let_def)

theorem hedge_order_closes_the_gap_witness:
  "\<exists>r. hedge_actions sample_hedge (Some asked_book) short_two 0 = Inr [r]
     \<and> - 2 + signed (pa_side (ho_executor r)) (total_amount_base (ho_executor r)) = - 5"
  using hedge_order_closes_the_gap[OF sample_position, of asked_book 0] sample_orders
  by (simp add: asked_book_def)

text \<open>
  The controller called once per cycle while nothing of what it ordered has been filled: the
  book and the held positions are the same at every call.
\<close>

definition hedge_cycles ::
  "hedge_config \<Rightarrow> risk_book option \<Rightarrow> perp_held list \<Rightarrow> real list \<Rightarrow> (py_error + hedge_order list) list" where
  "hedge_cycles cfg book held clocks = map (hedge_actions cfg book held) clocks"

definition amount_ordered :: "(py_error + hedge_order list) list \<Rightarrow> real" where
  "amount_ordered results =
     (\<Sum>r\<leftarrow>results. case r of Inl _ \<Rightarrow> 0 | Inr ords \<Rightarrow> (\<Sum>x\<leftarrow>ords. total_amount_base (ho_executor x)))"



text \<open>
  A held position on the hedged market whose amount is a Decimal stops the hedge: reading
  the position raises a TypeError, so neither the book is updated nor an order made.
\<close>

theorem decimal_position_stops_the_hedge:
  assumes "p \<in> set held" "matching cfg p" "ph_amount p = DecimalAmt a" "hedge_action b \<noteq> ''no_trade''"
  shows "current_perp_position cfg held = Inl TypeError
    \<and> hedge_actions cfg (Some b) held now = Inl TypeError
    \<and> hedge_update evaluate cfg (Some key) held now st = (st, Inl TypeError)"
proof -
  have "current_perp_position cfg held \<noteq> Inr x" for x
    using assms by (auto simp: current_perp_position_def add_held_ok)
  then have "current_perp_position cfg held = Inl TypeError"
    by (cases "current_perp_position cfg held") (auto simp: current_perp_position_def dest: add_held_error)
  with assms(4) show ?thesis by (simp add: hedge_actions_def hedge_update_def)
qed

theorem decimal_position_stops_the_hedge_witness:
  "hedge_actions sample_hedge (Some asked_book)
     [\<lparr>ph_connector = ''hl'', ph_pair = ''SOL-USD'', ph_side = Sell, ph_amount = DecimalAmt 2\<rparr>] 0 = Inl TypeError"
  using decimal_position_stops_the_hedge[of
      "\<lparr>ph_connector = ''hl'', ph_pair = ''SOL-USD'', ph_side = Sell, ph_amount = DecimalAmt 2\<rparr>"
      "[\<lparr>ph_connector = ''hl'', ph_pair = ''SOL-USD'', ph_side = Sell, ph_amount = DecimalAmt 2\<rparr>]"
      sample_hedge 2 asked_book 0 "\<lambda>h _. (h, Inl ValueError)" "''k''" "(0::nat, [])"]
  by (simp add: matching_def sample_hedge_def default_hedge_config_def asked_book_def new_risk_book_def)

text \<open>
  What the DLMM keeper decided reaches the hedge through the shared book: after a keeper
  cycle that returns with a record, a hedge update on the same key evaluates that record's net
  delta, mid, volatility and inventory value (mid times base plus quote) against the current
  short, and stores the engine's answer in the same book; the books of other keys keep their
  contents.
\<close>

theorem dlmm_cycle_reaches_the_hedge:
  assumes "dk_cycle kp (dc_keeper c) = (k, Inr ())" "dk_log kp k \<noteq> []" "0 < cr_mid (last (dk_log kp k))"
    "dc_book c = Some key" "map_of reg key = Some b"
    "dlmm_update kp (c, reg) = (c', reg1)"
    "current_perp_position cfg held = Inr x"
    "evaluate h \<lparr>ea_inventory_base = cr_net_delta (last (dk_log kp k)), ea_current_short = - x,
        ea_inventory_value_usd = cr_mid (last (dk_log kp k)) * cr_inventory_base (last (dk_log kp k))
          + cr_inventory_quote (last (dk_log kp k)),
        ea_price = cr_mid (last (dk_log kp k)), ea_sigma_now = cr_sigma (last (dk_log kp k)),
        ea_dt = hc_refresh_interval cfg\<rparr> = (h', Inr (act, target))"
  shows "\<exists>reg2 b2. hedge_update evaluate cfg (Some key) held now (h, reg1) = ((h', reg2), Inr ())
    \<and> map_of reg2 key = Some b2 \<and> hedge_action b2 = act \<and> hedge_target_short b2 = target
    \<and> last_dlmm_ts b2 = cr_ts (last (dk_log kp k)) \<and> last_hedge_ts b2 = now
    \<and> (\<forall>other. other \<noteq> key \<longrightarrow> map_of reg2 other = map_of reg other)"
proof -
  let ?r = "last (dk_log kp k)"
  have reg1: "reg1 = on_book key (write_dlmm ?r) reg"
    using assms(1,2,4,6) by (simp add: dlmm_update_def Let_def)
  have val: "inventory_value ?r = cr_mid ?r * cr_inventory_base ?r + cr_inventory_quote ?r"
    using assms(3) by (simp add: inventory_value_def field_simps)
  have b1: "map_of reg1 key = Some (write_dlmm ?r b)" using assms(5) reg1 by simp
  have "evaluate h (hedge_args cfg (write_dlmm ?r b) x) = (h', Inr (act, target))"
    using assms(8) val by (simp add: hedge_args_def write_dlmm_def)
  with assms(7) b1 have upd: "hedge_update evaluate cfg (Some key) held now (h, reg1)
      = ((h', on_book key (write_hedge act target now) reg1), Inr ())"
    by (simp add: hedge_update_def)
  have b2: "map_of (on_book key (write_hedge act target now) reg1) key
      = Some (write_hedge act target now (write_dlmm ?r b))"
    using b1 by simp
  show ?thesis
    unfolding upd using b2 reg1 by (auto simp: write_hedge_def write_dlmm_def)
qed

definition sample_keeper :: "cycle_record list dlmm_keeper" where
  "sample_keeper = \<lparr>dk_cycle = (\<lambda>k. (k, Inr ())), dk_log = (\<lambda>k. k)\<rparr>"

definition sample_record :: cycle_record where
  "sample_record = \<lparr>cr_ts = 1, cr_mid = 150, cr_net_delta = 5, cr_inventory_base = 2, cr_inventory_quote = 300, cr_sigma = 1 / 4\<rparr>"

theorem dlmm_cycle_reaches_the_hedge_witness:
  "\<exists>reg2 b2. hedge_update (\<lambda>h a. (h, Inr (''rehedge'', ea_inventory_base a))) sample_hedge (Some ''k'') short_two 3
       (0::nat, snd (dlmm_update sample_keeper
          (\<lparr>dc_keeper = [sample_record], dc_cycle_count = 0, dc_book = Some ''k''\<rparr>, [(''k'', new_risk_book)])))
     = ((0, reg2), Inr ()) \<and> map_of reg2 ''k'' = Some b2 \<and> hedge_target_short b2 = 5"
  using dlmm_cycle_reaches_the_hedge[of sample_keeper
      "\<lparr>dc_keeper = [sample_record], dc_cycle_count = 0, dc_book = Some ''k''\<rparr>" "[sample_record]" "''k''"
      "[(''k'', new_risk_book)]" new_risk_book _ _ sample_hedge short_two "-2"
      "\<lambda>h a. (h, Inr (''rehedge'', ea_inventory_base a))" "0::nat" 0 "''rehedge''" 5 3]
  by (auto simp: sample_keeper_def sample_record_def sample_position dlmm_update_def Let_def)

text \<open>A keeper cycle that raises leaves every book as it was: the hedge works on from the last record.\<close>

lemma failed_cycle_keeps_the_books:
  "dk_cycle kp (dc_keeper c) = (k, Inl e) \<Longrightarrow> snd (dlmm_update kp (c, reg)) = reg"
  by (simp add: dlmm_update_def)

end
