(* ===== verification/Topology.thy ===== *)
theory Topology imports Prelude begin

text \<open>
  \<open>src/opms/connectors/topology.py\<close>: the deploy-time check that no two controllers share a
  netted market, and the scope restriction of Hyperliquid connectors.

  The capability table is \<open>perp_bot\<close>'s: a parameter \<open>caps\<close> from venue names to the
  position mode or the exception of the lookup.
\<close>

section \<open>Definitions\<close>

record topo_config =
  tc_connector :: string
  tc_pair :: string
  tc_account :: string

type_synonym caps_table = "string \<Rightarrow> py_error + string"

type_synonym market_key = "string \<times> string \<times> string"

definition get_venue_capabilities :: "caps_table \<Rightarrow> string \<Rightarrow> py_error + string" where
  "get_venue_capabilities caps name =
     (let venue = str_removesuffix ''_perpetual'' (str_removesuffix ''_testnet'' (str_lower name)) in
      case caps venue of
        Inr mode \<Rightarrow> Inr mode
      | Inl KeyError \<Rightarrow> Inl ValueError
      | Inl ValueError \<Rightarrow> Inl ValueError
      | Inl e \<Rightarrow> Inl e)"

definition market_of :: "topo_config \<Rightarrow> market_key" where
  "market_of cfg = (tc_connector cfg, before_dash (tc_pair cfg), tc_account cfg)"

fun validate_from :: "caps_table \<Rightarrow> (market_key \<Rightarrow> topo_config list) \<Rightarrow> topo_config list \<Rightarrow> py_error + unit" where
  "validate_from caps by_market [] = Inr ()"
| "validate_from caps by_market (cfg # rest) =
     (case get_venue_capabilities caps (tc_connector cfg) of
        Inl e \<Rightarrow> Inl e
      | Inr mode \<Rightarrow>
          let siblings = by_market (market_of cfg) in
          if siblings \<noteq> [] \<and> mode = ''net'' then Inl ValueError
          else validate_from caps (by_market(market_of cfg := siblings @ [cfg])) rest)"

definition validate_controller_topology :: "caps_table \<Rightarrow> topo_config list \<Rightarrow> py_error + topo_config list" where
  "validate_controller_topology caps configs =
     (case validate_from caps (\<lambda>_. []) configs of Inl e \<Rightarrow> Inl e | Inr _ \<Rightarrow> Inr configs)"

text \<open>
  The pairs of each connector, a dict in the order of first appearance, and the loop over it.
  A connector is its flag \<open>_enable_hip3_markets\<close>; a name the dict of connectors does not
  hold raises a KeyError, with the connectors before it already restricted.
\<close>

definition add_pair :: "(string \<times> string list) list \<Rightarrow> topo_config \<Rightarrow> (string \<times> string list) list" where
  "add_pair d cfg =
     AList.update (tc_connector cfg)
       ((case map_of d (tc_connector cfg) of Some ps \<Rightarrow> ps | None \<Rightarrow> []) @ [tc_pair cfg]) d"

definition pairs_by_connector :: "topo_config list \<Rightarrow> (string \<times> string list) list" where
  "pairs_by_connector configs = foldl add_pair [] configs"

definition native_only :: "string \<Rightarrow> string list \<Rightarrow> bool" where
  "native_only name pairs =
     (str_startswith ''hyperliquid_perpetual'' name \<and> list_all (\<lambda>pair. \<not> str_contains '':'' pair) pairs)"

fun restrict_loop :: "(string \<times> string list) list \<Rightarrow> (string \<times> bool) list
    \<Rightarrow> (string \<times> bool) list \<times> (py_error + unit)" where
  "restrict_loop [] connectors = (connectors, Inr ())"
| "restrict_loop ((name, pairs) # rest) connectors =
     (if native_only name pairs then
        (case map_of connectors name of
           None \<Rightarrow> (connectors, Inl KeyError)
         | Some _ \<Rightarrow> restrict_loop rest (AList.update name False connectors))
      else restrict_loop rest connectors)"

definition restrict_hyperliquid_market_scope ::
  "topo_config list \<Rightarrow> (string \<times> bool) list \<Rightarrow> (string \<times> bool) list \<times> (py_error + unit)" where
  "restrict_hyperliquid_market_scope configs connectors = restrict_loop (pairs_by_connector configs) connectors"

section \<open>One controller per netted market\<close>

definition netted :: "caps_table \<Rightarrow> topo_config \<Rightarrow> bool" where
  "netted caps cfg = (get_venue_capabilities caps (tc_connector cfg) = Inr ''net'')"

lemma validate_from_ok:
  "validate_from caps by_market configs = Inr () \<longleftrightarrow>
     (\<forall>cfg\<in>set configs. is_ok (get_venue_capabilities caps (tc_connector cfg)))
   \<and> (\<forall>cfg\<in>set configs. netted caps cfg \<longrightarrow> by_market (market_of cfg) = [])
   \<and> distinct (map market_of (filter (netted caps) configs))"
proof (induction caps by_market configs rule: validate_from.induct)
  case (2 caps by_market cfg rest)
  show ?case
  proof (cases "get_venue_capabilities caps (tc_connector cfg)")
    case Inl
    then show ?thesis by simp
  next
    case (Inr mode)
    have same: "netted caps c = netted caps cfg" if "market_of c = market_of cfg" for c
      using that by (simp add: market_of_def netted_def)
    show ?thesis
    proof (cases "netted caps cfg \<and> by_market (market_of cfg) \<noteq> []")
      case True
      with Inr show ?thesis by (simp add: Let_def netted_def)
    next
      case False
      let ?b = "by_market(market_of cfg := by_market (market_of cfg) @ [cfg])"
      have step: "validate_from caps by_market (cfg # rest) = validate_from caps ?b rest"
        using False Inr by (auto simp: Let_def netted_def)
      have "validate_from caps ?b rest = Inr () \<longleftrightarrow>
          (\<forall>c\<in>set rest. is_ok (get_venue_capabilities caps (tc_connector c)))
        \<and> (\<forall>c\<in>set rest. netted caps c \<longrightarrow> ?b (market_of c) = [])
        \<and> distinct (map market_of (filter (netted caps) rest))"
        using False Inr by (intro 2[OF Inr refl]) (auto simp: netted_def)
      moreover have "(\<forall>c\<in>set rest. netted caps c \<longrightarrow> ?b (market_of c) = []) \<longleftrightarrow>
          (\<forall>c\<in>set rest. netted caps c \<longrightarrow> by_market (market_of c) = [] \<and> market_of c \<noteq> market_of cfg)"
        by auto
      moreover have "is_ok (get_venue_capabilities caps (tc_connector cfg))" using Inr by simp
      moreover have "netted caps cfg \<longrightarrow> by_market (market_of cfg) = []" using False by blast
      moreover have "distinct (map market_of (filter (netted caps) (cfg # rest))) \<longleftrightarrow>
          (netted caps cfg \<longrightarrow> (\<forall>c\<in>set rest. netted caps c \<longrightarrow> market_of c \<noteq> market_of cfg))
        \<and> distinct (map market_of (filter (netted caps) rest))"
        by (auto simp: image_iff)
      ultimately show ?thesis
        unfolding step list.set ball_simps using same by blast
    qed
  qed
qed simp

text \<open>
  C20: The topology check accepts a deployment, and returns its configurations unchanged,
  exactly when every connector is a known venue and no two controllers on a netted venue share
  connector, coin and account; on a hedge-mode venue they may.
\<close>

theorem accepted_topology_has_no_netted_siblings:
  "validate_controller_topology caps configs = Inr out \<longleftrightarrow>
     out = configs
   \<and> (\<forall>cfg\<in>set configs. is_ok (get_venue_capabilities caps (tc_connector cfg)))
   \<and> distinct (map market_of (filter (netted caps) configs))"
  using validate_from_ok[of caps "\<lambda>_. []" configs]
  by (cases "validate_from caps (\<lambda>_. []) configs") (auto simp: validate_controller_topology_def)

definition sample_caps :: caps_table where
  "sample_caps venue =
     (if venue = ''hyperliquid'' then Inr ''net'' else if venue = ''aster'' then Inr ''hedge'' else Inl KeyError)"

theorem accepted_topology_has_no_netted_siblings_witness:
  "validate_controller_topology sample_caps
     [\<lparr>tc_connector = ''hyperliquid_perpetual'', tc_pair = ''SOL-USD'', tc_account = ''a''\<rparr>,
      \<lparr>tc_connector = ''aster_perpetual'', tc_pair = ''SOL-USD'', tc_account = ''a''\<rparr>,
      \<lparr>tc_connector = ''aster_perpetual'', tc_pair = ''SOL-USD'', tc_account = ''a''\<rparr>] =
   Inr [\<lparr>tc_connector = ''hyperliquid_perpetual'', tc_pair = ''SOL-USD'', tc_account = ''a''\<rparr>,
      \<lparr>tc_connector = ''aster_perpetual'', tc_pair = ''SOL-USD'', tc_account = ''a''\<rparr>,
      \<lparr>tc_connector = ''aster_perpetual'', tc_pair = ''SOL-USD'', tc_account = ''a''\<rparr>]
   \<and> \<not> is_ok (validate_controller_topology sample_caps
     [\<lparr>tc_connector = ''hyperliquid_perpetual'', tc_pair = ''SOL-USD'', tc_account = ''a''\<rparr>,
      \<lparr>tc_connector = ''hyperliquid_perpetual'', tc_pair = ''SOL-USDC'', tc_account = ''a''\<rparr>])"
proof -
  have caps: "get_venue_capabilities sample_caps ''hyperliquid_perpetual'' = Inr ''net''"
    "get_venue_capabilities sample_caps ''aster_perpetual'' = Inr ''hedge''"
    by (simp_all add: get_venue_capabilities_def sample_caps_def str_lower_def lower_char_def str_removesuffix_def)
  let ?two = "[\<lparr>tc_connector = ''hyperliquid_perpetual'', tc_pair = ''SOL-USD'', tc_account = ''a''\<rparr>,
      \<lparr>tc_connector = ''hyperliquid_perpetual'', tc_pair = ''SOL-USDC'', tc_account = ''a''\<rparr>]"
  have "validate_controller_topology sample_caps ?two \<noteq> Inr out" for out
    by (simp add: accepted_topology_has_no_netted_siblings caps netted_def market_of_def before_dash_def)
  then have "\<not> is_ok (validate_controller_topology sample_caps ?two)"
    by (cases "validate_controller_topology sample_caps ?two") auto
  then show ?thesis
    by (simp add: accepted_topology_has_no_netted_siblings caps netted_def market_of_def before_dash_def)
qed

section \<open>Native-only connectors\<close>

lemma pairs_of: "map_of (foldl add_pair d configs) name =
    (let ps = map tc_pair (filter (\<lambda>c. tc_connector c = name) configs) in
     case map_of d name of Some qs \<Rightarrow> Some (qs @ ps) | None \<Rightarrow> if ps = [] then None else Some ps)"
proof (induction configs arbitrary: d)
  case (Cons c configs)
  then show ?case by (auto simp: Let_def add_pair_def filter_empty_conv split: option.splits)
qed (simp split: option.split)

lemma pairs_distinct: "distinct (map fst d) \<Longrightarrow> distinct (map fst (foldl add_pair d configs))"
  by (induction configs arbitrary: d) (simp_all add: add_pair_def distinct_keys_update)

lemma restrict_loop_ok:
  assumes "distinct (map fst d)" "\<forall>(n, ps)\<in>set d. native_only n ps \<longrightarrow> map_of connectors n \<noteq> None"
  shows "snd (restrict_loop d connectors) = Inr ()
    \<and> map_of (fst (restrict_loop d connectors)) name =
        (case map_of d name of
           Some ps \<Rightarrow> if native_only name ps then Some False else map_of connectors name
         | None \<Rightarrow> map_of connectors name)"
  using assms
proof (induction d connectors rule: restrict_loop.induct)
  case (2 n ps rest connectors)
  have fresh: "map_of rest n = None" using 2(3) by (simp add: map_of_eq_None_iff)
  show ?case
  proof (cases "native_only n ps")
    case True
    then obtain b where b: "map_of connectors n = Some b" using 2(4) by auto
    have "\<forall>(m, qs)\<in>set rest. native_only m qs \<longrightarrow> map_of (AList.update n False connectors) m \<noteq> None"
      using 2(4) by auto
    with 2(1)[OF True b] 2(3) b True fresh show ?thesis by (simp split: option.split)
  next
    case False
    with 2 fresh show ?thesis by simp
  qed
qed simp

text \<open>
  Restricting the market scope disables HIP-3 discovery on exactly the Hyperliquid
  connectors that serve at least one controller and only native pairs, and leaves the flag of
  every other connector as it was.
\<close>

theorem hip3_is_disabled_for_native_connectors:
  assumes "\<forall>c\<in>set configs. map_of connectors (tc_connector c) \<noteq> None"
  shows "snd (restrict_hyperliquid_market_scope configs connectors) = Inr ()
    \<and> map_of (fst (restrict_hyperliquid_market_scope configs connectors)) name =
        (if (\<exists>c\<in>set configs. tc_connector c = name) \<and> str_startswith ''hyperliquid_perpetual'' name
            \<and> (\<forall>c\<in>set configs. tc_connector c = name \<longrightarrow> \<not> str_contains '':'' (tc_pair c))
         then Some False else map_of connectors name)"
proof -
  let ?d = "pairs_by_connector configs"
  have of: "map_of ?d n = (let ps = map tc_pair (filter (\<lambda>c. tc_connector c = n) configs) in
      if ps = [] then None else Some ps)" for n
    using pairs_of[of "[]" configs n] by (simp add: pairs_by_connector_def)
  have dist: "distinct (map fst ?d)" by (simp add: pairs_by_connector_def pairs_distinct)
  have "map_of connectors n \<noteq> None" if "(n, ps) \<in> set ?d" for n ps
  proof -
    have "map_of ?d n = Some ps" using dist that by simp
    then obtain c where "c \<in> set configs" "tc_connector c = n"
      by (auto simp: of Let_def filter_empty_conv split: if_splits)
    with assms show ?thesis by auto
  qed
  then have "\<forall>(n, ps)\<in>set ?d. native_only n ps \<longrightarrow> map_of connectors n \<noteq> None" by blast
  from restrict_loop_ok[OF dist this, of name] show ?thesis
    unfolding restrict_hyperliquid_market_scope_def of
    by (cases "\<exists>c\<in>set configs. tc_connector c = name")
       (auto simp: Let_def native_only_def filter_empty_conv list_all_iff)
qed

theorem hip3_is_disabled_for_native_connectors_witness:
  "map_of (fst (restrict_hyperliquid_market_scope
      [\<lparr>tc_connector = ''hyperliquid_perpetual'', tc_pair = ''SOL-USD'', tc_account = ''a''\<rparr>]
      [(''hyperliquid_perpetual'', True)])) ''hyperliquid_perpetual'' = Some False"
  using hip3_is_disabled_for_native_connectors[of
      "[\<lparr>tc_connector = ''hyperliquid_perpetual'', tc_pair = ''SOL-USD'', tc_account = ''a''\<rparr>]"
      "[(''hyperliquid_perpetual'', True)]" "''hyperliquid_perpetual''"]
  by (simp add: str_startswith_def)

end
