(* ===== verification/Json.thy ===== *)
theory Json imports Prelude begin

text \<open>
  JSON values as \<open>json.loads\<close> and \<open>httpx.Response.json\<close> give them to the program, with the
  Python operations the components apply to them.  A dict keeps its insertion order, as an
  association list.  Numbers are exact reals.
\<close>

datatype json =
    JNull | JBool bool | JNum real | JStr string | JArr "json list" | JObj "(string \<times> json) list"

type_synonym dict = "(string \<times> json) list"

section \<open>Computations that may raise\<close>

definition res_bind :: "py_error + 'a \<Rightarrow> ('a \<Rightarrow> py_error + 'b) \<Rightarrow> py_error + 'b" where
  "res_bind m f = (case m of Inl e \<Rightarrow> Inl e | Inr x \<Rightarrow> f x)"

definition res_check :: "bool \<Rightarrow> py_error \<Rightarrow> py_error + 'b \<Rightarrow> py_error + 'b" where
  "res_check ok e rest = (if ok then rest else Inl e)"

lemma res_bind_simps [simp]: "res_bind (Inl e) f = Inl e" "res_bind (Inr x) f = f x"
  by (simp_all add: res_bind_def)

lemma res_bind_Inr: "res_bind m f = Inr y \<longleftrightarrow> (\<exists>x. m = Inr x \<and> f x = Inr y)"
  by (cases m) simp_all

lemma res_check_Inr: "res_check ok e rest = Inr y \<longleftrightarrow> ok \<and> rest = Inr y"
  by (simp add: res_check_def)

lemmas res_Inr = res_bind_Inr res_check_Inr

section \<open>Truth, lookup and conversion\<close>

fun truthy_json :: "json \<Rightarrow> bool" where
  "truthy_json JNull = False"
| "truthy_json (JBool b) = b"
| "truthy_json (JNum x) = (x \<noteq> 0)"
| "truthy_json (JStr s) = (s \<noteq> [])"
| "truthy_json (JArr xs) = (xs \<noteq> [])"
| "truthy_json (JObj d) = (d \<noteq> [])"

text \<open>\<open>d.get(key)\<close> and \<open>d.get(key, dflt)\<close>.\<close>

definition get_or :: "json \<Rightarrow> string \<Rightarrow> dict \<Rightarrow> json" where
  "get_or dflt key d = (case map_of d key of Some v \<Rightarrow> v | None \<Rightarrow> dflt)"

abbreviation get_key :: "string \<Rightarrow> dict \<Rightarrow> json" where
  "get_key \<equiv> get_or JNull"

text \<open>\<open>value or dflt\<close>.\<close>

definition or_else :: "json \<Rightarrow> json \<Rightarrow> json" where
  "or_else v dflt = (if truthy_json v then v else dflt)"

text \<open>
  \<open>float(v)\<close> and \<open>int(v)\<close>.  A string is parsed, which is a parameter; \<open>int\<close> truncates.
\<close>

fun to_float :: "(string \<Rightarrow> py_error + real) \<Rightarrow> json \<Rightarrow> py_error + real" where
  "to_float parse (JNum x) = Inr x"
| "to_float parse (JBool b) = Inr (if b then 1 else 0)"
| "to_float parse (JStr s) = parse s"
| "to_float parse _ = Inl TypeError"

fun to_int :: "(string \<Rightarrow> py_error + int) \<Rightarrow> json \<Rightarrow> py_error + int" where
  "to_int parse (JNum x) = Inr (if 0 \<le> x then \<lfloor>x\<rfloor> else \<lceil>x\<rceil>)"
| "to_int parse (JBool b) = Inr (if b then 1 else 0)"
| "to_int parse (JStr s) = parse s"
| "to_int parse _ = Inl TypeError"

text \<open>\<open>d["..."]\<close> for a required key.\<close>

definition required :: "string \<Rightarrow> json \<Rightarrow> py_error + json" where
  "required key data =
     (case data of
        JObj d \<Rightarrow> (case map_of d key of Some v \<Rightarrow> Inr v | None \<Rightarrow> Inl KeyError)
      | _ \<Rightarrow> Inl TypeError)"

text \<open>What a loop over the value visits: a dict gives its keys, a string its characters.\<close>

fun iter_json :: "json \<Rightarrow> py_error + json list" where
  "iter_json (JArr xs) = Inr xs"
| "iter_json (JStr s) = Inr (map (\<lambda>c. JStr [c]) s)"
| "iter_json (JObj d) = Inr (map (JStr \<circ> fst) d)"
| "iter_json _ = Inl TypeError"

text \<open>The mappings \<open>{**a, **b}\<close>: later keys replace earlier ones in place.\<close>

definition merge_dicts :: "dict \<Rightarrow> dict \<Rightarrow> dict" where
  "merge_dicts a b = foldl (\<lambda>d (k, v). AList.update k v d) a b"

lemma get_or_update [simp]:
  "get_or dflt key (AList.update k v d) = (if key = k then v else get_or dflt key d)"
  by (simp add: get_or_def)

lemma map_of_merge: "distinct (map fst b) \<Longrightarrow>
    map_of (merge_dicts a b) k = (case map_of b k of Some v \<Rightarrow> Some v | None \<Rightarrow> map_of a k)"
proof (induction b arbitrary: a)
  case (Cons kv b)
  obtain k' v where [simp]: "kv = (k', v)" by (cases kv)
  have "map_of b k' = None" using Cons.prems by (simp add: map_of_eq_None_iff)
  with Cons show ?case by (simp add: merge_dicts_def split: option.split)
qed (simp add: merge_dicts_def)

end
