(* ===== verification/GatewayBridge.thy ===== *)
theory GatewayBridge imports Json begin

text \<open>
  \<open>src/opms/gateway/exec_bridge.py\<close>: the bridge from the DLMM keeper to Hummingbot Gateway.

  The HTTP server is a parameter: a state \<open>'w\<close> and a function from a request to the new state
  and an outcome.  Every request the bridge makes is also written to \<open>gw_log\<close>, newest first, so
  that what was sent can be stated.  \<open>ExecResult\<close> is a class of \<open>dlmm_bot\<close>; its constructor
  from a payload is the parameter \<open>from_payload\<close>, and parsing numbers out of strings is one too.
  An error text is kept as its parts instead of the rendered string.
\<close>

section \<open>Requests and results\<close>

datatype http_method = GET | POST

record request =
  rq_method :: http_method
  rq_path :: string
  rq_body :: dict

text \<open>A response body, a status that \<open>raise_for_status\<close> refuses, or any other exception.\<close>

datatype http_outcome = Body json | StatusError int string | Raised string

datatype message =
    Text string | HTTPStatus int string | StrOf json | Prefixed string "message option"

record exec_result =
  er_ok :: bool
  er_error :: "message option"
  er_data :: json
  er_position :: json
  er_signatures :: "json list"
  er_receipts :: "dict list"
  er_slot :: json
  er_block_time :: json
  er_fee :: "int option"

definition plain_result :: "bool \<Rightarrow> message option \<Rightarrow> json \<Rightarrow> exec_result" where
  "plain_result ok err data =
     \<lparr>er_ok = ok, er_error = err, er_data = data, er_position = JNull, er_signatures = [],
      er_receipts = [], er_slot = JNull, er_block_time = JNull, er_fee = None\<rparr>"

abbreviation failed :: "message \<Rightarrow> exec_result" where
  "failed m \<equiv> plain_result False (Some m) JNull"

record gateway_config =
  gc_wallet :: string
  gc_network :: string
  gc_base_decimals :: int
  gc_quote_decimals :: int
  gc_max_slippage_bins :: int

record 'w externals_gw =
  xg_http :: "'w \<Rightarrow> request \<Rightarrow> 'w \<times> http_outcome"
  xg_payload :: "dict \<Rightarrow> exec_result"
  xg_float :: "string \<Rightarrow> py_error + real"
  xg_int :: "string \<Rightarrow> py_error + int"

record 'w gateway =
  gw_open :: bool
  gw_positions :: "(string \<times> json) list"
  gw_world :: 'w
  gw_log :: "request list"

type_synonym ('w, 'a) gw_step = "'w gateway \<times> (py_error + 'a)"

definition new_gateway :: "'w \<Rightarrow> 'w gateway" where
  "new_gateway w = \<lparr>gw_open = False, gw_positions = [], gw_world = w, gw_log = []\<rparr>"

definition gw_start :: "'w gateway \<Rightarrow> 'w gateway" where
  "gw_start g = g\<lparr>gw_open := True\<rparr>"

definition gw_stop :: "'w gateway \<Rightarrow> 'w gateway" where
  "gw_stop g = g\<lparr>gw_open := False\<rparr>"

text \<open>Exceptions stop a method; what it sent and stored before stays.\<close>

definition gw_bind :: "('w, 'a) gw_step \<Rightarrow> ('a \<Rightarrow> 'w gateway \<Rightarrow> ('w, 'b) gw_step) \<Rightarrow> ('w, 'b) gw_step" where
  "gw_bind m f = (case m of (g, Inl e) \<Rightarrow> (g, Inl e) | (g, Inr x) \<Rightarrow> f x g)"

section \<open>The HTTP client\<close>

text \<open>
  What becomes of a response body: a dict with a truthy \<open>error\<close> is a failed result, another
  dict goes to \<open>from_payload\<close> with its data normalised; a body that is no dict raises.
\<close>

definition read_body :: "'w externals_gw \<Rightarrow> json \<Rightarrow> py_error + exec_result" where
  "read_body X raw =
     (case raw of
        JObj d \<Rightarrow>
          if truthy_json (get_key ''error'' d) then Inr (failed (StrOf (get_key ''error'' d)))
          else
            let data = (case get_key ''data'' d of JObj inner \<Rightarrow> inner | _ \<Rightarrow> d)
            in Inr (xg_payload X (AList.update ''data'' (JObj data) (AList.update ''ok'' (JBool True) d)))
      | JArr xs \<Rightarrow> Inl (if JStr ''error'' \<in> set xs then TypeError else OtherError ''AttributeError'')
      | JStr s \<Rightarrow> Inl (if str_contains ''error'' s then TypeError else OtherError ''AttributeError'')
      | _ \<Rightarrow> Inl TypeError)"

definition gw_request ::
  "'w externals_gw \<Rightarrow> http_method \<Rightarrow> string \<Rightarrow> dict \<Rightarrow> 'w gateway \<Rightarrow> ('w, exec_result) gw_step" where
  "gw_request X meth path payload g =
     (if \<not> gw_open g then (g, Inl AssertionError)
      else
        let rq = \<lparr>rq_method = meth, rq_path = path, rq_body = payload\<rparr>;
            (w, outcome) = xg_http X (gw_world g) rq;
            g' = g\<lparr>gw_world := w, gw_log := rq # gw_log g\<rparr>
        in case outcome of
             StatusError code body \<Rightarrow> (g', Inr (failed (HTTPStatus code (take 200 body))))
           | Raised s \<Rightarrow> (g', Inr (failed (Text s)))
           | Body raw \<Rightarrow> (g', read_body X raw))"

definition clmm :: "string \<Rightarrow> string" where
  "clmm route = ''/connectors/meteora/clmm'' @ route"

definition gw_get :: "'w externals_gw \<Rightarrow> gateway_config \<Rightarrow> string \<Rightarrow> dict \<Rightarrow> 'w gateway \<Rightarrow> ('w, exec_result) gw_step" where
  "gw_get X cfg path params g =
     gw_request X GET path (merge_dicts [(''network'', JStr (gc_network cfg))] params) g"

definition gw_post :: "'w externals_gw \<Rightarrow> gateway_config \<Rightarrow> string \<Rightarrow> dict \<Rightarrow> 'w gateway \<Rightarrow> ('w, exec_result) gw_step" where
  "gw_post X cfg path body g =
     gw_request X POST path
       (merge_dicts [(''network'', JStr (gc_network cfg)), (''walletAddress'', JStr (gc_wallet cfg))] body) g"

section \<open>The price of a bin\<close>

record anchor =
  an_price :: real
  an_active :: int
  an_step_bps :: int

definition read_anchor :: "'w externals_gw \<Rightarrow> json \<Rightarrow> py_error + anchor" where
  "read_anchor X data =
     (case required ''price'' data of Inl e \<Rightarrow> Inl e | Inr p \<Rightarrow>
      case to_float (xg_float X) p of Inl e \<Rightarrow> Inl e | Inr price \<Rightarrow>
      case required ''activeBinId'' data of Inl e \<Rightarrow> Inl e | Inr a \<Rightarrow>
      case to_int (xg_int X) a of Inl e \<Rightarrow> Inl e | Inr active \<Rightarrow>
      case required ''binStep'' data of Inl e \<Rightarrow> Inl e | Inr b \<Rightarrow>
      case to_int (xg_int X) b of Inl e \<Rightarrow> Inl e | Inr bps \<Rightarrow>
        Inr \<lparr>an_price = price, an_active = active, an_step_bps = bps\<rparr>)"

text \<open>
  \<open>_bin_price_fn\<close> gives the failed result of the read (Inl) or the anchor; the function it
  returns is \<open>price_of\<close>.  A step of zero raised to a negative power raises.
\<close>

definition bin_price_fn ::
  "'w externals_gw \<Rightarrow> gateway_config \<Rightarrow> string \<Rightarrow> 'w gateway \<Rightarrow> ('w, exec_result + anchor) gw_step" where
  "bin_price_fn X cfg pool g =
     gw_bind (gw_get X cfg (clmm ''/pool-info'') [(''poolAddress'', JStr pool)] g)
       (\<lambda>r g. if \<not> er_ok r then (g, Inr (Inl r))
              else case read_anchor X (er_data r) of Inl e \<Rightarrow> (g, Inl e) | Inr a \<Rightarrow> (g, Inr (Inr a)))"

definition bin_step :: "anchor \<Rightarrow> real" where
  "bin_step a = 1 + of_int (an_step_bps a) / 10000"

definition price_of :: "anchor \<Rightarrow> int \<Rightarrow> py_error + real" where
  "price_of a bin_id =
     (if bin_step a = 0 \<and> bin_id < an_active a then Inl (OtherError ''ZeroDivisionError'')
      else Inr (an_price a * (bin_step a) powi (bin_id - an_active a)))"

section \<open>Reading positions\<close>

fun first_of :: "dict \<Rightarrow> string list \<Rightarrow> json \<Rightarrow> json" where
  "first_of d [] dflt = dflt"
| "first_of d (k # ks) dflt = (if get_key k d \<noteq> JNull then get_key k d else first_of d ks dflt)"

definition scaled_fee :: "'w externals_gw \<Rightarrow> int \<Rightarrow> json \<Rightarrow> json \<Rightarrow> py_error + json" where
  "scaled_fee X decimals fee raw_fee =
     (if fee = JNull \<and> raw_fee \<noteq> JNull then
        (case to_float (xg_float X) raw_fee of Inl e \<Rightarrow> Inl e | Inr v \<Rightarrow> Inr (JNum (v / 10 powi decimals)))
      else Inr fee)"

definition bin_row :: "dict \<Rightarrow> dict" where
  "bin_row source =
     AList.update ''amount_y_raw'' (first_of source [''amount_y_raw'', ''amountYRaw''] JNull)
       (AList.update ''amount_x_raw'' (first_of source [''amount_x_raw'', ''amountXRaw''] JNull)
         (AList.update ''bin_id'' (first_of source [''bin_id'', ''binId'', ''activeBin''] JNull) source))"

text \<open>
  Iterating what \<open>bins\<close> holds: the dicts of a list become rows and the rest is skipped; the
  items of a string or the keys of a dict are strings, so they are skipped too.
\<close>

definition bin_rows :: "json \<Rightarrow> py_error + json list" where
  "bin_rows v =
     (case v of
        JArr xs \<Rightarrow> Inr (concat (map (\<lambda>x. case x of JObj d \<Rightarrow> [JObj (bin_row d)] | _ \<Rightarrow> []) xs))
      | JStr _ \<Rightarrow> Inr []
      | JObj _ \<Rightarrow> Inr []
      | _ \<Rightarrow> Inl TypeError)"

definition position_data :: "'w externals_gw \<Rightarrow> gateway_config \<Rightarrow> json \<Rightarrow> dict \<Rightarrow> py_error + json" where
  "position_data X cfg pos raw =
     (let fee_x_raw = first_of raw [''claimable_fee_x_raw'', ''claimableFeeXRaw'', ''feeXRaw''] JNull;
          fee_y_raw = first_of raw [''claimable_fee_y_raw'', ''claimableFeeYRaw'', ''feeYRaw''] JNull;
          num = (\<lambda>v. to_float (xg_float X) (or_else v (JNum 0)))
      in
      case scaled_fee X (gc_base_decimals cfg) (first_of raw [''claimable_fee_x'', ''claimableFeeX''] JNull) fee_x_raw of
        Inl e \<Rightarrow> Inl e | Inr fee_x \<Rightarrow>
      case scaled_fee X (gc_quote_decimals cfg) (first_of raw [''claimable_fee_y'', ''claimableFeeY''] JNull) fee_y_raw of
        Inl e \<Rightarrow> Inl e | Inr fee_y \<Rightarrow>
      case bin_rows (or_else (get_or (get_or (JArr []) ''positions'' raw) ''bins'' raw) (JArr [])) of
        Inl e \<Rightarrow> Inl e | Inr rows \<Rightarrow>
      case num fee_x of Inl e \<Rightarrow> Inl e | Inr fx \<Rightarrow>
      case num fee_y of Inl e \<Rightarrow> Inl e | Inr fy \<Rightarrow>
      case num (first_of raw [''baseTokenAmount'', ''baseAmount''] (JNum 0)) of Inl e \<Rightarrow> Inl e | Inr base \<Rightarrow>
      case num (first_of raw [''quoteTokenAmount'', ''quoteAmount''] (JNum 0)) of Inl e \<Rightarrow> Inl e | Inr quot \<Rightarrow>
        Inr (JObj
          [(''raw'', JObj raw), (''position_id'', pos),
           (''active_bin'', first_of raw [''active_bin'', ''activeBinId'', ''activeBin''] JNull),
           (''bins'', JArr rows), (''claimable_fee_x_raw'', fee_x_raw), (''claimable_fee_y_raw'', fee_y_raw),
           (''claimable_fee_x'', JNum fx), (''claimable_fee_y'', JNum fy),
           (''base_amount'', JNum base), (''quote_amount'', JNum quot)]))"

definition get_position ::
  "'w externals_gw \<Rightarrow> gateway_config \<Rightarrow> json \<Rightarrow> 'w gateway \<Rightarrow> ('w, exec_result) gw_step" where
  "get_position X cfg pos g =
     gw_bind (gw_get X cfg (clmm ''/position-info'') [(''positionAddress'', pos)] g)
       (\<lambda>r g. case er_data r of
                JObj raw \<Rightarrow>
                  if \<not> er_ok r then (g, Inr r)
                  else (case position_data X cfg pos raw of
                          Inl e \<Rightarrow> (g, Inl e)
                        | Inr data \<Rightarrow> (g, Inr (r\<lparr>er_data := data, er_position := pos\<rparr>)))
              | _ \<Rightarrow> (g, Inr r))"

section \<open>The state of a pool\<close>

text \<open>\<open>float(d.get(key, dflt) or dflt)\<close> on a result's data, which must be a dict.\<close>

definition number_field :: "'w externals_gw \<Rightarrow> string \<Rightarrow> dict \<Rightarrow> py_error + real" where
  "number_field X key d = to_float (xg_float X) (or_else (get_or (JNum 0) key d) (JNum 0))"

definition pool_state :: "json \<Rightarrow> real \<Rightarrow> real \<Rightarrow> real \<Rightarrow> real \<Rightarrow> real \<Rightarrow> json" where
  "pool_state active price base_amt quote_amt held_base held_quote =
     JObj [(''active_bin'', active), (''price'', JNum price),
           (''tvl_usd'', JNum (base_amt * price + quote_amt)),
           (''balances'', JObj [(''base'', JNum held_base), (''quote'', JNum held_quote)])]"

text \<open>The balances of the stored position: zero without one, or when it cannot be read.\<close>

definition held_balances ::
  "'w externals_gw \<Rightarrow> gateway_config \<Rightarrow> string \<Rightarrow> 'w gateway \<Rightarrow> ('w, real \<times> real) gw_step" where
  "held_balances X cfg pool g =
     (case map_of (gw_positions g) pool of
        None \<Rightarrow> (g, Inr (0, 0))
      | Some pos \<Rightarrow>
          if \<not> truthy_json pos then (g, Inr (0, 0))
          else gw_bind (get_position X cfg pos g)
            (\<lambda>r g. if \<not> er_ok r \<or> \<not> truthy_json (er_data r) then (g, Inr (0, 0))
                   else case er_data r of
                          JObj d \<Rightarrow>
                            (case to_float (xg_float X) (get_or (JNum 0) ''base_amount'' d) of
                               Inl e \<Rightarrow> (g, Inl e)
                             | Inr b \<Rightarrow>
                                 (case to_float (xg_float X) (get_or (JNum 0) ''quote_amount'' d) of
                                    Inl e \<Rightarrow> (g, Inl e)
                                  | Inr q \<Rightarrow> (g, Inr (b, q))))
                        | _ \<Rightarrow> (g, Inl (OtherError ''AttributeError''))))"

definition get_state ::
  "'w externals_gw \<Rightarrow> gateway_config \<Rightarrow> string \<Rightarrow> 'w gateway \<Rightarrow> ('w, exec_result) gw_step" where
  "get_state X cfg pool g =
     gw_bind (gw_get X cfg (clmm ''/pool-info'') [(''poolAddress'', JStr pool)] g)
       (\<lambda>r g.
          if \<not> er_ok r then (g, Inr r)
          else case er_data r of
                 JObj d \<Rightarrow>
                   (case number_field X ''price'' d of Inl e \<Rightarrow> (g, Inl e) | Inr price \<Rightarrow>
                    case number_field X ''baseTokenAmount'' d of Inl e \<Rightarrow> (g, Inl e) | Inr base_amt \<Rightarrow>
                    case number_field X ''quoteTokenAmount'' d of Inl e \<Rightarrow> (g, Inl e) | Inr quote_amt \<Rightarrow>
                      gw_bind (held_balances X cfg pool g)
                        (\<lambda>(b, q) g. (g, Inr (plain_result True None
                           (pool_state (get_or (get_or (JNum 0) ''activeBin'' d) ''activeBinId'' d)
                              price base_amt quote_amt b q)))))
               | _ \<Rightarrow> (g, Inl (OtherError ''AttributeError'')))"

section \<open>Deposits\<close>

record deposit =
  dp_pool :: string
  dp_side :: string
  dp_bins :: "int list"
  dp_amounts :: "real list"
  dp_strategy :: string
  dp_expected :: int
  dp_slippage :: int

definition strategy_int :: "string \<Rightarrow> real" where
  "strategy_int s = (if s = ''Curve'' then 1 else if s = ''BidAsk'' then 2 else 0)"

definition crosses :: "string \<Rightarrow> int list \<Rightarrow> int \<Rightarrow> bool" where
  "crosses side bins active =
     (side = ''bid'' \<and> list_ex (\<lambda>b. active \<le> b) bins \<or> side = ''ask'' \<and> list_ex (\<lambda>b. b < active) bins)"

definition remaining_tolerance :: "deposit \<Rightarrow> anchor \<Rightarrow> int" where
  "remaining_tolerance dp a = dp_slippage dp - \<bar>an_active a - dp_expected dp\<bar>"

definition deposit_body :: "deposit \<Rightarrow> anchor \<Rightarrow> real \<Rightarrow> real \<Rightarrow> dict" where
  "deposit_body dp a lower upper =
     (let total_amount = sum_list (dp_amounts dp) in
      [(''poolAddress'', JStr (dp_pool dp)), (''lowerPrice'', JNum lower), (''upperPrice'', JNum upper),
       (''baseTokenAmount'', JNum (if dp_side dp = ''ask'' then total_amount else 0)),
       (''quoteTokenAmount'', JNum (if dp_side dp = ''bid'' then total_amount else 0)),
       (''strategyType'', JNum (strategy_int (dp_strategy dp))),
       (''slippagePct'', JNum (of_int (remaining_tolerance dp a) * of_int (an_step_bps a) / 100))])"

text \<open>Open a position, or add to the stored one.\<close>

definition send_deposit ::
  "'w externals_gw \<Rightarrow> gateway_config \<Rightarrow> string \<Rightarrow> dict \<Rightarrow> 'w gateway \<Rightarrow> ('w, exec_result) gw_step" where
  "send_deposit X cfg pool body g =
     (case map_of (gw_positions g) pool of
        Some pos \<Rightarrow>
          if truthy_json pos then gw_post X cfg (clmm ''/add-liquidity'') (AList.update ''positionAddress'' pos body) g
          else gw_post X cfg (clmm ''/open-position'') body g
      | None \<Rightarrow> gw_post X cfg (clmm ''/open-position'') body g)"

definition adopt_position :: "string \<Rightarrow> exec_result \<Rightarrow> 'w gateway \<Rightarrow> ('w, exec_result) gw_step" where
  "adopt_position pool r g =
     (if \<not> (er_ok r \<and> truthy_json (er_data r)) then (g, Inr r)
      else case er_data r of
             JObj d \<Rightarrow>
               let addr = get_or (get_key ''position_id'' d) ''positionAddress'' d in
               if truthy_json addr then
                 (g\<lparr>gw_positions := AList.update pool addr (gw_positions g)\<rparr>,
                  Inr (r\<lparr>er_data := JObj (AList.update ''position_id'' addr d)\<rparr>))
               else (g, Inr r)
           | _ \<Rightarrow> (g, Inl (OtherError ''AttributeError'')))"

definition deposit_at ::
  "'w externals_gw \<Rightarrow> gateway_config \<Rightarrow> deposit \<Rightarrow> anchor \<Rightarrow> 'w gateway \<Rightarrow> ('w, exec_result) gw_step" where
  "deposit_at X cfg dp a g =
     (if dp_slippage dp < \<bar>an_active a - dp_expected dp\<bar> then (g, Inr (failed (Text ''active_bin_slippage_exceeded'')))
      else if remaining_tolerance dp a = 0 then (g, Inr (failed (Text ''policy_rejected'')))
      else if crosses (dp_side dp) (dp_bins dp) (dp_expected dp) \<or> crosses (dp_side dp) (dp_bins dp) (an_active a)
      then (g, Inr (failed (Text ''bins_cross_active'')))
      else if dp_bins dp = [] then (g, Inl ValueError)
      else case price_of a (Min (set (dp_bins dp))) of Inl e \<Rightarrow> (g, Inl e) | Inr lower \<Rightarrow>
           case price_of a (Max (set (dp_bins dp))) of Inl e \<Rightarrow> (g, Inl e) | Inr upper \<Rightarrow>
             gw_bind (send_deposit X cfg (dp_pool dp) (deposit_body dp a lower upper) g)
               (adopt_position (dp_pool dp)))"

definition deposit_single_sided ::
  "'w externals_gw \<Rightarrow> gateway_config \<Rightarrow> deposit \<Rightarrow> 'w gateway \<Rightarrow> ('w, exec_result) gw_step" where
  "deposit_single_sided X cfg dp g =
     (if dp_slippage dp < 0 then (g, Inr (failed (Text ''bad_request'')))
      else if dp_slippage dp = 0 then (g, Inr (failed (Text ''policy_rejected'')))
      else if gc_max_slippage_bins cfg < dp_slippage dp then (g, Inr (failed (Text ''policy_rejected'')))
      else gw_bind (bin_price_fn X cfg (dp_pool dp) g)
             (\<lambda>anchor g. case anchor of Inl r \<Rightarrow> (g, Inr r) | Inr a \<Rightarrow> deposit_at X cfg dp a g))"

section \<open>Withdrawals and swaps\<close>

definition withdraw ::
  "'w externals_gw \<Rightarrow> gateway_config \<Rightarrow> json \<Rightarrow> real \<Rightarrow> 'w gateway \<Rightarrow> ('w, exec_result) gw_step" where
  "withdraw X cfg pos percent g =
     (if 100 \<le> percent then
        gw_bind (gw_post X cfg (clmm ''/close-position'') [(''positionAddress'', pos)] g)
          (\<lambda>r g. (g\<lparr>gw_positions := filter (\<lambda>(k, v). v \<noteq> pos) (gw_positions g)\<rparr>, Inr r))
      else gw_post X cfg (clmm ''/remove-liquidity'')
             [(''positionAddress'', pos), (''liquidityPct'', JNum percent)] g)"

definition swap_tokens ::
  "'w externals_gw \<Rightarrow> gateway_config \<Rightarrow> string \<Rightarrow> string \<Rightarrow> real \<Rightarrow> string option \<Rightarrow> real \<Rightarrow> 'w gateway
     \<Rightarrow> ('w, exec_result) gw_step" where
  "swap_tokens X cfg in_mint out_mint amount pool slippage_bps g =
     gw_post X cfg (clmm ''/execute-swap'')
       ([(''baseToken'', JStr in_mint), (''quoteToken'', JStr out_mint), (''amount'', JNum amount),
         (''side'', JStr ''SELL''), (''slippagePct'', JNum (slippage_bps / 100))]
        @ (case pool of Some p \<Rightarrow> if p = '''' then [] else [(''poolAddress'', JStr p)] | None \<Rightarrow> [])) g"

section \<open>Refreshing a position\<close>

text \<open>
  The two specs are dicts; a field that may be missing is an option.  The pool of a swap may be
  missing (the deposit's pool is the dflt) or present and None.
\<close>

record swap_spec =
  sw_in :: "string option"
  sw_out :: "string option"
  sw_amount :: "real option"
  sw_pool :: "string option option"
  sw_slippage :: "real option"

record deposit_spec =
  ds_pool :: "string option"
  ds_bid_bins :: "int list"
  ds_bid_amounts :: "real list"
  ds_ask_bins :: "int list"
  ds_ask_amounts :: "real list"
  ds_expected :: "int option"
  ds_slippage :: "int option"

definition ladder :: "string \<Rightarrow> string \<Rightarrow> int list \<Rightarrow> real list \<Rightarrow> int \<Rightarrow> int \<Rightarrow> deposit" where
  "ladder pool side bins amounts expected slippage =
     \<lparr>dp_pool = pool, dp_side = side, dp_bins = bins, dp_amounts = amounts, dp_strategy = ''Spot'',
      dp_expected = expected, dp_slippage = slippage\<rparr>"

text \<open>Fields are read in the order of the call's arguments; the first one missing raises.\<close>

definition refresh_swap ::
  "'w externals_gw \<Rightarrow> gateway_config \<Rightarrow> swap_spec option \<Rightarrow> deposit_spec \<Rightarrow> 'w gateway
     \<Rightarrow> ('w, exec_result list) gw_step" where
  "refresh_swap X cfg sw ds g =
     (case sw of
        None \<Rightarrow> (g, Inr [])
      | Some s \<Rightarrow>
          (case (sw_in s, sw_out s, sw_amount s, ds_pool ds) of
             (Some i, Some out, Some amount, Some pool) \<Rightarrow>
               gw_bind (swap_tokens X cfg i out amount (case sw_pool s of Some p \<Rightarrow> p | None \<Rightarrow> Some pool)
                          (case sw_slippage s of Some b \<Rightarrow> b | None \<Rightarrow> 50) g)
                 (\<lambda>r g. (g, Inr [r]))
           | _ \<Rightarrow> (g, Inl KeyError)))"

text \<open>One ladder of the refresh: skipped without bins; a failed deposit ends the refresh.\<close>

definition refresh_leg ::
  "'w externals_gw \<Rightarrow> gateway_config \<Rightarrow> deposit \<Rightarrow> 'w gateway \<Rightarrow> ('w, exec_result + exec_result list) gw_step" where
  "refresh_leg X cfg dp g =
     (if dp_bins dp = [] then (g, Inr (Inr []))
      else gw_bind (deposit_single_sided X cfg dp g)
        (\<lambda>r g. (g, Inr (if er_ok r then Inr [r]
                        else Inl (failed (Prefixed (''refresh_bundle: '' @ dp_side dp @ '' deposit failed'') (er_error r)))))))"

fun fee_total :: "'w externals_gw \<Rightarrow> dict list \<Rightarrow> py_error + int" where
  "fee_total X [] = Inr 0"
| "fee_total X (r # rs) =
     (if get_key ''fee_lamports'' r = JNull then fee_total X rs
      else case to_int (xg_int X) (get_key ''fee_lamports'' r) of
             Inl e \<Rightarrow> Inl e
           | Inr f \<Rightarrow> (case fee_total X rs of Inl e \<Rightarrow> Inl e | Inr t \<Rightarrow> Inr (f + t)))"

definition refresh_result ::
  "'w externals_gw \<Rightarrow> string \<Rightarrow> exec_result list \<Rightarrow> 'w gateway \<Rightarrow> ('w, exec_result) gw_step" where
  "refresh_result X pool steps g =
     (let receipts = concat (map er_receipts steps);
          pos = (case map_of (gw_positions g) pool of Some p \<Rightarrow> p | None \<Rightarrow> JNull);
          last_field = (\<lambda>k. if receipts = [] then JNull else get_key k (last receipts))
      in case fee_total X receipts of
           Inl e \<Rightarrow> (g, Inl e)
         | Inr fee \<Rightarrow>
             (g, Inr \<lparr>er_ok = True, er_error = None,
                      er_data = JObj [(''steps'', JArr (map er_data steps)), (''position_id'', pos)],
                      er_position = pos, er_signatures = concat (map er_signatures steps),
                      er_receipts = receipts, er_slot = last_field ''slot'',
                      er_block_time = last_field ''block_time'',
                      er_fee = (if list_ex (\<lambda>r. get_key ''fee_lamports'' r \<noteq> JNull) receipts then Some fee else None)\<rparr>))"

definition redeposit ::
  "'w externals_gw \<Rightarrow> gateway_config \<Rightarrow> deposit_spec \<Rightarrow> exec_result list \<Rightarrow> 'w gateway \<Rightarrow> ('w, exec_result) gw_step" where
  "redeposit X cfg ds steps g =
     (case (ds_pool ds, ds_expected ds, ds_slippage ds) of
        (Some pool, Some expected, Some slippage) \<Rightarrow>
          gw_bind (refresh_leg X cfg (ladder pool ''bid'' (ds_bid_bins ds) (ds_bid_amounts ds) expected slippage) g)
            (\<lambda>bid g. case bid of Inl r \<Rightarrow> (g, Inr r) | Inr b \<Rightarrow>
               gw_bind (refresh_leg X cfg (ladder pool ''ask'' (ds_ask_bins ds) (ds_ask_amounts ds) expected slippage) g)
                 (\<lambda>ask g. case ask of Inl r \<Rightarrow> (g, Inr r) | Inr a \<Rightarrow>
                    refresh_result X pool (steps @ b @ a) g))
      | _ \<Rightarrow> (g, Inl KeyError))"

definition refresh_bundle ::
  "'w externals_gw \<Rightarrow> gateway_config \<Rightarrow> json \<Rightarrow> swap_spec option \<Rightarrow> deposit_spec \<Rightarrow> 'w gateway
     \<Rightarrow> ('w, exec_result) gw_step" where
  "refresh_bundle X cfg pos sw ds g =
     gw_bind (withdraw X cfg pos 100 g)
       (\<lambda>wr g. if \<not> er_ok wr then (g, Inr (failed (Prefixed ''refresh_bundle: withdraw failed'' (er_error wr))))
               else gw_bind (refresh_swap X cfg sw ds g)
                      (\<lambda>swaps g. redeposit X cfg ds (wr # swaps) g))"

end
