(* ===== verification/GatewayBridgeProperties.thy ===== *)
theory GatewayBridgeProperties imports GatewayBridge begin

text \<open>
  What the Gateway bridge guarantees about the requests it sends and the positions it remembers.
\<close>

section \<open>One request\<close>

lemma gw_bind_cases:
  assumes "gw_bind m f = (g', res)"
  obtains (stopped) e where "m = (g', Inl e)" "res = Inl e"
    | (went_on) g1 x where "m = (g1, Inr x)" "f x g1 = (g', res)"
  using assms by (cases m; cases "snd m") (auto simp: gw_bind_def)

lemma gw_bind_ok [simp]: "gw_bind (g, Inr x) f = f x g"
  by (simp add: gw_bind_def)

lemma gw_bind_error [simp]: "gw_bind (g, Inl e) f = (g, Inl e)"
  by (simp add: gw_bind_def)

lemma gw_request_effect:
  assumes "gw_request X meth path body g = (g', res)"
  shows "gw_positions g' = gw_positions g" "gw_open g' = gw_open g"
    "gw_log g' = (if gw_open g then [\<lparr>rq_method = meth, rq_path = path, rq_body = body\<rparr>] else []) @ gw_log g"
  using assms by (auto simp: gw_request_def Let_def split: prod.splits if_splits http_outcome.splits)

lemma gw_request_open:
  "gw_request X meth path body g = (g', Inr r) \<Longrightarrow> gw_open g"
  by (auto simp: gw_request_def split: if_splits)

definition get_rq :: "gateway_config \<Rightarrow> string \<Rightarrow> dict \<Rightarrow> request" where
  "get_rq cfg path params =
     \<lparr>rq_method = GET, rq_path = path, rq_body = merge_dicts [(''network'', JStr (gc_network cfg))] params\<rparr>"

definition post_rq :: "gateway_config \<Rightarrow> string \<Rightarrow> dict \<Rightarrow> request" where
  "post_rq cfg path body =
     \<lparr>rq_method = POST, rq_path = path,
      rq_body = merge_dicts [(''network'', JStr (gc_network cfg)), (''walletAddress'', JStr (gc_wallet cfg))] body\<rparr>"

lemma get_rq_method [simp]: "rq_method (get_rq cfg path params) = GET" "rq_path (get_rq cfg path params) = path"
  by (simp_all add: get_rq_def)

lemma post_rq_method [simp]: "rq_method (post_rq cfg path params) = POST" "rq_path (post_rq cfg path params) = path"
  by (simp_all add: post_rq_def)

lemma gw_get_effect:
  assumes "gw_get X cfg path params g = (g', res)"
  shows "gw_positions g' = gw_positions g \<and> gw_open g' = gw_open g
    \<and> gw_log g' = (if gw_open g then [get_rq cfg path params] else []) @ gw_log g"
  using assms gw_request_effect[OF assms[unfolded gw_get_def]] by (simp_all add: get_rq_def)

lemma gw_post_effect:
  assumes "gw_post X cfg path body g = (g', res)"
  shows "gw_positions g' = gw_positions g \<and> gw_open g' = gw_open g
    \<and> gw_log g' = (if gw_open g then [post_rq cfg path body] else []) @ gw_log g"
  using assms gw_request_effect[OF assms[unfolded gw_post_def]] by (simp_all add: post_rq_def)

section \<open>What a deposit sends\<close>

definition writes :: "'w gateway \<Rightarrow> request list" where
  "writes g = filter (\<lambda>r. rq_method r = POST) (gw_log g)"

lemma bin_price_fn_effect:
  assumes "bin_price_fn X cfg pool g = (g', res)"
  shows "gw_positions g' = gw_positions g" "gw_open g' = gw_open g"
    "gw_log g' = (if gw_open g then [get_rq cfg (clmm ''/pool-info'') [(''poolAddress'', JStr pool)]] else []) @ gw_log g"
  using assms unfolding bin_price_fn_def
  by (auto elim!: gw_bind_cases dest!: gw_get_effect split: if_splits sum.splits)

lemma adopt_effect:
  assumes "adopt_position pool r g = (g', res)"
  shows "gw_open g' = gw_open g" "gw_log g' = gw_log g"
    "gw_positions g' = gw_positions g \<or> (\<exists>addr. truthy_json addr \<and> gw_positions g' = AList.update pool addr (gw_positions g))"
  using assms unfolding adopt_position_def
  by (auto simp: Let_def split: if_splits json.splits)

lemma send_deposit_effect:
  assumes "send_deposit X cfg pool body g = (g', res)" "gw_open g"
  shows "gw_positions g' = gw_positions g" "gw_open g'"
    "gw_log g' = (case map_of (gw_positions g) pool of
        Some pos \<Rightarrow> if truthy_json pos then post_rq cfg (clmm ''/add-liquidity'') (AList.update ''positionAddress'' pos body)
                    else post_rq cfg (clmm ''/open-position'') body
      | None \<Rightarrow> post_rq cfg (clmm ''/open-position'') body) # gw_log g"
  using assms unfolding send_deposit_def
  by (auto dest!: gw_post_effect split: option.splits if_splits)

text \<open>Where a deposit writes to.\<close>

definition deposit_rq :: "gateway_config \<Rightarrow> (string \<times> json) list \<Rightarrow> string \<Rightarrow> dict \<Rightarrow> request" where
  "deposit_rq cfg positions pool body =
     (case map_of positions pool of
        Some pos \<Rightarrow> if truthy_json pos then post_rq cfg (clmm ''/add-liquidity'') (AList.update ''positionAddress'' pos body)
                    else post_rq cfg (clmm ''/open-position'') body
      | None \<Rightarrow> post_rq cfg (clmm ''/open-position'') body)"

lemma deposit_rq_method [simp]: "rq_method (deposit_rq cfg positions pool body) = POST"
  by (simp add: deposit_rq_def split: option.split)

lemma deposit_at_effect:
  assumes "deposit_at X cfg dp a g = (g', res)" "gw_open g" "gw_log g' \<noteq> gw_log g"
  shows "\<bar>an_active a - dp_expected dp\<bar> < dp_slippage dp"
    "\<not> crosses (dp_side dp) (dp_bins dp) (dp_expected dp)" "\<not> crosses (dp_side dp) (dp_bins dp) (an_active a)"
    "\<exists>lower upper. price_of a (Min (set (dp_bins dp))) = Inr lower \<and> price_of a (Max (set (dp_bins dp))) = Inr upper
       \<and> gw_log g' = deposit_rq cfg (gw_positions g) (dp_pool dp) (deposit_body dp a lower upper) # gw_log g"
proof -
  obtain lower upper where ok: "\<not> dp_slippage dp < \<bar>an_active a - dp_expected dp\<bar>" "remaining_tolerance dp a \<noteq> 0"
      "\<not> crosses (dp_side dp) (dp_bins dp) (dp_expected dp)" "\<not> crosses (dp_side dp) (dp_bins dp) (an_active a)"
      "price_of a (Min (set (dp_bins dp))) = Inr lower" "price_of a (Max (set (dp_bins dp))) = Inr upper"
      "gw_bind (send_deposit X cfg (dp_pool dp) (deposit_body dp a lower upper) g) (adopt_position (dp_pool dp)) = (g', res)"
    using assms(1,3) unfolding deposit_at_def by (auto split: if_splits sum.splits)
  from ok show "\<bar>an_active a - dp_expected dp\<bar> < dp_slippage dp" by (simp add: remaining_tolerance_def)
  from ok show "\<not> crosses (dp_side dp) (dp_bins dp) (dp_expected dp)"
    "\<not> crosses (dp_side dp) (dp_bins dp) (an_active a)" by simp_all
  have "gw_log g' = deposit_rq cfg (gw_positions g) (dp_pool dp) (deposit_body dp a lower upper) # gw_log g"
    using ok(7)
  proof (cases rule: gw_bind_cases)
    case (stopped e)
    then show ?thesis using send_deposit_effect(3)[OF stopped(1) assms(2)] by (simp add: deposit_rq_def)
  next
    case (went_on g1 r)
    then show ?thesis
      using send_deposit_effect(3)[OF went_on(1) assms(2)] adopt_effect(2)[OF went_on(2)] by (simp add: deposit_rq_def)
  qed
  with ok(5,6) show "\<exists>lower upper. price_of a (Min (set (dp_bins dp))) = Inr lower
       \<and> price_of a (Max (set (dp_bins dp))) = Inr upper
       \<and> gw_log g' = deposit_rq cfg (gw_positions g) (dp_pool dp) (deposit_body dp a lower upper) # gw_log g"
    by blast
qed

text \<open>A deposit that writes read the pool first, in the same call.\<close>

lemma deposit_write_cases:
  assumes "deposit_single_sided X cfg dp g = (g', res)" "writes g' \<noteq> writes g"
  obtains g1 a where "bin_price_fn X cfg (dp_pool dp) g = (g1, Inr (Inr a))" "deposit_at X cfg dp a g1 = (g', res)"
    "0 < dp_slippage dp" "dp_slippage dp \<le> gc_max_slippage_bins cfg" "gw_open g1" "gw_log g' \<noteq> gw_log g1"
    "gw_positions g1 = gw_positions g"
    "gw_log g1 = get_rq cfg (clmm ''/pool-info'') [(''poolAddress'', JStr (dp_pool dp))] # gw_log g"
proof -
  have quiet: "writes h = writes g" if "bin_price_fn X cfg (dp_pool dp) g = (h, r)" for h r
    using bin_price_fn_effect(3)[OF that] by (simp add: writes_def)
  have s: "0 < dp_slippage dp" "dp_slippage dp \<le> gc_max_slippage_bins cfg"
      "gw_bind (bin_price_fn X cfg (dp_pool dp) g)
             (\<lambda>anchor g. case anchor of Inl r \<Rightarrow> (g, Inr r) | Inr a \<Rightarrow> deposit_at X cfg dp a g) = (g', res)"
    using assms unfolding deposit_single_sided_def by (auto split: if_splits)
  from s(3) show ?thesis
  proof (cases rule: gw_bind_cases)
    case (stopped e)
    with quiet assms(2) show ?thesis by auto
  next
    case (went_on g1 x)
    then obtain a where a: "x = Inr a" "deposit_at X cfg dp a g1 = (g', res)"
      using quiet assms(2) by (cases x) auto
    have "gw_open g"
      using went_on(1) by (auto simp: bin_price_fn_def gw_get_def elim!: gw_bind_cases dest!: gw_request_open split: if_splits sum.splits)
    note eff = bin_price_fn_effect[OF went_on(1)]
    have "gw_log g' \<noteq> gw_log g1" using quiet[OF went_on(1)] assms(2) by (auto simp: writes_def)
    with that went_on(1) a s(1,2) eff \<open>gw_open g\<close> show ?thesis by simp
  qed
qed

lemma post_rq_field:
  "distinct (map fst body) \<Longrightarrow> map_of body k = Some v \<Longrightarrow> get_key k (rq_body (post_rq cfg path body)) = v"
  by (simp add: post_rq_def get_or_def map_of_merge)

lemma deposit_body_keys: "distinct (map fst (deposit_body dp a lower upper))"
  by (simp add: deposit_body_def Let_def)

lemma deposit_rq_field:
  assumes "map_of (deposit_body dp a lower upper) k = Some v" "k \<noteq> ''positionAddress''"
  shows "get_key k (rq_body (deposit_rq cfg positions pool (deposit_body dp a lower upper))) = v"
  using assms deposit_body_keys[of dp a lower upper]
  by (auto simp: deposit_rq_def post_rq_field distinct_keys_update split: option.split)

text \<open>
  C21: A deposit writes to the Gateway at most once, after reading the pool in the same call, and
  only inside the declared tolerance: the tolerance is positive and within the configured cap,
  the ladder crosses neither the expected nor the current active bin, and the slippage sent is
  the part of the tolerance that the drift since the decision has left, at least one bin, so
  that any active bin within what was sent is within the tolerance of the expected one.
\<close>

theorem deposit_writes_inside_the_tolerance:
  assumes "deposit_single_sided X cfg dp g = (g', res)" "writes g' \<noteq> writes g"
  shows "\<exists>g1 a w. bin_price_fn X cfg (dp_pool dp) g = (g1, Inr (Inr a))
    \<and> writes g' = w # writes g
    \<and> dp_slippage dp \<le> gc_max_slippage_bins cfg
    \<and> \<not> crosses (dp_side dp) (dp_bins dp) (dp_expected dp)
    \<and> \<not> crosses (dp_side dp) (dp_bins dp) (an_active a)
    \<and> get_key ''slippagePct'' (rq_body w) = JNum (of_int (remaining_tolerance dp a) * of_int (an_step_bps a) / 100)
    \<and> 1 \<le> remaining_tolerance dp a
    \<and> (\<forall>active. \<bar>active - an_active a\<bar> \<le> remaining_tolerance dp a \<longrightarrow> \<bar>active - dp_expected dp\<bar> \<le> dp_slippage dp)"
  using assms
proof (cases rule: deposit_write_cases)
  case (1 g1 a)
  from deposit_at_effect[OF 1(2,5,6)] obtain lower upper where e:
    "\<bar>an_active a - dp_expected dp\<bar> < dp_slippage dp"
    "\<not> crosses (dp_side dp) (dp_bins dp) (dp_expected dp)" "\<not> crosses (dp_side dp) (dp_bins dp) (an_active a)"
    "gw_log g' = deposit_rq cfg (gw_positions g1) (dp_pool dp) (deposit_body dp a lower upper) # gw_log g1" by blast
  let ?w = "deposit_rq cfg (gw_positions g1) (dp_pool dp) (deposit_body dp a lower upper)"
  have "writes g' = ?w # writes g" using e(4) 1(8) by (simp add: writes_def)
  moreover have "get_key ''slippagePct'' (rq_body ?w) =
      JNum (of_int (remaining_tolerance dp a) * of_int (an_step_bps a) / 100)"
    by (rule deposit_rq_field) (simp_all add: deposit_body_def Let_def)
  moreover have "1 \<le> remaining_tolerance dp a" using e(1) by (simp add: remaining_tolerance_def)
  moreover have "\<bar>active - dp_expected dp\<bar> \<le> dp_slippage dp"
    if "\<bar>active - an_active a\<bar> \<le> remaining_tolerance dp a" for active
    using that by (simp add: remaining_tolerance_def abs_if split: if_splits)
  ultimately show ?thesis using 1(1,4) e(2,3) by blast
qed


section \<open>Relations every operation respects\<close>

text \<open>
  A reflexive and transitive relation that a request, storing an address and forgetting an
  address respect is respected by every operation of the bridge.
\<close>

locale gateway_reads =
  fixes R :: "'w gateway \<Rightarrow> 'w gateway \<Rightarrow> bool"
  assumes R_refl: "R g g"
    and R_trans: "R g h \<Longrightarrow> R h k \<Longrightarrow> R g k"
    and R_read: "R g (fst (gw_request X GET path body g))"
begin

lemma bind_R:
  assumes "R g (fst m)" "\<And>x g1. R g1 (fst (f x g1))"
  shows "R g (fst (gw_bind m f))"
proof -
  obtain g1 r where m: "m = (g1, r)" by (cases m)
  show ?thesis
  proof (cases r)
    case (Inr x)
    then show ?thesis using assms(1) assms(2)[of g1 x] m R_trans by simp
  qed (use assms(1) m in simp)
qed

lemma get_R: "R g (fst (gw_get X cfg path params g))"
  by (simp add: gw_get_def R_read)

lemma bin_price_fn_R: "R g (fst (bin_price_fn X cfg pool g))"
  unfolding bin_price_fn_def by (rule bind_R) (auto simp: R_refl get_R split: sum.split)

lemma get_position_R: "R g (fst (get_position X cfg pos g))"
  unfolding get_position_def by (rule bind_R) (auto simp: R_refl get_R split: json.split sum.split)

lemma held_balances_R: "R g (fst (held_balances X cfg pool g))"
proof -
  have "R g (fst (gw_bind (get_position X cfg pos g)
      (\<lambda>r g. if \<not> er_ok r \<or> \<not> truthy_json (er_data r) then (g, Inr (0, 0))
             else case er_data r of
                    JObj d \<Rightarrow>
                      (case to_float (xg_float X) (get_or (JNum 0) ''base_amount'' d) of
                         Inl e \<Rightarrow> (g, Inl e)
                       | Inr b \<Rightarrow>
                           (case to_float (xg_float X) (get_or (JNum 0) ''quote_amount'' d) of
                              Inl e \<Rightarrow> (g, Inl e)
                            | Inr q \<Rightarrow> (g, Inr (b, q))))
                  | _ \<Rightarrow> (g, Inl (OtherError ''AttributeError'')))))" for pos
    by (rule bind_R[OF get_position_R]) (auto simp: R_refl split: json.split sum.split)
  then show ?thesis by (auto simp: held_balances_def R_refl split: option.split)
qed

lemma get_state_R: "R g (fst (get_state X cfg pool g))"
  unfolding get_state_def
proof (rule bind_R[OF get_R], goal_cases)
  case (1 r g1)
  have "R g1 (fst (gw_bind (held_balances X cfg pool g1) (\<lambda>(b, q) g. (g, f b q))))" for f :: "real \<Rightarrow> real \<Rightarrow> py_error + exec_result"
    by (rule bind_R[OF held_balances_R]) (auto simp: R_refl split: prod.split)
  then show ?case by (auto simp: R_refl split: json.split sum.split)
qed

end

locale gateway_relation = gateway_reads +
  assumes R_write: "R g (fst (gw_request X POST path body g))"
    and R_adopt: "truthy_json addr \<Longrightarrow> R g (g\<lparr>gw_positions := AList.update pool addr (gw_positions g)\<rparr>)"
    and R_forget: "R g (g\<lparr>gw_positions := filter (\<lambda>(k, v). v \<noteq> pos) (gw_positions g)\<rparr>)"
begin

lemma post_R: "R g (fst (gw_post X cfg path body g))"
  by (simp add: gw_post_def R_write)

lemma send_deposit_R: "R g (fst (send_deposit X cfg pool body g))"
  by (auto simp: send_deposit_def post_R split: option.split)

lemma adopt_R: "R g (fst (adopt_position pool r g))"
  by (auto simp: adopt_position_def R_refl R_adopt Let_def split: json.split)

lemma deposit_at_R: "R g (fst (deposit_at X cfg dp a g))"
  using bind_R[OF send_deposit_R adopt_R] by (auto simp: deposit_at_def R_refl split: sum.split)

lemma deposit_R: "R g (fst (deposit_single_sided X cfg dp g))"
proof -
  have "R g (fst (gw_bind (bin_price_fn X cfg (dp_pool dp) g)
      (\<lambda>anchor g. case anchor of Inl r \<Rightarrow> (g, Inr r) | Inr a \<Rightarrow> deposit_at X cfg dp a g)))"
    by (rule bind_R[OF bin_price_fn_R]) (auto simp: R_refl deposit_at_R split: sum.split)
  then show ?thesis by (simp add: deposit_single_sided_def R_refl)
qed

lemma withdraw_R: "R g (fst (withdraw X cfg pos percent g))"
proof -
  have "R g (fst (gw_bind (gw_post X cfg (clmm ''/close-position'') [(''positionAddress'', pos)] g)
      (\<lambda>r g. (g\<lparr>gw_positions := filter (\<lambda>(k, v). v \<noteq> pos) (gw_positions g)\<rparr>, Inr r :: py_error + exec_result))))"
    by (rule bind_R[OF post_R]) (simp add: R_forget)
  then show ?thesis by (simp add: withdraw_def post_R)
qed

lemma swap_R: "R g (fst (swap_tokens X cfg i out amount pool bps g))"
  by (simp add: swap_tokens_def post_R)

lemma refresh_swap_R: "R g (fst (refresh_swap X cfg sw ds g))"
proof -
  have "R g (fst (gw_bind (swap_tokens X cfg i out amount pool bps g) (\<lambda>r g. (g, Inr [r] :: py_error + exec_result list))))"
    for i out amount pool bps
    by (rule bind_R[OF swap_R]) (simp add: R_refl)
  then show ?thesis by (auto simp: refresh_swap_def R_refl split: option.split)
qed

lemma refresh_leg_R: "R g (fst (refresh_leg X cfg dp g))"
proof -
  have "R g (fst (gw_bind (deposit_single_sided X cfg dp g) (\<lambda>r g. (g, f r))))" for f :: "exec_result \<Rightarrow> py_error + exec_result + exec_result list"
    by (rule bind_R[OF deposit_R]) (simp add: R_refl)
  then show ?thesis by (simp add: refresh_leg_def R_refl)
qed

lemma refresh_result_R: "R g (fst (refresh_result X pool steps g))"
  by (simp add: refresh_result_def R_refl Let_def split: sum.split)

lemma redeposit_R: "R g (fst (redeposit X cfg ds steps g))"
proof -
  have "R g (fst (gw_bind (refresh_leg X cfg bid g)
          (\<lambda>b g. case b of Inl r \<Rightarrow> (g, Inr r) | Inr b \<Rightarrow>
             gw_bind (refresh_leg X cfg ask g)
               (\<lambda>a g. case a of Inl r \<Rightarrow> (g, Inr r) | Inr a \<Rightarrow> refresh_result X pool (steps @ b @ a) g))))" for bid ask pool
    by (rule bind_R[OF refresh_leg_R])
       (auto simp: R_refl split: sum.split intro!: bind_R[OF refresh_leg_R] refresh_result_R)
  then show ?thesis by (auto simp: redeposit_def R_refl split: option.split)
qed

lemma refresh_R: "R g (fst (refresh_bundle X cfg pos sw ds g))"
  unfolding refresh_bundle_def
  by (rule bind_R[OF withdraw_R]) (auto simp: R_refl intro!: bind_R[OF refresh_swap_R] redeposit_R)

end


definition grows :: "'w gateway \<Rightarrow> 'w gateway \<Rightarrow> bool" where
  "grows g h = (\<exists>news. gw_log h = news @ gw_log g)"

definition positions_ok :: "'w gateway \<Rightarrow> bool" where
  "positions_ok g = (distinct (map fst (gw_positions g)) \<and> list_all (\<lambda>(pool, pos). truthy_json pos) (gw_positions g))"

interpretation gw_log_grows: gateway_relation grows
proof
  fix g h k :: "'w gateway" and X path body
  show "grows g g" by (simp add: grows_def)
  show "grows g h \<Longrightarrow> grows h k \<Longrightarrow> grows g k" by (force simp: grows_def)
  have req: "grows g (fst (gw_request X meth path body g))" for meth
    using gw_request_effect(3)[of X meth path body g] by (cases "gw_request X meth path body g") (auto simp: grows_def)
  show "grows g (fst (gw_request X GET path body g))" "grows g (fst (gw_request X POST path body g))" by (rule req)+
qed (simp_all add: grows_def)

text \<open>What only reads: the log grows by GETs, and no position is stored or forgotten.\<close>

definition only_reads :: "'w gateway \<Rightarrow> 'w gateway \<Rightarrow> bool" where
  "only_reads g h = ((\<exists>news. gw_log h = news @ gw_log g \<and> list_all (\<lambda>rq. rq_method rq = GET) news)
     \<and> gw_positions h = gw_positions g \<and> gw_open h = gw_open g)"

interpretation gw_only_reads: gateway_reads only_reads
proof
  fix g h k :: "'w gateway" and X path body
  show "only_reads g g" by (simp add: only_reads_def)
  show "only_reads g h \<Longrightarrow> only_reads h k \<Longrightarrow> only_reads g k" by (force simp: only_reads_def)
  show "only_reads g (fst (gw_request X GET path body g))"
    by (auto simp: gw_request_def only_reads_def Let_def split: prod.split http_outcome.split)
qed

interpretation gw_keeps_positions: gateway_relation "\<lambda>g h. positions_ok g \<longrightarrow> positions_ok h"
proof
  fix g :: "'w gateway" and X path body
  have req: "positions_ok g \<longrightarrow> positions_ok (fst (gw_request X meth path body g))" for meth
    using gw_request_effect(1)[of X meth path body g]
    by (cases "gw_request X meth path body g") (simp add: positions_ok_def)
  show "positions_ok g \<longrightarrow> positions_ok (fst (gw_request X GET path body g))"
    "positions_ok g \<longrightarrow> positions_ok (fst (gw_request X POST path body g))" by (rule req)+
next
  fix g :: "'w gateway" and addr pool
  show "truthy_json addr \<Longrightarrow> positions_ok g \<longrightarrow>
      positions_ok (g\<lparr>gw_positions := AList.update pool addr (gw_positions g)\<rparr>)"
    using set_update_subset[of pool addr "gw_positions g"]
    by (auto simp: positions_ok_def distinct_keys_update list_all_iff)
next
  fix g :: "'w gateway" and pos
  show "positions_ok g \<longrightarrow> positions_ok (g\<lparr>gw_positions := filter (\<lambda>(k, v). v \<noteq> pos) (gw_positions g)\<rparr>)"
    by (auto simp: positions_ok_def list_all_iff distinct_map_filter)
qed auto

section \<open>Runs of the bridge\<close>

datatype gw_op =
    DoState string | DoPosition json | DoDeposit deposit | DoWithdraw json real
  | DoSwap string string real "string option" real | DoRefresh json "swap_spec option" deposit_spec
  | DoStart | DoStop

fun gw_apply :: "'w externals_gw \<Rightarrow> gateway_config \<Rightarrow> gw_op \<Rightarrow> 'w gateway \<Rightarrow> 'w gateway" where
  "gw_apply X cfg (DoState pool) g = fst (get_state X cfg pool g)"
| "gw_apply X cfg (DoPosition pos) g = fst (get_position X cfg pos g)"
| "gw_apply X cfg (DoDeposit dp) g = fst (deposit_single_sided X cfg dp g)"
| "gw_apply X cfg (DoWithdraw pos percent) g = fst (withdraw X cfg pos percent g)"
| "gw_apply X cfg (DoSwap i out amount pool bps) g = fst (swap_tokens X cfg i out amount pool bps g)"
| "gw_apply X cfg (DoRefresh pos sw ds) g = fst (refresh_bundle X cfg pos sw ds g)"
| "gw_apply X cfg DoStart g = gw_start g"
| "gw_apply X cfg DoStop g = gw_stop g"

definition gw_run :: "'w externals_gw \<Rightarrow> gateway_config \<Rightarrow> gw_op list \<Rightarrow> 'w gateway \<Rightarrow> 'w gateway" where
  "gw_run X cfg ops g = foldl (\<lambda>g f. gw_apply X cfg f g) g ops"

lemma positions_ok_client: "positions_ok (gw_start g) = positions_ok g" "positions_ok (gw_stop g) = positions_ok g"
  by (simp_all add: gw_start_def gw_stop_def positions_ok_def)

lemmas positions_kept =
  gw_keeps_positions.get_state_R[rule_format] gw_keeps_positions.get_position_R[rule_format]
  gw_keeps_positions.deposit_R[rule_format] gw_keeps_positions.withdraw_R[rule_format]
  gw_keeps_positions.swap_R[rule_format] gw_keeps_positions.refresh_R[rule_format]

lemma gw_apply_positions: "positions_ok g \<Longrightarrow> positions_ok (gw_apply X cfg f g)"
  by (cases f) (simp_all add: positions_kept positions_ok_client)

text \<open>
  Whatever the Gateway answers and whatever is called in whatever order, starts and stops and
  calls that raise included, the bridge holds at most one position per pool and every stored
  position is a usable address (never empty or null).
\<close>

theorem stored_positions_are_addresses:
  "positions_ok (gw_run X cfg ops (new_gateway w))"
proof -
  have "positions_ok g \<Longrightarrow> positions_ok (gw_run X cfg ops g)" for g
    unfolding gw_run_def by (induction ops arbitrary: g) (simp_all add: gw_apply_positions)
  then show ?thesis by (simp add: positions_ok_def new_gateway_def)
qed

section \<open>The second ladder of a refresh\<close>

lemma deposit_ok_adopts:
  assumes "deposit_single_sided X cfg dp g = (g', Inr r)" "er_ok r" "er_data r = JObj d"
    "map_of d ''positionAddress'' = Some pos" "truthy_json pos"
  shows "map_of (gw_positions g') (dp_pool dp) = Some pos"
proof -
  have "gw_bind (bin_price_fn X cfg (dp_pool dp) g)
      (\<lambda>anchor g. case anchor of Inl r \<Rightarrow> (g, Inr r) | Inr a \<Rightarrow> deposit_at X cfg dp a g) = (g', Inr r)"
    using assms(1,2) unfolding deposit_single_sided_def by (auto simp: plain_result_def split: if_splits)
  then obtain a g1 where a: "deposit_at X cfg dp a g1 = (g', Inr r)"
    using assms(2) by (auto simp: bin_price_fn_def elim!: gw_bind_cases split: sum.splits if_splits)
  then obtain body where "gw_bind (send_deposit X cfg (dp_pool dp) body g1) (adopt_position (dp_pool dp)) = (g', Inr r)"
    using assms(2) unfolding deposit_at_def by (auto simp: plain_result_def split: if_splits sum.splits)
  then obtain r0 g2 where ad: "adopt_position (dp_pool dp) r0 g2 = (g', Inr r)" by (auto elim: gw_bind_cases)
  have keep: "er_data r0 = JObj d0 \<Longrightarrow> map_of d0 ''positionAddress'' = Some pos" for d0
    using ad assms(3,4) unfolding adopt_position_def
    by (auto simp: Let_def split: if_splits json.splits)
  show ?thesis
    using ad assms(2,3,5) keep unfolding adopt_position_def
    by (auto simp: Let_def get_or_def split: if_splits json.splits)
qed

text \<open>
  After a deposit that returned a position address, the next deposit on the same pool, on
  whichever side, is added to that position: its write goes to add-liquidity with that address,
  although its price range is the other ladder's.
\<close>

theorem second_ladder_joins_the_first_position:
  assumes "deposit_single_sided X cfg first g = (g1, Inr r)" "er_ok r" "er_data r = JObj d"
    "map_of d ''positionAddress'' = Some pos" "truthy_json pos"
    "dp_pool second = dp_pool first" "deposit_single_sided X cfg second g1 = (g2, res)" "writes g2 \<noteq> writes g1"
  shows "\<exists>w a lower. writes g2 = w # writes g1 \<and> rq_path w = clmm ''/add-liquidity''
    \<and> get_key ''positionAddress'' (rq_body w) = pos
    \<and> price_of a (Min (set (dp_bins second))) = Inr lower \<and> get_key ''lowerPrice'' (rq_body w) = JNum lower"
  using assms(7,8)
proof (cases rule: deposit_write_cases)
  case (1 h a)
  from deposit_at_effect(4)[OF 1(2,5,6)] obtain lower upper where e:
    "price_of a (Min (set (dp_bins second))) = Inr lower"
    "gw_log g2 = deposit_rq cfg (gw_positions h) (dp_pool second) (deposit_body second a lower upper) # gw_log h" by blast
  let ?body = "deposit_body second a lower upper"
  have "map_of (gw_positions h) (dp_pool second) = Some pos"
    using deposit_ok_adopts[OF assms(1-5)] 1(7) assms(6) by simp
  then have w: "deposit_rq cfg (gw_positions h) (dp_pool second) ?body =
      post_rq cfg (clmm ''/add-liquidity'') (AList.update ''positionAddress'' pos ?body)"
    using assms(5) by (simp add: deposit_rq_def)
  have "writes g2 = deposit_rq cfg (gw_positions h) (dp_pool second) ?body # writes g1"
    using e(2) 1(8) by (simp add: writes_def)
  moreover have "get_key ''positionAddress'' (rq_body (post_rq cfg path (AList.update ''positionAddress'' pos ?body))) = pos" for path
    by (rule post_rq_field) (simp_all add: distinct_keys_update deposit_body_keys)
  moreover have "get_key ''lowerPrice'' (rq_body (post_rq cfg path (AList.update ''positionAddress'' pos ?body))) = JNum lower" for path
    by (rule post_rq_field) (simp_all add: distinct_keys_update deposit_body_keys, simp add: deposit_body_def Let_def)
  ultimately show ?thesis using e(1) w by (metis post_rq_method(2))
qed

section \<open>Closing\<close>

text \<open>
  C22: A close that the Gateway refused or that never reached it is forgotten all the same: the
  result is not ok, but the bridge no longer holds the position, so the pool's balances read as
  zero without asking the Gateway and the next deposit opens a new position beside the open one.
\<close>

theorem failed_close_forgets_the_position:
  assumes "withdraw X cfg pos 100 g = (g', Inr r)" "\<not> er_ok r"
    "distinct (map fst (gw_positions g))" "map_of (gw_positions g) pool = Some pos"
  shows "map_of (gw_positions g') pool = None
    \<and> held_balances X cfg pool g' = (g', Inr (0, 0))
    \<and> (\<forall>dp g2 res. dp_pool dp = pool \<longrightarrow> deposit_single_sided X cfg dp g' = (g2, res) \<longrightarrow> writes g2 \<noteq> writes g' \<longrightarrow>
        (\<exists>w. writes g2 = w # writes g' \<and> rq_path w = clmm ''/open-position''))"
proof -
  obtain h where h: "gw_post X cfg (clmm ''/close-position'') [(''positionAddress'', pos)] g = (h, Inr r)"
      "g' = h\<lparr>gw_positions := filter (\<lambda>(k, v). v \<noteq> pos) (gw_positions h)\<rparr>"
    using assms(1) by (auto simp: withdraw_def elim: gw_bind_cases)
  have only: "v = pos" if "(pool, v) \<in> set (gw_positions g)" for v
    using assms(3,4) that by simp
  have "gw_positions h = gw_positions g" using gw_post_effect[OF h(1)] by simp
  then have "map_of (gw_positions g') pool = None"
    unfolding h(2) map_of_eq_None_iff by (auto dest: only)
  moreover from this have "held_balances X cfg pool g' = (g', Inr (0, 0))"
    by (simp add: held_balances_def)
  moreover have "\<exists>w. writes g2 = w # writes g' \<and> rq_path w = clmm ''/open-position''"
    if "dp_pool dp = pool" "deposit_single_sided X cfg dp g' = (g2, res)" "writes g2 \<noteq> writes g'" for dp g2 res
    using that(2,3)
  proof (cases rule: deposit_write_cases)
    case (1 k a)
    from deposit_at_effect(4)[OF 1(2,5,6)] obtain body where
      "gw_log g2 = deposit_rq cfg (gw_positions k) (dp_pool dp) body # gw_log k" by blast
    with 1(7,8) that(1) \<open>map_of (gw_positions g') pool = None\<close> show ?thesis
      by (auto simp: deposit_rq_def writes_def)
  qed
  ultimately show ?thesis by blast
qed

text \<open>
  A refresh starts by closing the position and goes on only when that succeeded: with a
  refused close nothing else is sent and the refresh fails.  A deposit specification without its
  expected bin, its tolerance or its pool is found out only after the close: the refresh then
  raises, with the position closed and nothing redeposited.
\<close>

theorem refresh_closes_before_it_checks:
  assumes "gw_open g" "refresh_bundle X cfg pos None ds g = (g', res)"
    "withdraw X cfg pos 100 g = (g1, Inr r)"
  shows "writes g1 = post_rq cfg (clmm ''/close-position'') [(''positionAddress'', pos)] # writes g
    \<and> (\<not> er_ok r \<longrightarrow> writes g' = writes g1 \<and> (\<exists>f. res = Inr f \<and> \<not> er_ok f))
    \<and> (er_ok r \<and> (ds_pool ds = None \<or> ds_expected ds = None \<or> ds_slippage ds = None) \<longrightarrow>
        res = Inl KeyError \<and> writes g' = writes g1)"
proof -
  obtain h where h: "gw_post X cfg (clmm ''/close-position'') [(''positionAddress'', pos)] g = (h, Inr r)"
      "gw_log g1 = gw_log h"
    using assms(3) by (auto simp: withdraw_def elim: gw_bind_cases)
  have w: "writes g1 = post_rq cfg (clmm ''/close-position'') [(''positionAddress'', pos)] # writes g"
    using gw_post_effect[OF h(1)] h(2) assms(1) by (simp add: writes_def)
  show ?thesis
    using assms(2) w unfolding refresh_bundle_def assms(3)
    by (auto simp: refresh_swap_def redeposit_def plain_result_def split: option.splits if_splits)
qed


section \<open>A Gateway\<close>

text \<open>A server that answers reads, refuses every close and returns an address for every other write.\<close>

definition sample_http :: "nat \<Rightarrow> request \<Rightarrow> nat \<times> http_outcome" where
  "sample_http n rq =
     (Suc n,
      if rq_path rq = clmm ''/pool-info''
      then Body (JObj [(''price'', JNum 100), (''activeBinId'', JNum 0), (''binStep'', JNum 80)])
      else if rq_path rq = clmm ''/close-position'' then StatusError 500 ''fail''
      else Body (JObj [(''positionAddress'', JStr ''p1'')]))"

definition sample_gw :: "nat externals_gw" where
  "sample_gw =
     \<lparr>xg_http = sample_http, xg_payload = (\<lambda>d. plain_result True None (get_key ''data'' d)),
      xg_float = (\<lambda>_. Inl ValueError), xg_int = (\<lambda>_. Inl ValueError)\<rparr>"

definition sample_gcfg :: gateway_config where
  "sample_gcfg =
     \<lparr>gc_wallet = ''w1'', gc_network = ''mainnet-beta'', gc_base_decimals = 9, gc_quote_decimals = 6,
      gc_max_slippage_bins = 3\<rparr>"

definition sample_bridge :: "nat gateway" where
  "sample_bridge = gw_start (new_gateway 0)"

definition sample_bid :: deposit where
  "sample_bid = ladder ''pool1'' ''bid'' [-2, -1] [10, 20] 1 2"

definition sample_ask :: deposit where
  "sample_ask = ladder ''pool1'' ''ask'' [3] [15] 0 3"

definition sample_anchor :: anchor where
  "sample_anchor = \<lparr>an_price = 100, an_active = 0, an_step_bps = 80\<rparr>"

lemma sample_fields [simp]:
  "gc_max_slippage_bins sample_gcfg = 3" "an_active sample_anchor = 0" "an_step_bps sample_anchor = 80"
  by (simp_all add: sample_gcfg_def sample_anchor_def)

lemma sample_read:
  "gw_open g \<Longrightarrow> bin_price_fn sample_gw sample_gcfg pool g =
     (g\<lparr>gw_world := Suc (gw_world g),
        gw_log := get_rq sample_gcfg (clmm ''/pool-info'') [(''poolAddress'', JStr pool)] # gw_log g\<rparr>,
      Inr (Inr sample_anchor))"
  by (simp add: bin_price_fn_def gw_get_def gw_request_def sample_gw_def sample_http_def read_body_def
      get_or_def read_anchor_def required_def plain_result_def sample_anchor_def get_rq_def)

lemma sample_write:
  "gw_open g \<Longrightarrow> route \<in> {''/open-position'', ''/add-liquidity''} \<Longrightarrow>
   gw_post sample_gw sample_gcfg (clmm route) body g =
     (g\<lparr>gw_world := Suc (gw_world g), gw_log := post_rq sample_gcfg (clmm route) body # gw_log g\<rparr>,
      Inr (plain_result True None (JObj [(''positionAddress'', JStr ''p1'')])))"
  by (auto simp: gw_post_def gw_request_def sample_gw_def sample_http_def read_body_def
      get_or_def plain_result_def post_rq_def clmm_def)

lemma sample_price: "price_of sample_anchor b = Inr (100 * (126 / 125) powi b)"
  by (simp add: price_of_def bin_step_def sample_anchor_def)

lemma sample_deposit:
  assumes "gw_open g" "dp \<in> {sample_bid, sample_ask}"
  shows "\<exists>g1 d. deposit_single_sided sample_gw sample_gcfg dp g = (g1, Inr (plain_result True None (JObj d)))
    \<and> map_of d ''positionAddress'' = Some (JStr ''p1'') \<and> gw_open g1 \<and> writes g1 \<noteq> writes g"
proof -
  let ?g = "g\<lparr>gw_world := Suc (gw_world g),
        gw_log := get_rq sample_gcfg (clmm ''/pool-info'') [(''poolAddress'', JStr (dp_pool dp))] # gw_log g\<rparr>"
  have dp: "\<not> dp_slippage dp < \<bar>an_active sample_anchor - dp_expected dp\<bar>" "remaining_tolerance dp sample_anchor \<noteq> 0"
      "\<not> crosses (dp_side dp) (dp_bins dp) (dp_expected dp)" "\<not> crosses (dp_side dp) (dp_bins dp) 0" "dp_bins dp \<noteq> []"
      "0 < dp_slippage dp" "dp_slippage dp \<le> 3"
    using assms(2) by (auto simp: sample_bid_def sample_ask_def ladder_def remaining_tolerance_def crosses_def)
  have "deposit_single_sided sample_gw sample_gcfg dp g = deposit_at sample_gw sample_gcfg dp sample_anchor ?g"
    using dp(6,7) assms(1) by (simp add: deposit_single_sided_def sample_read)
  then have run: "deposit_single_sided sample_gw sample_gcfg dp g =
      gw_bind (send_deposit sample_gw sample_gcfg (dp_pool dp)
          (deposit_body dp sample_anchor (100 * (126 / 125) powi Min (set (dp_bins dp)))
            (100 * (126 / 125) powi Max (set (dp_bins dp)))) ?g) (adopt_position (dp_pool dp))"
    using dp by (simp add: deposit_at_def sample_price)
  have send: "\<exists>k rq. send_deposit sample_gw sample_gcfg pool body h = (k, Inr (plain_result True None (JObj [(''positionAddress'', JStr ''p1'')])))
      \<and> gw_open k \<and> gw_log k = rq # gw_log h \<and> rq_method rq = POST" if "gw_open h" for pool body and h :: "nat gateway"
    using that by (simp add: send_deposit_def sample_write split: option.split)
  obtain k rq where k: "send_deposit sample_gw sample_gcfg (dp_pool dp)
          (deposit_body dp sample_anchor (100 * (126 / 125) powi Min (set (dp_bins dp)))
            (100 * (126 / 125) powi Max (set (dp_bins dp)))) ?g
        = (k, Inr (plain_result True None (JObj [(''positionAddress'', JStr ''p1'')])))"
      "gw_open k" "gw_log k = rq # gw_log ?g" "rq_method rq = POST"
    using send[of ?g] assms(1) by fastforce
  show ?thesis
    unfolding run k(1) using k(2-4)
    by (simp add: adopt_position_def plain_result_def Let_def get_or_def writes_def)
qed

lemma sample_open [simp]: "gw_open sample_bridge"
  by (simp add: sample_bridge_def gw_start_def)

theorem deposit_writes_inside_the_tolerance_witness:
  "\<exists>g' w. fst (deposit_single_sided sample_gw sample_gcfg sample_bid sample_bridge) = g'
     \<and> writes g' = w # writes sample_bridge \<and> get_key ''slippagePct'' (rq_body w) = JNum (80 / 100)"
proof -
  obtain g1 d where "deposit_single_sided sample_gw sample_gcfg sample_bid sample_bridge = (g1, Inr (plain_result True None (JObj d)))"
    "writes g1 \<noteq> writes sample_bridge"
    using sample_deposit[of sample_bridge sample_bid] by auto
  from deposit_writes_inside_the_tolerance[OF this] this(1) show ?thesis
    by (auto simp: sample_read sample_anchor_def remaining_tolerance_def sample_bid_def ladder_def)
qed

theorem second_ladder_joins_the_first_position_witness:
  "\<exists>g1 g2 w. g1 = fst (deposit_single_sided sample_gw sample_gcfg sample_bid sample_bridge)
     \<and> g2 = fst (deposit_single_sided sample_gw sample_gcfg sample_ask g1)
     \<and> writes g2 = w # writes g1 \<and> rq_path w = clmm ''/add-liquidity''
     \<and> get_key ''positionAddress'' (rq_body w) = JStr ''p1''"
proof -
  obtain g1 d where 1: "deposit_single_sided sample_gw sample_gcfg sample_bid sample_bridge = (g1, Inr (plain_result True None (JObj d)))"
    "map_of d ''positionAddress'' = Some (JStr ''p1'')" "gw_open g1"
    using sample_deposit[of sample_bridge sample_bid] by auto
  obtain g2 d2 where 2: "deposit_single_sided sample_gw sample_gcfg sample_ask g1 = (g2, Inr (plain_result True None (JObj d2)))"
    "writes g2 \<noteq> writes g1"
    using sample_deposit[of g1 sample_ask] 1(3) by auto
  have "\<exists>w a lower. writes g2 = w # writes g1 \<and> rq_path w = clmm ''/add-liquidity''
    \<and> get_key ''positionAddress'' (rq_body w) = JStr ''p1''
    \<and> price_of a (Min (set (dp_bins sample_ask))) = Inr lower \<and> get_key ''lowerPrice'' (rq_body w) = JNum lower"
    by (rule second_ladder_joins_the_first_position[OF 1(1) _ _ 1(2) _ _ 2])
       (simp_all add: plain_result_def sample_bid_def sample_ask_def ladder_def)
  with 1(1) 2(1) show ?thesis by auto
qed

definition holding_bridge :: "nat gateway" where
  "holding_bridge = sample_bridge\<lparr>gw_positions := [(''pool1'', JStr ''p1'')]\<rparr>"

lemma sample_close:
  "\<exists>h. withdraw sample_gw sample_gcfg (JStr ''p1'') 100 holding_bridge = (h, Inr (failed (HTTPStatus 500 ''fail'')))"
  by (auto simp: withdraw_def gw_post_def gw_request_def holding_bridge_def sample_gw_def sample_http_def clmm_def
      plain_result_def)

theorem failed_close_forgets_the_position_witness:
  "map_of (gw_positions (fst (withdraw sample_gw sample_gcfg (JStr ''p1'') 100 holding_bridge))) ''pool1'' = None"
proof -
  obtain h where h: "withdraw sample_gw sample_gcfg (JStr ''p1'') 100 holding_bridge = (h, Inr (failed (HTTPStatus 500 ''fail'')))"
    using sample_close by blast
  show ?thesis
    using failed_close_forgets_the_position[OF h, of "''pool1''"] h
    by (simp add: holding_bridge_def plain_result_def)
qed

text \<open>A server that accepts the close.\<close>

definition open_gw :: "nat externals_gw" where
  "open_gw = sample_gw\<lparr>xg_http := (\<lambda>n rq. (n, Body (JObj [])))\<rparr>"

definition spec_without_bin :: deposit_spec where
  "spec_without_bin =
     \<lparr>ds_pool = Some ''pool1'', ds_bid_bins = [-1], ds_bid_amounts = [10], ds_ask_bins = [], ds_ask_amounts = [],
      ds_expected = None, ds_slippage = Some 2\<rparr>"

theorem refresh_closes_before_it_checks_witness:
  "\<exists>g'. refresh_bundle open_gw sample_gcfg (JStr ''p1'') None spec_without_bin holding_bridge = (g', Inl KeyError)
     \<and> writes g' = [post_rq sample_gcfg (clmm ''/close-position'') [(''positionAddress'', JStr ''p1'')]]"
proof -
  obtain g' res where r: "refresh_bundle open_gw sample_gcfg (JStr ''p1'') None spec_without_bin holding_bridge = (g', res)"
    by force
  obtain g1 s where w: "withdraw open_gw sample_gcfg (JStr ''p1'') 100 holding_bridge = (g1, Inr s)" "er_ok s"
    by (auto simp: withdraw_def gw_post_def gw_request_def holding_bridge_def open_gw_def sample_gw_def
        read_body_def plain_result_def get_or_def)
  have "gw_open holding_bridge" by (simp add: holding_bridge_def)
  from refresh_closes_before_it_checks[OF this r w(1)] w(2) r show ?thesis
    by (simp add: spec_without_bin_def) (simp add: holding_bridge_def sample_bridge_def gw_start_def new_gateway_def writes_def)
qed

end
