(* ===== verification/AccountGate.thy ===== *)
theory AccountGate imports Json begin

text \<open>
  The read-only account gate \<open>src/scripts/check_hl_account_state.py\<close> that a soak must pass, and the
  scoped cleanup \<open>src/scripts/cleanup_hl_soak.py\<close> that ends one.

  What the venue answers is given as the lists the scripts iterate (an absent list is an empty
  one); the fields of their items stay JSON.  Parsing a number out of a string is a parameter.
\<close>

section \<open>Reading the venue\<close>

record hl_read =
  hr_balances :: "dict list"
  hr_available :: "(json \<times> json) list"
  hr_positions :: "dict list"
  hr_orders :: "dict list"
  hr_summary :: dict
  hr_withdrawable :: json

abbreviation attribute_error :: py_error where
  "attribute_error \<equiv> OtherError ''AttributeError''"

text \<open>\<open>entry.get("position", {})\<close>, on which \<open>get\<close> is called next.\<close>

definition position_of :: "dict \<Rightarrow> py_error + dict" where
  "position_of entry =
     (case map_of entry ''position'' of
        None \<Rightarrow> Inr []
      | Some (JObj d) \<Rightarrow> Inr d
      | Some _ \<Rightarrow> Inl attribute_error)"

text \<open>\<open>coin in coins\<close> for a set of strings: a list or a dict cannot be hashed.\<close>

fun coin_in :: "string list \<Rightarrow> json \<Rightarrow> py_error + bool" where
  "coin_in coins (JStr c) = Inr (c \<in> set coins)"
| "coin_in coins (JArr _) = Inl TypeError"
| "coin_in coins (JObj _) = Inl TypeError"
| "coin_in coins _ = Inr False"

text \<open>\<open>float(position.get("szi", 0.0))\<close>.\<close>

definition position_size :: "(string \<Rightarrow> py_error + real) \<Rightarrow> dict \<Rightarrow> py_error + real" where
  "position_size parse d = to_float parse (get_or (JNum 0) ''szi'' d)"

text \<open>The positions of the scoped coins that are not dust, with their sizes, in order.\<close>

fun scoped_positions :: "(string \<Rightarrow> py_error + real) \<Rightarrow> string list \<Rightarrow> dict list \<Rightarrow> py_error + (dict \<times> real) list" where
  "scoped_positions parse coins [] = Inr []"
| "scoped_positions parse coins (e # es) =
     (case position_of e of Inl x \<Rightarrow> Inl x | Inr d \<Rightarrow>
      case coin_in coins (get_key ''coin'' d) of Inl x \<Rightarrow> Inl x | Inr False \<Rightarrow> scoped_positions parse coins es
      | Inr True \<Rightarrow>
          (case position_size parse d of Inl x \<Rightarrow> Inl x | Inr szi \<Rightarrow>
           case scoped_positions parse coins es of Inl x \<Rightarrow> Inl x | Inr rest \<Rightarrow>
             Inr (if \<bar>szi\<bar> \<le> 1 / 10 ^ 12 then rest else (d, szi) # rest)))"

text \<open>\<open>order["oid"]\<close> is required; \<open>int\<close> may raise.\<close>

fun scoped_orders :: "(string \<Rightarrow> py_error + int) \<Rightarrow> string list \<Rightarrow> dict list \<Rightarrow> py_error + (int \<times> dict) list" where
  "scoped_orders parse coins [] = Inr []"
| "scoped_orders parse coins (r # rs) =
     (case coin_in coins (get_key ''coin'' r) of Inl x \<Rightarrow> Inl x | Inr False \<Rightarrow> scoped_orders parse coins rs
      | Inr True \<Rightarrow>
          (case map_of r ''oid'' of None \<Rightarrow> Inl KeyError | Some v \<Rightarrow>
           case to_int parse v of Inl x \<Rightarrow> Inl x | Inr oid \<Rightarrow>
           case scoped_orders parse coins rs of Inl x \<Rightarrow> Inl x | Inr rest \<Rightarrow> Inr ((oid, r) # rest)))"

definition usdc_balance :: "hl_read \<Rightarrow> dict" where
  "usdc_balance r =
     (case find (\<lambda>b. get_key ''coin'' b = JStr ''USDC'') (hr_balances r) of Some b \<Rightarrow> b | None \<Rightarrow> [])"

text \<open>\<open>dict((int(token), value) ...)\<close>: the last entry of a token wins.\<close>

fun available_of :: "(string \<Rightarrow> py_error + int) \<Rightarrow> (json \<times> json) list \<Rightarrow> py_error + (int \<times> json) list" where
  "available_of parse [] = Inr []"
| "available_of parse ((token, v) # rest) =
     (case to_int parse token of Inl x \<Rightarrow> Inl x | Inr t \<Rightarrow>
      case available_of parse rest of Inl x \<Rightarrow> Inl x | Inr d \<Rightarrow>
        Inr (if t \<in> fst ` set d then d else (t, v) # d))"

record account_snapshot =
  as_account_value :: json
  as_margin_used :: json
  as_notional :: json
  as_withdrawable :: json
  as_usdc_total :: json
  as_usdc_hold :: json
  as_available :: json
  as_orders :: "(int \<times> dict) list"
  as_positions :: "(dict \<times> real) list"

definition snapshot_account ::
  "(string \<Rightarrow> py_error + real) \<Rightarrow> (string \<Rightarrow> py_error + int) \<Rightarrow> string list \<Rightarrow> hl_read \<Rightarrow> py_error + account_snapshot" where
  "snapshot_account pf pn coins r =
     (case scoped_orders pn coins (hr_orders r) of Inl x \<Rightarrow> Inl x | Inr orders \<Rightarrow>
      case scoped_positions pf coins (hr_positions r) of Inl x \<Rightarrow> Inl x | Inr positions \<Rightarrow>
      case available_of pn (hr_available r) of Inl x \<Rightarrow> Inl x | Inr avail \<Rightarrow>
        Inr \<lparr>as_account_value = get_key ''accountValue'' (hr_summary r),
             as_margin_used = get_key ''totalMarginUsed'' (hr_summary r),
             as_notional = get_key ''totalNtlPos'' (hr_summary r),
             as_withdrawable = hr_withdrawable r,
             as_usdc_total = get_key ''total'' (usdc_balance r),
             as_usdc_hold = get_key ''hold'' (usdc_balance r),
             as_available = (case map_of avail 0 of Some v \<Rightarrow> v | None \<Rightarrow> JNull),
             as_orders = orders, as_positions = positions\<rparr>)"

section \<open>The equity gate\<close>

text \<open>
  A reading as a float: it may be infinite or not a number.  \<open>TypeError\<close> and \<open>ValueError\<close> of the
  conversion read as not a number, an \<open>OverflowError\<close> would go through; a string has none.
\<close>

fun reading :: "(string \<Rightarrow> pynum option) \<Rightarrow> json \<Rightarrow> pynum" where
  "reading parse (JNum x) = Num x"
| "reading parse (JBool b) = Num (if b then 1 else 0)"
| "reading parse (JStr s) = (case parse s of Some x \<Rightarrow> x | None \<Rightarrow> NaN)"
| "reading parse _ = NaN"

datatype equity_failure = Unresolved | BelowMinimum real real

definition equity_check ::
  "(string \<Rightarrow> pynum option) \<Rightarrow> account_snapshot \<Rightarrow> real \<Rightarrow> real option \<times> equity_failure option" where
  "equity_check parse s min_equity =
     (let v = (if as_usdc_total s \<noteq> JNull then as_usdc_total s else as_account_value s) in
      case reading parse v of
        Num equity \<Rightarrow> if equity < min_equity then (Some equity, Some (BelowMinimum equity min_equity)) else (Some equity, None)
      | _ \<Rightarrow> (None, Some Unresolved))"

datatype gate_failure = NotMainnet | EquityFailure equity_failure | OrdersExist nat | PositionsExist nat

definition is_mainnet :: "string option \<Rightarrow> bool" where
  "is_mainnet flag = (str_lower (case flag of Some s \<Rightarrow> s | None \<Rightarrow> ''None'') = ''false'')"

definition gate_failures ::
  "(string \<Rightarrow> pynum option) \<Rightarrow> string option \<Rightarrow> real \<Rightarrow> bool \<Rightarrow> account_snapshot \<Rightarrow> gate_failure list" where
  "gate_failures parse testnet_flag min_equity require_clean s =
     (if is_mainnet testnet_flag then [] else [NotMainnet])
   @ (case snd (equity_check parse s min_equity) of Some f \<Rightarrow> [EquityFailure f] | None \<Rightarrow> [])
   @ (if require_clean then
        (if as_orders s \<noteq> [] then [OrdersExist (length (as_orders s))] else [])
      @ (if as_positions s \<noteq> [] then [PositionsExist (length (as_positions s))] else [])
      else [])"

definition gate_passes ::
  "(string \<Rightarrow> pynum option) \<Rightarrow> string option \<Rightarrow> real \<Rightarrow> bool \<Rightarrow> account_snapshot \<Rightarrow> bool" where
  "gate_passes parse testnet_flag min_equity require_clean s =
     (gate_failures parse testnet_flag min_equity require_clean s = [])"

text \<open>
  The account gate passes exactly when the credentials are explicitly mainnet, the collateral
  equity is a finite number of at least the minimum, and, for a clean start, no scoped order or
  position exists.  The USDC total decides alone as soon as it is there: an unreadable or
  non-finite one fails the gate whatever the account value says.
\<close>

theorem account_gate_fails_closed:
  "gate_passes parse testnet_flag min_equity require_clean s \<longleftrightarrow>
     is_mainnet testnet_flag
   \<and> (\<exists>equity. reading parse (if as_usdc_total s \<noteq> JNull then as_usdc_total s else as_account_value s) = Num equity
        \<and> min_equity \<le> equity)
   \<and> (require_clean \<longrightarrow> as_orders s = [] \<and> as_positions s = [])"
  unfolding gate_passes_def gate_failures_def equity_check_def Let_def
  by (cases "reading parse (if as_usdc_total s \<noteq> JNull then as_usdc_total s else as_account_value s)") auto

definition sample_snapshot :: account_snapshot where
  "sample_snapshot =
     \<lparr>as_account_value = JNum 1000, as_margin_used = JNull, as_notional = JNull, as_withdrawable = JNull,
      as_usdc_total = JStr ''500'', as_usdc_hold = JNull, as_available = JNull, as_orders = [], as_positions = []\<rparr>"

theorem account_gate_fails_closed_witness:
  "gate_passes (\<lambda>s. if s = ''500'' then Some (Num 500) else None) (Some ''false'') 300 True sample_snapshot
   \<and> \<not> gate_passes (\<lambda>s. Some NaN) (Some ''false'') 300 True sample_snapshot"
  by (simp add: account_gate_fails_closed)
     (simp add: is_mainnet_def sample_snapshot_def str_lower_def lower_char_def)

section \<open>Scoped cleanup\<close>

text \<open>
  The exchange: what it shows at a moment, and a cancellation or a market close, each of which may
  raise.  A clean-up reads the venue afresh before each part of a pass.
\<close>

record 'v exchange =
  ex_read :: "'v \<Rightarrow> hl_read"
  ex_cancel :: "'v \<Rightarrow> json \<Rightarrow> int \<Rightarrow> 'v \<times> bool"
  ex_close :: "'v \<Rightarrow> json \<Rightarrow> 'v \<times> bool"

datatype cleanup_action = CancelOrder json int | MarketClose json

record 'v cleanup =
  cu_venue :: 'v
  cu_actions :: "cleanup_action list"
  cu_failures :: "cleanup_action list"

definition try_action :: "cleanup_action \<Rightarrow> ('v \<Rightarrow> 'v \<times> bool) \<Rightarrow> 'v cleanup \<Rightarrow> 'v cleanup" where
  "try_action act run c =
     (case run (cu_venue c) of
        (v, True) \<Rightarrow> c\<lparr>cu_venue := v, cu_actions := cu_actions c @ [act]\<rparr>
      | (v, False) \<Rightarrow> c\<lparr>cu_venue := v, cu_failures := cu_failures c @ [act]\<rparr>)"

fun cancel_orders ::
  "'v exchange \<Rightarrow> (string \<Rightarrow> py_error + int) \<Rightarrow> string list \<Rightarrow> dict list \<Rightarrow> 'v cleanup \<Rightarrow> 'v cleanup \<times> (py_error + unit)" where
  "cancel_orders X parse coins [] c = (c, Inr ())"
| "cancel_orders X parse coins (r # rs) c =
     (case coin_in coins (get_key ''coin'' r) of Inl x \<Rightarrow> (c, Inl x)
      | Inr False \<Rightarrow> cancel_orders X parse coins rs c
      | Inr True \<Rightarrow>
          (case map_of r ''oid'' of None \<Rightarrow> (c, Inl KeyError) | Some v \<Rightarrow>
           case to_int parse v of Inl x \<Rightarrow> (c, Inl x) | Inr oid \<Rightarrow>
             cancel_orders X parse coins rs
               (try_action (CancelOrder (get_key ''coin'' r) oid) (\<lambda>w. ex_cancel X w (get_key ''coin'' r) oid) c)))"

fun close_positions ::
  "'v exchange \<Rightarrow> (string \<Rightarrow> py_error + real) \<Rightarrow> string list \<Rightarrow> dict list \<Rightarrow> 'v cleanup \<Rightarrow> 'v cleanup \<times> (py_error + unit)" where
  "close_positions X parse coins [] c = (c, Inr ())"
| "close_positions X parse coins (e # es) c =
     (case position_of e of Inl x \<Rightarrow> (c, Inl x) | Inr d \<Rightarrow>
      case coin_in coins (get_key ''coin'' d) of Inl x \<Rightarrow> (c, Inl x)
      | Inr False \<Rightarrow> close_positions X parse coins es c
      | Inr True \<Rightarrow>
          (case position_size parse d of Inl x \<Rightarrow> (c, Inl x) | Inr szi \<Rightarrow>
           close_positions X parse coins es
             (if \<bar>szi\<bar> \<le> 1 / 10 ^ 12 then c
              else try_action (MarketClose (get_key ''coin'' d)) (\<lambda>w. ex_close X w (get_key ''coin'' d)) c)))"

text \<open>One pass: cancel, close, look.\<close>

definition cleanup_pass ::
  "'v exchange \<Rightarrow> (string \<Rightarrow> py_error + real) \<Rightarrow> (string \<Rightarrow> py_error + int) \<Rightarrow> string list \<Rightarrow> 'v cleanup
     \<Rightarrow> 'v cleanup \<times> (py_error + account_snapshot)" where
  "cleanup_pass X pf pn coins c =
     (case cancel_orders X pn coins (hr_orders (ex_read X (cu_venue c))) c of
        (c1, Inl x) \<Rightarrow> (c1, Inl x)
      | (c1, Inr _) \<Rightarrow>
          (case close_positions X pf coins (hr_positions (ex_read X (cu_venue c1))) c1 of
             (c2, Inl x) \<Rightarrow> (c2, Inl x)
           | (c2, Inr _) \<Rightarrow> (c2, snapshot_account pf pn coins (ex_read X (cu_venue c2)))))"

text \<open>
  The loop, over the clock readings its condition makes: the report's final state and whether it
  passed.  The first reading at or after the deadline ends it; the venue moves on between passes
  by \<open>settle\<close>.
\<close>

fun cleanup_loop ::
  "'v exchange \<Rightarrow> (string \<Rightarrow> py_error + real) \<Rightarrow> (string \<Rightarrow> py_error + int) \<Rightarrow> string list \<Rightarrow> ('v \<Rightarrow> 'v) \<Rightarrow> real
     \<Rightarrow> real list \<Rightarrow> 'v cleanup \<Rightarrow> ('v cleanup \<times> (py_error + account_snapshot \<times> bool)) option" where
  "cleanup_loop X pf pn coins settle deadline [] c = None"
| "cleanup_loop X pf pn coins settle deadline (t # ts) c =
     (if deadline \<le> t then
        Some (c, case snapshot_account pf pn coins (ex_read X (cu_venue c)) of
                   Inl x \<Rightarrow> Inl x | Inr s \<Rightarrow> Inr (s, False))
      else
        (case cleanup_pass X pf pn coins c of
           (c', Inl x) \<Rightarrow> Some (c', Inl x)
         | (c', Inr s) \<Rightarrow>
             if as_orders s = [] \<and> as_positions s = [] then Some (c', Inr (s, cu_failures c' = []))
             else cleanup_loop X pf pn coins settle deadline ts (c'\<lparr>cu_venue := settle (cu_venue c')\<rparr>)))"

definition action_coin :: "cleanup_action \<Rightarrow> json" where
  "action_coin act = (case act of CancelOrder c _ \<Rightarrow> c | MarketClose c \<Rightarrow> c)"

definition scoped :: "string list \<Rightarrow> 'v cleanup \<Rightarrow> bool" where
  "scoped coins c = (\<forall>act\<in>set (cu_actions c @ cu_failures c). \<exists>s\<in>set coins. action_coin act = JStr s)"

lemma coin_in_True: "coin_in coins v = Inr True \<Longrightarrow> \<exists>s\<in>set coins. v = JStr s"
  by (cases v) auto

lemma scoped_try: "scoped coins c \<Longrightarrow> \<exists>s\<in>set coins. action_coin act = JStr s \<Longrightarrow> scoped coins (try_action act run c)"
  by (auto simp: scoped_def try_action_def split: prod.split bool.split)

lemma scoped_cancel: "scoped coins c \<Longrightarrow> scoped coins (fst (cancel_orders X parse coins rs c))"
proof (induction rs arbitrary: c)
  case (Cons r rs)
  have "scoped coins (fst (cancel_orders X parse coins rs
      (try_action (CancelOrder (get_key ''coin'' r) oid) run c)))"
    if "coin_in coins (get_key ''coin'' r) = Inr True" for oid run
    using Cons coin_in_True[OF that] by (simp add: scoped_try action_coin_def)
  with Cons show ?case by (auto split: sum.split bool.split option.split)
qed simp

lemma scoped_close: "scoped coins c \<Longrightarrow> scoped coins (fst (close_positions X parse coins es c))"
proof (induction es arbitrary: c)
  case (Cons e es)
  have "scoped coins (fst (close_positions X parse coins es
      (try_action (MarketClose (get_key ''coin'' d)) run c)))"
    if "coin_in coins (get_key ''coin'' d) = Inr True" for d run
    using Cons coin_in_True[OF that] by (simp add: scoped_try action_coin_def)
  with Cons show ?case by (auto split: sum.split bool.split)
qed simp

lemma scoped_pass: "scoped coins c \<Longrightarrow> scoped coins (fst (cleanup_pass X pf pn coins c))"
  using scoped_cancel[of coins c X pn] scoped_close[of coins _ X pf]
  by (auto simp: cleanup_pass_def split: prod.split sum.split) (metis fst_conv)+

lemma cleanup_loop_scoped:
  assumes "scoped coins c" "cleanup_loop X pf pn coins settle deadline clock c = Some (c', res)"
  shows "scoped coins c' \<and> (\<forall>s. res = Inr (s, True) \<longrightarrow> as_orders s = [] \<and> as_positions s = [] \<and> cu_failures c' = [])"
  using assms
proof (induction X pf pn coins settle deadline clock c rule: cleanup_loop.induct)
  case (2 X pf pn coins settle deadline t ts c)
  show ?case
  proof (cases "deadline \<le> t")
    case True
    with 2(2,3) show ?thesis by (auto split: sum.splits)
  next
    case False
    obtain c1 r where p: "cleanup_pass X pf pn coins c = (c1, r)" by force
    then have sc: "scoped coins c1" using scoped_pass[OF 2(2), of X pf pn] by simp
    then have sc': "scoped coins (c1\<lparr>cu_venue := settle (cu_venue c1)\<rparr>)" by (simp add: scoped_def)
    show ?thesis
    proof (cases r)
      case (Inl x)
      with p False 2(3) sc show ?thesis by auto
    next
      case (Inr s)
      show ?thesis
      proof (cases "as_orders s = [] \<and> as_positions s = []")
        case True
        with p False Inr 2(3) sc show ?thesis by auto
      next
        case nonempty: False
        with p False Inr 2(3) have "cleanup_loop X pf pn coins settle deadline ts (c1\<lparr>cu_venue := settle (cu_venue c1)\<rparr>) = Some (c', res)"
          by auto
        from 2(1)[OF False p[symmetric] Inr nonempty sc' this] show ?thesis .
      qed
    qed
  qed
qed simp

lemma cleanup_loop_ends:
  "\<exists>t\<in>set clock. deadline \<le> t \<Longrightarrow> \<exists>out. cleanup_loop X pf pn coins settle deadline clock c = Some out"
proof (induction X pf pn coins settle deadline clock c rule: cleanup_loop.induct)
  case (2 X pf pn coins settle deadline t ts c)
  obtain c1 r where p: "cleanup_pass X pf pn coins c = (c1, r)" by force
  show ?case
  proof (cases "deadline \<le> t")
    case False
    with 2(2) have "\<exists>t\<in>set ts. deadline \<le> t" by auto
    with 2(1)[OF False p[symmetric]] p show ?thesis by (cases r) auto
  qed auto
qed simp

text \<open>
  C25: The cleanup touches nothing outside its coins: whatever the venue answers and however long
  it runs, every order it cancels and every position it closes is of a scoped coin.  It reports
  success only with a final reading that shows no scoped order and no scoped position and no
  action that failed, and it always ends, at the latest with the first clock reading past its
  deadline.
\<close>

theorem cleanup_stays_in_scope_and_ends:
  assumes "cu_actions c = []" "cu_failures c = []"
  shows "(\<forall>c' res. cleanup_loop X pf pn coins settle deadline clock c = Some (c', res) \<longrightarrow>
       (\<forall>act\<in>set (cu_actions c' @ cu_failures c'). \<exists>s\<in>set coins. action_coin act = JStr s)
     \<and> (\<forall>s. res = Inr (s, True) \<longrightarrow> as_orders s = [] \<and> as_positions s = [] \<and> cu_failures c' = []))
     \<and> ((\<exists>t\<in>set clock. deadline \<le> t) \<longrightarrow> (\<exists>out. cleanup_loop X pf pn coins settle deadline clock c = Some out))"
proof -
  have "scoped coins c" using assms by (simp add: scoped_def)
  note run = cleanup_loop_scoped[OF this, unfolded scoped_def]
  show ?thesis
  proof (rule conjI, intro allI impI)
    fix c' res
    assume "cleanup_loop X pf pn coins settle deadline clock c = Some (c', res)"
    then show "(\<forall>act\<in>set (cu_actions c' @ cu_failures c'). \<exists>s\<in>set coins. action_coin act = JStr s)
     \<and> (\<forall>s. res = Inr (s, True) \<longrightarrow> as_orders s = [] \<and> as_positions s = [] \<and> cu_failures c' = [])"
      by (rule run)
  qed (rule impI, rule cleanup_loop_ends)
qed

definition sample_exchange :: "nat exchange" where
  "sample_exchange =
     \<lparr>ex_read = (\<lambda>n. \<lparr>hr_balances = [], hr_available = [], hr_positions = [],
        hr_orders = (if n = 0 then [[(''oid'', JNum 7), (''coin'', JStr ''ETH'')], [(''oid'', JNum 8), (''coin'', JStr ''BTC'')]]
                     else [[(''oid'', JNum 8), (''coin'', JStr ''BTC'')]]),
        hr_summary = [], hr_withdrawable = JNull\<rparr>),
      ex_cancel = (\<lambda>n coin oid. (Suc n, True)), ex_close = (\<lambda>n coin. (n, True))\<rparr>"

theorem cleanup_stays_in_scope_and_ends_witness:
  "\<exists>out. cleanup_loop sample_exchange (\<lambda>_. Inl ValueError) (\<lambda>_. Inl ValueError) [''ETH''] (\<lambda>n. n) 30 [0, 2, 30]
     \<lparr>cu_venue = 0, cu_actions = [], cu_failures = []\<rparr> = Some out"
proof -
  have "\<exists>t\<in>set [0, 2, 30]. 30 \<le> (t::real)" by simp
  then show ?thesis
    by (rule cleanup_stays_in_scope_and_ends[THEN conjunct2, rule_format, rotated 2]) simp_all
qed

end
