(* ===== verification/SoakMonitor.thy ===== *)
theory SoakMonitor imports AccountGate begin

text \<open>
  \<open>src/scripts/monitor_hl_soak.py\<close>: the read-only risk monitor that stops a soak by interrupting its
  processes.

  One cycle of its loop reads the clock, the decision logs and every account.  The model runs over
  a list of such readings; the wall clock at the loop's head and after it is one reading, the
  clock of a failed read its own.  An event is kept as its parts, not as the JSON line.
\<close>

section \<open>Arguments\<close>

record mon_args =
  ma_interval :: real
  ma_max_read_outage :: real
  ma_max_retry_delay :: real
  ma_leverage :: real
  ma_coins :: "string list"
  ma_min_margin_health :: real
  ma_max_initial_margin :: real
  ma_max_drawdown :: "real option"
  ma_max_order_age :: real
  ma_max_decision_age :: real
  ma_startup_grace :: real

text \<open>What \<open>main\<close> refuses before it starts.\<close>

definition mon_args_ok :: "mon_args \<Rightarrow> string list \<Rightarrow> nat \<Rightarrow> bool" where
  "mon_args_ok a account_ids pids =
     ((case ma_max_drawdown a of None \<Rightarrow> True | Some d \<Rightarrow> 0 < d \<and> d \<le> 100)
      \<and> 0 < min (ma_max_order_age a) (min (ma_max_decision_age a) (ma_startup_grace a))
      \<and> 0 < min (ma_interval a) (min (ma_max_read_outage a) (ma_max_retry_delay a))
      \<and> length account_ids = pids \<and> distinct account_ids)"

section \<open>Checks\<close>

definition drawdown_breached :: "real \<Rightarrow> real \<Rightarrow> real option \<Rightarrow> bool" where
  "drawdown_breached equity peak limit_pct =
     (case limit_pct of None \<Rightarrow> False | Some l \<Rightarrow> 0 < peak \<and> l < (peak - equity) / peak * 100)"

definition portfolio_drawdown_breached :: "real list \<Rightarrow> real \<Rightarrow> real option \<Rightarrow> bool" where
  "portfolio_drawdown_breached equities peak limit_pct = drawdown_breached (sum_list equities) peak limit_pct"

text \<open>The power of two is a Python int: turning it into a float overflows from \<open>2 ^ 1024\<close> on.\<close>

definition read_error_delay_s :: "nat \<Rightarrow> real \<Rightarrow> real \<Rightarrow> py_error + real" where
  "read_error_delay_s consecutive interval max_delay =
     (case float_of_int (2 ^ (consecutive - 1)) of
        Inl e \<Rightarrow> Inl e
      | Inr f \<Rightarrow> Inr (min (interval * f) max_delay))"

definition read_outage_breached :: "real \<Rightarrow> real \<Rightarrow> real \<Rightarrow> bool" where
  "read_outage_breached first_error_at now max_outage = (max_outage \<le> now - first_error_at)"

definition order_age :: "(string \<Rightarrow> py_error + real) \<Rightarrow> real \<Rightarrow> dict \<Rightarrow> py_error + real" where
  "order_age parse now r =
     (case to_float parse (get_or (JNum 0) ''timestamp'' r) of
        Inl e \<Rightarrow> Inl e | Inr t \<Rightarrow> Inr (max (now - t / 1000) 0))"

fun oldest_order_age :: "(string \<Rightarrow> py_error + real) \<Rightarrow> real \<Rightarrow> dict list \<Rightarrow> py_error + real" where
  "oldest_order_age parse now [] = Inr 0"
| "oldest_order_age parse now (r # rs) =
     (case order_age parse now r of Inl e \<Rightarrow> Inl e | Inr a \<Rightarrow>
      case oldest_order_age parse now rs of Inl e \<Rightarrow> Inl e | Inr b \<Rightarrow> Inr (max a b))"

datatype breach =
    LogMissing string | LogEmpty string | LogStale string
  | NoEquity string | LowMargin string | HighInitialMargin string | OldOrder string | Drawdown

text \<open>A decision log: None when the file is not there, otherwise its size and modification time.\<close>

fun decision_liveness_breach ::
  "(string \<times> (nat \<times> real) option) list \<Rightarrow> real \<Rightarrow> real \<Rightarrow> real \<Rightarrow> real \<Rightarrow> breach option" where
  "decision_liveness_breach [] now started_at max_age grace = None"
| "decision_liveness_breach ((label, st) # logs) now started_at max_age grace =
     (case st of
        None \<Rightarrow> if grace < now - started_at then Some (LogMissing label)
                else decision_liveness_breach logs now started_at max_age grace
      | Some (bytes, mtime) \<Rightarrow>
          if bytes = 0 then
            (if grace < now - started_at then Some (LogEmpty label)
             else decision_liveness_breach logs now started_at max_age grace)
          else if max_age < max (now - mtime) 0 then Some (LogStale label)
          else decision_liveness_breach logs now started_at max_age grace)"

section \<open>One account\<close>

record account_sample =
  sm_account :: string
  sm_equity :: real
  sm_margin_available :: real
  sm_margin_health :: real
  sm_gross_notional :: real
  sm_initial_margin_ratio :: real
  sm_open_orders :: nat
  sm_oldest_order_age :: real

text \<open>\<open>float(mids.get(coin, 0.0) or 0.0)\<close>, summed against the size of each scoped position.\<close>

fun gross_notional ::
  "(string \<Rightarrow> py_error + real) \<Rightarrow> dict \<Rightarrow> (dict \<times> real) list \<Rightarrow> py_error + real" where
  "gross_notional parse mids [] = Inr 0"
| "gross_notional parse mids ((d, szi) # ps) =
     (let coin = (case get_key ''coin'' d of JStr c \<Rightarrow> c | _ \<Rightarrow> []) in
      case to_float parse (or_else (get_or (JNum 0) coin mids) (JNum 0)) of Inl e \<Rightarrow> Inl e | Inr mid \<Rightarrow>
      case gross_notional parse mids ps of Inl e \<Rightarrow> Inl e | Inr rest \<Rightarrow> Inr (\<bar>szi\<bar> * mid + rest))"

fun coin_orders :: "string list \<Rightarrow> dict list \<Rightarrow> py_error + dict list" where
  "coin_orders coins [] = Inr []"
| "coin_orders coins (r # rs) =
     (case coin_in coins (get_key ''coin'' r) of Inl e \<Rightarrow> Inl e | Inr b \<Rightarrow>
      case coin_orders coins rs of Inl e \<Rightarrow> Inl e | Inr rest \<Rightarrow> Inr (if b then r # rest else rest))"

definition sample_of :: "string \<Rightarrow> real \<Rightarrow> real \<Rightarrow> real \<Rightarrow> real \<Rightarrow> dict list \<Rightarrow> real \<Rightarrow> account_sample" where
  "sample_of account equity margin gross leverage orders age =
     \<lparr>sm_account = account, sm_equity = equity, sm_margin_available = margin,
      sm_margin_health = (if 0 < equity then margin / equity else 0), sm_gross_notional = gross,
      sm_initial_margin_ratio = (if 0 < equity then gross / leverage / equity else 1),
      sm_open_orders = length orders, sm_oldest_order_age = age\<rparr>"

definition account_sample_of ::
  "(string \<Rightarrow> py_error + real) \<Rightarrow> (string \<Rightarrow> py_error + int) \<Rightarrow> mon_args \<Rightarrow> dict \<Rightarrow> real \<Rightarrow> string \<Rightarrow> hl_read
     \<Rightarrow> py_error + account_sample" where
  "account_sample_of pf pn a mids now account r =
     (case to_float pf (or_else (get_key ''total'' (usdc_balance r)) (JNum 0)) of Inl e \<Rightarrow> Inl e | Inr equity \<Rightarrow>
      case available_of pn (hr_available r) of Inl e \<Rightarrow> Inl e | Inr avail \<Rightarrow>
      case to_float pf (or_else (case map_of avail 0 of Some v \<Rightarrow> v | None \<Rightarrow> JNull) (JNum 0)) of Inl e \<Rightarrow> Inl e | Inr margin \<Rightarrow>
      case scoped_positions pf (ma_coins a) (hr_positions r) of Inl e \<Rightarrow> Inl e | Inr positions \<Rightarrow>
      case gross_notional pf mids positions of Inl e \<Rightarrow> Inl e | Inr gross \<Rightarrow>
      case coin_orders (ma_coins a) (hr_orders r) of Inl e \<Rightarrow> Inl e | Inr orders \<Rightarrow>
      if ma_leverage a = 0 then Inl (OtherError ''ZeroDivisionError'')
      else case oldest_order_age pf now orders of Inl e \<Rightarrow> Inl e | Inr age \<Rightarrow>
        Inr (sample_of account equity margin gross (ma_leverage a) orders age))"

definition account_breach :: "mon_args \<Rightarrow> account_sample \<Rightarrow> breach option" where
  "account_breach a s =
     (if sm_equity s \<le> 0 then Some (NoEquity (sm_account s))
      else if sm_margin_health s < ma_min_margin_health a then Some (LowMargin (sm_account s))
      else if ma_max_initial_margin a < sm_initial_margin_ratio s then Some (HighInitialMargin (sm_account s))
      else if ma_max_order_age a < sm_oldest_order_age s then Some (OldOrder (sm_account s))
      else None)"

fun first_breach :: "mon_args \<Rightarrow> account_sample list \<Rightarrow> breach option" where
  "first_breach a [] = None"
| "first_breach a (s # ss) = (case account_breach a s of Some b \<Rightarrow> Some b | None \<Rightarrow> first_breach a ss)"

definition sample_breach :: "mon_args \<Rightarrow> real \<Rightarrow> account_sample list \<Rightarrow> breach option" where
  "sample_breach a peak samples =
     (case first_breach a samples of
        Some b \<Rightarrow> Some b
      | None \<Rightarrow> if portfolio_drawdown_breached (map sm_equity samples) peak (ma_max_drawdown a) then Some Drawdown else None)"

section \<open>The loop\<close>

datatype mon_event = RiskBreach breach | Sample real real | ReadError nat real real

record monitor =
  mo_errors :: nat
  mo_first_error :: "real option"
  mo_peak :: real
  mo_started :: real
  mo_deadline :: real
  mo_events :: "mon_event list"

definition new_monitor :: "real \<Rightarrow> real \<Rightarrow> monitor" where
  "new_monitor now duration =
     \<lparr>mo_errors = 0, mo_first_error = None, mo_peak = 0, mo_started = now, mo_deadline = now + duration + 90,
      mo_events = []\<rparr>"

record mon_input =
  mi_alive :: "bool list"
  mi_now :: real
  mi_logs :: "(string \<times> (nat \<times> real) option) list"
  mi_read :: "py_error + account_sample list"
  mi_error_at :: real

text \<open>How a cycle ends; \<open>Escape\<close> is an exception that leaves \<open>main\<close>.\<close>

datatype mon_step = Interrupt | Sleep real | Escape py_error

definition emit_event :: "mon_event \<Rightarrow> monitor \<Rightarrow> monitor" where
  "emit_event e m = m\<lparr>mo_events := e # mo_events m\<rparr>"

definition read_failed :: "mon_args \<Rightarrow> real \<Rightarrow> monitor \<Rightarrow> monitor \<times> mon_step" where
  "read_failed a error_at m =
     (let consecutive = Suc (mo_errors m);
          first = (case mo_first_error m of Some t \<Rightarrow> t | None \<Rightarrow> error_at);
          m' = m\<lparr>mo_errors := consecutive, mo_first_error := Some first\<rparr>
      in case read_error_delay_s consecutive (ma_interval a) (ma_max_retry_delay a) of
           Inl e \<Rightarrow> (m', Escape e)
         | Inr delay \<Rightarrow>
             (emit_event (ReadError consecutive (error_at - first) delay) m',
              if read_outage_breached first error_at (ma_max_read_outage a) then Interrupt else Sleep delay))"

definition read_succeeded :: "mon_args \<Rightarrow> account_sample list \<Rightarrow> monitor \<Rightarrow> monitor \<times> mon_step" where
  "read_succeeded a samples m =
     (let equity = sum_list (map sm_equity samples);
          peak = max (mo_peak m) equity;
          m' = emit_event (Sample equity peak) (m\<lparr>mo_peak := peak, mo_errors := 0, mo_first_error := None\<rparr>)
      in case sample_breach a peak samples of
           Some b \<Rightarrow> (emit_event (RiskBreach b) m', Interrupt)
         | None \<Rightarrow> (m', Sleep (ma_interval a)))"

definition mon_cycle :: "mon_args \<Rightarrow> mon_input \<Rightarrow> monitor \<Rightarrow> monitor \<times> mon_step" where
  "mon_cycle a i m =
     (case decision_liveness_breach (mi_logs i) (mi_now i) (mo_started m) (ma_max_decision_age a) (ma_startup_grace a) of
        Some b \<Rightarrow> (emit_event (RiskBreach b) m, Interrupt)
      | None \<Rightarrow>
          (case mi_read i of
             Inl e \<Rightarrow> read_failed a (mi_error_at i) m
           | Inr samples \<Rightarrow> read_succeeded a samples m))"

definition all_alive :: "bool list \<Rightarrow> bool" where "all_alive bs = (False \<notin> set bs)"

definition any_alive :: "bool list \<Rightarrow> bool" where "any_alive bs = (True \<in> set bs)"

text \<open>
  The exit code and whether the processes were interrupted, or the exception that left \<open>main\<close>; None
  when the readings run out.
\<close>

fun run_monitor :: "mon_args \<Rightarrow> mon_input list \<Rightarrow> monitor \<Rightarrow> (monitor \<times> (py_error + nat \<times> bool)) option" where
  "run_monitor a [] m = None"
| "run_monitor a (i # inputs) m =
     (if all_alive (mi_alive i) \<and> mi_now i < mo_deadline m then
        (case mon_cycle a i m of
           (m', Interrupt) \<Rightarrow> Some (m', Inr (1, True))
         | (m', Escape e) \<Rightarrow> Some (m', Inl e)
         | (m', Sleep _) \<Rightarrow> run_monitor a inputs m')
      else if mo_deadline m \<le> mi_now i \<and> any_alive (mi_alive i) then Some (m, Inr (1, True))
      else Some (m, Inr (0, False)))"


section \<open>What the monitor guarantees\<close>

definition watching :: "monitor \<Rightarrow> mon_input \<Rightarrow> bool" where
  "watching m i = (all_alive (mi_alive i) \<and> mi_now i < mo_deadline m)"

definition quiet_logs :: "mon_args \<Rightarrow> real \<Rightarrow> mon_input \<Rightarrow> bool" where
  "quiet_logs a started i =
     (decision_liveness_breach (mi_logs i) (mi_now i) started (ma_max_decision_age a) (ma_startup_grace a) = None)"

text \<open>The total equity of every account reading that succeeded, oldest first.\<close>

definition equities_seen :: "mon_input list \<Rightarrow> real list" where
  "equities_seen inputs = concat (map (\<lambda>i. case mi_read i of Inr ss \<Rightarrow> [sum_list (map sm_equity ss)] | Inl _ \<Rightarrow> []) inputs)"

lemma mon_cycle_fields:
  "mo_deadline (fst (mon_cycle a i m)) = mo_deadline m" "mo_started (fst (mon_cycle a i m)) = mo_started m"
  by (simp_all add: mon_cycle_def read_failed_def read_succeeded_def emit_event_def Let_def split: option.split sum.split)

lemma read_failed_Sleep:
  "read_failed a t m = (m', Sleep d) \<Longrightarrow> mo_peak m' = mo_peak m
     \<and> mo_first_error m' = Some (case mo_first_error m of Some t0 \<Rightarrow> t0 | None \<Rightarrow> t)
     \<and> mo_errors m' = Suc (mo_errors m)
     \<and> \<not> ma_max_read_outage a \<le> t - (case mo_first_error m of Some t0 \<Rightarrow> t0 | None \<Rightarrow> t)"
  by (auto simp: read_failed_def read_outage_breached_def emit_event_def Let_def split: sum.splits if_splits)

lemma read_failed_no_Escape: "mo_errors m < 1024 \<Longrightarrow> read_failed a t m \<noteq> (m', Escape e)"
  by (auto simp: read_failed_def read_error_delay_s_def float_of_int_pow2 Let_def split: sum.splits if_splits)

lemma mon_cycle_Sleep:
  assumes "mon_cycle a i m = (m', Sleep d)"
  shows "quiet_logs a (mo_started m) i
    \<and> mo_peak m' = foldl max (mo_peak m) (equities_seen [i])
    \<and> (\<forall>ss. mi_read i = Inr ss \<longrightarrow> sample_breach a (mo_peak m') ss = None)"
  using assms unfolding mon_cycle_def
  by (auto simp: quiet_logs_def read_succeeded_def emit_event_def equities_seen_def Let_def
      dest: read_failed_Sleep split: option.splits sum.splits if_splits)

lemma run_monitor_clean:
  assumes "run_monitor a inputs m = Some (m', Inr (0, interrupted))"
  shows "\<not> interrupted \<and> (\<exists>k<length inputs. \<not> watching m (inputs ! k)
    \<and> (mo_deadline m \<le> mi_now (inputs ! k) \<longrightarrow> \<not> any_alive (mi_alive (inputs ! k)))
    \<and> (\<forall>j<k. watching m (inputs ! j) \<and> quiet_logs a (mo_started m) (inputs ! j)
       \<and> (\<forall>ss. mi_read (inputs ! j) = Inr ss \<longrightarrow>
            sample_breach a (foldl max (mo_peak m) (equities_seen (take (Suc j) inputs))) ss = None)))"
  using assms
proof (induction a inputs m rule: run_monitor.induct)
  case (2 a i inputs m)
  show ?case
  proof (cases "watching m i")
    case False
    with 2(2) show ?thesis
      by (intro conjI exI[of _ 0]) (auto simp: watching_def split: if_splits)
  next
    case True
    obtain m1 st where c: "mon_cycle a i m = (m1, st)" by force
    with True 2(2) obtain d where d: "st = Sleep d" "run_monitor a inputs m1 = Some (m', Inr (0, interrupted))"
      by (cases st) (auto simp: watching_def)
    have step: "quiet_logs a (mo_started m) i" "mo_peak m1 = foldl max (mo_peak m) (equities_seen [i])"
        "\<forall>ss. mi_read i = Inr ss \<longrightarrow> sample_breach a (mo_peak m1) ss = None"
      using mon_cycle_Sleep[OF c[unfolded d(1)]] by auto
    have same: "mo_deadline m1 = mo_deadline m" "mo_started m1 = mo_started m"
      using mon_cycle_fields[of a i m] c by simp_all
    then have w: "watching m1 x = watching m x" for x by (simp add: watching_def)
    have peak: "foldl max (mo_peak m1) (equities_seen xs) = foldl max (mo_peak m) (equities_seen (i # xs))" for xs
      using step(2) by (simp add: equities_seen_def)
    from 2(1)[OF True[unfolded watching_def] c[symmetric] d] obtain k where k: "\<not> interrupted" "k < length inputs"
      "\<not> watching m (inputs ! k)" "mo_deadline m \<le> mi_now (inputs ! k) \<longrightarrow> \<not> any_alive (mi_alive (inputs ! k))"
      "\<forall>j<k. watching m (inputs ! j) \<and> quiet_logs a (mo_started m) (inputs ! j)
       \<and> (\<forall>ss. mi_read (inputs ! j) = Inr ss \<longrightarrow>
            sample_breach a (foldl max (mo_peak m) (equities_seen (i # take (Suc j) inputs))) ss = None)"
      unfolding same w peak by blast
    have "watching m ((i # inputs) ! j) \<and> quiet_logs a (mo_started m) ((i # inputs) ! j)
       \<and> (\<forall>ss. mi_read ((i # inputs) ! j) = Inr ss \<longrightarrow>
            sample_breach a (foldl max (mo_peak m) (equities_seen (take (Suc j) (i # inputs)))) ss = None)"
      if "j < Suc k" for j
      using that True step k(5) peak[of "[]"] by (cases j) (auto simp: equities_seen_def)
    with k(1-4) show ?thesis by (intro conjI exI[of _ "Suc k"]) auto
  qed
qed simp


definition sample_mon :: mon_args where
  "sample_mon =
     \<lparr>ma_interval = 10, ma_max_read_outage = 45, ma_max_retry_delay = 20, ma_leverage = 6, ma_coins = [''ETH''],
      ma_min_margin_health = 15 / 100, ma_max_initial_margin = 85 / 100, ma_max_drawdown = Some 1,
      ma_max_order_age = 90, ma_max_decision_age = 30, ma_startup_grace = 90\<rparr>"

definition sample_reading :: "bool \<Rightarrow> real \<Rightarrow> py_error + account_sample list \<Rightarrow> mon_input" where
  "sample_reading alive now rd = \<lparr>mi_alive = [alive], mi_now = now, mi_logs = [], mi_read = rd, mi_error_at = now\<rparr>"

definition healthy_account :: account_sample where
  "healthy_account = sample_of ''e2'' 500 400 600 6 [] 0"


section \<open>It ends\<close>

text \<open>
  The monitor always ends: with the first reading past its deadline at the latest, or when a
  process has died; and it exits with 1 exactly when it has interrupted the processes it watches.
\<close>

theorem monitor_ends:
  "(\<forall>m' code interrupted. run_monitor a inputs m = Some (m', Inr (code, interrupted)) \<longrightarrow> (code = 1 \<longleftrightarrow> interrupted) \<and> code \<le> 1)
   \<and> ((\<exists>i\<in>set inputs. mo_deadline m \<le> mi_now i \<or> \<not> all_alive (mi_alive i)) \<longrightarrow> (\<exists>out. run_monitor a inputs m = Some out))"
proof (induction a inputs m rule: run_monitor.induct)
  case (2 a i inputs m)
  show ?case
  proof (cases "all_alive (mi_alive i) \<and> mi_now i < mo_deadline m")
    case True
    obtain m1 st where c: "mon_cycle a i m = (m1, st)" by force
    have dl: "mo_deadline m1 = mo_deadline m" using mon_cycle_fields(1)[of a i m] c by simp
    show ?thesis
    proof (cases st)
      case Interrupt
      with True c show ?thesis by auto
    next
      case (Escape e)
      with True c show ?thesis by auto
    next
      case (Sleep d)
      from 2[OF True c[symmetric] Sleep, unfolded dl] True c Sleep show ?thesis by auto
    qed
  qed auto
qed simp

theorem monitor_ends_witness:
  "\<exists>out. run_monitor sample_mon [sample_reading True 500 (Inl KeyError)] (new_monitor 0 100) = Some out"
  by (rule monitor_ends[THEN conjunct2, rule_format]) (simp add: sample_reading_def new_monitor_def all_alive_def)

section \<open>Read outages\<close>

lemma outage_continues:
  assumes "mo_errors m + length inputs \<le> 1024" "mo_first_error m = Some t0" "\<forall>i\<in>set inputs. \<not> is_ok (mi_read i) \<and> watching m i"
    "\<exists>i\<in>set inputs. ma_max_read_outage a \<le> mi_error_at i - t0"
  shows "\<exists>m'. run_monitor a inputs m = Some (m', Inr (1, True))"
  using assms
proof (induction a inputs m rule: run_monitor.induct)
  case (2 a i inputs m)
  obtain e where e: "mi_read i = Inl e" using 2(4) by (cases "mi_read i") auto
  have w: "all_alive (mi_alive i) \<and> mi_now i < mo_deadline m" using 2(4) by (simp add: watching_def)
  obtain m1 st where c: "mon_cycle a i m = (m1, st)" by force
  show ?case
  proof (cases st)
    case Interrupt
    with w c show ?thesis by auto
  next
    case (Escape x)
    with c e 2(2) show ?thesis by (auto simp: mon_cycle_def read_failed_no_Escape split: option.splits)
  next
    case (Sleep d)
    with c e 2(3) have s: "\<not> ma_max_read_outage a \<le> mi_error_at i - t0" "mo_first_error m1 = Some t0"
        "mo_errors m1 = Suc (mo_errors m)"
      by (auto simp: mon_cycle_def dest: read_failed_Sleep split: option.splits)
    have "watching m1 x = watching m x" for x
      using mon_cycle_fields(1)[of a i m] c by (simp add: watching_def)
    with 2(1)[OF w c[symmetric] Sleep _ s(2)] 2(2,4,5) s w c Sleep show ?thesis by auto
  qed
qed simp

text \<open>
  C24: The monitor fails closed on a read outage: when every read fails from some cycle on, it
  interrupts the processes by the first failure that comes at least the outage limit after the
  first one, provided that is within 1024 failures in a row.  Until then the wait between reads
  doubles from the read interval and never exceeds the configured maximum; the 1025th failure in
  a row cannot compute its wait, and the exception leaves the program with nobody interrupted.
\<close>

theorem read_outage_interrupts:
  assumes "mo_first_error m = None" "\<forall>i\<in>set (i0 # inputs). \<not> is_ok (mi_read i) \<and> watching m i"
    "\<exists>i\<in>set inputs. ma_max_read_outage a \<le> mi_error_at i - mi_error_at i0"
    "mo_errors m + length (i0 # inputs) \<le> 1024"
  shows "(\<exists>m'. run_monitor a (i0 # inputs) m = Some (m', Inr (1, True)))
    \<and> (n < 1024 \<longrightarrow> read_error_delay_s (Suc n) (ma_interval a) (ma_max_retry_delay a)
          = Inr (min (ma_interval a * 2 ^ n) (ma_max_retry_delay a)))
    \<and> (1024 \<le> mo_errors late \<longrightarrow> snd (read_failed a t late) = Escape OverflowError)"
proof -
  obtain e where e: "mi_read i0 = Inl e" using assms(2) by (cases "mi_read i0") auto
  have w: "all_alive (mi_alive i0) \<and> mi_now i0 < mo_deadline m" using assms(2) by (simp add: watching_def)
  obtain m1 st where c: "mon_cycle a i0 m = (m1, st)" by force
  have "\<exists>m'. run_monitor a (i0 # inputs) m = Some (m', Inr (1, True))"
  proof (cases st)
    case Interrupt
    with w c show ?thesis by auto
  next
    case (Escape x)
    with c e assms(4) show ?thesis by (auto simp: mon_cycle_def read_failed_no_Escape split: option.splits)
  next
    case (Sleep d)
    with c e assms(1) have "mo_first_error m1 = Some (mi_error_at i0) \<and> mo_errors m1 = Suc (mo_errors m)"
      by (auto simp: mon_cycle_def dest: read_failed_Sleep split: option.splits)
    moreover have "watching m1 x = watching m x" for x
      using mon_cycle_fields(1)[of a i0 m] c by (simp add: watching_def)
    ultimately have "\<exists>m'. run_monitor a inputs m1 = Some (m', Inr (1, True))"
      using assms(2,3,4) by (intro outage_continues) auto
    with w c Sleep show ?thesis by auto
  qed
  then show ?thesis
    by (auto simp: read_error_delay_s_def read_failed_def float_of_int_pow2 Let_def)
qed

theorem read_outage_interrupts_witness:
  "\<exists>m'. run_monitor sample_mon [sample_reading True 0 (Inl KeyError), sample_reading True 50 (Inl KeyError)] (new_monitor 0 100)
     = Some (m', Inr (1, True))"
  by (rule read_outage_interrupts[THEN conjunct1])
     (simp_all add: sample_reading_def new_monitor_def watching_def sample_mon_def all_alive_def)

end
