(* ===== verification/SoakCalibration.thy ===== *)
theory SoakCalibration imports Json begin

text \<open>
  \<open>src/opms/soak_calibration.py\<close>: from a calibration report to the one controller configuration an
  experiment may run, and the check that a prepared directory is still that configuration.

  Reports, manifests and configurations are JSON dicts (the YAML files hold scalars).  The files'
  contents, the clock and \<open>perp_bot\<close>'s source fingerprint are arguments.
\<close>

section \<open>From a report to a controller\<close>

text \<open>\<open>d[key]\<close> on a dict, and on a value that should be one.\<close>

definition item :: "string \<Rightarrow> dict \<Rightarrow> py_error + json" where
  "item key d = (case map_of d key of Some v \<Rightarrow> Inr v | None \<Rightarrow> Inl KeyError)"

definition item_of :: "string \<Rightarrow> json \<Rightarrow> py_error + json" where
  "item_of key v = (case v of JObj d \<Rightarrow> item key d | _ \<Rightarrow> Inl TypeError)"

text \<open>\<open>v in {...}\<close> for strings; a list or a dict cannot be hashed.\<close>

definition member_of :: "json \<Rightarrow> string list \<Rightarrow> py_error + bool" where
  "member_of v xs = (case v of JStr s \<Rightarrow> Inr (s \<in> set xs) | JArr _ \<Rightarrow> Inl TypeError | JObj _ \<Rightarrow> Inl TypeError | _ \<Rightarrow> Inr False)"

text \<open>Python's numeric equality and product; a bool counts as 0 or 1.\<close>

fun number :: "json \<Rightarrow> real option" where
  "number (JNum x) = Some x"
| "number (JBool b) = Some (if b then 1 else 0)"
| "number _ = None"

definition times_json :: "json \<Rightarrow> json \<Rightarrow> py_error + real" where
  "times_json a b = (case (number a, number b) of (Some x, Some y) \<Rightarrow> Inr (x * y) | _ \<Rightarrow> Inl TypeError)"

record soak_values =
  sv_coin :: string
  sv_params :: dict
  sv_policy :: json
  sv_size :: json
  sv_tick :: json
  sv_cap :: real

text \<open>The refusals, in the order of the code.\<close>

definition read_result :: "dict \<Rightarrow> string \<Rightarrow> bool \<Rightarrow> py_error + soak_values" where
  "read_result result account live =
     res_check (account = ''e2_mm1'' \<or> account = ''e3_sub1'') ValueError
      (res_bind (item ''coin'' result) (\<lambda>coin.
       res_bind (member_of coin [''SOL'', ''ENA'', ''VVV'']) (\<lambda>known.
       res_check known ValueError
       (res_check (live \<longrightarrow> truthy_json (get_key ''approved_for_micro_soak'' result)) ValueError
       (res_check (truthy_json (get_key ''selected'' result)) ValueError
       (res_bind (item_of ''parameters'' (get_key ''selected'' result)) (\<lambda>params.
       res_bind (item ''policy'' result) (\<lambda>policy.
       res_bind (item_of ''exchange'' policy) (\<lambda>exchange.
       res_check (exchange = JStr ''hyperliquid'') ValueError
       (res_bind (item_of ''pricing_model'' params) (\<lambda>model.
       res_bind (member_of model [''glft'', ''fixed'']) (\<lambda>modern.
       res_check modern ValueError
       (res_bind (item_of ''target_inventory'' policy) (\<lambda>target.
       res_check (number target = Some 0) ValueError
       (res_bind (item_of ''leverage'' policy) (\<lambda>leverage.
       res_check (number leverage = Some 3) ValueError
       (res_bind (item ''venue_rules'' result) (\<lambda>rules.
       res_bind (item_of ''quote_size'' rules) (\<lambda>size.
       res_bind (item ''max_position_multiple'' result) (\<lambda>multiple.
       res_bind (times_json size multiple) (\<lambda>cap.
       res_bind (item_of ''price_tick'' rules) (\<lambda>tick.
         Inr \<lparr>sv_coin = (case coin of JStr s \<Rightarrow> s | _ \<Rightarrow> []), sv_params = (case params of JObj d \<Rightarrow> d | _ \<Rightarrow> []),
              sv_policy = policy, sv_size = size, sv_tick = tick, sv_cap = cap\<rparr>))))))))))))))))))))))"

definition fixed_before :: "string \<Rightarrow> string \<Rightarrow> dict" where
  "fixed_before account coin =
     [(''id'', JStr (''perp_mm_'' @ account @ ''_'' @ str_lower coin @ ''_soak'')), (''controller_name'', JStr ''perp_mm''),
      (''controller_type'', JStr ''generic''), (''connector_name'', JStr ''hyperliquid_perpetual''),
      (''trading_pair'', JStr (coin @ ''-USD'')), (''venue'', JStr ''hyperliquid''), (''account_id'', JStr account)]"

definition fixed_after :: "soak_values \<Rightarrow> bool \<Rightarrow> dict" where
  "fixed_after v live =
     [(''quote_size'', sv_size v), (''price_tick'', sv_tick v), (''target_inventory'', JNum 0),
      (''max_position'', JNum (sv_cap v)), (''critical_position'', JNum (2 * sv_cap v)), (''leverage'', JNum 3),
      (''shadow_mode'', JBool (\<not> live))]"

text \<open>The fields copied from the policy and from the report, by name.\<close>

definition policy_fields :: "string list" where
  "policy_fields = [''maker_fee_bps'', ''min_edge_bps'', ''quote_reprice_bps'', ''quote_post_only_buffer_bps'']"

definition report_fields :: "string list" where
  "report_fields =
     [''regime_stop'', ''toxic_markout_bps'', ''update_interval'', ''quote_refresh_interval'', ''max_market_data_age_s'']"

fun copy_items :: "(string \<Rightarrow> py_error + json) \<Rightarrow> string list \<Rightarrow> py_error + dict" where
  "copy_items f [] = Inr []"
| "copy_items f (k # ks) = res_bind (f k) (\<lambda>v. res_bind (copy_items f ks) (\<lambda>d. Inr ((k, v) # d)))"

text \<open>\<open>dict(a=..., **params, b=...)\<close>: a key given twice is a TypeError.\<close>

definition controller_from_result :: "dict \<Rightarrow> string \<Rightarrow> bool \<Rightarrow> py_error + dict" where
  "controller_from_result result account live =
     res_bind (read_result result account live) (\<lambda>v.
     res_bind (copy_items (\<lambda>k. item_of k (sv_policy v)) policy_fields) (\<lambda>from_policy.
     res_bind (copy_items (\<lambda>k. item k result) report_fields) (\<lambda>from_report.
       let d = fixed_before account (sv_coin v) @ sv_params v @ fixed_after v live @ from_policy @ from_report
               @ [(''quote_liveness_timeout'', JNum 15), (''quote_recovery_cooldown'', JNum 30)]
       in res_check (distinct (map fst d)) TypeError (Inr d))))"

section \<open>Checking a prepared run\<close>

text \<open>Equality of dicts does not depend on the order of their keys.\<close>

definition dict_eq :: "dict \<Rightarrow> dict \<Rightarrow> bool" where
  "dict_eq a b = list_all (\<lambda>k. map_of a k = map_of b k) (map fst a @ map fst b)"

record prepared =
  pr_manifest :: dict
  pr_report :: dict
  pr_controller :: dict
  pr_script :: dict

definition without_key :: "string \<Rightarrow> dict \<Rightarrow> dict" where
  "without_key key d = filter (\<lambda>(k, v). k \<noteq> key) d"

text \<open>The first result of the manifest's coin; \<open>next\<close> without one is a StopIteration.\<close>

fun find_result :: "json \<Rightarrow> json list \<Rightarrow> py_error + dict" where
  "find_result coin [] = Inl (OtherError ''StopIteration'')"
| "find_result coin (r # rs) =
     (case item_of ''coin'' r of Inl e \<Rightarrow> Inl e | Inr c \<Rightarrow>
        if c = coin then (case r of JObj d \<Rightarrow> Inr d | _ \<Rightarrow> Inl TypeError) else find_result coin rs)"

text \<open>Iterating a JSON value: the items of a list, the characters of a string, the keys of a dict.\<close>

definition iterate :: "json \<Rightarrow> py_error + json list" where
  "iterate v =
     (case v of
        JArr xs \<Rightarrow> Inr xs
      | JStr s \<Rightarrow> Inr (map (\<lambda>c. JStr [c]) s)
      | JObj d \<Rightarrow> Inr (map (\<lambda>(k, v). JStr k) d)
      | _ \<Rightarrow> Inl TypeError)"

definition is_dict :: "dict \<Rightarrow> json \<Rightarrow> bool" where
  "is_dict d v = (case v of JObj e \<Rightarrow> dict_eq d e | _ \<Rightarrow> False)"

definition expired :: "real \<Rightarrow> json \<Rightarrow> py_error + bool" where
  "expired now created =
     (case number created of None \<Rightarrow> Inl TypeError | Some t \<Rightarrow> Inr (\<not> (0 \<le> now - t \<and> now - t \<le> 86400)))"

definition validate_prepared ::
  "prepared \<Rightarrow> string \<Rightarrow> string list \<Rightarrow> bool \<Rightarrow> real \<Rightarrow> json \<Rightarrow> py_error + dict" where
  "validate_prepared p account coins require_live now fingerprint =
     res_bind (item ''account'' (pr_manifest p)) (\<lambda>maccount.
     res_check (maccount = JStr account) ValueError
     (res_bind (item ''coin'' (pr_manifest p)) (\<lambda>coin.
      res_check (map JStr coins = [coin]) ValueError
      (res_check (number (get_key ''schema_version'' (pr_report p)) = Some 2) ValueError
      (res_bind (if require_live then item ''live'' (pr_manifest p) else Inr (JBool True)) (\<lambda>gate.
       res_check (truthy_json gate) ValueError
      (res_bind (if require_live then res_bind (item ''created_at'' (pr_report p)) (expired now) else Inr False) (\<lambda>old.
       res_check (\<not> old) ValueError
      (res_bind (item ''source_fingerprint'' (pr_report p)) (\<lambda>f.
       res_check (f = fingerprint) ValueError
      (res_bind (item ''results'' (pr_report p)) (\<lambda>results.
       res_bind (iterate results) (\<lambda>rs.
       res_bind (find_result coin rs) (\<lambda>result.
       res_bind (item ''live'' (pr_manifest p)) (\<lambda>live.
       res_bind (controller_from_result result account (truthy_json live)) (\<lambda>expected.
       res_bind (item ''controller'' (pr_manifest p)) (\<lambda>name.
       res_check (dict_eq (without_key ''decision_log_path'' (pr_controller p)) expected) ValueError
      (res_bind (item ''config'' (pr_manifest p)) (\<lambda>config.
       res_check (is_dict (pr_controller p) config) ValueError
      (res_bind (item ''script'' (pr_manifest p)) (\<lambda>script_name.
       res_check (dict_eq (pr_script p) [(''script_file_name'', JStr ''opms_perp_mm.py''), (''controllers_config'', JArr [name])])
         ValueError (Inr (pr_manifest p)))))))))))))))))))))))"

section \<open>What a live preparation guarantees\<close>

lemma map_of_distinct: "distinct (map fst d) \<Longrightarrow> (k, v) \<in> set d \<Longrightarrow> map_of d k = Some v"
  by simp

text \<open>The facts every report that becomes a controller satisfies.\<close>

lemma controller_facts:
  assumes "controller_from_result result account live = Inr d"
  shows "map_of d ''account_id'' = Some (JStr account)" "map_of d ''shadow_mode'' = Some (JBool (\<not> live))"
    "map_of d ''target_inventory'' = Some (JNum 0)" "map_of d ''leverage'' = Some (JNum 3)"
    "\<exists>cap. map_of d ''max_position'' = Some (JNum cap) \<and> map_of d ''critical_position'' = Some (JNum (2 * cap))"
    "\<exists>m. m \<in> {''glft'', ''fixed''} \<and> map_of d ''pricing_model'' = Some (JStr m)"
    "live \<longrightarrow> truthy_json (get_key ''approved_for_micro_soak'' result)" "distinct (map fst d)"
proof -
  from assms obtain v from_policy from_report where v: "read_result result account live = Inr v"
    "d = fixed_before account (sv_coin v) @ sv_params v @ fixed_after v live @ from_policy @ from_report
                @ [(''quote_liveness_timeout'', JNum 15), (''quote_recovery_cooldown'', JNum 30)]"
    "distinct (map fst d)"
    by (auto simp: controller_from_result_def Let_def res_Inr)
  note key = map_of_distinct[OF v(3)]
  show "map_of d ''account_id'' = Some (JStr account)" by (rule key) (simp add: v(2) fixed_before_def)
  show "map_of d ''shadow_mode'' = Some (JBool (\<not> live))" by (rule key) (simp add: v(2) fixed_after_def)
  show "map_of d ''target_inventory'' = Some (JNum 0)" by (rule key) (simp add: v(2) fixed_after_def)
  show "map_of d ''leverage'' = Some (JNum 3)" by (rule key) (simp add: v(2) fixed_after_def)
  have "map_of d ''max_position'' = Some (JNum (sv_cap v))" by (rule key) (simp add: v(2) fixed_after_def)
  moreover have "map_of d ''critical_position'' = Some (JNum (2 * sv_cap v))" by (rule key) (simp add: v(2) fixed_after_def)
  ultimately show "\<exists>cap. map_of d ''max_position'' = Some (JNum cap) \<and> map_of d ''critical_position'' = Some (JNum (2 * cap))"
    by blast
  from v(1) obtain params m where m: "item_of ''pricing_model'' params = Inr m" "member_of m [''glft'', ''fixed''] = Inr True"
      "sv_params v = (case params of JObj d \<Rightarrow> d | _ \<Rightarrow> [])" "live \<longrightarrow> truthy_json (get_key ''approved_for_micro_soak'' result)"
    unfolding read_result_def res_Inr by auto
  from m(4) show "live \<longrightarrow> truthy_json (get_key ''approved_for_micro_soak'' result)" .
  from m(1,3) have "map_of (sv_params v) ''pricing_model'' = Some m"
    by (auto simp: item_of_def item_def split: json.splits option.splits)
  then have "map_of d ''pricing_model'' = Some m" by (intro key) (auto simp: v(2) dest: map_of_SomeD)
  moreover from m(2) obtain s where "m = JStr s" "s \<in> {''glft'', ''fixed''}"
    by (auto simp: member_of_def split: json.splits)
  ultimately show "\<exists>m. m \<in> {''glft'', ''fixed''} \<and> map_of d ''pricing_model'' = Some (JStr m)" by blast
  show "distinct (map fst d)" by (rule v(3))
qed

lemma dict_eq_map_of: "dict_eq a b \<Longrightarrow> map_of a k = map_of b k"
proof (cases "k \<in> fst ` set a \<union> fst ` set b")
  case False
  then have "map_of a k = None" "map_of b k = None" by (auto simp: map_of_eq_None_iff)
  then show ?thesis by simp
qed (auto simp: dict_eq_def list_all_iff)

lemma map_of_without: "k \<noteq> key \<Longrightarrow> map_of (without_key key d) k = map_of d k"
  by (induction d) (auto simp: without_key_def)

text \<open>
  A directory accepted for a live run is the calibrated one: its manifest names exactly the
  account and the single coin asked for, the report is at most a day old, not from the future and
  made by the present sources, the coin's result is approved, and the controller file trades live
  on that account with a flat target, leverage 3, a fitted pricing model and a critical position of
  twice the maximum one.
\<close>

theorem accepted_preparation_is_the_calibrated_one:
  assumes "validate_prepared p account coins True now fingerprint = Inr manifest"
  shows "manifest = pr_manifest p
    \<and> map_of manifest ''account'' = Some (JStr account)
    \<and> (\<exists>coin t result results rs. coins = [coin] \<and> map_of manifest ''coin'' = Some (JStr coin)
        \<and> map_of (pr_report p) ''created_at'' = Some t
        \<and> (\<exists>c. number t = Some c \<and> 0 \<le> now - c \<and> now - c \<le> 86400)
        \<and> map_of (pr_report p) ''source_fingerprint'' = Some fingerprint
        \<and> map_of (pr_report p) ''results'' = Some results \<and> iterate results = Inr rs \<and> find_result (JStr coin) rs = Inr result
        \<and> truthy_json (get_key ''approved_for_micro_soak'' result))
    \<and> map_of (pr_controller p) ''account_id'' = Some (JStr account)
    \<and> map_of (pr_controller p) ''shadow_mode'' = Some (JBool False)
    \<and> map_of (pr_controller p) ''target_inventory'' = Some (JNum 0)
    \<and> map_of (pr_controller p) ''leverage'' = Some (JNum 3)
    \<and> (\<exists>cap. map_of (pr_controller p) ''max_position'' = Some (JNum cap)
         \<and> map_of (pr_controller p) ''critical_position'' = Some (JNum (2 * cap)))
    \<and> (\<exists>m. m \<in> {''glft'', ''fixed''} \<and> map_of (pr_controller p) ''pricing_model'' = Some (JStr m))"
proof -
  have itemD: "item k d = Inr v \<Longrightarrow> map_of d k = Some v" for k d v
    by (auto simp: item_def split: option.splits)
  from assms obtain coin t live results rs result expected where v:
    "manifest = pr_manifest p" "map_of (pr_manifest p) ''account'' = Some (JStr account)"
    "map_of (pr_manifest p) ''coin'' = Some coin" "map JStr coins = [coin]"
    "map_of (pr_report p) ''created_at'' = Some t" "expired now t = Inr False"
    "map_of (pr_report p) ''source_fingerprint'' = Some fingerprint"
    "map_of (pr_report p) ''results'' = Some results" "iterate results = Inr rs" "find_result coin rs = Inr result"
    "truthy_json live"
    "controller_from_result result account (truthy_json live) = Inr expected"
    "dict_eq (without_key ''decision_log_path'' (pr_controller p)) expected"
    unfolding validate_prepared_def res_Inr if_True
    by (auto simp: res_Inr dest!: itemD)
  then obtain s where s: "coins = [s]" "coin = JStr s" by auto
  from v(6) obtain c where c: "number t = Some c" "0 \<le> now - c" "now - c \<le> 86400"
    by (auto simp: expired_def split: option.splits)
  note f = controller_facts[OF v(12)]
  have same: "map_of (pr_controller p) k = map_of expected k" if "k \<noteq> ''decision_log_path''" for k
    using dict_eq_map_of[OF v(13), of k] map_of_without[OF that] by simp
  show ?thesis
    using v s c f by (simp add: same)
qed


definition sample_result :: dict where
  "sample_result =
     [(''coin'', JStr ''SOL''), (''approved_for_micro_soak'', JBool True),
      (''venue_rules'', JObj [(''quote_size'', JNum (1 / 5)), (''price_tick'', JNum (1 / 1000))]),
      (''selected'', JObj [(''parameters'', JObj [(''pricing_model'', JStr ''glft''), (''gamma'', JNum (1 / 50))])]),
      (''policy'', JObj [(''exchange'', JStr ''hyperliquid''), (''target_inventory'', JNum 0), (''leverage'', JNum 3),
         (''maker_fee_bps'', JNum (3 / 2)), (''min_edge_bps'', JNum 5), (''quote_reprice_bps'', JNum 2),
         (''quote_post_only_buffer_bps'', JNum 1)]),
      (''regime_stop'', JBool False), (''toxic_markout_bps'', JNum (-1)), (''update_interval'', JNum 1),
      (''quote_refresh_interval'', JNum 5), (''max_market_data_age_s'', JNum 2), (''max_position_multiple'', JNum 5)]"

definition sample_controller :: dict where
  "sample_controller =
     [(''id'', JStr ''perp_mm_e2_mm1_sol_soak''), (''controller_name'', JStr ''perp_mm''),
      (''controller_type'', JStr ''generic''), (''connector_name'', JStr ''hyperliquid_perpetual''),
      (''trading_pair'', JStr ''SOL-USD''), (''venue'', JStr ''hyperliquid''), (''account_id'', JStr ''e2_mm1''),
      (''pricing_model'', JStr ''glft''), (''gamma'', JNum (1 / 50)),
      (''quote_size'', JNum (1 / 5)), (''price_tick'', JNum (1 / 1000)), (''target_inventory'', JNum 0),
      (''max_position'', JNum 1), (''critical_position'', JNum 2), (''leverage'', JNum 3), (''shadow_mode'', JBool False),
      (''maker_fee_bps'', JNum (3 / 2)), (''min_edge_bps'', JNum 5), (''quote_reprice_bps'', JNum 2),
      (''quote_post_only_buffer_bps'', JNum 1),
      (''regime_stop'', JBool False), (''toxic_markout_bps'', JNum (-1)), (''update_interval'', JNum 1),
      (''quote_refresh_interval'', JNum 5), (''max_market_data_age_s'', JNum 2),
      (''quote_liveness_timeout'', JNum 15), (''quote_recovery_cooldown'', JNum 30)]"

lemma lower_sol: "str_lower ''SOL'' = ''sol''"
  by code_simp

lemma sample_becomes_controller: "controller_from_result sample_result ''e2_mm1'' True = Inr sample_controller"
  by (simp add: controller_from_result_def read_result_def sample_result_def item_def item_of_def member_of_def
      res_check_def get_or_def times_json_def policy_fields_def report_fields_def fixed_before_def fixed_after_def
      lower_sol sample_controller_def)

lemma dict_eq_refl [simp]: "dict_eq d d"
  by (simp add: dict_eq_def list_all_iff)

definition sample_prepared :: prepared where
  "sample_prepared =
     \<lparr>pr_manifest = [(''account'', JStr ''e2_mm1''), (''coin'', JStr ''SOL''), (''live'', JBool True),
        (''controller'', JStr ''c.yml''), (''script'', JStr ''s.yml''), (''config'', JObj sample_controller)],
      pr_report = [(''schema_version'', JNum 2), (''created_at'', JNum 1000), (''source_fingerprint'', JStr ''f''),
        (''results'', JArr [JObj sample_result])],
      pr_controller = sample_controller,
      pr_script = [(''script_file_name'', JStr ''opms_perp_mm.py''), (''controllers_config'', JArr [JStr ''c.yml''])]\<rparr>"

lemma sample_accepted:
  "validate_prepared sample_prepared ''e2_mm1'' [''SOL''] True 2000 (JStr ''f'') = Inr (pr_manifest sample_prepared)"
proof -
  have "without_key ''decision_log_path'' sample_controller = sample_controller"
    by (simp add: without_key_def sample_controller_def)
  moreover have "find_result (JStr ''SOL'') [JObj sample_result] = Inr sample_result"
    by (simp add: item_of_def item_def sample_result_def)
  ultimately show ?thesis
    by (simp add: validate_prepared_def sample_prepared_def item_def res_check_def get_or_def expired_def iterate_def
        is_dict_def sample_becomes_controller)
qed

theorem accepted_preparation_is_the_calibrated_one_witness:
  "map_of (pr_controller sample_prepared) ''shadow_mode'' = Some (JBool False)
   \<and> map_of (pr_controller sample_prepared) ''leverage'' = Some (JNum 3)"
  using accepted_preparation_is_the_calibrated_one[OF sample_accepted] by blast

end
