(* ===== verification/SoakPreparation.thy ===== *)
theory SoakPreparation imports SoakCalibration begin

text \<open>
  \<open>src/scripts/prepare_calibrated_soak.py\<close>: writing the directory of one experiment, and the round
  trip to \<open>validate_calibrated_soak.py\<close>, which reads it back.

  The files hold what was dumped into them (PyYAML's and \<open>json\<close>'s writing and reading are taken as
  inverse).  The digest of the capture file and \<open>str\<close> of a JSON value are parameters.
\<close>

section \<open>Writing the directory\<close>

record prepared_files =
  pf_controllers :: "(string \<times> dict) list"
  pf_scripts :: "(string \<times> dict) list"
  pf_report :: "dict option"
  pf_manifest :: "dict option"
  pf_env :: "(string \<times> string) list"

definition no_files :: prepared_files where
  "no_files = \<lparr>pf_controllers = [], pf_scripts = [], pf_report = None, pf_manifest = None, pf_env = []\<rparr>"

record prepare_args =
  ps_coin :: string
  ps_account :: string
  ps_live :: bool
  ps_output :: string
  ps_root :: string

text \<open>\<open>argparse\<close>'s choices.\<close>

definition prepare_args_ok :: "prepare_args \<Rightarrow> bool" where
  "prepare_args_ok a =
     (ps_coin a \<in> {''SOL'', ''ENA'', ''VVV''} \<and> ps_account a \<in> {''e2_mm1'', ''e3_sub1''})"

abbreviation usage_error :: py_error where
  "usage_error \<equiv> OtherError ''SystemExit''"

definition path_of :: "json \<Rightarrow> py_error + string" where
  "path_of v = (case v of JStr s \<Rightarrow> Inr s | _ \<Rightarrow> Inl TypeError)"

text \<open>Everything read and checked before the directory is made: the report's result and its controller.\<close>

definition prepare_config :: "(string \<Rightarrow> py_error + string) \<Rightarrow> prepare_args \<Rightarrow> dict \<Rightarrow> py_error + dict \<times> dict" where
  "prepare_config digest a report =
     res_check (prepare_args_ok a) usage_error
     (res_check (number (get_key ''schema_version'' report) = Some 2) usage_error
     (res_bind (item ''capture_path'' report) (\<lambda>path.
      res_bind (path_of path) (\<lambda>file.
      res_bind (digest file) (\<lambda>sha.
      res_bind (item ''capture_sha256'' report) (\<lambda>recorded.
      res_check (JStr sha = recorded) usage_error
     (res_bind (item ''results'' report) (\<lambda>results.
      res_bind (iterate results) (\<lambda>rs.
      res_bind (find_result (JStr (ps_coin a)) rs) (\<lambda>result.
      res_bind (controller_from_result result (ps_account a) (ps_live a)) (\<lambda>config.
        Inr (result, config))))))))))))"

definition config_id :: "dict \<Rightarrow> string" where
  "config_id config = (case get_key ''id'' config of JStr s \<Rightarrow> s | _ \<Rightarrow> [])"

definition with_log_path :: "string \<Rightarrow> dict \<Rightarrow> dict" where
  "with_log_path dir config =
     AList.update ''decision_log_path'' (JStr (dir @ ''/logs/hb_soak/'' @ config_id config @ ''.decisions.jsonl'')) config"

definition script_file :: "prepare_args \<Rightarrow> string" where
  "script_file a = ''opms_perp_mm_'' @ ps_account a @ ''_'' @ str_lower (ps_coin a) @ ''_calibrated.yml''"

definition controller_file :: "dict \<Rightarrow> string" where
  "controller_file config = config_id config @ ''.yml''"

definition run_env :: "(json \<Rightarrow> string) \<Rightarrow> prepare_args \<Rightarrow> json \<Rightarrow> json \<Rightarrow> (string \<times> string) list" where
  "run_env to_str a interval start_equity =
     [(''ACCOUNT_ID'', ps_account a), (''SOAK_COINS'', ps_coin a), (''SOAK_CONFIG_DIR'', ps_output a),
      (''SOAK_SCRIPT_CONFIG'', script_file a), (''SOAK_LEVERAGE'', ''3''), (''SOAK_RISK_GATES'', ''markout-only''),
      (''SOAK_FLAT_TARGETS'', ''1''), (''SOAK_UPDATE_INTERVAL'', to_str interval),
      (''MIN_COLLATERAL'', to_str start_equity), (''MAX_DRAWDOWN_PCT'', ''1.0'')]"

definition manifest_of :: "prepare_args \<Rightarrow> dict \<Rightarrow> json \<Rightarrow> dict" where
  "manifest_of a config start_equity =
     [(''coin'', JStr (ps_coin a)), (''account'', JStr (ps_account a)), (''live'', JBool (ps_live a)),
      (''controller'', JStr (controller_file config)), (''script'', JStr (script_file a)), (''config'', JObj config),
      (''start_equity'', start_equity)]"

text \<open>
  \<open>main\<close>: the files it leaves and how it ends.  A directory that exists is refused before anything is
  written; a result without \<open>start_equity\<close> is found out after the configurations are.
\<close>

definition prepare_soak ::
  "(string \<Rightarrow> py_error + string) \<Rightarrow> (json \<Rightarrow> string) \<Rightarrow> bool \<Rightarrow> prepare_args \<Rightarrow> dict \<Rightarrow> prepared_files \<times> (py_error + unit)" where
  "prepare_soak digest to_str output_exists a report =
     (case prepare_config digest a report of
        Inl e \<Rightarrow> (no_files, Inl e)
      | Inr (result, config0) \<Rightarrow>
          if output_exists then (no_files, Inl (OtherError ''FileExistsError''))
          else
            let config = with_log_path (ps_root a) config0;
                controller = controller_file config;
                script = [(''script_file_name'', JStr ''opms_perp_mm.py''), (''controllers_config'', JArr [JStr controller])];
                files = \<lparr>pf_controllers = [(controller, config)], pf_scripts = [(script_file a, script)],
                         pf_report = Some report, pf_manifest = None, pf_env = []\<rparr>
            in case item ''start_equity'' result of
                 Inl e \<Rightarrow> (files, Inl e)
               | Inr start_equity \<Rightarrow>
                   let files' = files\<lparr>pf_manifest := Some (manifest_of a config start_equity)\<rparr> in
                   (case item ''update_interval'' result of
                      Inl e \<Rightarrow> (files', Inl e)
                    | Inr interval \<Rightarrow> (files'\<lparr>pf_env := run_env to_str a interval start_equity\<rparr>, Inr ())))"

section \<open>Reading it back\<close>

definition file_of :: "(string \<times> dict) list \<Rightarrow> json \<Rightarrow> py_error + dict" where
  "file_of files name =
     (case name of
        JStr s \<Rightarrow> (case map_of files s of Some d \<Rightarrow> Inr d | None \<Rightarrow> Inl (OtherError ''FileNotFoundError''))
      | _ \<Rightarrow> Inl TypeError)"

text \<open>The contents the validation works on: the controller and the script are the files the manifest names.\<close>

definition load_prepared :: "prepared_files \<Rightarrow> py_error + prepared" where
  "load_prepared f =
     (case (pf_manifest f, pf_report f) of
        (Some manifest, Some report) \<Rightarrow>
          res_bind (item ''controller'' manifest) (\<lambda>controller.
          res_bind (file_of (pf_controllers f) controller) (\<lambda>c.
          res_bind (item ''script'' manifest) (\<lambda>script.
          res_bind (file_of (pf_scripts f) script) (\<lambda>s.
            Inr \<lparr>pr_manifest = manifest, pr_report = report, pr_controller = c, pr_script = s\<rparr>))))
      | _ \<Rightarrow> Inl (OtherError ''FileNotFoundError''))"

text \<open>\<open>validate_calibrated_soak.py\<close>: the same gate from the command line.\<close>

definition validate_calibrated :: "prepared \<Rightarrow> string \<Rightarrow> string list \<Rightarrow> bool \<Rightarrow> real \<Rightarrow> json \<Rightarrow> py_error + dict" where
  "validate_calibrated p account coins allow_shadow now fingerprint =
     validate_prepared p account coins (\<not> allow_shadow) now fingerprint"

definition fresh_report :: "dict \<Rightarrow> real \<Rightarrow> bool" where
  "fresh_report report now = (\<exists>t c. map_of report ''created_at'' = Some t \<and> number t = Some c \<and> 0 \<le> now - c \<and> now - c \<le> 86400)"

lemma without_update: "map_of d key = None \<Longrightarrow> without_key key (AList.update key v d) = d"
  by (induction d) (auto simp: without_key_def filter_id_conv split: if_splits dest: weak_map_of_SomeI)

lemma without_key_None: "map_of (without_key key d) key = None"
  by (induction d) (auto simp: without_key_def)

lemma map_of_log_path: "k \<noteq> ''decision_log_path'' \<Longrightarrow> map_of (with_log_path dir d) k = map_of d k"
  by (simp add: with_log_path_def update_conv')

lemma prepare_soak_files:
  assumes "prepare_soak digest to_str output_exists a report = (files, Inr ())"
  shows "\<exists>results rs result config start interval.
    number (get_key ''schema_version'' report) = Some 2
    \<and> map_of report ''results'' = Some results \<and> iterate results = Inr rs \<and> find_result (JStr (ps_coin a)) rs = Inr result
    \<and> controller_from_result result (ps_account a) (ps_live a) = Inr config
    \<and> load_prepared files = Inr
        \<lparr>pr_manifest = manifest_of a (with_log_path (ps_root a) config) start, pr_report = report,
         pr_controller = with_log_path (ps_root a) config,
         pr_script = [(''script_file_name'', JStr ''opms_perp_mm.py''),
           (''controllers_config'', JArr [JStr (controller_file (with_log_path (ps_root a) config))])]\<rparr>
    \<and> pf_env files = run_env to_str a interval start"
proof -
  from assms obtain result config start interval where c: "prepare_config digest a report = Inr (result, config)"
    "\<not> output_exists" "item ''start_equity'' result = Inr start" "item ''update_interval'' result = Inr interval"
    and f: "files = \<lparr>pf_controllers = [(controller_file (with_log_path (ps_root a) config), with_log_path (ps_root a) config)],
      pf_scripts = [(script_file a, [(''script_file_name'', JStr ''opms_perp_mm.py''),
           (''controllers_config'', JArr [JStr (controller_file (with_log_path (ps_root a) config))])])],
      pf_report = Some report, pf_manifest = Some (manifest_of a (with_log_path (ps_root a) config) start),
      pf_env = run_env to_str a interval start\<rparr>"
    by (auto simp: prepare_soak_def Let_def no_files_def split: sum.splits if_splits)
  from c(1) obtain results rs where r: "number (get_key ''schema_version'' report) = Some 2"
      "item ''results'' report = Inr results" "iterate results = Inr rs" "find_result (JStr (ps_coin a)) rs = Inr result"
      "controller_from_result result (ps_account a) (ps_live a) = Inr config"
    unfolding prepare_config_def res_Inr by auto
  have "map_of report ''results'' = Some results" using r(2) by (simp add: item_def split: option.splits)
  moreover have "load_prepared files = Inr
        \<lparr>pr_manifest = manifest_of a (with_log_path (ps_root a) config) start, pr_report = report,
         pr_controller = with_log_path (ps_root a) config,
         pr_script = [(''script_file_name'', JStr ''opms_perp_mm.py''),
           (''controllers_config'', JArr [JStr (controller_file (with_log_path (ps_root a) config))])]\<rparr>"
    by (simp add: load_prepared_def f manifest_of_def item_def file_of_def)
  ultimately show ?thesis using r by (auto simp: f)
qed

text \<open>
  C26: Preparing and validating are inverse: whatever a successful preparation wrote is read back,
  and the validation of that directory for its account and coin accepts it exactly when the
  sources are the ones of the report, the fitted parameters carried no log path of their own, and,
  for a live run, the preparation was live and the report is at most a day old.  The environment
  file names that account, that coin and the script the manifest names.
\<close>

theorem prepared_run_is_accepted_while_fresh:
  assumes "prepare_soak digest to_str output_exists a report = (files, Inr ())"
  shows "\<exists>p results rs result config.
    load_prepared files = Inr p
    \<and> map_of report ''results'' = Some results \<and> iterate results = Inr rs \<and> find_result (JStr (ps_coin a)) rs = Inr result
    \<and> controller_from_result result (ps_account a) (ps_live a) = Inr config
    \<and> map_of (pf_env files) ''ACCOUNT_ID'' = Some (ps_account a) \<and> map_of (pf_env files) ''SOAK_COINS'' = Some (ps_coin a)
    \<and> map_of (pr_manifest p) ''script'' = map_option JStr (map_of (pf_env files) ''SOAK_SCRIPT_CONFIG'')
    \<and> (is_ok (validate_calibrated p (ps_account a) [ps_coin a] allow_shadow now fingerprint)
        \<longleftrightarrow> (\<not> allow_shadow \<longrightarrow> ps_live a \<and> fresh_report report now)
          \<and> map_of report ''source_fingerprint'' = Some fingerprint
          \<and> map_of config ''decision_log_path'' = None)"
proof -
  obtain results rs result config start interval where p:
    "number (get_key ''schema_version'' report) = Some 2"
    "map_of report ''results'' = Some results" "iterate results = Inr rs" "find_result (JStr (ps_coin a)) rs = Inr result"
    "controller_from_result result (ps_account a) (ps_live a) = Inr config"
    "load_prepared files = Inr
        \<lparr>pr_manifest = manifest_of a (with_log_path (ps_root a) config) start, pr_report = report,
         pr_controller = with_log_path (ps_root a) config,
         pr_script = [(''script_file_name'', JStr ''opms_perp_mm.py''),
           (''controllers_config'', JArr [JStr (controller_file (with_log_path (ps_root a) config))])]\<rparr>"
    "pf_env files = run_env to_str a interval start"
    using prepare_soak_files[OF assms] by blast
  define c where "c = with_log_path (ps_root a) config"
  have same: "dict_eq (without_key ''decision_log_path'' c) config \<longleftrightarrow> map_of config ''decision_log_path'' = None"
  proof
    assume "dict_eq (without_key ''decision_log_path'' c) config"
    from dict_eq_map_of[OF this, of "''decision_log_path''"] show "map_of config ''decision_log_path'' = None"
      by (simp add: without_key_None)
  qed (simp add: c_def with_log_path_def without_update)
  have age: "(case map_of report ''created_at'' of None \<Rightarrow> False | Some t \<Rightarrow> expired now t = Inr False) \<longleftrightarrow> fresh_report report now"
    by (auto simp: fresh_report_def expired_def split: option.splits)
  have ok: "is_ok (validate_prepared
        \<lparr>pr_manifest = manifest_of a c start, pr_report = report, pr_controller = c,
         pr_script = [(''script_file_name'', JStr ''opms_perp_mm.py''), (''controllers_config'', JArr [JStr (controller_file c)])]\<rparr>
        (ps_account a) [ps_coin a] (\<not> allow_shadow) now fingerprint)
      \<longleftrightarrow> (\<not> allow_shadow \<longrightarrow> ps_live a \<and> fresh_report report now)
          \<and> map_of report ''source_fingerprint'' = Some fingerprint \<and> map_of config ''decision_log_path'' = None"
    unfolding same[symmetric] age[symmetric]
    using p(1-5)
    by (cases "map_of report ''created_at''"; cases "map_of report ''source_fingerprint''";
        cases "expired now (the (map_of report ''created_at''))"; cases "ps_live a")
       (simp_all add: validate_prepared_def manifest_of_def item_def res_check_def is_dict_def)
  show ?thesis
    using p(2-5) p(6)[folded c_def] ok
    by (intro exI[of _ "\<lparr>pr_manifest = manifest_of a c start, pr_report = report, pr_controller = c,
         pr_script = [(''script_file_name'', JStr ''opms_perp_mm.py''), (''controllers_config'', JArr [JStr (controller_file c)])]\<rparr>"]
        exI[of _ results] exI[of _ rs] exI[of _ result] exI[of _ config])
       (simp add: p(7) run_env_def manifest_of_def validate_calibrated_def)
qed


definition sample_report :: dict where
  "sample_report =
     [(''schema_version'', JNum 2), (''capture_path'', JStr ''cap''), (''capture_sha256'', JStr ''ab''),
      (''created_at'', JNum 1000), (''source_fingerprint'', JStr ''f''),
      (''results'', JArr [JObj (sample_result @ [(''start_equity'', JNum 300)])])]"

definition sample_args :: prepare_args where
  "sample_args = \<lparr>ps_coin = ''SOL'', ps_account = ''e2_mm1'', ps_live = True, ps_output = ''out'', ps_root = ''repo''\<rparr>"

theorem prepared_run_is_accepted_while_fresh_witness:
  "\<exists>files p. prepare_soak (\<lambda>_. Inr ''ab'') (\<lambda>_. ''1'') False sample_args sample_report = (files, Inr ())
     \<and> load_prepared files = Inr p
     \<and> is_ok (validate_calibrated p ''e2_mm1'' [''SOL''] False 2000 (JStr ''f''))
     \<and> \<not> is_ok (validate_calibrated p ''e2_mm1'' [''SOL''] False 100000 (JStr ''f''))"
proof -
  let ?r = "sample_result @ [(''start_equity'', JNum 300)]"
  have conf: "controller_from_result ?r ''e2_mm1'' True = Inr sample_controller"
    by (simp add: controller_from_result_def read_result_def sample_result_def item_def item_of_def member_of_def
        res_check_def get_or_def times_json_def policy_fields_def report_fields_def fixed_before_def fixed_after_def
        lower_sol sample_controller_def)
  have found: "find_result (JStr ''SOL'') [JObj ?r] = Inr ?r"
    by (simp add: item_of_def item_def sample_result_def)
  have prep: "prepare_config (\<lambda>_. Inr ''ab'') sample_args sample_report = Inr (?r, sample_controller)"
    using conf found
    by (simp add: prepare_config_def prepare_args_ok_def sample_args_def sample_report_def res_check_def get_or_def
        item_def path_of_def iterate_def)
  have "item ''start_equity'' ?r = Inr (JNum 300)" "item ''update_interval'' ?r = Inr (JNum 1)"
    by (simp_all add: item_def sample_result_def)
  with prep obtain files where files: "prepare_soak (\<lambda>_. Inr ''ab'') (\<lambda>_. ''1'') False sample_args sample_report = (files, Inr ())"
    by (simp add: prepare_soak_def Let_def)
  have no_log: "map_of sample_controller ''decision_log_path'' = None" by (simp add: sample_controller_def)
  have age: "fresh_report sample_report now \<longleftrightarrow> 1000 \<le> now \<and> now \<le> 87400" for now
    by (auto simp: fresh_report_def sample_report_def)
  note rt = prepared_run_is_accepted_while_fresh[OF files, of False _ "JStr ''f''"]
  have args: "ps_account sample_args = ''e2_mm1''" "ps_coin sample_args = ''SOL''" "ps_live sample_args"
    by (simp_all add: sample_args_def)
  have rep: "map_of sample_report ''results'' = Some (JArr [JObj ?r])" "map_of sample_report ''source_fingerprint'' = Some (JStr ''f'')"
    by (simp_all add: sample_report_def)
  from rt[of 2000] obtain p where p: "load_prepared files = Inr p"
      "is_ok (validate_calibrated p ''e2_mm1'' [''SOL''] False 2000 (JStr ''f''))"
    using found conf no_log by (auto simp: args rep age iterate_def)
  from rt[of 100000] p(1) have "\<not> is_ok (validate_calibrated p ''e2_mm1'' [''SOL''] False 100000 (JStr ''f''))"
    by (auto simp: args age)
  with files p show ?thesis by blast
qed

end
