(* ===== verification/ShadowStep.thy ===== *)
theory ShadowStep imports Prelude begin

text \<open>
  \<open>src/opms/research/shadow_step_a2.py\<close>: the rollout driver that takes a keeper through an initial
  deposit, one drift refresh and a TVL emergency exit, and fails when a phase is not reached.

  The keeper and the bridge belong to \<open>dlmm_bot\<close>: one parameter state \<open>'k\<close> with what the driver
  calls and reads.  Evidence keeps its fields without the rendered detail string.
\<close>

section \<open>Keeper, bridge and configuration\<close>

record a2_record =
  ar_decision :: string
  ar_action :: string

record 'k a2_world =
  aw_cycle :: "'k \<Rightarrow> 'k \<times> (py_error + a2_record)"
  aw_position :: "'k \<Rightarrow> string option"
  aw_extras :: "'k \<Rightarrow> string list"
  aw_halted :: "'k \<Rightarrow> bool"
  aw_calls :: "'k \<Rightarrow> string list"
  aw_set_receipt :: "string \<Rightarrow> 'k \<Rightarrow> 'k"
  aw_set_state :: "int \<Rightarrow> real \<times> real \<Rightarrow> real \<Rightarrow> 'k \<Rightarrow> 'k"
  aw_last_tvl :: "'k \<Rightarrow> real option"
  aw_set_min_tvl :: "real \<Rightarrow> 'k \<Rightarrow> 'k"

record a2_config =
  ac_fake :: bool
  ac_base_bin :: int
  ac_amplitude :: int
  ac_period :: int
  ac_tvl :: real
  ac_kill_tvl :: real
  ac_balances :: "real \<times> real"
  ac_max_cycles :: nat

record 'k a2_state =
  st_keeper :: 'k
  st_cycle_no :: nat
  st_armed :: bool

record evidence_a2 =
  ev_name :: string
  ev_cycles :: nat
  ev_decision :: string
  ev_action :: string
  ev_position :: "string option"

text \<open>A raise of \<open>A2StepError\<close>, or any other exception.\<close>

datatype a2_error = StepError string | Raised py_error

type_synonym ('k, 'a) a2_step = "'k a2_state \<times> (a2_error + 'a)"

text \<open>Python's \<open>round\<close>: to the nearest integer, a tie to the even one.\<close>

definition py_round :: "real \<Rightarrow> int" where
  "py_round x =
     (let f = \<lfloor>x\<rfloor>; d = x - of_int f in
      if d < 1 / 2 then f else if 1 / 2 < d then f + 1 else if even f then f else f + 1)"

text \<open>A position id that is a non-empty string.\<close>

definition has_position :: "string option \<Rightarrow> bool" where
  "has_position p = (case p of Some s \<Rightarrow> s \<noteq> '''' | None \<Rightarrow> False)"

section \<open>Driving\<close>

definition inject_state :: "'k a2_world \<Rightarrow> a2_config \<Rightarrow> bool \<Rightarrow> real option \<Rightarrow> 'k a2_state \<Rightarrow> ('k, unit) a2_step" where
  "inject_state W cfg position_exists tvl s =
     (if \<not> ac_fake cfg then (s, Inr ())
      else if ac_period cfg = 0 then (s, Inl (Raised (OtherError ''ZeroDivisionError'')))
      else
        let active = ac_base_bin cfg + py_round (of_int (ac_amplitude cfg)
                       * sin (2 * pi * real (st_cycle_no s) / of_int (ac_period cfg)))
        in (s\<lparr>st_keeper := aw_set_state W active (if position_exists then ac_balances cfg else (0, 0))
                 (case tvl of Some t \<Rightarrow> t | None \<Rightarrow> ac_tvl cfg) (st_keeper s)\<rparr>, Inr ()))"

definition a2_cycle :: "'k a2_world \<Rightarrow> 'k a2_state \<Rightarrow> ('k, a2_record) a2_step" where
  "a2_cycle W s =
     (case aw_cycle W (st_keeper s) of
        (k, res) \<Rightarrow> (s\<lparr>st_keeper := k, st_cycle_no := Suc (st_cycle_no s)\<rparr>,
         case res of Inl e \<Rightarrow> Inl (Raised e) | Inr r \<Rightarrow> Inr r))"

definition refresh_calls :: "'k a2_world \<Rightarrow> 'k a2_state \<Rightarrow> nat" where
  "refresh_calls W s = count_list (aw_calls W (st_keeper s)) ''refresh_bundle''"

definition arm_live_tvl_kill :: "'k a2_world \<Rightarrow> 'k a2_state \<Rightarrow> ('k, unit) a2_step" where
  "arm_live_tvl_kill W s =
     (case aw_last_tvl W (st_keeper s) of
        None \<Rightarrow> (s, Inl (StepError ''tvl_emergency: no TVL observed yet to arm the kill''))
      | Some t \<Rightarrow> (s\<lparr>st_keeper := aw_set_min_tvl W (t + 1) (st_keeper s), st_armed := True\<rparr>, Inr ()))"

definition a2_bind :: "('k, 'a) a2_step \<Rightarrow> ('a \<Rightarrow> 'k a2_state \<Rightarrow> ('k, 'b) a2_step) \<Rightarrow> ('k, 'b) a2_step" where
  "a2_bind m f = (case m of (s, Inl e) \<Rightarrow> (s, Inl e) | (s, Inr x) \<Rightarrow> f x s)"

text \<open>
  \<open>for _ in range(max_cycles)\<close> around a body that may return evidence, raise or go on; falling out
  of the loop raises.
\<close>

fun phase_loop :: "nat \<Rightarrow> string \<Rightarrow> ('k a2_state \<Rightarrow> ('k, evidence_a2 option) a2_step) \<Rightarrow> 'k a2_state \<Rightarrow> ('k, evidence_a2) a2_step" where
  "phase_loop 0 name body s = (s, Inl (StepError (name @ '': not reached'')))"
| "phase_loop (Suc n) name body s =
     (case body s of
        (s', Inl e) \<Rightarrow> (s', Inl e)
      | (s', Inr (Some ev)) \<Rightarrow> (s', Inr ev)
      | (s', Inr None) \<Rightarrow> phase_loop n name body s')"

definition evidence_for :: "'k a2_state \<Rightarrow> string \<Rightarrow> a2_record \<Rightarrow> string option \<Rightarrow> evidence_a2" where
  "evidence_for s name r pos =
     \<lparr>ev_name = name, ev_cycles = st_cycle_no s, ev_decision = ar_decision r, ev_action = ar_action r, ev_position = pos\<rparr>"

section \<open>Phases\<close>

definition deposit_pass :: "'k a2_world \<Rightarrow> a2_config \<Rightarrow> 'k a2_state \<Rightarrow> ('k, evidence_a2 option) a2_step" where
  "deposit_pass W cfg s =
     a2_bind (inject_state W cfg False None s) (\<lambda>_ s.
     a2_bind (a2_cycle W s) (\<lambda>r s.
       let pos = aw_position W (st_keeper s) in
       if ar_action r = ''initial_deposit'' \<and> has_position pos then
         (if \<not> ac_fake cfg \<and> aw_extras W (st_keeper s) = [] then
            (s, Inl (StepError ''initial_deposit: two-sided ladder opened no ask-side PDA''))
          else (s, Inr (Some (evidence_for s ''initial_deposit'' r pos))))
       else (s, Inr None)))"

definition phase_initial_deposit :: "'k a2_world \<Rightarrow> a2_config \<Rightarrow> 'k a2_state \<Rightarrow> ('k, evidence_a2) a2_step" where
  "phase_initial_deposit W cfg s =
     phase_loop (ac_max_cycles cfg) ''initial_deposit'' (deposit_pass W cfg)
       (if ac_fake cfg then s\<lparr>st_keeper := aw_set_receipt W ''shadow-pos-1'' (st_keeper s)\<rparr> else s)"

definition refresh_pass :: "'k a2_world \<Rightarrow> a2_config \<Rightarrow> nat \<Rightarrow> 'k a2_state \<Rightarrow> ('k, evidence_a2 option) a2_step" where
  "refresh_pass W cfg before s =
     a2_bind (inject_state W cfg (aw_position W (st_keeper s) \<noteq> None) None s) (\<lambda>_ s.
     a2_bind (a2_cycle W s) (\<lambda>r s.
       let pos = aw_position W (st_keeper s) in
       if ar_action r \<noteq> ''refresh'' then (s, Inr None)
       else if ac_fake cfg \<and> refresh_calls W s \<noteq> Suc before then
         (s, Inl (StepError ''drift_refresh: refresh action without exactly one refresh_bundle''))
       else if ac_fake cfg \<and> pos \<noteq> Some ''shadow-pos-2'' then
         (s, Inl (StepError ''drift_refresh: keeper did not adopt the returned position_id''))
       else if \<not> has_position pos then (s, Inl (StepError ''drift_refresh: no position_id after refresh''))
       else (s, Inr (Some (evidence_for s ''drift_refresh'' r pos)))))"

definition phase_drift_refresh :: "'k a2_world \<Rightarrow> a2_config \<Rightarrow> 'k a2_state \<Rightarrow> ('k, evidence_a2) a2_step" where
  "phase_drift_refresh W cfg s =
     (let s0 = (if ac_fake cfg then s\<lparr>st_keeper := aw_set_receipt W ''shadow-pos-2'' (st_keeper s)\<rparr> else s)
      in phase_loop (ac_max_cycles cfg) ''drift_refresh'' (refresh_pass W cfg (refresh_calls W s0)) s0)"

definition emergency_pass :: "'k a2_world \<Rightarrow> a2_config \<Rightarrow> 'k a2_state \<Rightarrow> ('k, evidence_a2 option) a2_step" where
  "emergency_pass W cfg s =
     a2_bind (if ac_fake cfg then inject_state W cfg True (Some (ac_kill_tvl cfg)) s
              else if \<not> st_armed s then arm_live_tvl_kill W s else (s, Inr ())) (\<lambda>_ s.
     a2_bind (a2_cycle W s) (\<lambda>r s.
       if ar_decision r \<noteq> ''emergency_exit'' then (s, Inr None)
       else if \<not> aw_halted W (st_keeper s) then
         (s, Inl (StepError ''tvl_emergency: decision fired but keeper not halted''))
       else if aw_position W (st_keeper s) \<noteq> None then
         (s, Inl (StepError ''tvl_emergency: position not withdrawn''))
       else if aw_extras W (st_keeper s) \<noteq> [] then
         (s, Inl (StepError ''tvl_emergency: ask-side PDAs left open''))
       else (s, Inr (Some (evidence_for s ''tvl_emergency'' r None)))))"

definition phase_tvl_emergency :: "'k a2_world \<Rightarrow> a2_config \<Rightarrow> 'k a2_state \<Rightarrow> ('k, evidence_a2) a2_step" where
  "phase_tvl_emergency W cfg s =
     phase_loop (ac_max_cycles cfg) ''tvl_emergency'' (emergency_pass W cfg) (s\<lparr>st_armed := False\<rparr>)"

definition a2_run :: "'k a2_world \<Rightarrow> a2_config \<Rightarrow> 'k a2_state \<Rightarrow> ('k, evidence_a2 list \<times> string list) a2_step" where
  "a2_run W cfg s =
     a2_bind (phase_initial_deposit W cfg s) (\<lambda>e1 s.
     a2_bind (phase_drift_refresh W cfg s) (\<lambda>e2 s.
     a2_bind (phase_tvl_emergency W cfg s) (\<lambda>e3 s.
       (s, Inr ([e1, e2, e3], aw_calls W (st_keeper s))))))"

section \<open>The environment the executor inherits\<close>

record a2_args =
  aa_fake :: bool
  aa_bridge :: string
  aa_pool :: string
  aa_wallet :: string
  aa_out :: string

definition base_env_keys :: "string list" where
  "base_env_keys = [''PATH'', ''HOME'', ''LANG'', ''TZ'']"

definition gateway_env_keys :: "string list" where
  "gateway_env_keys =
     [''SOLANA_RPC_URL'', ''SOLANA_RPC_WRITE_URL'', ''SOLANA_WS_URL'',
      ''SOLANA_RPC_MAX_CU_PER_SECOND'', ''SOLANA_COMMITMENT'', ''WALLET_SIGNER'',
      ''KMS_KEY_ARN'', ''WALLET_KEYPAIR_PATH'', ''WALLET_PUBKEY'',
      ''FILE_SIGNER_ALLOW_MAINNET'', ''POOL_ALLOWLIST'', ''MINT_ALLOWLIST'',
      ''MAX_SOL_PER_TX'', ''MAX_SOL_PER_RUN'', ''MAX_SLIPPAGE_BPS'',
      ''MAX_PRIORITY_FEE_LAMPORTS'', ''MAX_ACTIVE_BIN_SLIPPAGE_BINS'',
      ''JITO_ENABLED'', ''JITO_BLOCK_ENGINE_URL'', ''JITO_TIP_LAMPORTS'',
      ''JITO_TIP_ACCOUNT'', ''JITO_TIP_ACCOUNTS'']"

definition signing_keys :: "string list" where
  "signing_keys =
     [''SOLANA_RPC_URL'', ''WALLET_PUBKEY'', ''WALLET_KEYPAIR_PATH'',
      ''POOL_ALLOWLIST'', ''MINT_ALLOWLIST'', ''MAX_SOL_PER_TX'',
      ''MAX_SOL_PER_RUN'', ''MAX_SLIPPAGE_BPS'',
      ''MAX_ACTIVE_BIN_SLIPPAGE_BINS'', ''MAX_PRIORITY_FEE_LAMPORTS'']"

text \<open>\<open>os.path.splitext(path)[0]\<close>: the last dot of the last path component, leading dots apart.\<close>

definition splitext_root :: "string \<Rightarrow> string" where
  "splitext_root p =
     (let base = rev (takeWhile (\<lambda>c. c \<noteq> CHR ''/'') (rev p)) in
      if CHR ''.'' \<in> set (dropWhile (\<lambda>c. c = CHR ''.'') base)
      then take (length p - Suc (length (takeWhile (\<lambda>c. c \<noteq> CHR ''.'') (rev p)))) p
      else p)"

definition scrub_gateway_env :: "string \<Rightarrow> environment \<Rightarrow> environment" where
  "scrub_gateway_env run_dir env =
     (env |` (set base_env_keys \<union> set gateway_env_keys))
       (''SWAP_STREAM_PATH'' \<mapsto> run_dir @ ''/swaps.jsonl'', ''EXECUTOR_LOG_DIR'' \<mapsto> run_dir @ ''/executor'')"

definition is_fake :: "a2_args \<Rightarrow> bool" where
  "is_fake args = (aa_fake args \<or> aa_bridge args = ''fake'')"

text \<open>The first half of \<open>main\<close>: the environment left behind, and the exit code when it refuses to go on.\<close>

definition launch_environment :: "a2_args \<Rightarrow> environment \<Rightarrow> environment \<times> nat option" where
  "launch_environment args env =
     (if is_fake args then (env, None)
      else if aa_pool args = [] \<or> aa_wallet args = [] then (env, Some 2)
      else
        let confirm = (env ''CONFIRM'' = Some ''yes'');
            scrubbed = scrub_gateway_env (splitext_root (aa_out args) @ ''-run'') env;
            env' = scrubbed(''DRY_RUN'' \<mapsto> (if confirm then ''false'' else ''true'')) in
        if confirm \<and> (\<exists>key \<in> set signing_keys. \<not> env_truthy env' key) then (env', Some 2)
        else if confirm \<and> env ''DRY_RUN'' \<noteq> Some ''false'' then (env', Some 2)
        else if confirm \<and> env' ''WALLET_SIGNER'' \<noteq> Some ''file'' then (env', Some 2)
        else if aa_wallet args \<noteq> (case env' ''WALLET_PUBKEY'' of Some w \<Rightarrow> w | None \<Rightarrow> []) then (env', Some 2)
        else (env', None))"

definition a2_start :: "'k \<Rightarrow> 'k a2_state" where
  "a2_start k = \<lparr>st_keeper = k, st_cycle_no = 0, st_armed = False\<rparr>"

record 'k a2_outcome =
  ao_started :: "environment option"
  ao_keeper :: "'k a2_state option"
  ao_stopped :: bool
  ao_exit :: "py_error + nat"

text \<open>
  The second half: the bridge starts and inherits the environment, the keeper is built outside the
  \<open>try\<close>, and its \<open>finally\<close> stops both.  Building the keeper is a parameter that may raise.
\<close>

definition a2_main :: "'k a2_world \<Rightarrow> (py_error + 'k) \<Rightarrow> a2_config \<Rightarrow> a2_args \<Rightarrow> environment \<Rightarrow> 'k a2_outcome" where
  "a2_main W built cfg args env =
     (case launch_environment args env of
        (env', Some code) \<Rightarrow> \<lparr>ao_started = None, ao_keeper = None, ao_stopped = False, ao_exit = Inr code\<rparr>
      | (env', None) \<Rightarrow>
          (case built of
             Inl e \<Rightarrow> \<lparr>ao_started = Some env', ao_keeper = None, ao_stopped = False, ao_exit = Inl e\<rparr>
           | Inr k \<Rightarrow>
               (case a2_run W (cfg\<lparr>ac_fake := is_fake args\<rparr>) (a2_start k) of
                  (s, res) \<Rightarrow>
                    \<lparr>ao_started = Some env', ao_keeper = Some s, ao_stopped = True,
                     ao_exit = (case res of Inr _ \<Rightarrow> Inr 0 | Inl (StepError _) \<Rightarrow> Inr 1 | Inl (Raised e) \<Rightarrow> Inl e)\<rparr>)))"

section \<open>What a passed gate shows\<close>

lemma a2_bind_Inr: "a2_bind m f = (s', Inr y) \<longleftrightarrow> (\<exists>s x. m = (s, Inr x) \<and> f x s = (s', Inr y))"
  by (cases m; cases "snd m") (auto simp: a2_bind_def)

lemma inject_cycle_no: "inject_state W cfg b tvl s = (s', r) \<Longrightarrow> st_cycle_no s' = st_cycle_no s"
  by (auto simp: inject_state_def Let_def split: if_splits)

lemma arm_cycle_no: "arm_live_tvl_kill W s = (s', r) \<Longrightarrow> st_cycle_no s' = st_cycle_no s"
  by (auto simp: arm_live_tvl_kill_def split: option.splits)

lemma a2_cycle_no: "a2_cycle W s = (s', r) \<Longrightarrow> st_cycle_no s' = Suc (st_cycle_no s)"
  by (auto simp: a2_cycle_def split: prod.splits)

definition cycles_once :: "('k a2_state \<Rightarrow> ('k, 'a) a2_step) \<Rightarrow> bool" where
  "cycles_once body = (\<forall>t t' r. body t = (t', Inr r) \<longrightarrow> st_cycle_no t' = Suc (st_cycle_no t))"

text \<open>
  A loop whose body makes one cycle per pass: the evidence is what one pass returned, after at
  least one cycle and at most as many as the loop allows.
\<close>

lemma phase_loop_evidence:
  assumes "phase_loop n name body s = (s', Inr ev)"
    "cycles_once body"
  shows "(\<exists>t. body t = (s', Inr (Some ev))) \<and> st_cycle_no s < st_cycle_no s' \<and> st_cycle_no s' \<le> st_cycle_no s + n"
  using assms(1)
proof (induction n arbitrary: s)
  case (Suc n)
  obtain t r where b: "body s = (t, r)" by force
  show ?case
  proof (cases r)
    case (Inr x)
    from assms(2) b Inr have no: "st_cycle_no t = Suc (st_cycle_no s)" by (auto simp: cycles_once_def)
    show ?thesis
    proof (cases x)
      case None
      with b Inr Suc.prems have "phase_loop n name body t = (s', Inr ev)" by simp
      from Suc.IH[OF this] no show ?thesis by auto
    next
      case (Some e)
      with b Inr Suc.prems no show ?thesis by auto
    qed
  qed (use b Suc.prems in simp)
qed simp

lemma deposit_pass_Inr:
  "deposit_pass W cfg s = (s', Inr r) \<Longrightarrow> st_cycle_no s' = Suc (st_cycle_no s)
    \<and> (\<forall>ev. r = Some ev \<longrightarrow> ev_name ev = ''initial_deposit'' \<and> ev_cycles ev = st_cycle_no s' \<and> ev_action ev = ''initial_deposit''
        \<and> ev_position ev = aw_position W (st_keeper s') \<and> has_position (ev_position ev)
        \<and> (\<not> ac_fake cfg \<longrightarrow> aw_extras W (st_keeper s') \<noteq> []))"
  unfolding deposit_pass_def a2_bind_Inr Let_def
  by (auto simp: evidence_for_def dest!: inject_cycle_no a2_cycle_no split: if_splits)

lemma refresh_pass_Inr:
  "refresh_pass W cfg before s = (s', Inr r) \<Longrightarrow> st_cycle_no s' = Suc (st_cycle_no s)
    \<and> (\<forall>ev. r = Some ev \<longrightarrow> ev_name ev = ''drift_refresh'' \<and> ev_cycles ev = st_cycle_no s' \<and> ev_action ev = ''refresh''
        \<and> ev_position ev = aw_position W (st_keeper s') \<and> has_position (ev_position ev)
        \<and> (ac_fake cfg \<longrightarrow> refresh_calls W s' = Suc before \<and> ev_position ev = Some ''shadow-pos-2''))"
  unfolding refresh_pass_def a2_bind_Inr Let_def
  by (auto simp: evidence_for_def dest!: inject_cycle_no a2_cycle_no split: if_splits)

lemma emergency_pass_Inr:
  "emergency_pass W cfg s = (s', Inr r) \<Longrightarrow> st_cycle_no s' = Suc (st_cycle_no s)
    \<and> (\<forall>ev. r = Some ev \<longrightarrow> ev_name ev = ''tvl_emergency'' \<and> ev_cycles ev = st_cycle_no s' \<and> ev_decision ev = ''emergency_exit''
        \<and> aw_halted W (st_keeper s') \<and> aw_position W (st_keeper s') = None \<and> aw_extras W (st_keeper s') = [])"
  unfolding emergency_pass_def a2_bind_Inr
  by (auto simp: evidence_for_def dest!: inject_cycle_no a2_cycle_no arm_cycle_no split: if_splits)

lemma deposit_pass_counts: "cycles_once (deposit_pass W cfg)"
  unfolding cycles_once_def using deposit_pass_Inr by blast
lemma refresh_pass_counts: "cycles_once (refresh_pass W cfg n)"
  unfolding cycles_once_def using refresh_pass_Inr by blast
lemma emergency_pass_counts: "cycles_once (emergency_pass W cfg)"
  unfolding cycles_once_def using emergency_pass_Inr by blast

text \<open>
  A rollout that reports success went through its three phases in order, each after at least
  one keeper cycle and within its limit: the deposit left the keeper holding a position, the
  refresh happened with a position adopted (on the fake bridge the one returned, by exactly one
  refresh call), and at the end the keeper is halted with no position and no extra one open.
\<close>

theorem passed_rollout_ends_flat_and_halted:
  assumes "a2_run W cfg s = (s', Inr (phases, calls))"
  shows "\<exists>e1 e2 e3 s1 s2. phases = [e1, e2, e3]
    \<and> map ev_name phases = [''initial_deposit'', ''drift_refresh'', ''tvl_emergency'']
    \<and> st_cycle_no s < ev_cycles e1 \<and> ev_cycles e1 < ev_cycles e2 \<and> ev_cycles e2 < ev_cycles e3
    \<and> ev_cycles e3 \<le> st_cycle_no s + 3 * ac_max_cycles cfg
    \<and> phase_initial_deposit W cfg s = (s1, Inr e1) \<and> has_position (ev_position e1)
    \<and> phase_drift_refresh W cfg s1 = (s2, Inr e2) \<and> has_position (ev_position e2)
    \<and> (ac_fake cfg \<longrightarrow> ev_position e2 = Some ''shadow-pos-2''
        \<and> refresh_calls W s2 = Suc (refresh_calls W (s1\<lparr>st_keeper := aw_set_receipt W ''shadow-pos-2'' (st_keeper s1)\<rparr>)))
    \<and> aw_halted W (st_keeper s') \<and> aw_position W (st_keeper s') = None \<and> aw_extras W (st_keeper s') = []"
proof -
  obtain e1 e2 e3 s1 s2 where r: "phase_initial_deposit W cfg s = (s1, Inr e1)" "phase_drift_refresh W cfg s1 = (s2, Inr e2)"
    "phase_tvl_emergency W cfg s2 = (s', Inr e3)" "phases = [e1, e2, e3]"
    using assms unfolding a2_run_def a2_bind_Inr by auto
  define t1 where "t1 = (if ac_fake cfg then s1\<lparr>st_keeper := aw_set_receipt W ''shadow-pos-2'' (st_keeper s1)\<rparr> else s1)"
  have t1: "st_cycle_no t1 = st_cycle_no s1" by (simp add: t1_def)
  note p1 = phase_loop_evidence[OF r(1)[unfolded phase_initial_deposit_def] deposit_pass_counts]
  note p2 = phase_loop_evidence[OF r(2)[unfolded phase_drift_refresh_def Let_def t1_def[symmetric]] refresh_pass_counts]
  note p3 = phase_loop_evidence[OF r(3)[unfolded phase_tvl_emergency_def] emergency_pass_counts]
  obtain u1 where b1: "deposit_pass W cfg u1 = (s1, Inr (Some e1))" using p1 by blast
  obtain u2 where b2: "refresh_pass W cfg (refresh_calls W t1) u2 = (s2, Inr (Some e2))" using p2 by blast
  obtain u3 where b3: "emergency_pass W cfg u3 = (s', Inr (Some e3))" using p3 by blast
  have f1: "ev_name e1 = ''initial_deposit''" "ev_cycles e1 = st_cycle_no s1" "has_position (ev_position e1)"
    using deposit_pass_Inr[OF b1] by auto
  have f2: "ev_name e2 = ''drift_refresh''" "ev_cycles e2 = st_cycle_no s2" "has_position (ev_position e2)"
    "ac_fake cfg \<longrightarrow> refresh_calls W s2 = Suc (refresh_calls W t1) \<and> ev_position e2 = Some ''shadow-pos-2''"
    using refresh_pass_Inr[OF b2] by auto
  have f3: "ev_name e3 = ''tvl_emergency''" "ev_cycles e3 = st_cycle_no s'"
    "aw_halted W (st_keeper s')" "aw_position W (st_keeper s') = None" "aw_extras W (st_keeper s') = []"
    using emergency_pass_Inr[OF b3] by auto
  have start: "st_cycle_no (if ac_fake cfg then s\<lparr>st_keeper := k\<rparr> else s) = st_cycle_no s" for k by simp
  have ord: "st_cycle_no s < st_cycle_no s1" "st_cycle_no s1 \<le> st_cycle_no s + ac_max_cycles cfg"
    "st_cycle_no s1 < st_cycle_no s2" "st_cycle_no s2 \<le> st_cycle_no s1 + ac_max_cycles cfg"
    "st_cycle_no s2 < st_cycle_no s'" "st_cycle_no s' \<le> st_cycle_no s2 + ac_max_cycles cfg"
    using p1 p2 p3 t1 by (simp_all add: start)
  show ?thesis
    using r f1 f2 f3 ord by (intro exI[of _ e1] exI[of _ e2] exI[of _ e3] exI[of _ s1] exI[of _ s2]) (simp add: t1_def)
qed

text \<open>A keeper that deposits, refreshes and exits on its first three cycles.\<close>

definition a2_example_world :: "nat a2_world" where
  "a2_example_world =
     \<lparr>aw_cycle = (\<lambda>k. (Suc k, Inr (if k = 0 then \<lparr>ar_decision = ''quote'', ar_action = ''initial_deposit''\<rparr>
                        else if k = 1 then \<lparr>ar_decision = ''quote'', ar_action = ''refresh''\<rparr>
                        else \<lparr>ar_decision = ''emergency_exit'', ar_action = ''exit''\<rparr>))),
      aw_position = (\<lambda>k. if k = 1 then Some ''shadow-pos-1'' else if k = 2 then Some ''shadow-pos-2'' else None),
      aw_extras = (\<lambda>_. []), aw_halted = (\<lambda>k. 3 \<le> k),
      aw_calls = (\<lambda>k. if 2 \<le> k then [''refresh_bundle''] else []),
      aw_set_receipt = (\<lambda>_ k. k), aw_set_state = (\<lambda>_ _ _ k. k),
      aw_last_tvl = (\<lambda>_. None), aw_set_min_tvl = (\<lambda>_ k. k)\<rparr>"

definition a2_example_config :: a2_config where
  "a2_example_config = \<lparr>ac_fake = True, ac_base_bin = 100, ac_amplitude = 5, ac_period = 12, ac_tvl = 50000,
     ac_kill_tvl = 100, ac_balances = (1, 500), ac_max_cycles = Suc 0\<rparr>"

theorem passed_rollout_ends_flat_and_halted_witness:
  "\<exists>s' phases calls. a2_run a2_example_world a2_example_config (a2_start 0) = (s', Inr (phases, calls))
     \<and> st_cycle_no s' = 3 \<and> aw_halted a2_example_world (st_keeper s') \<and> aw_position a2_example_world (st_keeper s') = None"
proof -
  let ?W = a2_example_world and ?c = a2_example_config
  note defs = a2_bind_def a2_cycle_def inject_state_def evidence_for_def has_position_def refresh_calls_def
    a2_example_world_def a2_example_config_def Let_def
  have 1: "\<exists>e. phase_initial_deposit ?W ?c (a2_start 0) = (\<lparr>st_keeper = 1, st_cycle_no = 1, st_armed = False\<rparr>, Inr e)"
    by (simp add: phase_initial_deposit_def deposit_pass_def a2_start_def defs)
  have 2: "\<exists>e. phase_drift_refresh ?W ?c \<lparr>st_keeper = 1, st_cycle_no = 1, st_armed = False\<rparr>
      = (\<lparr>st_keeper = 2, st_cycle_no = 2, st_armed = False\<rparr>, Inr e)"
    by (simp add: phase_drift_refresh_def refresh_pass_def defs numeral_2_eq_2)
  have 3: "\<exists>e. phase_tvl_emergency ?W ?c \<lparr>st_keeper = 2, st_cycle_no = 2, st_armed = False\<rparr>
      = (\<lparr>st_keeper = 3, st_cycle_no = 3, st_armed = False\<rparr>, Inr e)"
    by (simp add: phase_tvl_emergency_def emergency_pass_def defs numeral_3_eq_3 numeral_2_eq_2)
  from 1 2 3 obtain phases calls where
    run: "a2_run ?W ?c (a2_start 0) = (\<lparr>st_keeper = 3, st_cycle_no = 3, st_armed = False\<rparr>, Inr (phases, calls))"
    by (auto simp: a2_run_def a2_bind_def)
  from passed_rollout_ends_flat_and_halted[OF run] run show ?thesis by auto
qed

text \<open>An exit code of zero is a passed run, with the bridge and the keeper stopped.\<close>

lemma exit_zero_is_a_passed_run:
  assumes "ao_exit (a2_main W built cfg args env) = Inr 0"
  shows "ao_stopped (a2_main W built cfg args env)
    \<and> (\<exists>k s' phases calls. built = Inr k \<and> ao_keeper (a2_main W built cfg args env) = Some s'
        \<and> a2_run W (cfg\<lparr>ac_fake := is_fake args\<rparr>) (a2_start k) = (s', Inr (phases, calls)))"
proof -
  obtain env' r where l: "launch_environment args env = (env', r)" by force
  have "r \<noteq> Some 0" using l by (auto simp: launch_environment_def Let_def split: if_splits)
  with assms l show ?thesis
    by (auto simp: a2_main_def a2_start_def split: option.splits sum.splits prod.splits a2_error.splits)
qed


definition a2_example_args :: a2_args where
  "a2_example_args = \<lparr>aa_fake = False, aa_bridge = ''subprocess'', aa_pool = ''P'', aa_wallet = ''W'', aa_out = ''out/r.json''\<rparr>"

definition a2_example_env :: environment where
  "a2_example_env = (\<lambda>key.
     if key = ''WALLET_PUBKEY'' then Some ''W'' else if key = ''WALLET_SIGNER'' then Some ''file''
     else if key = ''CONFIRM'' then Some ''yes'' else if key = ''DRY_RUN'' then Some ''false'' else Some ''1'')"


end
