(* ===== verification/TwapRoundTrip.thy ===== *)
theory TwapRoundTrip imports PassiveAggressive begin

text \<open>
  \<open>src/opms/controllers/generic/twap_roundtrip_controller.py\<close>: one TWAP buy, then one TWAP sell of
  the same size, then nothing.  Hummingbot draws the id of a new executor configuration: the
  fresh id is an argument of each decision.
\<close>

section \<open>Controller\<close>

record twap_config =
  tw_notional :: real
  tw_duration :: int
  tw_interval :: int
  tw_leverage :: int

datatype twap_phase = BuyPhase | SellPhase | DonePhase

record twap_ctl =
  tp_phase :: twap_phase
  tp_buy :: "string option"
  tp_sell :: "string option"

definition new_twap :: twap_ctl where
  "new_twap = \<lparr>tp_phase = BuyPhase, tp_buy = None, tp_sell = None\<rparr>"

record twap_order =
  to_id :: string
  to_timestamp :: real
  to_side :: side
  to_notional :: real
  to_duration :: int
  to_interval :: int
  to_leverage :: int

record twap_input =
  ti_now :: real
  ti_fresh :: string
  ti_executors :: "(string \<times> run_status) list"

definition make_twap_config :: "twap_config \<Rightarrow> twap_input \<Rightarrow> side \<Rightarrow> twap_order" where
  "make_twap_config cfg i sd =
     \<lparr>to_id = ti_fresh i, to_timestamp = ti_now i, to_side = sd, to_notional = tw_notional cfg,
      to_duration = tw_duration cfg, to_interval = tw_interval cfg, to_leverage = tw_leverage cfg\<rparr>"

definition is_done :: "twap_input \<Rightarrow> string option \<Rightarrow> bool" where
  "is_done i oid = list_ex (\<lambda>(x, status). Some x = oid \<and> status = Terminated) (ti_executors i)"

definition twap_actions :: "twap_config \<Rightarrow> twap_input \<Rightarrow> twap_ctl \<Rightarrow> twap_ctl \<times> twap_order list" where
  "twap_actions cfg i c =
     (if tp_phase c = BuyPhase \<and> tp_buy c = None then
        (c\<lparr>tp_buy := Some (ti_fresh i)\<rparr>, [make_twap_config cfg i Buy])
      else if tp_phase c = BuyPhase \<and> is_done i (tp_buy c) then (c\<lparr>tp_phase := SellPhase\<rparr>, [])
      else if tp_phase c = SellPhase \<and> tp_sell c = None then
        (c\<lparr>tp_sell := Some (ti_fresh i)\<rparr>, [make_twap_config cfg i Sell])
      else if tp_phase c = SellPhase \<and> is_done i (tp_sell c) then (c\<lparr>tp_phase := DonePhase\<rparr>, [])
      else (c, []))"

section \<open>Whole runs\<close>

fun twap_run :: "twap_config \<Rightarrow> twap_input list \<Rightarrow> twap_ctl \<Rightarrow> twap_ctl \<times> twap_order list" where
  "twap_run cfg [] c = (c, [])"
| "twap_run cfg (i # inputs) c =
     (let (c', now_made) = twap_actions cfg i c; (c'', later) = twap_run cfg inputs c' in (c'', now_made @ later))"

text \<open>What a controller may still do: the sides it has left to order.\<close>

fun sides_left :: "twap_phase \<Rightarrow> string option \<Rightarrow> string option \<Rightarrow> side list" where
  "sides_left BuyPhase None _ = [Buy, Sell]"
| "sides_left BuyPhase (Some _) _ = [Sell]"
| "sides_left SellPhase _ None = [Sell]"
| "sides_left SellPhase _ (Some _) = []"
| "sides_left DonePhase _ _ = []"

definition twap_ok :: "twap_ctl \<Rightarrow> bool" where
  "twap_ok c = ((tp_phase c = BuyPhase \<longrightarrow> tp_sell c = None) \<and> (tp_phase c \<noteq> BuyPhase \<longrightarrow> tp_buy c \<noteq> None)
     \<and> (tp_phase c = DonePhase \<longrightarrow> tp_sell c \<noteq> None))"

lemma twap_actions_step:
  assumes "twap_ok c" "twap_actions cfg i c = (c', made)"
  shows "twap_ok c'
    \<and> map to_side made @ sides_left (tp_phase c') (tp_buy c') (tp_sell c') = sides_left (tp_phase c) (tp_buy c) (tp_sell c)
    \<and> (\<forall>r\<in>set made. to_notional r = tw_notional cfg)
    \<and> (tp_phase c' \<noteq> BuyPhase \<and> tp_phase c = BuyPhase \<longrightarrow> is_done i (tp_buy c))
    \<and> (Sell \<in> to_side ` set made \<longrightarrow> tp_phase c = SellPhase)"
  using assms
  by (cases "tp_phase c"; cases "tp_buy c"; cases "tp_sell c")
     (auto simp: twap_actions_def twap_ok_def make_twap_config_def split: if_splits)

text \<open>
  Whatever executors Hummingbot reports and in whatever order, a round trip orders at most one
  buy and then at most one sell, both of the configured notional; when it reports itself done it
  has ordered both; and no sell is ordered before some call found the buy executor terminated.
\<close>

theorem round_trip_is_one_buy_then_one_sell:
  assumes "twap_run cfg inputs new_twap = (c, made)"
  shows "map to_side made \<in> {[], [Buy], [Buy, Sell]}
    \<and> (\<forall>r\<in>set made. to_notional r = tw_notional cfg)
    \<and> (tp_phase c = DonePhase \<longrightarrow> map to_side made = [Buy, Sell])
    \<and> (Sell \<in> to_side ` set made \<longrightarrow>
        (\<exists>i\<in>set inputs. \<exists>r\<in>set made. to_side r = Buy \<and> is_done i (Some (to_id r))))"
proof -
  have id: "tp_buy c1 = Some x \<Longrightarrow> twap_actions cfg i c1 = (c2, acts) \<Longrightarrow> tp_buy c2 = Some x" for c1 c2 x i acts
    by (auto simp: twap_actions_def split: if_splits)
  have gen: "twap_ok c0 \<Longrightarrow> twap_run cfg inputs c0 = (c, made) \<Longrightarrow>
      map to_side made @ sides_left (tp_phase c) (tp_buy c) (tp_sell c) = sides_left (tp_phase c0) (tp_buy c0) (tp_sell c0)
    \<and> (\<forall>r\<in>set made. to_notional r = tw_notional cfg)
    \<and> (\<forall>x. tp_phase c0 = BuyPhase \<longrightarrow> tp_buy c0 = Some x \<longrightarrow> Sell \<in> to_side ` set made \<longrightarrow> (\<exists>i\<in>set inputs. is_done i (Some x)))
    \<and> (tp_buy c0 = None \<longrightarrow> tp_phase c0 = BuyPhase \<longrightarrow> Sell \<in> to_side ` set made \<longrightarrow>
        (\<exists>i\<in>set inputs. \<exists>r\<in>set made. to_side r = Buy \<and> is_done i (Some (to_id r))))" for c0
  proof (induction inputs arbitrary: c0 made)
    case (Cons i inputs)
    obtain c1 acts where a: "twap_actions cfg i c0 = (c1, acts)" by force
    obtain later where l: "twap_run cfg inputs c1 = (c, later)" "made = acts @ later"
      using Cons.prems(2) a by (auto split: prod.splits)
    note st = twap_actions_step[OF Cons.prems(1) a]
    note ih = Cons.IH[OF st[THEN conjunct1] l(1)]
    have fresh: "tp_buy c0 = None \<Longrightarrow> tp_phase c0 = BuyPhase \<Longrightarrow> acts = [make_twap_config cfg i Buy]
        \<and> tp_buy c1 = Some (ti_fresh i) \<and> tp_phase c1 = BuyPhase"
      using a by (auto simp: twap_actions_def)
    have sides: "map to_side made @ sides_left (tp_phase c) (tp_buy c) (tp_sell c) = sides_left (tp_phase c0) (tp_buy c0) (tp_sell c0)"
      using ih[THEN conjunct1] st l(2) by (metis append.assoc map_append)
    have nots: "\<forall>r\<in>set made. to_notional r = tw_notional cfg"
      using ih st l(2) by auto
    have buy: "\<exists>i\<in>set (i # inputs). is_done i (Some x)"
      if "tp_phase c0 = BuyPhase" "tp_buy c0 = Some x" "Sell \<in> to_side ` set made" for x
    proof (cases "tp_phase c1 = BuyPhase")
      case True
      with ih id[OF that(2) a] st that l(2) show ?thesis by fastforce
    next
      case False
      with st that show ?thesis by auto
    qed
    have new: "\<exists>j\<in>set (i # inputs). \<exists>r\<in>set made. to_side r = Buy \<and> is_done j (Some (to_id r))"
      if "tp_buy c0 = None" "tp_phase c0 = BuyPhase" "Sell \<in> to_side ` set made"
      using fresh[OF that(1,2)] ih that(3) l(2) by (auto simp: make_twap_config_def)
    show ?case using sides nots buy new by blast
  qed simp
  have "twap_ok new_twap" by (simp add: twap_ok_def new_twap_def)
  note g = gen[OF this assms]
  have lists: "xs \<in> {[], [Buy], [Buy, Sell]}" if "xs @ ys = [Buy, Sell]" for xs ys :: "side list"
    using that by (auto simp: append_eq_Cons_conv)
  show ?thesis
  proof (intro conjI)
    show "map to_side made \<in> {[], [Buy], [Buy, Sell]}"
      using g by (intro lists) (auto simp: new_twap_def)
    show "tp_phase c = DonePhase \<longrightarrow> map to_side made = [Buy, Sell]"
      using g by (auto simp: new_twap_def)
  qed (use g in \<open>auto simp: new_twap_def\<close>)
qed

definition sample_twap :: twap_config where
  "sample_twap = \<lparr>tw_notional = 100, tw_duration = 60, tw_interval = 20, tw_leverage = 1\<rparr>"

definition twap_calls :: "twap_input list" where
  "twap_calls =
     [\<lparr>ti_now = 0, ti_fresh = ''b'', ti_executors = []\<rparr>,
      \<lparr>ti_now = 60, ti_fresh = ''x'', ti_executors = [(''b'', Terminated)]\<rparr>,
      \<lparr>ti_now = 61, ti_fresh = ''s'', ti_executors = [(''b'', Terminated)]\<rparr>,
      \<lparr>ti_now = 120, ti_fresh = ''y'', ti_executors = [(''s'', Terminated)]\<rparr>]"

theorem round_trip_is_one_buy_then_one_sell_witness:
  "\<exists>c made. twap_run sample_twap twap_calls new_twap = (c, made) \<and> tp_phase c = DonePhase \<and> map to_side made = [Buy, Sell]"
proof -
  obtain c made where r: "twap_run sample_twap twap_calls new_twap = (c, made)" by force
  then have "tp_phase c = DonePhase"
    by (auto simp: twap_calls_def new_twap_def twap_actions_def is_done_def Let_def split: prod.splits)
  moreover from this have "map to_side made = [Buy, Sell]"
    using round_trip_is_one_buy_then_one_sell[OF r] by simp
  ultimately show ?thesis using r by simp
qed

end
