(* ===== verification/IsolatedRuntime.thy ===== *)
theory IsolatedRuntime imports Prelude begin

text \<open>
  \<open>src/opms/isolated_runtime.py\<close>: starting a strategy headlessly, and the guarantee that what was
  started is shut down.  The calls the caller passes in are parameters that return or raise; each
  call is recorded, with the flags it is given.
\<close>

datatype runtime_call =
    SetMqttAutostart bool | Bootstrap bool bool | LoadAndStart string bool | WaitGateway | WaitShutdown | Shutdown

record 'a runtime =
  rt_has_bridge :: bool
  rt_bootstrap :: "py_error + 'a option"
  rt_load :: "'a \<Rightarrow> py_error + bool"
  rt_gateway :: "'a \<Rightarrow> py_error + unit"
  rt_wait :: "py_error + unit"
  rt_shutdown :: "'a \<Rightarrow> py_error + unit"

text \<open>The body of the \<open>try\<close> block.\<close>

definition run_started :: "'a runtime \<Rightarrow> string \<Rightarrow> 'a \<Rightarrow> runtime_call list \<times> (py_error + 'a)" where
  "run_started R script_config app =
     (case rt_load R app of
        Inl e \<Rightarrow> ([LoadAndStart script_config True], Inl e)
      | Inr started \<Rightarrow>
          if \<not> started then ([LoadAndStart script_config True], Inl RuntimeError)
          else (case rt_gateway R app of
                  Inl e \<Rightarrow> ([LoadAndStart script_config True, WaitGateway], Inl e)
                | Inr _ \<Rightarrow>
                    (case rt_wait R of
                       Inl e \<Rightarrow> ([LoadAndStart script_config True, WaitGateway, WaitShutdown], Inl e)
                     | Inr _ \<Rightarrow> ([LoadAndStart script_config True, WaitGateway, WaitShutdown], Inr app))))"

text \<open>\<open>finally\<close>: the shutdown always runs, and an exception of its own replaces the outcome.\<close>

definition run_isolated_hummingbot :: "'a runtime \<Rightarrow> string \<Rightarrow> runtime_call list \<times> (py_error + 'a)" where
  "run_isolated_hummingbot R script_config =
     (let pre = (if rt_has_bridge R then [SetMqttAutostart False] else []) @ [Bootstrap True False] in
      case rt_bootstrap R of
        Inl e \<Rightarrow> (pre, Inl e)
      | Inr None \<Rightarrow> (pre, Inl RuntimeError)
      | Inr (Some app) \<Rightarrow>
          (case run_started R script_config app of
             (calls, res) \<Rightarrow>
               (pre @ calls @ [Shutdown],
                (case rt_shutdown R app of Inl e \<Rightarrow> Inl e | Inr _ \<Rightarrow> res))))"

text \<open>
  An application that was bootstrapped is shut down exactly once, as the last call, whether
  loading, the gateway, the wait or nothing raised; without an application nothing is loaded and
  nothing shut down.  MQTT stays off in every call, and the run returns the application only when
  every step succeeded and the strategy reported itself started.
\<close>

theorem bootstrapped_application_is_shut_down:
  assumes "run_isolated_hummingbot R script_config = (calls, res)"
  shows "(\<forall>app. rt_bootstrap R = Inr (Some app) \<longrightarrow> last calls = Shutdown \<and> count_list calls Shutdown = 1)
    \<and> ((\<forall>app. rt_bootstrap R \<noteq> Inr (Some app)) \<longrightarrow> Shutdown \<notin> set calls \<and> (\<forall>c. LoadAndStart c True \<notin> set calls) \<and> \<not> is_ok res)
    \<and> SetMqttAutostart True \<notin> set calls \<and> (\<forall>headless. Bootstrap headless True \<notin> set calls)
    \<and> (\<forall>app. res = Inr app \<longleftrightarrow> rt_bootstrap R = Inr (Some app) \<and> rt_load R app = Inr True \<and> rt_gateway R app = Inr ()
         \<and> rt_wait R = Inr () \<and> rt_shutdown R app = Inr ())"
  using assms unfolding run_isolated_hummingbot_def run_started_def Let_def
  by (auto split: sum.splits option.splits if_splits)

definition failing_gateway :: "nat runtime" where
  "failing_gateway =
     \<lparr>rt_has_bridge = True, rt_bootstrap = Inr (Some 1), rt_load = (\<lambda>_. Inr True),
      rt_gateway = (\<lambda>_. Inl TimeoutError), rt_wait = Inr (), rt_shutdown = (\<lambda>_. Inr ())\<rparr>"

theorem bootstrapped_application_is_shut_down_witness:
  "\<exists>calls. run_isolated_hummingbot failing_gateway ''opms.yml'' = (calls, Inl TimeoutError) \<and> last calls = Shutdown"
proof -
  obtain calls res where r: "run_isolated_hummingbot failing_gateway ''opms.yml'' = (calls, res)" by force
  moreover from r have "res = Inl TimeoutError"
    by (simp add: run_isolated_hummingbot_def run_started_def failing_gateway_def Let_def)
  moreover have "last calls = Shutdown"
    using bootstrapped_application_is_shut_down[OF r] by (simp add: failing_gateway_def)
  ultimately show ?thesis by blast
qed

section \<open>The entry point\<close>

text \<open>
  \<open>deploy/hummingbot/scripts/run_hummingbot_isolated.py\<close>.  \<open>_wait_for_shutdown_signal\<close> installs a handler for each signal
  the platform supports, waits, and removes what it installed.
\<close>

datatype signal = SIGINT | SIGTERM

datatype signal_call = AddHandler signal | WaitEvent | RemoveHandler signal

definition not_implemented :: py_error where
  "not_implemented = OtherError ''NotImplementedError''"

fun install_handlers :: "(signal \<Rightarrow> py_error option) \<Rightarrow> signal list \<Rightarrow> signal_call list \<times> signal list \<times> py_error option" where
  "install_handlers add [] = ([], [], None)"
| "install_handlers add (sig # sigs) =
     (case add sig of
        None \<Rightarrow> (case install_handlers add sigs of (calls, done, r) \<Rightarrow> (AddHandler sig # calls, sig # done, r))
      | Some e \<Rightarrow>
          if e = not_implemented then install_handlers add sigs else ([], [], Some e))"

definition wait_for_shutdown_signal :: "(signal \<Rightarrow> py_error option) \<Rightarrow> py_error + unit \<Rightarrow> signal_call list \<times> (py_error + unit)" where
  "wait_for_shutdown_signal add wait =
     (case install_handlers add [SIGINT, SIGTERM] of
        (calls, done, Some e) \<Rightarrow> (calls, Inl e)
      | (calls, done, None) \<Rightarrow> (calls @ WaitEvent # map RemoveHandler done, wait))"

text \<open>\<open>_main\<close>: reading the client's configuration may raise; the configuration has a bridge.\<close>

definition isolated_main :: "environment \<Rightarrow> py_error option \<Rightarrow> (signal \<Rightarrow> py_error option) \<Rightarrow> py_error + unit \<Rightarrow> 'a runtime
    \<Rightarrow> runtime_call list \<times> (py_error + unit)" where
  "isolated_main env load add wait R =
     (case env ''SCRIPT_CONFIG'' of
        Some (c # conf) \<Rightarrow>
          if \<not> env_truthy env ''CONFIG_PASSWORD'' then ([], Inl RuntimeError)
          else (case load of
                  Some e \<Rightarrow> ([], Inl e)
                | None \<Rightarrow>
                    (case run_isolated_hummingbot
                        (R\<lparr>rt_has_bridge := True, rt_wait := snd (wait_for_shutdown_signal add wait)\<rparr>) (c # conf) of
                       (calls, res) \<Rightarrow> (SetMqttAutostart False # calls, map_sum id (\<lambda>_. ()) res)))
      | _ \<Rightarrow> ([], Inl RuntimeError))"

text \<open>The handlers in force after some calls.\<close>

fun handlers_after :: "signal_call list \<Rightarrow> signal set \<Rightarrow> signal set" where
  "handlers_after [] H = H"
| "handlers_after (AddHandler sig # cs) H = handlers_after cs (insert sig H)"
| "handlers_after (RemoveHandler sig # cs) H = handlers_after cs (H - {sig})"
| "handlers_after (WaitEvent # cs) H = handlers_after cs H"

text \<open>
  The entry point never runs with MQTT and starts nothing without a script configuration and a password.  While it
  waits, exactly the signals that could be installed have a handler; when the wait is over, however it ended,
  none has; only a signal whose installation fails for another reason leaves the first one's handler.  A run that
  returns was bootstrapped, started, waited for the signal, and was shut down last.
\<close>

theorem isolated_main_waits_and_cleans_up:
  assumes "isolated_main env load add wait R = (calls, res)" "wait_for_shutdown_signal add wait = (signals, waited)"
  shows "SetMqttAutostart True \<notin> set calls \<and> (\<forall>headless. Bootstrap headless True \<notin> set calls)
    \<and> (calls \<noteq> [] \<longrightarrow> env_truthy env ''SCRIPT_CONFIG'' \<and> env_truthy env ''CONFIG_PASSWORD'')
    \<and> ((\<forall>sig e. add sig = Some e \<longrightarrow> e = not_implemented) \<longrightarrow> handlers_after signals {} = {} \<and> waited = wait
         \<and> handlers_after (takeWhile (\<lambda>c. c \<noteq> WaitEvent) signals) {} = {sig. add sig = None})
    \<and> (res = Inr () \<longrightarrow> waited = Inr () \<and> last calls = Shutdown \<and> count_list calls Shutdown = 1 \<and> WaitShutdown \<in> set calls)"
proof -
  have signals: "{sig. add sig = None}
      = (if add SIGINT = None then {SIGINT} else {}) \<union> (if add SIGTERM = None then {SIGTERM} else {})"
    by (rule set_eqI, rename_tac sig, case_tac sig) simp_all
  have handlers: "handlers_after signals {} = {} \<and> waited = wait
      \<and> handlers_after (takeWhile (\<lambda>c. c \<noteq> WaitEvent) signals) {} = {sig. add sig = None}"
    if "\<forall>sig e. add sig = Some e \<longrightarrow> e = not_implemented"
  proof -
    have "\<And>sig. add sig = None \<or> add sig = Some not_implemented" using that by (metis option.exhaust)
    then consider "add SIGINT = None" "add SIGTERM = None" | "add SIGINT = None" "add SIGTERM = Some not_implemented"
      | "add SIGINT = Some not_implemented" "add SIGTERM = None" | "add SIGINT = Some not_implemented" "add SIGTERM = Some not_implemented"
      by metis
    then show ?thesis
      using assms(2) unfolding signals by cases (auto simp: wait_for_shutdown_signal_def)
  qed
  have main: "calls = [] \<and> res \<noteq> Inr () \<or> (env_truthy env ''SCRIPT_CONFIG'' \<and> env_truthy env ''CONFIG_PASSWORD''
      \<and> (\<exists>conf calls' r. run_isolated_hummingbot (R\<lparr>rt_has_bridge := True, rt_wait := waited\<rparr>) conf = (calls', r)
           \<and> calls = SetMqttAutostart False # calls' \<and> res = map_sum id (\<lambda>_. ()) r))"
    using assms by (auto simp: isolated_main_def env_truthy_def split: option.splits list.splits if_splits prod.splits)
  show ?thesis
  proof (cases "calls = []")
    case True
    with main handlers show ?thesis by auto
  next
    case False
    with main obtain conf calls' r where
      m: "run_isolated_hummingbot (R\<lparr>rt_has_bridge := True, rt_wait := waited\<rparr>) conf = (calls', r)"
        "calls = SetMqttAutostart False # calls'" "res = map_sum id (\<lambda>_. ()) r"
        "env_truthy env ''SCRIPT_CONFIG''" "env_truthy env ''CONFIG_PASSWORD''" by blast
    have off: "SetMqttAutostart True \<notin> set calls" "\<forall>headless. Bootstrap headless True \<notin> set calls"
      using bootstrapped_application_is_shut_down[OF m(1)] m(2) by auto
    have "waited = Inr () \<and> last calls = Shutdown \<and> count_list calls Shutdown = 1 \<and> WaitShutdown \<in> set calls" if "res = Inr ()"
    proof -
      from that m(3) obtain app where "r = Inr app" by (cases r) auto
      with m(1,2) show ?thesis
        by (auto simp: run_isolated_hummingbot_def run_started_def Let_def split: sum.splits option.splits if_splits)
    qed
    with off handlers m(4,5) show ?thesis by blast
  qed
qed

definition quiet_runtime :: "nat runtime" where
  "quiet_runtime =
     \<lparr>rt_has_bridge = True, rt_bootstrap = Inr (Some 1), rt_load = (\<lambda>_. Inr True),
      rt_gateway = (\<lambda>_. Inr ()), rt_wait = Inr (), rt_shutdown = (\<lambda>_. Inr ())\<rparr>"

definition unix_env :: environment where
  "unix_env = [''SCRIPT_CONFIG'' \<mapsto> ''opms.yml'', ''CONFIG_PASSWORD'' \<mapsto> ''p'']"

theorem isolated_main_waits_and_cleans_up_witness:
  "\<exists>calls signals. isolated_main unix_env None (\<lambda>_. None) (Inr ()) quiet_runtime = (calls, Inr ())
     \<and> wait_for_shutdown_signal (\<lambda>_. None) (Inr ()) = (signals, Inr ()) \<and> last calls = Shutdown \<and> handlers_after signals {} = {}"
proof -
  obtain signals where s: "wait_for_shutdown_signal (\<lambda>_. None) (Inr ()) = (signals, Inr ())"
    by (simp add: wait_for_shutdown_signal_def)
  obtain calls where c: "isolated_main unix_env None (\<lambda>_. None) (Inr ()) quiet_runtime = (calls, Inr ())"
    by (simp add: isolated_main_def unix_env_def env_truthy_def s run_isolated_hummingbot_def run_started_def quiet_runtime_def Let_def)
  from isolated_main_waits_and_cleans_up[OF c s] c s show ?thesis by auto
qed

end
