(* ===== verification/TvlMonitor.thy ===== *)
theory TvlMonitor imports GatewayBridge begin

text \<open>
  \<open>src/opms/risk/tvl_monitor.py\<close>: the process that polls a pool's TVL and writes the kill sentinel the
  keeper looks for.  \<open>dlmm_bot\<close>'s risk policy (\<open>evaluate_tvl\<close>, with a state of its own) and the HTTP
  server are parameters; the sentinel file is its content, None while there is no file, and writing
  it is taken to succeed.
\<close>

record 'r tvl_policy =
  tv_evaluate :: "'r \<Rightarrow> real \<Rightarrow> real option \<Rightarrow> 'r \<times> (py_error + bool \<times> string)"
  tv_parse :: "string \<Rightarrow> py_error + real"

record tvl_config =
  tc_pool :: string
  tc_chain :: string
  tc_network :: string
  tc_wallet :: string
  tc_poll_interval :: real

record 'r tvl_monitor =
  tm_risk :: 'r
  tm_running :: bool
  tm_sentinel :: "string option"

definition tvl_request :: "tvl_config \<Rightarrow> request" where
  "tvl_request cfg =
     \<lparr>rq_method = POST, rq_path = ''/meteora/pool-info'',
      rq_body = [(''connector'', JStr ''meteora''), (''chain'', JStr (tc_chain cfg)), (''network'', JStr (tc_network cfg)),
                 (''wallet'', JStr (tc_wallet cfg)), (''poolAddress'', JStr (tc_pool cfg))]\<rparr>"

text \<open>\<open>data.get("tvl", data.get("tvlUsd"))\<close>, a float unless it is None.\<close>

definition read_tvl :: "'r tvl_policy \<Rightarrow> http_outcome \<Rightarrow> py_error + real option" where
  "read_tvl P outcome =
     (case outcome of
        Body (JObj d) \<Rightarrow>
          (let v = get_or (get_key ''tvlUsd'' d) ''tvl'' d in
           if v = JNull then Inr None
           else case to_float (tv_parse P) v of Inl e \<Rightarrow> Inl e | Inr x \<Rightarrow> Inr (Some x))
      | Body _ \<Rightarrow> Inl (OtherError ''AttributeError'')
      | StatusError _ _ \<Rightarrow> Inl (OtherError ''HTTPStatusError'')
      | Raised e \<Rightarrow> Inl (OtherError e))"

definition tvl_poll :: "'r tvl_policy \<Rightarrow> http_outcome \<Rightarrow> real \<Rightarrow> 'r tvl_monitor \<Rightarrow> 'r tvl_monitor \<times> (py_error + unit)" where
  "tvl_poll P outcome now m =
     (case read_tvl P outcome of
        Inl e \<Rightarrow> (m, Inl e)
      | Inr tvl \<Rightarrow>
          (case tv_evaluate P (tm_risk m) now tvl of
             (r, Inl e) \<Rightarrow> (m\<lparr>tm_risk := r\<rparr>, Inl e)
           | (r, Inr (kill, reason)) \<Rightarrow>
               (if kill then m\<lparr>tm_risk := r, tm_sentinel := Some reason\<rparr> else m\<lparr>tm_risk := r\<rparr>, Inr ())))"

text \<open>
  The loop, over what happens in each of its passes: the answer and clock of the poll, and whether
  \<open>stop\<close> is called before the next pass.  An exception of a poll is logged and the loop goes on.
\<close>

record tvl_pass =
  tv_outcome :: http_outcome
  tv_now :: real
  tv_stop :: bool

fun tvl_loop :: "'r tvl_policy \<Rightarrow> tvl_pass list \<Rightarrow> 'r tvl_monitor \<Rightarrow> 'r tvl_monitor" where
  "tvl_loop P [] m = m"
| "tvl_loop P (p # ps) m =
     (if tm_running m then
        tvl_loop P ps ((fst (tvl_poll P (tv_outcome p) (tv_now p) m))\<lparr>tm_running := \<not> tv_stop p\<rparr>)
      else m)"

definition tvl_run :: "'r tvl_policy \<Rightarrow> tvl_pass list \<Rightarrow> 'r tvl_monitor \<Rightarrow> 'r tvl_monitor" where
  "tvl_run P ps m = tvl_loop P ps (m\<lparr>tm_running := True\<rparr>)"

definition tvl_stop :: "'r tvl_monitor \<Rightarrow> 'r tvl_monitor" where
  "tvl_stop m = m\<lparr>tm_running := False\<rparr>"

section \<open>The sentinel\<close>

text \<open>
  The verdicts of the policy in the passes the loop makes: what \<open>evaluate_tvl\<close> answered at each
  poll whose answer could be read, oldest first, with the policy's state threaded through.
\<close>

fun verdicts :: "'r tvl_policy \<Rightarrow> tvl_pass list \<Rightarrow> 'r \<Rightarrow> (bool \<times> string) list" where
  "verdicts P [] r = []"
| "verdicts P (p # ps) r =
     (let (r', here) = (case read_tvl P (tv_outcome p) of
            Inl _ \<Rightarrow> (r, [])
          | Inr tvl \<Rightarrow> (case tv_evaluate P r (tv_now p) tvl of (r', Inl _) \<Rightarrow> (r', []) | (r', Inr v) \<Rightarrow> (r', [v])))
      in here @ (if tv_stop p then [] else verdicts P ps r'))"

lemma tvl_poll_effect:
  "tm_running (fst (tvl_poll P o' now m)) = tm_running m"
  "tm_risk (fst (tvl_poll P o' now m)) = (case read_tvl P o' of Inl _ \<Rightarrow> tm_risk m | Inr tvl \<Rightarrow> fst (tv_evaluate P (tm_risk m) now tvl))"
  "tm_sentinel (fst (tvl_poll P o' now m)) =
     (case read_tvl P o' of Inl _ \<Rightarrow> tm_sentinel m
      | Inr tvl \<Rightarrow> (case snd (tv_evaluate P (tm_risk m) now tvl) of Inr (True, reason) \<Rightarrow> Some reason | _ \<Rightarrow> tm_sentinel m))"
  by (auto simp: tvl_poll_def split: sum.split prod.split)

definition last_kill :: "(bool \<times> string) list \<Rightarrow> string option \<Rightarrow> string option" where
  "last_kill vs old = foldl (\<lambda>s (kill, reason). if kill then Some reason else s) old vs"

lemma tvl_loop_sentinel:
  "tm_running m \<Longrightarrow> tm_sentinel (tvl_loop P ps m) = last_kill (verdicts P ps (tm_risk m)) (tm_sentinel m)"
proof (induction P ps m rule: tvl_loop.induct)
  case (2 P p ps m)
  let ?m = "(fst (tvl_poll P (tv_outcome p) (tv_now p) m))\<lparr>tm_running := \<not> tv_stop p\<rparr>"
  have stop: "\<not> tm_running k \<Longrightarrow> tvl_loop P qs k = k" for qs k by (cases qs) simp_all
  have step: "tm_sentinel ?m = last_kill (case read_tvl P (tv_outcome p) of
            Inl _ \<Rightarrow> []
          | Inr tvl \<Rightarrow> (case snd (tv_evaluate P (tm_risk m) (tv_now p) tvl) of Inl _ \<Rightarrow> [] | Inr v \<Rightarrow> [v])) (tm_sentinel m)"
    by (auto simp: tvl_poll_effect last_kill_def split: sum.split bool.split)
  show ?case
  proof (cases "tv_stop p")
    case True
    with 2(2) step stop[of ?m ps] show ?thesis by (auto simp: last_kill_def split: sum.split prod.split)
  next
    case False
    with 2 have "tm_sentinel (tvl_loop P (p # ps) m) = last_kill (verdicts P ps (tm_risk ?m)) (tm_sentinel ?m)" by simp
    with False step show ?thesis
      by (auto simp: tvl_poll_effect last_kill_def split: sum.split prod.split)
  qed
qed (simp add: last_kill_def)

text \<open>
  The sentinel is written exactly when the risk policy says kill: after any run of the monitor
  its content is the reason of the last kill verdict, what was there before without one, and it
  is never removed.  A poll that fails is no verdict: a monitor whose polls all fail writes
  nothing, however long the pool cannot be read.
\<close>

theorem sentinel_is_the_last_kill:
  "tm_sentinel (tvl_run P ps m) = last_kill (verdicts P ps (tm_risk m)) (tm_sentinel m)
   \<and> (tm_sentinel m \<noteq> None \<longrightarrow> tm_sentinel (tvl_run P ps m) \<noteq> None)
   \<and> ((\<forall>p\<in>set ps. \<not> is_ok (read_tvl P (tv_outcome p))) \<longrightarrow> tm_sentinel (tvl_run P ps m) = tm_sentinel m)"
proof -
  have run: "tm_sentinel (tvl_run P ps m) = last_kill (verdicts P ps (tm_risk m)) (tm_sentinel m)"
    using tvl_loop_sentinel[of "m\<lparr>tm_running := True\<rparr>"] by (simp add: tvl_run_def)
  have keep: "old \<noteq> None \<Longrightarrow> last_kill vs old \<noteq> None" for vs and old :: "string option"
    unfolding last_kill_def by (induction vs arbitrary: old) auto
  have "verdicts P ps r = []" if "\<forall>p\<in>set ps. \<not> is_ok (read_tvl P (tv_outcome p))" for r
    using that by (induction ps arbitrary: r) (auto split: sum.splits)
  with run keep show ?thesis by (auto simp: last_kill_def)
qed

definition floor_policy :: "unit tvl_policy" where
  "floor_policy =
     \<lparr>tv_evaluate = (\<lambda>r now tvl. (r, Inr (case tvl of Some x \<Rightarrow> x < 5000 | None \<Rightarrow> False, ''below minimum''))),
      tv_parse = (\<lambda>_. Inl ValueError)\<rparr>"

theorem sentinel_is_the_last_kill_witness:
  "tm_sentinel (tvl_run floor_policy
     [\<lparr>tv_outcome = Body (JObj [(''tvl'', JNum 100)]), tv_now = 0, tv_stop = False\<rparr>,
      \<lparr>tv_outcome = StatusError 500 [], tv_now = 30, tv_stop = False\<rparr>]
     \<lparr>tm_risk = (), tm_running = False, tm_sentinel = None\<rparr>) = Some ''below minimum''"
  by (subst sentinel_is_the_last_kill[THEN conjunct1])
     (simp add: floor_policy_def read_tvl_def get_or_def last_kill_def Let_def)

text \<open>The route the monitor polls is not one the Gateway bridge uses.\<close>

lemma tvl_route_is_not_the_bridge_route: "rq_path (tvl_request cfg) \<noteq> clmm route"
  by (simp add: tvl_request_def clmm_def)

end
