(* ===== verification/AccountRouting.thy ===== *)
theory AccountRouting imports Topology PortfolioStop Json begin

text \<open>
  Which account an instance trades on: the resolution of an account id in
  \<open>src/scripts/import_hl_mainnet_credentials.py\<close>, \<open>run_hb_mainnet_smoke.py\<close>,
  \<open>check_hl_account_state.py\<close>, \<open>cleanup_hl_soak.py\<close> and \<open>run_hb_mainnet_quote_gate.py\<close>, and the checks
  of the launcher \<open>src/deploy/hummingbot/scripts/opms_perp_mm.py\<close>.

  The environment is one map (\<open>load_dotenv\<close> only adds what the shell has not set).  Credential
  stores, wallets and Hummingbot's own start are outside.
\<close>

section \<open>Variables\<close>

abbreviation system_exit :: py_error where
  "system_exit \<equiv> OtherError ''SystemExit''"

definition env_text :: "environment \<Rightarrow> string \<Rightarrow> string" where
  "env_text env key = (case env key of Some v \<Rightarrow> v | None \<Rightarrow> [])"

definition account_var :: "string \<Rightarrow> string \<Rightarrow> string" where
  "account_var account suffix = ''HYPERLIQUID_'' @ str_upper account @ ''_'' @ suffix"

definition address_var :: "string \<Rightarrow> string" where
  "address_var account = account_var account ''ACCOUNT_ADDRESS''"

definition family_of :: "string \<Rightarrow> string" where
  "family_of account = takeWhile (\<lambda>c. c \<noteq> CHR ''_'') account"

definition first_text :: "string \<Rightarrow> string \<Rightarrow> string" where
  "first_text a b = (if a \<noteq> [] then a else b)"

definition master_address :: "environment \<Rightarrow> string \<Rightarrow> string" where
  "master_address env account =
     str_lower (first_text (env_text env (''HYPERLIQUID_'' @ str_upper (family_of account) @ ''_MAIN_ACCOUNT_ADDRESS''))
       (env_text env ''HYPERLIQUID_MASTER_ACCOUNT_ADDRESS''))"

section \<open>Resolving an account\<close>

record credentials =
  cr_address :: string
  cr_key :: string
  cr_vault :: bool

text \<open>\<open>check_hl_account_state.py\<close>: the address and the testnet flag.\<close>

definition resolve_account :: "environment \<Rightarrow> string \<Rightarrow> py_error + string \<times> string option" where
  "resolve_account env account =
     (if env_truthy env (address_var account)
      then Inr (str_lower (env_text env (address_var account)), env (account_var account ''IS_TESTNET''))
      else Inl system_exit)"

text \<open>\<open>run_hb_mainnet_smoke.py\<close>.\<close>

definition smoke_resolve :: "environment \<Rightarrow> string \<Rightarrow> string option \<Rightarrow> py_error + credentials" where
  "smoke_resolve env account use_vault =
     (let address = env_text env (address_var account);
          key = env_text env (account_var account ''PRIVATE_KEY'');
          master = master_address env account;
          done = (\<lambda>v. Inr \<lparr>cr_address = str_lower address, cr_key = key, cr_vault = v\<rparr>) in
      if address = [] \<or> key = [] then Inl system_exit
      else case use_vault of
             Some v \<Rightarrow> done (v = ''yes'')
           | None \<Rightarrow> if master \<noteq> [] then done (str_lower address \<noteq> master) else Inl system_exit)"

text \<open>\<open>import_hl_mainnet_credentials.py\<close>: the credentials it writes to Hummingbot's single slot.\<close>

definition import_master :: "environment \<Rightarrow> string \<Rightarrow> string" where
  "import_master env account =
     str_lower (first_text (env_text env (address_var (family_of account @ ''_main'')))
       (env_text env ''HYPERLIQUID_MASTER_ACCOUNT_ADDRESS''))"

definition import_resolve :: "environment \<Rightarrow> string \<Rightarrow> string option \<Rightarrow> py_error + credentials" where
  "import_resolve env account use_vault =
     (let address = env_text env (address_var account);
          key = env_text env (account_var account ''PRIVATE_KEY'');
          master = import_master env account;
          done = (\<lambda>v. Inr \<lparr>cr_address = str_lower address, cr_key = key, cr_vault = v\<rparr>) in
      if address = [] \<or> key = [] then Inl system_exit
      else if \<not> env_truthy env ''HB_PASSWORD'' then Inl system_exit
      else case use_vault of
             Some v \<Rightarrow> done (str_lower (str_strip v) \<in> {''yes'', ''y'', ''true'', ''1''})
           | None \<Rightarrow> if master \<noteq> [] then done (str_lower address \<noteq> master) else Inl system_exit)"

section \<open>The route of a signed request\<close>

text \<open>As the master itself, or as a vault of the master.\<close>

datatype route = MasterRoute | VaultRoute string string

text \<open>\<open>_exchange\<close> of the cleanup, for the address it resolved.\<close>

definition cleanup_route :: "environment \<Rightarrow> string \<Rightarrow> string \<Rightarrow> py_error + route" where
  "cleanup_route env account address =
     (let master = master_address env account in
      if \<not> env_truthy env (account_var account ''PRIVATE_KEY'') then Inl system_exit
      else if address = master then Inr MasterRoute
      else if master = [] then Inl system_exit
      else Inr (VaultRoute master address))"

text \<open>\<open>_hl_exchange\<close> of the gates.\<close>

definition gate_route :: "environment \<Rightarrow> string \<Rightarrow> py_error + route" where
  "gate_route env account =
     (let master = master_address env account in
      case env (account_var account ''PRIVATE_KEY'') of None \<Rightarrow> Inl KeyError | Some _ \<Rightarrow>
      if master = [] then Inl system_exit
      else case env (address_var account) of None \<Rightarrow> Inl KeyError | Some a \<Rightarrow>
        (if str_lower a = master then Inr MasterRoute else Inr (VaultRoute master (str_lower a))))"

section \<open>The launcher\<close>

record launch_config =
  lc_id :: string
  lc_market :: topo_config

text \<open>A connector: the address of its credentials, and its HIP-3 flag.\<close>

type_synonym launch_connectors = "(string \<times> string option \<times> bool) list"

definition check_account_routing :: "environment \<Rightarrow> launch_config \<Rightarrow> string option \<Rightarrow> py_error + unit" where
  "check_account_routing env cfg actual =
     (let expected = env_text env (address_var (tc_account (lc_market cfg))) in
      if expected = [] then Inl ValueError
      else case actual of
             None \<Rightarrow> Inl ValueError
           | Some a \<Rightarrow> if a = [] \<or> str_lower a \<noteq> str_lower expected then Inl ValueError else Inr ())"

fun check_all_routing :: "environment \<Rightarrow> launch_connectors \<Rightarrow> launch_config list \<Rightarrow> py_error + unit" where
  "check_all_routing env connectors [] = Inr ()"
| "check_all_routing env connectors (cfg # cfgs) =
     (case map_of connectors (tc_connector (lc_market cfg)) of
        None \<Rightarrow> Inl KeyError
      | Some (address, _) \<Rightarrow>
          res_bind (check_account_routing env cfg address) (\<lambda>_. check_all_routing env connectors cfgs))"

text \<open>\<open>tuple(member.split(":", 1))\<close>: a member without a colon cannot be unpacked by the book.\<close>

definition parse_member :: "string \<Rightarrow> member option" where
  "parse_member s =
     (if CHR '':'' \<in> set s then Some (takeWhile (\<lambda>c. c \<noteq> CHR '':'') s, tl (dropWhile (\<lambda>c. c \<noteq> CHR '':'') s))
      else None)"

definition parse_members :: "string \<Rightarrow> member list option" where
  "parse_members raw = those (map parse_member (split_on (CHR '','') raw))"

definition member_key :: "launch_config \<Rightarrow> member" where
  "member_key cfg = (tc_account (lc_market cfg), before_dash (tc_pair (lc_market cfg)))"

definition portfolio_setup :: "environment \<Rightarrow> launch_config list \<Rightarrow> py_error + stop_book option" where
  "portfolio_setup os_env cfgs =
     (let db = env_text os_env ''OPMS_PORTFOLIO_STOP_DB''; raw = env_text os_env ''OPMS_PORTFOLIO_MEMBERS'' in
      if (db \<noteq> []) \<noteq> (raw \<noteq> []) then Inl ValueError
      else if db = [] then Inr None
      else case parse_members raw of
             None \<Rightarrow> Inl ValueError
           | Some ms \<Rightarrow>
               res_bind (new_stop_book db ms (Num 20)) (\<lambda>b.
                 if list_all (\<lambda>cfg. member_key cfg \<in> set ms) cfgs then Inr (Some b) else Inl ValueError))"

text \<open>
  \<open>OpmsPerpMM.__init__\<close> up to Hummingbot's own: the HIP-3 flags it leaves on the connectors, and the
  portfolio book it made.  The environment of the routing check adds the file \<open>.env\<close>; the portfolio
  variables are read from the process alone.
\<close>

definition opms_launch ::
  "caps_table \<Rightarrow> launch_config list \<Rightarrow> launch_connectors \<Rightarrow> environment \<Rightarrow> environment
     \<Rightarrow> (string \<times> bool) list \<times> (py_error + stop_book option)" where
  "opms_launch caps cfgs connectors dotenv os_env =
     (let flags = map (\<lambda>(name, address, hip3). (name, hip3)) connectors; env = dotenv ++ os_env in
      case validate_controller_topology caps (map lc_market cfgs) of
        Inl e \<Rightarrow> (flags, Inl e)
      | Inr _ \<Rightarrow>
          (case restrict_hyperliquid_market_scope (map lc_market cfgs) flags of
             (flags', Inl e) \<Rightarrow> (flags', Inl e)
           | (flags', Inr _) \<Rightarrow>
               (flags', res_bind (check_all_routing env connectors cfgs) (\<lambda>_. portfolio_setup os_env cfgs))))"

section \<open>Every script routes alike\<close>

lemma import_master_is_master: "import_master env account = master_address env account"
proof -
  have "map upper_char ''_main'' = ''_MAIN''" by code_simp
  then have "str_upper (f @ ''_main'') = str_upper f @ ''_MAIN''" for f
    by (simp only: str_upper_def map_append)
  then show ?thesis by (simp add: import_master_def master_address_def address_var_def account_var_def)
qed

lemma env_truthy_text: "env_truthy env key \<longleftrightarrow> env_text env key \<noteq> []"
  by (simp add: env_truthy_def env_text_def split: option.split)

text \<open>
  C28: For an account whose master is known, every script of the repository routes the same way:
  the credentials imported into Hummingbot are those the smoke test would use, the cleanup and the
  gates sign as the master exactly when the import does not use a vault, and otherwise as a vault
  of that master with the account's address; and the launcher accepts the imported credentials for
  every controller of that account.
\<close>

theorem every_script_routes_alike:
  assumes "import_resolve env account None = Inr cr" "tc_account (lc_market cfg) = account"
  shows "smoke_resolve env account None = Inr cr
    \<and> map_sum id fst (resolve_account env account) = Inr (cr_address cr)
    \<and> cleanup_route env account (cr_address cr)
        = Inr (if cr_vault cr then VaultRoute (master_address env account) (cr_address cr) else MasterRoute)
    \<and> gate_route env account = cleanup_route env account (cr_address cr)
    \<and> check_account_routing env cfg (Some (cr_address cr)) = Inr ()"
proof -
  let ?m = "master_address env account"
  have f: "env_text env (address_var account) \<noteq> []" "env_text env (account_var account ''PRIVATE_KEY'') \<noteq> []" "?m \<noteq> []"
    "cr = \<lparr>cr_address = str_lower (env_text env (address_var account)), cr_key = env_text env (account_var account ''PRIVATE_KEY''),
           cr_vault = (str_lower (env_text env (address_var account)) \<noteq> ?m)\<rparr>"
    using assms(1) by (auto simp: import_resolve_def import_master_is_master Let_def split: if_splits)
  have lower2: "str_lower (str_lower a) = str_lower a" for a
  proof -
    have "lower_char (lower_char c) = lower_char c" for c
      by (auto simp: lower_char_def Let_def)
    then show ?thesis by (simp add: str_lower_def)
  qed
  have "env (address_var account) = Some (env_text env (address_var account))"
    "\<exists>k. env (account_var account ''PRIVATE_KEY'') = Some k"
    using f(1,2) by (auto simp: env_text_def split: option.splits)
  then show ?thesis
    using f assms(2)
    by (auto simp: smoke_resolve_def resolve_account_def cleanup_route_def gate_route_def check_account_routing_def
        env_truthy_text Let_def lower2) (simp_all add: str_lower_def)
qed

definition sample_env :: environment where
  "sample_env =
     [''HYPERLIQUID_E3_SUB1_ACCOUNT_ADDRESS'' \<mapsto> ''0xAB'', ''HYPERLIQUID_E3_SUB1_PRIVATE_KEY'' \<mapsto> ''k'',
      ''HYPERLIQUID_E3_MAIN_ACCOUNT_ADDRESS'' \<mapsto> ''0xCD'', ''HB_PASSWORD'' \<mapsto> ''p'']"

definition sample_launch_config :: launch_config where
  "sample_launch_config =
     \<lparr>lc_id = ''c'', lc_market = \<lparr>tc_connector = ''hyperliquid_perpetual'', tc_pair = ''ETH-USD'', tc_account = ''e3_sub1''\<rparr>\<rparr>"

lemma sample_names:
  "address_var ''e3_sub1'' = ''HYPERLIQUID_E3_SUB1_ACCOUNT_ADDRESS''"
  "account_var ''e3_sub1'' ''PRIVATE_KEY'' = ''HYPERLIQUID_E3_SUB1_PRIVATE_KEY''"
  "master_address sample_env ''e3_sub1'' = ''0xcd''" "str_lower ''0xAB'' = ''0xab''" "str_lower ''0xab'' = ''0xab''"
  unfolding sample_env_def by code_simp+

theorem every_script_routes_alike_witness:
  "gate_route sample_env ''e3_sub1'' = Inr (VaultRoute ''0xcd'' ''0xab'')
   \<and> check_account_routing sample_env sample_launch_config (Some ''0xab'') = Inr ()"
proof -
  let ?cr = "\<lparr>cr_address = ''0xab'', cr_key = ''k'', cr_vault = True\<rparr>"
  have "import_resolve sample_env ''e3_sub1'' None = Inr ?cr"
    by (simp add: import_resolve_def import_master_is_master sample_names Let_def)
       (simp add: sample_env_def env_text_def env_truthy_def sample_names)
  from every_script_routes_alike[OF this, of sample_launch_config] show ?thesis
    by (simp add: sample_launch_config_def sample_names)
qed

section \<open>An accepted launch\<close>

lemma check_all_routing_ok:
  "check_all_routing env connectors cfgs = Inr () \<longleftrightarrow>
     (\<forall>cfg\<in>set cfgs. \<exists>a h. map_of connectors (tc_connector (lc_market cfg)) = Some (Some a, h) \<and> a \<noteq> []
        \<and> env_text env (address_var (tc_account (lc_market cfg))) \<noteq> []
        \<and> str_lower a = str_lower (env_text env (address_var (tc_account (lc_market cfg)))))"
  by (induction cfgs)
     (auto simp: check_account_routing_def Let_def res_bind_Inr split: option.splits if_splits)

lemma portfolio_setup_ok:
  assumes "portfolio_setup os_env cfgs = Inr stop"
  shows "(stop = None \<longleftrightarrow> \<not> env_truthy os_env ''OPMS_PORTFOLIO_STOP_DB'')
    \<and> (env_truthy os_env ''OPMS_PORTFOLIO_STOP_DB'' \<longleftrightarrow> env_truthy os_env ''OPMS_PORTFOLIO_MEMBERS'')
    \<and> (\<forall>b. stop = Some b \<longrightarrow> book_ok b \<and> (\<forall>cfg\<in>set cfgs. member_key cfg \<in> set (members b)))"
proof -
  have mem: "set (members b) = set ms" if "new_stop_book db ms (Num 20) = Inr b" for db ms b
    using that by (auto simp: new_stop_book_def split: if_splits)
  from assms show ?thesis
    by (auto simp: portfolio_setup_def Let_def env_truthy_text res_bind_Inr list_all_iff mem new_stop_book_ok
        split: if_splits option.splits)
qed

text \<open>
  A launch that is not refused has checked everything it names: no two controllers share a
  netted market; every controller's connector holds the address its account declares, so that two
  accounts on one connector are the same address; and the portfolio stop is either off in both of
  its variables, or on with at least two members and every controller among them.
\<close>

theorem accepted_launch_is_routed:
  assumes "opms_launch caps cfgs connectors dotenv os_env = (flags, Inr stop)"
  shows "distinct (map market_of (filter (netted caps) (map lc_market cfgs)))
    \<and> (\<forall>cfg\<in>set cfgs. \<exists>a h. map_of connectors (tc_connector (lc_market cfg)) = Some (Some a, h) \<and> a \<noteq> []
        \<and> str_lower a = str_lower (env_text (dotenv ++ os_env) (address_var (tc_account (lc_market cfg)))))
    \<and> (\<forall>cfg\<in>set cfgs. \<forall>cfg'\<in>set cfgs. tc_connector (lc_market cfg) = tc_connector (lc_market cfg') \<longrightarrow>
        str_lower (env_text (dotenv ++ os_env) (address_var (tc_account (lc_market cfg))))
      = str_lower (env_text (dotenv ++ os_env) (address_var (tc_account (lc_market cfg')))))
    \<and> (env_truthy os_env ''OPMS_PORTFOLIO_STOP_DB'' \<longleftrightarrow> env_truthy os_env ''OPMS_PORTFOLIO_MEMBERS'')
    \<and> (stop = None \<longleftrightarrow> \<not> env_truthy os_env ''OPMS_PORTFOLIO_STOP_DB'')
    \<and> (\<forall>b. stop = Some b \<longrightarrow> 2 \<le> length (members b) \<and> distinct (members b)
        \<and> (\<forall>cfg\<in>set cfgs. member_key cfg \<in> set (members b)))"
proof -
  from assms obtain topo where t: "validate_controller_topology caps (map lc_market cfgs) = Inr topo"
      "check_all_routing (dotenv ++ os_env) connectors cfgs = Inr ()" "portfolio_setup os_env cfgs = Inr stop"
    by (auto simp: opms_launch_def Let_def res_bind_Inr split: sum.splits prod.splits)
  have topo: "distinct (map market_of (filter (netted caps) (map lc_market cfgs)))"
    using t(1) validate_from_ok[of caps "\<lambda>_. []" "map lc_market cfgs"]
    by (auto simp: validate_controller_topology_def split: sum.splits)
  have routed: "\<forall>cfg\<in>set cfgs. \<exists>a h. map_of connectors (tc_connector (lc_market cfg)) = Some (Some a, h) \<and> a \<noteq> []
        \<and> str_lower a = str_lower (env_text (dotenv ++ os_env) (address_var (tc_account (lc_market cfg))))"
    using t(2) unfolding check_all_routing_ok by blast
  have same: "str_lower (env_text (dotenv ++ os_env) (address_var (tc_account (lc_market cfg))))
      = str_lower (env_text (dotenv ++ os_env) (address_var (tc_account (lc_market cfg'))))"
    if "cfg \<in> set cfgs" "cfg' \<in> set cfgs" "tc_connector (lc_market cfg) = tc_connector (lc_market cfg')" for cfg cfg'
    using bspec[OF routed that(1)] bspec[OF routed that(2)] that(3) by auto
  show ?thesis
    using topo routed same portfolio_setup_ok[OF t(3)] unfolding book_ok_def by blast
qed

definition shadow_connectors :: launch_connectors where
  "shadow_connectors = [(''hyperliquid_perpetual'', Some ''0xab'', True)]"

theorem accepted_launch_is_routed_witness:
  "\<exists>flags. opms_launch (\<lambda>_. Inr ''net'') [sample_launch_config] shadow_connectors sample_env Map.empty = (flags, Inr None)
     \<and> distinct (map market_of [lc_market sample_launch_config])
     \<and> \<not> env_truthy Map.empty ''OPMS_PORTFOLIO_MEMBERS''"
proof -
  have var: "env_text sample_env ''HYPERLIQUID_E3_SUB1_ACCOUNT_ADDRESS'' = ''0xAB''" by (simp add: sample_env_def env_text_def)
  have native: "native_only ''hyperliquid_perpetual'' [''ETH-USD'']" by code_simp
  obtain flags where l: "opms_launch (\<lambda>_. Inr ''net'') [sample_launch_config] shadow_connectors sample_env Map.empty = (flags, Inr None)"
    by (simp add: opms_launch_def validate_controller_topology_def get_venue_capabilities_def Let_def
        restrict_hyperliquid_market_scope_def pairs_by_connector_def add_pair_def sample_launch_config_def
        shadow_connectors_def check_account_routing_def sample_names var portfolio_setup_def env_text_def[of Map.empty] native)
  from accepted_launch_is_routed[OF l] l show ?thesis
    by (auto simp: env_truthy_def)
qed

end
