(* ===== verification/DeployChecks.thy ===== *)
theory DeployChecks imports AccountRouting begin

text \<open>
  \<open>src/deploy/hummingbot/scripts/validate_hb_soak_config.py\<close> and \<open>validate_hb_deploy_configs.py\<close>: the
  offline checks a run must pass before its processes start.  The controllers are what
  Hummingbot's config loader made of the YAML files; a dict is an association list.
\<close>

record hb_controller =
  hc_launch :: launch_config
  hc_target :: real
  hc_leverage :: int
  hc_regime_stop :: bool
  hc_toxic :: "real option"
  hc_shadow :: bool
  hc_update_interval :: real

abbreviation hc_account :: "hb_controller \<Rightarrow> string" where
  "hc_account c \<equiv> tc_account (lc_market (hc_launch c))"

abbreviation hc_pair :: "hb_controller \<Rightarrow> string" where
  "hc_pair c \<equiv> tc_pair (lc_market (hc_launch c))"

text \<open>\<open>{c.trading_pair: c.target_inventory for c in controllers}\<close>, and the equality of two dicts.\<close>

definition targets_of :: "hb_controller list \<Rightarrow> (string \<times> real) list" where
  "targets_of cs = foldl (\<lambda>d c. AList.update (hc_pair c) (hc_target c) d) [] cs"

definition same_items :: "('k \<times> 'v) list \<Rightarrow> ('k \<times> 'v) list \<Rightarrow> bool" where
  "same_items a b = list_all (\<lambda>k. map_of a k = map_of b k) (map fst a @ map fst b)"

section \<open>The soak validator\<close>

datatype risk_gates = GatesEnabled | MarkoutOnly | GatesDisabled

record soak_args =
  so_account :: string
  so_coins :: "string list"
  so_leverage :: int
  so_update_interval :: real
  so_flat_targets :: bool
  so_expected_target :: "string list"
  so_risk_gates :: risk_gates

definition soak_id :: "string \<Rightarrow> string \<Rightarrow> string" where
  "soak_id account coin = ''perp_mm_'' @ account @ ''_'' @ str_lower coin @ ''_soak''"

fun parse_targets :: "(string \<Rightarrow> py_error + real) \<Rightarrow> string list \<Rightarrow> (string \<times> real) list \<Rightarrow> py_error + (string \<times> real) list" where
  "parse_targets parse [] d = Inr d"
| "parse_targets parse (v # vs) d =
     (if CHR ''='' \<notin> set v then Inl system_exit
      else res_bind (parse (tl (dropWhile (\<lambda>c. c \<noteq> CHR ''='') v))) (\<lambda>t.
             parse_targets parse vs (AList.update (takeWhile (\<lambda>c. c \<noteq> CHR ''='') v) t d)))"

definition default_targets :: "string \<Rightarrow> (string \<times> real) list" where
  "default_targets account =
     (if account = ''e2_mm1'' then [(''ETH-USD'', 1 / 10), (''SOL-USD'', -1)] else [(''ETH-USD'', -1 / 10), (''SOL-USD'', 1)])"

definition check_targets :: "(string \<Rightarrow> py_error + real) \<Rightarrow> soak_args \<Rightarrow> (string \<times> real) list \<Rightarrow> py_error + unit" where
  "check_targets parse a targets =
     (if so_expected_target a \<noteq> [] then
        res_bind (parse_targets parse (so_expected_target a) []) (\<lambda>expected. res_check (same_items targets expected) ValueError (Inr ()))
      else if so_flat_targets a then
        res_check (list_all (\<lambda>(pair, t). \<bar>t\<bar> \<le> 1 / 10 ^ 12) targets) ValueError (Inr ())
      else res_check (same_items targets (default_targets (so_account a))) ValueError (Inr ()))"

definition gates_match :: "risk_gates \<Rightarrow> hb_controller \<Rightarrow> bool" where
  "gates_match g c =
     (case g of
        GatesEnabled \<Rightarrow> hc_regime_stop c \<and> hc_toxic c \<noteq> None
      | MarkoutOnly \<Rightarrow> \<not> hc_regime_stop c \<and> hc_toxic c \<noteq> None
      | GatesDisabled \<Rightarrow> \<not> hc_regime_stop c \<and> hc_toxic c = None)"

fun route_all :: "environment \<Rightarrow> string \<Rightarrow> hb_controller list \<Rightarrow> py_error + unit" where
  "route_all env address [] = Inr ()"
| "route_all env address (c # cs) =
     res_bind (check_account_routing env (hc_launch c) (Some address)) (\<lambda>_. route_all env address cs)"

definition validate_soak ::
  "caps_table \<Rightarrow> (string \<Rightarrow> py_error + real) \<Rightarrow> environment \<Rightarrow> soak_args \<Rightarrow> hb_controller list \<Rightarrow> py_error + unit" where
  "validate_soak caps parse env a cs =
     (let account = so_account a; coins = map str_upper (so_coins a);
          address = env_text env (address_var account) in
      res_check (str_lower (env_text env (account_var account ''IS_TESTNET'')) = ''false'') ValueError
      (res_check (address \<noteq> []) ValueError
      (res_bind (validate_controller_topology caps (map (lc_market \<circ> hc_launch) cs)) (\<lambda>_.
       res_check (length cs = length coins) ValueError
      (res_check (set (map (lc_id \<circ> hc_launch) cs) = set (map (soak_id account) coins)) ValueError
      (res_check (set (map hc_pair cs) = set (map (\<lambda>coin. coin @ ''-USD'') coins)) ValueError
      (res_bind (check_targets parse a (targets_of cs)) (\<lambda>_.
       res_check (list_all (\<lambda>c. hc_account c = account) cs) ValueError
      (res_check (list_all (\<lambda>c. hc_leverage c = so_leverage a) cs) ValueError
      (res_check (list_all (gates_match (so_risk_gates a)) cs) ValueError
      (res_check (list_all (\<lambda>c. \<not> hc_shadow c \<and> hc_update_interval c = so_update_interval a) cs) ValueError
      (route_all env address cs))))))))))))"

section \<open>The dual deployment\<close>

definition deploy_scripts :: "string list" where
  "deploy_scripts = [''opms_perp_mm_e2_mm1_shadow.yml'', ''opms_perp_mm_e3_sub1_shadow.yml'']"

definition deploy_targets :: "string \<Rightarrow> py_error + (string \<times> real) list" where
  "deploy_targets account =
     (if account = ''e2_mm1'' then Inr [(''ETH-USD'', 4 / 10), (''SOL-USD'', -4)]
      else if account = ''e3_sub1'' then Inr [(''ETH-USD'', -4 / 10), (''SOL-USD'', 4)]
      else Inl KeyError)"

text \<open>One script's controllers: the account and address it adds.\<close>

definition validate_script :: "caps_table \<Rightarrow> environment \<Rightarrow> hb_controller list \<Rightarrow> py_error + string \<times> string" where
  "validate_script caps env cs =
     res_bind (validate_controller_topology caps (map (lc_market \<circ> hc_launch) cs)) (\<lambda>_.
     res_check (length cs = 2) ValueError
     (let account = hc_account (hd cs); address = env_text env (address_var account) in
      res_bind (deploy_targets account) (\<lambda>targets.
      res_check (same_items (targets_of cs) targets) ValueError
     (res_check (list_all (\<lambda>c. hc_leverage c = 6) cs) ValueError
     (res_check (list_all (\<lambda>c. hc_shadow c \<and> hc_update_interval c = 5) cs) ValueError
     (res_check (address \<noteq> []) ValueError
     (res_bind (route_all env address cs) (\<lambda>_. Inr (account, str_lower address)))))))))"

fun validate_scripts :: "caps_table \<Rightarrow> environment \<Rightarrow> hb_controller list list \<Rightarrow> (string \<times> string) list \<Rightarrow> py_error + (string \<times> string) list" where
  "validate_scripts caps env [] d = Inr d"
| "validate_scripts caps env (cs # rest) d =
     res_bind (validate_script caps env cs) (\<lambda>(account, address). validate_scripts caps env rest (AList.update account address d))"

definition validate_deploy :: "caps_table \<Rightarrow> environment \<Rightarrow> (string \<Rightarrow> hb_controller list) \<Rightarrow> py_error + unit" where
  "validate_deploy caps env load =
     res_bind (validate_scripts caps env (map load deploy_scripts) []) (\<lambda>addresses.
     res_check (set (map (lc_id \<circ> hc_launch) (concat (map load deploy_scripts)))
       = {''perp_mm_e2_mm1_eth'', ''perp_mm_e2_mm1_sol'', ''perp_mm_e3_sub1_eth'', ''perp_mm_e3_sub1_sol''}) ValueError
    (res_check (length addresses = 2 \<and> card (set (map snd addresses)) = 2) ValueError (Inr ())))"

section \<open>What the validators guarantee\<close>

lemma route_all_ok:
  "route_all env address cs = Inr () \<longleftrightarrow>
     (\<forall>c\<in>set cs. env_text env (address_var (hc_account c)) \<noteq> [] \<and> address \<noteq> []
        \<and> str_lower address = str_lower (env_text env (address_var (hc_account c))))"
  by (induction cs) (auto simp: check_account_routing_def Let_def res_bind_Inr split: if_splits)

lemma same_items_map_of: "same_items a b \<Longrightarrow> map_of a k = map_of b k"
proof (cases "k \<in> fst ` set a \<union> fst ` set b")
  case False
  then have "map_of a k = None" "map_of b k = None" by (auto simp: map_of_eq_None_iff)
  then show ?thesis by simp
qed (auto simp: same_items_def list_all_iff)

lemma targets_of_distinct:
  "distinct (map hc_pair cs) \<Longrightarrow> c \<in> set cs \<Longrightarrow> map_of (targets_of cs) (hc_pair c) = Some (hc_target c)"
proof -
  have gen: "map_of (foldl (\<lambda>d c. AList.update (hc_pair c) (hc_target c) d) d cs) p
      = (case find (\<lambda>c. hc_pair c = p) cs of Some c \<Rightarrow> Some (hc_target c) | None \<Rightarrow> map_of d p)"
    if "distinct (map hc_pair cs)" for d p
    using that
  proof (induction cs arbitrary: d)
    case (Cons c cs)
    have "find (\<lambda>x. hc_pair x = hc_pair c) cs = None" using Cons.prems by (auto simp: find_None_iff) (metis imageI)
    with Cons show ?case by (auto simp: update_conv' split: option.split)
  qed simp
  assume d: "distinct (map hc_pair cs)" and c: "c \<in> set cs"
  have "find (\<lambda>x. hc_pair x = hc_pair c) cs = Some c"
    using d c by (induction cs) (auto simp: image_iff)
  with gen[OF d] show ?thesis by (simp add: targets_of_def)
qed

lemma distinct_of_set_eq: "set xs = set ys \<Longrightarrow> length xs = length ys \<Longrightarrow> distinct ys \<Longrightarrow> distinct xs"
  by (metis card_distinct distinct_card)

text \<open>
  A soak that the validator accepts trades exactly the coins it was asked for: with distinct
  coins every coin is traded by exactly one controller, under an id of its own; every controller
  is live, on the one account and leverage, with the risk gates asked for, and routes to the
  address of that account, which is declared mainnet; and if flat targets were asked for, every
  target is flat.
\<close>

theorem accepted_soak_trades_what_was_asked:
  assumes "validate_soak caps parse env a cs = Inr ()" "distinct (map str_lower (map str_upper (so_coins a)))"
  shows "(\<forall>coin\<in>set (so_coins a). \<exists>!c. c \<in> set cs \<and> hc_pair c = str_upper coin @ ''-USD'')
    \<and> length cs = length (so_coins a) \<and> distinct (map (lc_id \<circ> hc_launch) cs)
    \<and> (\<forall>c\<in>set cs. hc_account c = so_account a \<and> hc_leverage c = so_leverage a \<and> \<not> hc_shadow c
        \<and> gates_match (so_risk_gates a) c
        \<and> env_text env (address_var (hc_account c)) \<noteq> [])
    \<and> str_lower (env_text env (account_var (so_account a) ''IS_TESTNET'')) = ''false''
    \<and> (so_flat_targets a \<and> so_expected_target a = [] \<longrightarrow> (\<forall>c\<in>set cs. \<bar>hc_target c\<bar> \<le> 1 / 10 ^ 12))"
proof -
  define coins where "coins = map str_upper (so_coins a)"
  note v = assms(1)[unfolded validate_soak_def Let_def res_Inr, folded coins_def]
  from v have len: "length cs = length coins"
    and ids: "set (map (lc_id \<circ> hc_launch) cs) = set (map (soak_id (so_account a)) coins)"
    and pairs: "set (map hc_pair cs) = set (map (\<lambda>coin. coin @ ''-USD'') coins)"
    and targets: "check_targets parse a (targets_of cs) = Inr ()"
    and all: "list_all (\<lambda>c. hc_account c = so_account a) cs" "list_all (\<lambda>c. hc_leverage c = so_leverage a) cs"
      "list_all (gates_match (so_risk_gates a)) cs" "list_all (\<lambda>c. \<not> hc_shadow c \<and> hc_update_interval c = so_update_interval a) cs"
      "route_all env (env_text env (address_var (so_account a))) cs = Inr ()"
    and net: "str_lower (env_text env (account_var (so_account a) ''IS_TESTNET'')) = ''false''"
    by auto
  have "distinct (map (soak_id (so_account a)) coins)"
    using assms(2) unfolding coins_def[symmetric]
    by (auto simp: distinct_map inj_on_def soak_id_def)
  then have did: "distinct (map (lc_id \<circ> hc_launch) cs)"
    using ids len by (intro distinct_of_set_eq[OF ids]) simp_all
  have "distinct coins" using assms(2) unfolding coins_def distinct_map[of str_lower] by blast
  then have "distinct (map (\<lambda>coin. coin @ ''-USD'') coins)" by (simp add: distinct_map inj_on_def)
  then have dp: "distinct (map hc_pair cs)"
    using len by (intro distinct_of_set_eq[OF pairs]) simp_all
  have one: "\<exists>!c. c \<in> set cs \<and> hc_pair c = str_upper coin @ ''-USD''" if "coin \<in> set (so_coins a)" for coin
  proof -
    have "str_upper coin @ ''-USD'' \<in> set (map hc_pair cs)" using that unfolding pairs coins_def by auto
    then obtain c where "c \<in> set cs" "hc_pair c = str_upper coin @ ''-USD''" by auto
    with dp show ?thesis by (auto simp: distinct_map inj_on_def)
  qed
  have flat: "\<bar>hc_target c\<bar> \<le> 1 / 10 ^ 12" if "so_flat_targets a" "so_expected_target a = []" "c \<in> set cs" for c
  proof -
    have "list_all (\<lambda>(pair, t). \<bar>t\<bar> \<le> 1 / 10 ^ 12) (targets_of cs)"
      using targets that by (simp add: check_targets_def res_check_Inr)
    then show ?thesis using map_of_SomeD[OF targets_of_distinct[OF dp that(3)]] by (auto simp: list_all_iff)
  qed
  show ?thesis
    using one len did all flat net unfolding route_all_ok coins_def by (auto simp: list_all_iff)
qed

lemma two_targets:
  assumes "length cs = 2" "same_items (targets_of cs) [(''ETH-USD'', x), (''SOL-USD'', y)]"
  shows "\<exists>eth sol. set cs = {eth, sol} \<and> hc_pair eth = ''ETH-USD'' \<and> hc_target eth = x \<and> hc_pair sol = ''SOL-USD'' \<and> hc_target sol = y"
proof -
  from assms(1) obtain a b where cs: "cs = [a, b]" by (auto simp: length_Suc_conv numeral_2_eq_2)
  have at: "map_of (targets_of cs) k
      = (if k = hc_pair b then Some (hc_target b) else if k = hc_pair a then Some (hc_target a) else None)" for k
    by (simp add: cs targets_of_def update_conv')
  define E S where "E = ''ETH-USD''" and "S = ''SOL-USD''"
  have "E \<noteq> S" by (simp add: E_def S_def)
  moreover have "map_of (targets_of cs) E = Some x" "map_of (targets_of cs) S = Some y"
    using same_items_map_of[OF assms(2)] by (simp_all add: E_def S_def)
  ultimately have "(hc_pair a = E \<and> hc_target a = x \<and> hc_pair b = S \<and> hc_target b = y)
      \<or> (hc_pair b = E \<and> hc_target b = x \<and> hc_pair a = S \<and> hc_target a = y)"
    unfolding at by (auto split: if_splits)
  then show ?thesis using cs unfolding E_def S_def by auto
qed

lemma validate_script_facts:
  assumes "validate_script caps env cs = Inr (account, address)"
  shows "length cs = 2 \<and> account = hc_account (hd cs) \<and> account \<in> {''e2_mm1'', ''e3_sub1''}
    \<and> (\<forall>c\<in>set cs. hc_shadow c \<and> hc_leverage c = 6
        \<and> str_lower (env_text env (address_var (hc_account c))) = address)
    \<and> (\<exists>s eth sol. s = (if account = ''e2_mm1'' then 1 else -1) \<and> set cs = {eth, sol}
        \<and> hc_pair eth = ''ETH-USD'' \<and> hc_target eth = s * (4 / 10) \<and> hc_pair sol = ''SOL-USD'' \<and> hc_target sol = s * -4)"
proof -
  from assms obtain targets where v: "length cs = 2" "account = hc_account (hd cs)" "deploy_targets account = Inr targets"
    "same_items (targets_of cs) targets" "list_all (\<lambda>c. hc_leverage c = 6) cs" "list_all (\<lambda>c. hc_shadow c \<and> hc_update_interval c = 5) cs"
    "route_all env (env_text env (address_var account)) cs = Inr ()" "address = str_lower (env_text env (address_var account))"
    unfolding validate_script_def Let_def res_Inr by auto
  from v(3) have t: "account = ''e2_mm1'' \<and> targets = [(''ETH-USD'', 4 / 10), (''SOL-USD'', -4)]
      \<or> account = ''e3_sub1'' \<and> targets = [(''ETH-USD'', -4 / 10), (''SOL-USD'', 4)]"
    by (auto simp: deploy_targets_def split: if_splits)
  obtain s where s: "s = (if account = ''e2_mm1'' then 1 else -1 :: real)" "targets = [(''ETH-USD'', s * (4 / 10)), (''SOL-USD'', s * -4)]"
    using t by auto
  note two = two_targets[OF v(1) v(4)[unfolded s(2)]]
  show ?thesis
  proof (intro conjI)
    show "account \<in> {''e2_mm1'', ''e3_sub1''}" using t by auto
    show "\<forall>c\<in>set cs. hc_shadow c \<and> hc_leverage c = 6 \<and> str_lower (env_text env (address_var (hc_account c))) = address"
      using v(5-8) unfolding route_all_ok by (auto simp: list_all_iff)
    show "\<exists>s eth sol. s = (if account = ''e2_mm1'' then 1 else -1) \<and> set cs = {eth, sol}
        \<and> hc_pair eth = ''ETH-USD'' \<and> hc_target eth = s * (4 / 10) \<and> hc_pair sol = ''SOL-USD'' \<and> hc_target sol = s * -4"
      using two s(1) by blast
  qed (use v in simp_all)
qed

text \<open>
  An accepted dual deployment keeps the two accounts apart and the basket flat: its four
  shadow controllers have four ids, one instance is e2_mm1's and the other e3_sub1's, no
  controller of one can route to the address of the other, and every controller has a counterpart
  in the other instance on the same pair with the opposite target.
\<close>

theorem accepted_deployment_is_separated:
  assumes "validate_deploy caps env load = Inr ()"
    "cs = load ''opms_perp_mm_e2_mm1_shadow.yml''" "ds = load ''opms_perp_mm_e3_sub1_shadow.yml''"
  shows "{hc_account (hd cs), hc_account (hd ds)} = {''e2_mm1'', ''e3_sub1''}
    \<and> distinct (map (lc_id \<circ> hc_launch) (cs @ ds)) \<and> length (cs @ ds) = 4
    \<and> (\<forall>c\<in>set (cs @ ds). hc_shadow c \<and> hc_leverage c = 6)
    \<and> (\<forall>c\<in>set cs. \<forall>d\<in>set ds. str_lower (env_text env (address_var (hc_account c)))
          \<noteq> str_lower (env_text env (address_var (hc_account d))))
    \<and> (\<forall>c\<in>set cs. \<exists>d\<in>set ds. hc_pair d = hc_pair c \<and> hc_target c + hc_target d = 0)"
proof -
  have loaded: "map load deploy_scripts = [cs, ds]" by (simp add: deploy_scripts_def assms(2,3))
  from assms(1) obtain a1 x1 a2 x2 where v: "validate_script caps env cs = Inr (a1, x1)" "validate_script caps env ds = Inr (a2, x2)"
    "length (AList.update a2 x2 [(a1, x1)]) = 2" "card (set (map snd (AList.update a2 x2 [(a1, x1)]))) = 2"
    and ids: "set (map (lc_id \<circ> hc_launch) (cs @ ds))
       = set [''perp_mm_e2_mm1_eth'', ''perp_mm_e2_mm1_sol'', ''perp_mm_e3_sub1_eth'', ''perp_mm_e3_sub1_sol'']"
    unfolding validate_deploy_def loaded by (auto simp: res_Inr)
  note f1 = validate_script_facts[OF v(1)] and f2 = validate_script_facts[OF v(2)]
  have apart: "a1 \<noteq> a2" "x1 \<noteq> x2" using v(3,4) by (auto split: if_splits)
  have accounts: "{a1, a2} = {''e2_mm1'', ''e3_sub1''}" using f1 f2 apart(1) by auto
  have len: "length (cs @ ds) = 4" using f1 f2 by simp
  have "distinct (map (lc_id \<circ> hc_launch) (cs @ ds))"
    by (rule distinct_of_set_eq[OF ids]) (use len in simp_all)
  moreover have "\<exists>d\<in>set ds. hc_pair d = hc_pair c \<and> hc_target c + hc_target d = 0" if "c \<in> set cs" for c
  proof -
    define s1 s2 where "s1 = (if a1 = ''e2_mm1'' then 1 else -1 :: real)" and "s2 = (if a2 = ''e2_mm1'' then 1 else -1 :: real)"
    have opp: "s2 = - s1" using accounts apart(1) unfolding s1_def s2_def by (auto simp: doubleton_eq_iff)
    obtain eth sol where c: "set cs = {eth, sol}" "hc_pair eth = ''ETH-USD''" "hc_target eth = s1 * (4 / 10)"
        "hc_pair sol = ''SOL-USD''" "hc_target sol = s1 * -4"
      using f1 unfolding s1_def by blast
    obtain eth' sol' where d: "set ds = {eth', sol'}" "hc_pair eth' = ''ETH-USD''" "hc_target eth' = s2 * (4 / 10)"
        "hc_pair sol' = ''SOL-USD''" "hc_target sol' = s2 * -4"
      using f2 unfolding s2_def by blast
    from that c(1) consider "c = eth" | "c = sol" by auto
    then show ?thesis by cases (use c d opp in auto)
  qed
  moreover have "str_lower (env_text env (address_var (hc_account c))) \<noteq> str_lower (env_text env (address_var (hc_account d)))"
    if "c \<in> set cs" "d \<in> set ds" for c d
    using f1 f2 that apart(2) by metis
  moreover have "hc_shadow c \<and> hc_leverage c = 6" if "c \<in> set (cs @ ds)" for c
    using f1 f2 that by (metis Un_iff set_append)
  moreover have "{hc_account (hd cs), hc_account (hd ds)} = {''e2_mm1'', ''e3_sub1''}"
    using f1 f2 accounts by metis
  ultimately show ?thesis using len by blast
qed

section \<open>Witnesses\<close>

definition sample_controller_on :: "string \<Rightarrow> string \<Rightarrow> string \<Rightarrow> real \<Rightarrow> int \<Rightarrow> bool \<Rightarrow> hb_controller" where
  "sample_controller_on cid account pair target leverage shadow =
     \<lparr>hc_launch = \<lparr>lc_id = cid, lc_market = \<lparr>tc_connector = ''hyperliquid_perpetual'', tc_pair = pair, tc_account = account\<rparr>\<rparr>,
      hc_target = target, hc_leverage = leverage, hc_regime_stop = False, hc_toxic = None, hc_shadow = shadow,
      hc_update_interval = 5\<rparr>"

definition sample_load :: "string \<Rightarrow> hb_controller list" where
  "sample_load script =
     (if script = ''opms_perp_mm_e2_mm1_shadow.yml'' then
        [sample_controller_on ''perp_mm_e2_mm1_eth'' ''e2_mm1'' ''ETH-USD'' (4 / 10) 6 True,
         sample_controller_on ''perp_mm_e2_mm1_sol'' ''e2_mm1'' ''SOL-USD'' (-4) 6 True]
      else
        [sample_controller_on ''perp_mm_e3_sub1_eth'' ''e3_sub1'' ''ETH-USD'' (-4 / 10) 6 True,
         sample_controller_on ''perp_mm_e3_sub1_sol'' ''e3_sub1'' ''SOL-USD'' 4 6 True])"

definition deploy_env :: environment where
  "deploy_env =
     [''HYPERLIQUID_E2_MM1_ACCOUNT_ADDRESS'' \<mapsto> ''0xab'', ''HYPERLIQUID_E3_SUB1_ACCOUNT_ADDRESS'' \<mapsto> ''0xcd'',
      ''HYPERLIQUID_E2_MM1_IS_TESTNET'' \<mapsto> ''False'']"

lemma deploy_names:
  "env_text deploy_env (address_var ''e2_mm1'') = ''0xab''" "env_text deploy_env (address_var ''e3_sub1'') = ''0xcd''"
  "str_lower (env_text deploy_env (account_var ''e2_mm1'' ''IS_TESTNET'')) = ''false''"
  "str_lower ''0xab'' = ''0xab''" "str_lower ''0xcd'' = ''0xcd''" "str_upper ''ETH'' = ''ETH''" "str_lower ''ETH'' = ''eth''"
  "before_dash ''ETH-USD'' = ''ETH''" "before_dash ''SOL-USD'' = ''SOL''"
  unfolding deploy_env_def by code_simp+

lemma deploy_sample_fields [simp]:
  "hc_account (sample_controller_on i a p t l s) = a" "hc_pair (sample_controller_on i a p t l s) = p"
  "hc_target (sample_controller_on i a p t l s) = t" "hc_leverage (sample_controller_on i a p t l s) = l"
  "hc_shadow (sample_controller_on i a p t l s) = s" "hc_update_interval (sample_controller_on i a p t l s) = 5"
  "lc_id (hc_launch (sample_controller_on i a p t l s)) = i"
  "tc_connector (lc_market (hc_launch (sample_controller_on i a p t l s))) = ''hyperliquid_perpetual''"
  "gates_match GatesDisabled (sample_controller_on i a p t l s)"
  by (simp_all add: sample_controller_on_def gates_match_def)

lemma sample_routing:
  "a \<noteq> [] \<Longrightarrow> str_lower a = str_lower (env_text env (address_var acc)) \<Longrightarrow> env_text env (address_var acc) \<noteq> [] \<Longrightarrow>
     check_account_routing env (hc_launch (sample_controller_on i acc p t l s)) (Some a) = Inr ()"
  by (simp add: check_account_routing_def sample_controller_on_def)

lemma sample_topology:
  "p \<noteq> q \<Longrightarrow> before_dash p \<noteq> before_dash q \<Longrightarrow> validate_controller_topology (\<lambda>_. Inr ''net'')
     [lc_market (hc_launch (sample_controller_on i a p t l s)), lc_market (hc_launch (sample_controller_on j a q u l s))]
   = Inr [lc_market (hc_launch (sample_controller_on i a p t l s)), lc_market (hc_launch (sample_controller_on j a q u l s))]"
  "validate_controller_topology (\<lambda>_. Inr ''net'') [lc_market (hc_launch (sample_controller_on i a p t l s))]
   = Inr [lc_market (hc_launch (sample_controller_on i a p t l s))]"
  by (simp_all add: validate_controller_topology_def get_venue_capabilities_def market_of_def sample_controller_on_def Let_def)

lemma sample_scripts:
  "validate_script (\<lambda>_. Inr ''net'') deploy_env (sample_load ''opms_perp_mm_e2_mm1_shadow.yml'') = Inr (''e2_mm1'', ''0xab'')"
  "validate_script (\<lambda>_. Inr ''net'') deploy_env (sample_load ''opms_perp_mm_e3_sub1_shadow.yml'') = Inr (''e3_sub1'', ''0xcd'')"
  by (simp_all add: validate_script_def sample_load_def sample_topology sample_routing deploy_names deploy_targets_def
      targets_of_def same_items_def res_check_def Let_def)

theorem accepted_deployment_is_separated_witness:
  "validate_deploy (\<lambda>_. Inr ''net'') deploy_env sample_load = Inr ()
   \<and> length (sample_load ''opms_perp_mm_e2_mm1_shadow.yml'' @ sample_load ''opms_perp_mm_e3_sub1_shadow.yml'') = 4"
proof -
  have "set (map (lc_id \<circ> hc_launch) (concat (map sample_load deploy_scripts)))
      = {''perp_mm_e2_mm1_eth'', ''perp_mm_e2_mm1_sol'', ''perp_mm_e3_sub1_eth'', ''perp_mm_e3_sub1_sol''}"
    by (simp add: deploy_scripts_def sample_load_def)
  then have v: "validate_deploy (\<lambda>_. Inr ''net'') deploy_env sample_load = Inr ()"
    by (simp add: validate_deploy_def res_check_def) (simp add: deploy_scripts_def sample_scripts)
  from accepted_deployment_is_separated[OF v refl refl] v show ?thesis by blast
qed

definition sample_soak :: soak_args where
  "sample_soak =
     \<lparr>so_account = ''e2_mm1'', so_coins = [''ETH''], so_leverage = 3, so_update_interval = 5, so_flat_targets = True,
      so_expected_target = [], so_risk_gates = GatesDisabled\<rparr>"

theorem accepted_soak_trades_what_was_asked_witness:
  "\<exists>cs. validate_soak (\<lambda>_. Inr ''net'') (\<lambda>_. Inl ValueError) deploy_env sample_soak cs = Inr ()
     \<and> (\<exists>!c. c \<in> set cs \<and> hc_pair c = ''ETH-USD'')"
proof -
  let ?c = "sample_controller_on ''perp_mm_e2_mm1_eth_soak'' ''e2_mm1'' ''ETH-USD'' 0 3 False"
  have v: "validate_soak (\<lambda>_. Inr ''net'') (\<lambda>_. Inl ValueError) deploy_env sample_soak [?c] = Inr ()"
    by (simp add: validate_soak_def sample_soak_def sample_topology sample_routing deploy_names soak_id_def
        check_targets_def targets_of_def res_check_def Let_def)
  have d: "distinct (map str_lower (map str_upper (so_coins sample_soak)))" by (simp add: sample_soak_def)
  from accepted_soak_trades_what_was_asked[OF v d] v show ?thesis
    by (auto simp: sample_soak_def deploy_names intro!: exI[of _ "[?c]"])
qed

end
