(* ===== verification/QuoteGate.thy ===== *)
theory QuoteGate imports AccountGate AccountRouting begin

text \<open>
  \<open>src/scripts/run_hb_mainnet_quote_gate.py\<close>: the live gate that places real quotes, checks where they
  rest, refreshes them and takes everything down again.

  Connector, venue, controller and executors are one parameter state \<open>'w\<close> with the calls the
  gate makes.  A poll sleeps a second at least, so as many polls as the timeout has seconds are
  enough for its deadline.  Failure texts are kept as constructors; logs, printing and the
  artifact file are left out.
\<close>

section \<open>Helpers\<close>

record gate_quote =
  gq_bid :: real
  gq_ask :: real
  gq_bid_size :: real
  gq_ask_size :: real

definition clamp_passive :: "gate_quote \<Rightarrow> real \<Rightarrow> real \<Rightarrow> real \<Rightarrow> gate_quote \<times> bool" where
  "clamp_passive q best_bid best_ask passive_bps =
     (let edge = passive_bps / 10000;
          bid = min (gq_bid q) (best_bid * (1 - edge));
          ask = max (gq_ask q) (best_ask * (1 + edge))
      in (q\<lparr>gq_bid := bid, gq_ask := ask\<rparr>, gq_bid q \<noteq> bid \<or> gq_ask q \<noteq> ask))"

definition synthetic_quote :: "real \<Rightarrow> real \<Rightarrow> real \<Rightarrow> gate_quote" where
  "synthetic_quote best_bid best_ask amount =
     \<lparr>gq_bid = best_bid, gq_ask = best_ask, gq_bid_size = amount, gq_ask_size = amount\<rparr>"

text \<open>\<open>{int(o["oid"]) for o in info.open_orders(address) if o["coin"] == coin}\<close>.\<close>

fun resting_oids :: "(string \<Rightarrow> py_error + int) \<Rightarrow> string \<Rightarrow> dict list \<Rightarrow> py_error + int set" where
  "resting_oids parse coin [] = Inr {}"
| "resting_oids parse coin (r # rs) =
     (case map_of r ''coin'' of None \<Rightarrow> Inl KeyError | Some c \<Rightarrow>
      if c \<noteq> JStr coin then resting_oids parse coin rs
      else case map_of r ''oid'' of None \<Rightarrow> Inl KeyError | Some v \<Rightarrow>
           res_bind (to_int parse v) (\<lambda>oid. res_bind (resting_oids parse coin rs) (\<lambda>rest. Inr (insert oid rest))))"

fun venue_position :: "(string \<Rightarrow> py_error + real) \<Rightarrow> string \<Rightarrow> dict list \<Rightarrow> py_error + real" where
  "venue_position parse coin [] = Inr 0"
| "venue_position parse coin (e # es) =
     res_bind (position_of e) (\<lambda>d.
       if get_key ''coin'' d = JStr coin then position_size parse d else venue_position parse coin es)"

datatype gate_action = StopAction string | CreateAction string

record 'w gate_world =
  gt_ready :: "'w \<Rightarrow> 'w \<times> (py_error + unit)"
  gt_orders :: "'w \<Rightarrow> string \<Rightarrow> dict list"
  gt_positions :: "'w \<Rightarrow> dict list"
  gt_touch :: "'w \<Rightarrow> real \<times> real"
  gt_on_start :: "'w \<Rightarrow> 'w \<times> (py_error + unit)"
  gt_update :: "'w \<Rightarrow> 'w \<times> (py_error + unit)"
  gt_quoting :: "'w \<Rightarrow> gate_quote option"
  gt_set_quote :: "gate_quote \<Rightarrow> 'w \<Rightarrow> 'w"
  gt_decide :: "'w \<Rightarrow> 'w \<times> (py_error + gate_action list)"
  gt_report :: "string list \<Rightarrow> 'w \<Rightarrow> 'w"
  gt_start :: "string \<Rightarrow> 'w \<Rightarrow> 'w \<times> (py_error + unit)"
  gt_exchange_id :: "'w \<Rightarrow> string \<Rightarrow> int option"
  gt_early_stop :: "string \<Rightarrow> 'w \<Rightarrow> 'w"
  gt_closed :: "'w \<Rightarrow> string \<Rightarrow> bool"
  gt_stop :: "string \<Rightarrow> 'w \<Rightarrow> 'w"
  gt_sleep :: "real \<Rightarrow> 'w \<Rightarrow> 'w"
  gt_clock :: "'w \<Rightarrow> real"
  gt_signer :: "py_error + route"
  gt_cancel :: "int \<Rightarrow> 'w \<Rightarrow> 'w \<times> (py_error + unit)"
  gt_market_close :: "'w \<Rightarrow> 'w \<times> (py_error + unit)"
  gt_parse_int :: "string \<Rightarrow> py_error + int"
  gt_parse_float :: "string \<Rightarrow> py_error + real"
  gt_off :: "'w \<Rightarrow> 'w"

definition executor_oids :: "'w gate_world \<Rightarrow> string list \<Rightarrow> 'w \<Rightarrow> int set" where
  "executor_oids W ids w = {oid. \<exists>i\<in>set ids. gt_exchange_id W w i = Some oid}"

fun await_oids :: "'w gate_world \<Rightarrow> nat \<Rightarrow> real \<Rightarrow> string list \<Rightarrow> 'w \<Rightarrow> 'w \<times> int set" where
  "await_oids W 0 deadline ids w = (w, executor_oids W ids w)"
| "await_oids W (Suc n) deadline ids w =
     (if gt_clock W w < deadline then
        (if card (executor_oids W ids w) = length ids then (w, executor_oids W ids w)
         else await_oids W n deadline ids (gt_sleep W 1 w))
      else (w, executor_oids W ids w))"

fun await_closed :: "'w gate_world \<Rightarrow> nat \<Rightarrow> real \<Rightarrow> string list \<Rightarrow> 'w \<Rightarrow> 'w" where
  "await_closed W 0 deadline ids w = w"
| "await_closed W (Suc n) deadline ids w =
     (if gt_clock W w < deadline \<and> \<not> list_all (gt_closed W w) ids
      then await_closed W n deadline ids (gt_sleep W 1 w) else w)"

text \<open>\<open>_stop_executors\<close>: the ids that had to be forced.\<close>

definition stop_executors :: "'w gate_world \<Rightarrow> real \<Rightarrow> string list \<Rightarrow> 'w \<Rightarrow> 'w \<times> string list" where
  "stop_executors W timeout ids w =
     (let w1 = fold (gt_early_stop W) ids w;
          w2 = await_closed W (nat \<lceil>timeout\<rceil>) (gt_clock W w1 + timeout) ids w1
      in (fold (gt_stop W) ids w2, filter (\<lambda>i. \<not> gt_closed W w2 i) ids))"

section \<open>The run of a gate\<close>

datatype quote_failure =
    DirtyAccount real | NotionalTooLarge real | MissingIds nat nat | NotResting "int set" | Leaked string "int set"
  | NoStops | StopsMismatch "string set" "string set" | Forced "string list" | OldStillResting "int set"
  | NewNotResting "int set" | TeardownLeft "int set" | PositionLeft real | StillResting "int set" | StillOpen real
  | GateException py_error

datatype gate_phase =
    Warmup nat bool gate_quote real | DryRun nat
  | Place nat "int set" "int set" "(string \<times> int set) list" | Rest "int set"
  | Refresh nat nat "int set" "int set" | Teardown "int set" real

datatype raw_call = RawCancel int | RawClose

record gate_args =
  ga_max_position :: real
  ga_max_notional :: real
  ga_passive_bps :: real
  ga_warmup_ticks :: nat
  ga_tick_interval :: real
  ga_rest_seconds :: real
  ga_timeout :: real
  ga_dry_run :: bool
  ga_coin :: string
  ga_address :: string
  ga_others :: "(string \<times> string) list"

record 'w gate =
  gs_world :: 'w
  gs_executors :: "string list"
  gs_failures :: "quote_failure list"
  gs_phases :: "gate_phase list"
  gs_raw :: "raw_call list"

datatype gate_exn = DryRunComplete | GateFailed py_error

type_synonym ('w, 'a) gate_step = "'w gate \<times> (gate_exn + 'a)"

definition gate_bind :: "'s \<times> (gate_exn + 'a) \<Rightarrow> ('a \<Rightarrow> 's \<Rightarrow> 's \<times> (gate_exn + 'b)) \<Rightarrow> 's \<times> (gate_exn + 'b)" where
  "gate_bind m f = (case m of (s, Inl e) \<Rightarrow> (s, Inl e) | (s, Inr x) \<Rightarrow> f x s)"

definition on_world :: "('w \<Rightarrow> 'w \<times> (py_error + 'a)) \<Rightarrow> 'w gate \<Rightarrow> ('w, 'a) gate_step" where
  "on_world f s =
     (case f (gs_world s) of
        (w, Inl e) \<Rightarrow> (s\<lparr>gs_world := w\<rparr>, Inl (GateFailed e))
      | (w, Inr x) \<Rightarrow> (s\<lparr>gs_world := w\<rparr>, Inr x))"

definition set_world :: "('w \<Rightarrow> 'w) \<Rightarrow> 'w gate \<Rightarrow> 'w gate" where
  "set_world f s = s\<lparr>gs_world := f (gs_world s)\<rparr>"

definition check :: "bool \<Rightarrow> quote_failure \<Rightarrow> 'w gate \<Rightarrow> 'w gate" where
  "check ok f s = (if ok then s else s\<lparr>gs_failures := gs_failures s @ [f]\<rparr>)"

definition add_phase :: "gate_phase \<Rightarrow> 'w gate \<Rightarrow> 'w gate" where
  "add_phase p s = s\<lparr>gs_phases := gs_phases s @ [p]\<rparr>"

definition read_oids :: "'w gate_world \<Rightarrow> gate_args \<Rightarrow> string \<Rightarrow> 'w gate \<Rightarrow> ('w, int set) gate_step" where
  "read_oids W a address s =
     (case resting_oids (gt_parse_int W) (ga_coin a) (gt_orders W (gs_world s) address) of
        Inl e \<Rightarrow> (s, Inl (GateFailed e)) | Inr oids \<Rightarrow> (s, Inr oids))"

definition read_position :: "'w gate_world \<Rightarrow> gate_args \<Rightarrow> 'w gate \<Rightarrow> ('w, real) gate_step" where
  "read_position W a s =
     (case venue_position (gt_parse_float W) (ga_coin a) (gt_positions W (gs_world s)) of
        Inl e \<Rightarrow> (s, Inl (GateFailed e)) | Inr p \<Rightarrow> (s, Inr p))"

definition halt_when :: "bool \<Rightarrow> quote_failure \<Rightarrow> 'w gate \<Rightarrow> ('w, unit) gate_step" where
  "halt_when bad f s = (if bad then (check False f s, Inl (GateFailed RuntimeError)) else (s, Inr ()))"

text \<open>\<open>_create_executors\<close>: the list is assigned only when every executor was created.\<close>

fun create_executors :: "'w gate_world \<Rightarrow> gate_action list \<Rightarrow> 'w gate \<Rightarrow> ('w, string list) gate_step" where
  "create_executors W [] s = (s, Inr [])"
| "create_executors W (StopAction i # acts) s = (s, Inl (GateFailed (OtherError ''AttributeError'')))"
| "create_executors W (CreateAction i # acts) s =
     gate_bind (on_world (gt_start W i) s) (\<lambda>_ s. gate_bind (create_executors W acts s) (\<lambda>ids s. (s, Inr (i # ids))))"

definition await_all :: "'w gate_world \<Rightarrow> gate_args \<Rightarrow> 'w gate \<Rightarrow> ('w, int set) gate_step" where
  "await_all W a s =
     (case await_oids W (nat \<lceil>ga_timeout a\<rceil>) (gt_clock W (gs_world s) + ga_timeout a) (gs_executors s) (gs_world s) of
        (w, oids) \<Rightarrow> (s\<lparr>gs_world := w\<rparr>, Inr oids))"

definition stop_all :: "'w gate_world \<Rightarrow> real \<Rightarrow> 'w gate \<Rightarrow> 'w gate" where
  "stop_all W timeout s =
     (case stop_executors W timeout (gs_executors s) (gs_world s) of
        (w, forced) \<Rightarrow> check (forced = []) (Forced forced) (s\<lparr>gs_world := w\<rparr>))"

section \<open>Phases\<close>

fun warm_up :: "'w gate_world \<Rightarrow> gate_args \<Rightarrow> nat \<Rightarrow> 'w gate \<Rightarrow> ('w, nat) gate_step" where
  "warm_up W a 0 s = (s, Inr 0)"
| "warm_up W a (Suc n) s =
     gate_bind (on_world (gt_update W) s) (\<lambda>_ s.
       if gt_quoting W (gs_world s) \<noteq> None then (s, Inr 1)
       else gate_bind (warm_up W a n (set_world (gt_sleep W (ga_tick_interval a)) s)) (\<lambda>k s. (s, Inr (Suc k))))"

text \<open>
  A quote of the keeper, or a synthetic one at \<open>fallback\<close>, pushed behind the touch, becomes the
  intent.
\<close>

definition passive_quote :: "'w gate_world \<Rightarrow> gate_args \<Rightarrow> real \<times> real \<Rightarrow> real \<times> real \<Rightarrow> 'w gate \<Rightarrow> gate_quote" where
  "passive_quote W a fallback touch s =
     (let q = (case gt_quoting W (gs_world s) of
                 Some q \<Rightarrow> q
               | None \<Rightarrow> synthetic_quote (fst fallback) (snd fallback) (ga_max_position a / 10))
      in fst (clamp_passive q (fst touch) (snd touch) (ga_passive_bps a)))"

definition ensure_quote :: "'w gate_world \<Rightarrow> gate_args \<Rightarrow> real \<times> real \<Rightarrow> real \<times> real \<Rightarrow> 'w gate \<Rightarrow> 'w gate" where
  "ensure_quote W a fallback touch s = set_world (gt_set_quote W (passive_quote W a fallback touch s)) s"

definition start_phase :: "'w gate_world \<Rightarrow> gate_args \<Rightarrow> 'w gate \<Rightarrow> ('w, int set) gate_step" where
  "start_phase W a s =
     gate_bind (on_world (gt_ready W) s) (\<lambda>_ s.
     gate_bind (read_oids W a (ga_address a) s) (\<lambda>preexisting s.
     gate_bind (read_position W a s) (\<lambda>start s.
     gate_bind (halt_when (start \<noteq> 0) (DirtyAccount start) s) (\<lambda>_ s.
     gate_bind (on_world (gt_on_start W) s) (\<lambda>_ s. (s, Inr preexisting))))))"

definition warm_phase :: "'w gate_world \<Rightarrow> gate_args \<Rightarrow> 'w gate \<Rightarrow> ('w, real \<times> real) gate_step" where
  "warm_phase W a s =
     gate_bind (warm_up W a (ga_warmup_ticks a) s) (\<lambda>ticks s.
       let organic = (gt_quoting W (gs_world s) \<noteq> None);
           touch = gt_touch W (gs_world s);
           q = passive_quote W a touch touch s;
           s1 = ensure_quote W a touch touch s;
           notional = gq_bid_size q * snd touch;
           s2 = add_phase (Warmup ticks organic q notional) s1
       in gate_bind (halt_when (ga_max_notional a < notional) (NotionalTooLarge notional) s2) (\<lambda>_ s. (s, Inr touch)))"

fun read_leaks :: "'w gate_world \<Rightarrow> gate_args \<Rightarrow> int set \<Rightarrow> (string \<times> string) list \<Rightarrow> 'w gate \<Rightarrow> ('w, (string \<times> int set) list) gate_step" where
  "read_leaks W a oids [] s = (s, Inr [])"
| "read_leaks W a oids ((aid, address) # others) s =
     gate_bind (read_oids W a address s) (\<lambda>there s.
     gate_bind (read_leaks W a oids others s) (\<lambda>rest s. (s, Inr ((aid, there \<inter> oids) # rest))))"

definition check_leaks :: "(string \<times> int set) list \<Rightarrow> 'w gate \<Rightarrow> 'w gate" where
  "check_leaks leaked s = fold (\<lambda>(aid, found). check (found = {}) (Leaked aid found)) leaked s"

definition place_phase :: "'w gate_world \<Rightarrow> gate_args \<Rightarrow> int set \<Rightarrow> 'w gate \<Rightarrow> ('w, int set) gate_step" where
  "place_phase W a preexisting s =
     gate_bind (on_world (gt_decide W) s) (\<lambda>actions s.
     if ga_dry_run a then (add_phase (DryRun (length actions)) s, Inl DryRunComplete)
     else
     gate_bind (create_executors W actions s) (\<lambda>ids s.
     gate_bind (await_all W a (s\<lparr>gs_executors := ids\<rparr>)) (\<lambda>oids s.
     gate_bind (read_oids W a (ga_address a) s) (\<lambda>now s.
     let resting = now - preexisting in
     gate_bind (read_leaks W a oids (ga_others a) s) (\<lambda>leaked s.
     let s1 = add_phase (Place (length actions) oids resting leaked) s;
         s2 = check (card oids = length actions) (MissingIds (length actions) (card oids)) s1;
         s3 = check (oids \<noteq> {} \<and> oids \<subseteq> resting) (NotResting (oids - resting)) s2;
         s4 = set_world (gt_sleep W (ga_rest_seconds a)) (check_leaks leaked s3)
     in gate_bind (read_oids W a (ga_address a) s4) (\<lambda>now s. (add_phase (Rest (now \<inter> oids)) s, Inr oids)))))))"

definition stop_ids :: "gate_action list \<Rightarrow> string list" where
  "stop_ids acts = concat (map (\<lambda>act. case act of StopAction i \<Rightarrow> [i] | CreateAction _ \<Rightarrow> []) acts)"

definition only_creates :: "gate_action list \<Rightarrow> gate_action list" where
  "only_creates acts = filter (\<lambda>act. case act of StopAction _ \<Rightarrow> False | CreateAction _ \<Rightarrow> True) acts"

definition refresh_phase :: "'w gate_world \<Rightarrow> gate_args \<Rightarrow> real \<times> real \<Rightarrow> int set \<Rightarrow> 'w gate \<Rightarrow> ('w, unit) gate_step" where
  "refresh_phase W a touch0 oids s =
     gate_bind (on_world (gt_update W) (set_world (gt_report W (gs_executors s)) s)) (\<lambda>_ s.
     let s1 = ensure_quote W a touch0 (gt_touch W (gs_world s)) s in
     gate_bind (on_world (gt_decide W) s1) (\<lambda>actions s.
     let stops = stop_ids actions;
         s2 = check (stops \<noteq> []) NoStops s;
         s3 = check (set stops = set (gs_executors s)) (StopsMismatch (set stops) (set (gs_executors s))) s2;
         s4 = set_world (gt_report W []) (stop_all W 30 s3)
     in gate_bind (on_world (gt_decide W) s4) (\<lambda>again s.
        gate_bind (create_executors W (only_creates again) s) (\<lambda>ids s.
        gate_bind (await_all W a (s\<lparr>gs_executors := ids\<rparr>)) (\<lambda>new_oids s.
        gate_bind (read_oids W a (ga_address a) s) (\<lambda>after s.
        let s5 = add_phase (Refresh (length stops) (length (only_creates again)) new_oids (oids \<inter> after)) s;
            s6 = check (oids \<inter> after = {}) (OldStillResting (oids \<inter> after)) s5;
            s7 = check (new_oids \<noteq> {} \<and> new_oids \<subseteq> after) (NewNotResting (new_oids - after)) s6
        in (s7, Inr ())))))))"

fun raw_cancel_all :: "'w gate_world \<Rightarrow> int list \<Rightarrow> 'w gate \<Rightarrow> ('w, unit) gate_step" where
  "raw_cancel_all W [] s = (s, Inr ())"
| "raw_cancel_all W (oid # oids) s =
     gate_bind (on_world (gt_cancel W oid) (s\<lparr>gs_raw := gs_raw s @ [RawCancel oid]\<rparr>)) (\<lambda>_ s. raw_cancel_all W oids s)"

definition with_signer :: "'w gate_world \<Rightarrow> 'w gate \<Rightarrow> ('w, unit) gate_step" where
  "with_signer W s = (case gt_signer W of Inl e \<Rightarrow> (s, Inl (GateFailed e)) | Inr _ \<Rightarrow> (s, Inr ()))"

definition clear_orders :: "'w gate_world \<Rightarrow> gate_args \<Rightarrow> int set \<Rightarrow> 'w gate \<Rightarrow> ('w, int set) gate_step" where
  "clear_orders W a preexisting s =
     gate_bind (read_oids W a (ga_address a) s) (\<lambda>now s.
     let leftover = now - preexisting in
     if leftover = {} then (s, Inr {})
     else
       gate_bind (with_signer W (check False (TeardownLeft leftover) s)) (\<lambda>_ s.
       gate_bind (raw_cancel_all W (sorted_list_of_set leftover) s) (\<lambda>_ s.
       gate_bind (read_oids W a (ga_address a) (set_world (gt_sleep W 2) s)) (\<lambda>again s. (s, Inr (again - preexisting))))))"

definition clear_position :: "'w gate_world \<Rightarrow> gate_args \<Rightarrow> 'w gate \<Rightarrow> ('w, real) gate_step" where
  "clear_position W a s =
     gate_bind (read_position W a s) (\<lambda>p s.
     if p = 0 then (s, Inr 0)
     else
       gate_bind (with_signer W (check False (PositionLeft p) s)) (\<lambda>_ s.
       gate_bind (on_world (gt_market_close W) (s\<lparr>gs_raw := gs_raw s @ [RawClose]\<rparr>)) (\<lambda>_ s.
       read_position W a (set_world (gt_sleep W 2) s))))"

definition teardown_phase :: "'w gate_world \<Rightarrow> gate_args \<Rightarrow> int set \<Rightarrow> 'w gate \<Rightarrow> ('w, unit) gate_step" where
  "teardown_phase W a preexisting s =
     gate_bind (clear_orders W a preexisting (set_world (gt_sleep W 3) (stop_all W 30 s))) (\<lambda>leftover s.
     gate_bind (clear_position W a s) (\<lambda>end_position s.
     let s1 = add_phase (Teardown leftover end_position) s;
         s2 = check (leftover = {}) (StillResting leftover) s1
     in (check (end_position = 0) (StillOpen end_position) s2, Inr ())))"

section \<open>The gate\<close>

definition gate_body :: "'w gate_world \<Rightarrow> gate_args \<Rightarrow> 'w gate \<Rightarrow> ('w, unit) gate_step" where
  "gate_body W a s =
     gate_bind (start_phase W a s) (\<lambda>preexisting s.
     gate_bind (warm_phase W a s) (\<lambda>touch s.
     gate_bind (place_phase W a preexisting s) (\<lambda>oids s.
     gate_bind (refresh_phase W a touch oids s) (\<lambda>_ s. teardown_phase W a preexisting s))))"

text \<open>
  The handlers: a dry run ends well, an exception is a failure, but a \<open>SystemExit\<close> is not caught
  and leaves after the \<open>finally\<close>, which stops whatever executors are still known.
\<close>

definition quote_gate :: "'w gate_world \<Rightarrow> gate_args \<Rightarrow> 'w \<Rightarrow> 'w gate \<times> (py_error + nat)" where
  "quote_gate W a w =
     (case gate_body W a \<lparr>gs_world = w, gs_executors = [], gs_failures = [], gs_phases = [], gs_raw = []\<rparr> of
        (s, res) \<Rightarrow>
          let s1 = (case res of
                 Inl (GateFailed e) \<Rightarrow> if e = system_exit then s else check False (GateException e) s
               | _ \<Rightarrow> s);
              s2 = (if gs_executors s1 = [] then s1
                    else set_world (\<lambda>w. fst (stop_executors W 15 (gs_executors s1) w)) s1);
              s3 = set_world (gt_off W) s2
          in (s3, if res = Inl (GateFailed system_exit) then Inl system_exit
                  else Inr (if gs_failures s3 = [] then 0 else 1)))"


text \<open>The two confirmations come first.\<close>

definition quote_gate_main :: "environment \<Rightarrow> 'w gate_world \<Rightarrow> gate_args \<Rightarrow> 'w \<Rightarrow> 'w gate option \<times> (py_error + nat)" where
  "quote_gate_main env W a w =
     (if env ''OPMS_HB_MAINNET'' \<noteq> Some ''confirm'' \<or> env ''OPMS_HB_PLACE_ORDERS'' \<noteq> Some ''confirm'' then (None, Inr 2)
      else case quote_gate W a w of (s, res) \<Rightarrow> (Some s, res))"

section \<open>Failures\<close>

lemma gate_bind_Inr: "gate_bind m f = (s', Inr y) \<longleftrightarrow> (\<exists>s x. m = (s, Inr x) \<and> f x s = (s', Inr y))"
  by (cases m; cases "snd m") (auto simp: gate_bind_def)

lemma gate_bind_Inl: "gate_bind m f = (s', Inl e) \<longleftrightarrow> m = (s', Inl e) \<or> (\<exists>s x. m = (s, Inr x) \<and> f x s = (s', Inl e))"
  by (cases m; cases "snd m") (auto simp: gate_bind_def)

named_theorems gate_frame "what a step of the gate leaves unchanged"

lemma frame_basic [simp]:
  "gs_failures (set_world g s) = gs_failures s" "gs_phases (set_world g s) = gs_phases s" "gs_raw (set_world g s) = gs_raw s"
  "gs_executors (set_world g s) = gs_executors s"
  "gs_failures (add_phase p s) = gs_failures s" "gs_phases (add_phase p s) = gs_phases s @ [p]" "gs_raw (add_phase p s) = gs_raw s"
  "gs_executors (add_phase p s) = gs_executors s"
  "gs_failures (check ok f s) = [] \<longleftrightarrow> ok \<and> gs_failures s = []" "gs_phases (check ok f s) = gs_phases s"
  "gs_raw (check ok f s) = gs_raw s" "gs_executors (check ok f s) = gs_executors s"
  by (simp_all add: set_world_def add_phase_def check_def)

lemma on_world_frame [gate_frame]:
  "on_world f s = (s', r) \<Longrightarrow> gs_failures s' = gs_failures s \<and> gs_phases s' = gs_phases s \<and> gs_raw s' = gs_raw s \<and> gs_executors s' = gs_executors s"
  by (auto simp: on_world_def split: prod.splits sum.splits)

lemma read_frame [gate_frame]:
  "read_oids W a address s = (s', r) \<Longrightarrow> s' = s" "read_position W a s = (s', r') \<Longrightarrow> s' = s"
  by (auto simp: read_oids_def read_position_def split: sum.splits)

lemma await_all_frame [gate_frame]:
  "await_all W a s = (s', r) \<Longrightarrow> gs_failures s' = gs_failures s \<and> gs_phases s' = gs_phases s \<and> gs_raw s' = gs_raw s \<and> gs_executors s' = gs_executors s"
  by (auto simp: await_all_def split: prod.splits)

lemma create_executors_frame [gate_frame]:
  "create_executors W acts s = (s', r) \<Longrightarrow> gs_failures s' = gs_failures s \<and> gs_phases s' = gs_phases s \<and> gs_raw s' = gs_raw s \<and> gs_executors s' = gs_executors s"
proof (induction W acts s arbitrary: s' r rule: create_executors.induct)
  case (3 W i acts s)
  from 3(2) show ?case
    by (cases r) (auto simp: gate_bind_Inr gate_bind_Inl dest!: on_world_frame 3(1))
qed auto

lemma read_leaks_frame [gate_frame]:
  "read_leaks W a oids others s = (s', r) \<Longrightarrow> s' = s \<and> (\<forall>leaked. r = Inr leaked \<longrightarrow> map fst leaked = map fst others)"
proof (induction W a oids others s arbitrary: s' r rule: read_leaks.induct)
  case (2 W a oids aid address others s)
  from 2(2) show ?case
    by (cases r) (auto simp: gate_bind_Inr gate_bind_Inl dest!: read_frame 2(1))
qed auto

lemma warm_up_frame [gate_frame]:
  "warm_up W a n s = (s', r) \<Longrightarrow> gs_failures s' = gs_failures s \<and> gs_phases s' = gs_phases s \<and> gs_raw s' = gs_raw s \<and> gs_executors s' = gs_executors s"
proof (induction n arbitrary: s s' r)
  case (Suc n)
  from Suc(2) show ?case
    by (cases r) (auto simp: gate_bind_Inr gate_bind_Inl split: if_splits dest!: on_world_frame Suc(1))
qed simp

lemma stop_all_frame [simp]:
  "gs_phases (stop_all W t s) = gs_phases s" "gs_raw (stop_all W t s) = gs_raw s" "gs_executors (stop_all W t s) = gs_executors s"
  "gs_failures (stop_all W t s) = [] \<longleftrightarrow> snd (stop_executors W t (gs_executors s) (gs_world s)) = [] \<and> gs_failures s = []"
  by (auto simp: stop_all_def split: prod.split)

lemma check_leaks_frame [simp]:
  "gs_phases (check_leaks leaked s) = gs_phases s" "gs_raw (check_leaks leaked s) = gs_raw s"
  "gs_executors (check_leaks leaked s) = gs_executors s"
  "gs_failures (check_leaks leaked s) = [] \<longleftrightarrow> (\<forall>(aid, found)\<in>set leaked. found = {}) \<and> gs_failures s = []"
  unfolding check_leaks_def by (induction leaked arbitrary: s) auto

lemma ensure_quote_frame [simp]:
  "gs_phases (ensure_quote W a f t s) = gs_phases s" "gs_raw (ensure_quote W a f t s) = gs_raw s"
  "gs_executors (ensure_quote W a f t s) = gs_executors s" "gs_failures (ensure_quote W a f t s) = gs_failures s"
  by (simp_all add: ensure_quote_def)

lemma halt_when_Inr: "halt_when bad f s = (s', Inr u) \<longleftrightarrow> \<not> bad \<and> s' = s"
  by (auto simp: halt_when_def)

section \<open>A passed gate\<close>

lemma passive_quote_bounds:
  "gq_bid (passive_quote W a f t s) \<le> fst t * (1 - ga_passive_bps a / 10000)"
  "snd t * (1 + ga_passive_bps a / 10000) \<le> gq_ask (passive_quote W a f t s)"
  by (simp_all add: passive_quote_def clamp_passive_def Let_def)

lemma start_phase_frame:
  "start_phase W a s = (s', Inr pre) \<Longrightarrow> gs_failures s' = gs_failures s \<and> gs_phases s' = gs_phases s \<and> gs_raw s' = gs_raw s"
  unfolding start_phase_def gate_bind_Inr halt_when_Inr by (auto dest!: gate_frame)

lemma warm_phase_passed:
  assumes "warm_phase W a s = (s', Inr touch)"
  shows "gs_failures s' = gs_failures s \<and> gs_raw s' = gs_raw s
    \<and> (\<exists>k organic q. gs_phases s' = gs_phases s @ [Warmup k organic q (gq_bid_size q * snd touch)]
        \<and> gq_bid_size q * snd touch \<le> ga_max_notional a
        \<and> gq_bid q \<le> fst touch * (1 - ga_passive_bps a / 10000) \<and> snd touch * (1 + ga_passive_bps a / 10000) \<le> gq_ask q)"
  using assms unfolding warm_phase_def gate_bind_Inr halt_when_Inr Let_def
  by (auto simp: passive_quote_bounds dest!: gate_frame)

lemma place_phase_passed:
  assumes "place_phase W a pre s = (s', Inr oids)" "gs_failures s' = []"
  shows "gs_failures s = [] \<and> gs_raw s' = gs_raw s
    \<and> (\<exists>n resting leaked still. gs_phases s' = gs_phases s @ [Place n oids resting leaked, Rest still]
        \<and> card oids = n \<and> oids \<noteq> {} \<and> oids \<subseteq> resting \<and> resting \<inter> pre = {} \<and> (\<forall>(aid, found)\<in>set leaked. found = {})
        \<and> map fst leaked = map fst (ga_others a))"
  using assms unfolding place_phase_def gate_bind_Inr Let_def
  by (auto simp: gate_bind_Inr split: if_splits dest!: gate_frame)

lemma refresh_phase_passed:
  assumes "refresh_phase W a touch oids s = (s', Inr u)" "gs_failures s' = []"
  shows "gs_failures s = [] \<and> gs_raw s' = gs_raw s
    \<and> (\<exists>stops n new_oids. gs_phases s' = gs_phases s @ [Refresh stops n new_oids {}] \<and> 0 < stops \<and> new_oids \<noteq> {} \<and> new_oids \<inter> oids = {})"
  using assms unfolding refresh_phase_def gate_bind_Inr Let_def
  by (auto dest!: gate_frame) blast

lemma raw_cancel_all_frame: "raw_cancel_all W oids s = (s', r) \<Longrightarrow> gs_failures s' = gs_failures s \<and> gs_phases s' = gs_phases s"
proof (induction W oids s arbitrary: s' r rule: raw_cancel_all.induct)
  case (2 W oid oids s)
  from 2(2) show ?case
    by (cases r) (auto simp: gate_bind_Inr gate_bind_Inl dest!: on_world_frame 2(1))
qed simp

lemma with_signer_frame: "with_signer W s = (s', r) \<Longrightarrow> s' = s"
  by (auto simp: with_signer_def split: sum.splits)

lemma clear_orders_passed:
  "clear_orders W a pre s = (s', Inr l) \<Longrightarrow> gs_failures s' = [] \<Longrightarrow> s' = s \<and> l = {}"
  unfolding clear_orders_def gate_bind_Inr Let_def
  by (auto simp: gate_bind_Inr split: if_splits dest!: read_frame raw_cancel_all_frame with_signer_frame)

lemma clear_position_passed:
  "clear_position W a s = (s', Inr p) \<Longrightarrow> gs_failures s' = [] \<Longrightarrow> s' = s \<and> p = 0"
  unfolding clear_position_def gate_bind_Inr
  by (auto simp: gate_bind_Inr split: if_splits dest!: gate_frame with_signer_frame)

lemma teardown_phase_passed:
  assumes "teardown_phase W a pre s = (s', Inr u)" "gs_failures s' = []"
  shows "gs_failures s = [] \<and> gs_raw s' = gs_raw s \<and> gs_phases s' = gs_phases s @ [Teardown {} 0]"
  using assms unfolding teardown_phase_def gate_bind_Inr Let_def
  by (auto dest!: clear_orders_passed clear_position_passed)

text \<open>Only the dry run itself ends as a dry run.\<close>

lemma no_dry_run [simp]:
  "on_world h s \<noteq> (s', Inl DryRunComplete)" "read_oids W a address s \<noteq> (s', Inl DryRunComplete)"
  "read_position W a s \<noteq> (s', Inl DryRunComplete)" "await_all W a s \<noteq> (s', Inl DryRunComplete)"
  "halt_when bad f s \<noteq> (s', Inl DryRunComplete)" "with_signer W s \<noteq> (s', Inl DryRunComplete)"
  by (auto simp: on_world_def read_oids_def read_position_def await_all_def halt_when_def with_signer_def
      split: prod.splits sum.splits)

lemma no_dry_create [simp]: "create_executors W acts s \<noteq> (s', Inl DryRunComplete)"
  by (induction W acts s arbitrary: s' rule: create_executors.induct) (auto simp: gate_bind_Inl)

lemma no_dry_warm [simp]: "warm_up W a n s \<noteq> (s', Inl DryRunComplete)"
  by (induction n arbitrary: s) (auto simp: gate_bind_Inl split: if_splits)

lemma no_dry_leaks [simp]: "read_leaks W a oids others s \<noteq> (s', Inl DryRunComplete)"
  by (induction W a oids others s rule: read_leaks.induct) (auto simp: gate_bind_Inl)

lemma no_dry_cancel [simp]: "raw_cancel_all W oids s \<noteq> (s', Inl DryRunComplete)"
  by (induction W oids s rule: raw_cancel_all.induct) (auto simp: gate_bind_Inl)

lemma dry_run_only_when_dry: "gate_body W a s = (s', Inl DryRunComplete) \<Longrightarrow> ga_dry_run a"
  unfolding gate_body_def
  by (auto simp: gate_bind_Inl start_phase_def warm_phase_def place_phase_def refresh_phase_def teardown_phase_def
      clear_orders_def clear_position_def Let_def split: if_splits)

lemma passed_gate_story:
  assumes "quote_gate W a w = (s, Inr 0)" "\<not> ga_dry_run a"
  shows "gs_failures s = [] \<and> gs_raw s = []
    \<and> (\<exists>ticks organic q touch n oids resting leaked still stops m new_oids.
        gs_phases s = [Warmup ticks organic q (gq_bid_size q * snd touch), Place n oids resting leaked, Rest still,
                       Refresh stops m new_oids {}, Teardown {} 0]
      \<and> gq_bid_size q * snd touch \<le> ga_max_notional a
      \<and> gq_bid q \<le> fst touch * (1 - ga_passive_bps a / 10000) \<and> snd touch * (1 + ga_passive_bps a / 10000) \<le> gq_ask q
      \<and> card oids = n \<and> oids \<noteq> {} \<and> oids \<subseteq> resting \<and> (\<forall>(aid, found)\<in>set leaked. found = {})
      \<and> map fst leaked = map fst (ga_others a) \<and> 0 < stops \<and> new_oids \<noteq> {} \<and> new_oids \<inter> oids = {})"
proof -
  define s0 where "s0 = \<lparr>gs_world = w, gs_executors = [], gs_failures = [], gs_phases = [], gs_raw = []\<rparr>"
  obtain s1 res where b: "gate_body W a s0 = (s1, res)" by (metis surj_pair)
  have none: "gs_failures s1 = []" "gs_phases s = gs_phases s1" "gs_raw s = gs_raw s1" "gs_failures s = []" "res = Inr ()"
    using assms b dry_run_only_when_dry[of W a s0 s1]
    by (auto simp: quote_gate_def s0_def[symmetric] Let_def split: if_splits sum.splits gate_exn.splits)
  from b[unfolded none(5) gate_body_def gate_bind_Inr] obtain s2 pre s3 touch s4 oids s5 u where run:
    "start_phase W a s0 = (s2, Inr pre)" "warm_phase W a s2 = (s3, Inr touch)" "place_phase W a pre s3 = (s4, Inr oids)"
    "refresh_phase W a touch oids s4 = (s5, Inr u)" "teardown_phase W a pre s5 = (s1, Inr ())"
    by blast
  note t = teardown_phase_passed[OF run(5) none(1)]
  then have f5: "gs_failures s5 = []" by simp
  note r = refresh_phase_passed[OF run(4) f5]
  then have f4: "gs_failures s4 = []" by simp
  note p = place_phase_passed[OF run(3) f4]
  note wm = warm_phase_passed[OF run(2)]
  note st = start_phase_frame[OF run(1)]
  have init: "gs_phases s0 = []" "gs_raw s0 = []" by (simp_all add: s0_def)
  from t r p wm st init none(2,3,4) show ?thesis by (auto 0 3)
qed


text \<open>A venue where everything works: an odd state has one order resting, an even one none.\<close>

definition clean_world :: "nat gate_world" where
  "clean_world =
     \<lparr>gt_ready = (\<lambda>w. (w, Inr ())),
      gt_orders = (\<lambda>w address. if odd w \<and> address = ''0xab'' then [[(''oid'', JNum (real w)), (''coin'', JStr ''ETH'')]] else []),
      gt_positions = (\<lambda>w. []), gt_touch = (\<lambda>w. (100, 101)), gt_on_start = (\<lambda>w. (w, Inr ())),
      gt_update = (\<lambda>w. (w, Inr ())), gt_quoting = (\<lambda>w. None), gt_set_quote = (\<lambda>q w. w),
      gt_decide = (\<lambda>w. (w, Inr [if odd w then StopAction ''e'' else CreateAction ''e''])),
      gt_report = (\<lambda>ids w. w), gt_start = (\<lambda>i w. (Suc w, Inr ())),
      gt_exchange_id = (\<lambda>w i. if odd w then Some (int w) else None),
      gt_early_stop = (\<lambda>i w. if odd w then Suc w else w), gt_closed = (\<lambda>w i. even w),
      gt_stop = (\<lambda>i w. w), gt_sleep = (\<lambda>t w. w), gt_clock = (\<lambda>w. 0), gt_signer = Inr MasterRoute,
      gt_cancel = (\<lambda>oid w. (w, Inr ())), gt_market_close = (\<lambda>w. (w, Inr ())),
      gt_parse_int = (\<lambda>s. Inl ValueError), gt_parse_float = (\<lambda>s. Inl ValueError), gt_off = (\<lambda>w. w)\<rparr>"

definition clean_args :: gate_args where
  "clean_args =
     \<lparr>ga_max_position = 5 / 100, ga_max_notional = 60, ga_passive_bps = 8, ga_warmup_ticks = 0, ga_tick_interval = 2,
      ga_rest_seconds = 20, ga_timeout = 0, ga_dry_run = False, ga_coin = ''ETH'', ga_address = ''0xab'',
      ga_others = [(''e3_main'', ''0xcd'')]\<rparr>"

lemma clean_stop: "stop_executors clean_world t [''e''] w = (if odd w then Suc w else w, [])"
proof -
  have wait: "even w \<Longrightarrow> await_closed clean_world n d [''e''] w = w" for n d w
    by (cases n) (simp_all add: clean_world_def)
  have "fold (gt_early_stop clean_world) [''e''] w = (if odd w then Suc w else w)"
    "gt_stop clean_world i v = v" "gt_closed clean_world v i = even v" for i v
    by (simp_all add: clean_world_def)
  then show ?thesis by (simp add: stop_executors_def wait Let_def del: fold.simps) simp
qed

lemma clean_gate_passes: "\<exists>s. quote_gate clean_world clean_args 0 = (s, Inr 0)"
proof -
  let ?W = clean_world and ?a = clean_args
  define s0 where "s0 = \<lparr>gs_world = 0 :: nat, gs_executors = [], gs_failures = [], gs_phases = [], gs_raw = []\<rparr>"
  note defs = gate_bind_def on_world_def read_oids_def read_position_def halt_when_def set_world_def check_def add_phase_def
    Let_def clean_args_def
  have 1: "start_phase ?W ?a s0 = (s0, Inr {})"
    by (simp add: start_phase_def defs s0_def clean_world_def)
  obtain ps where 2: "warm_phase ?W ?a s0 = (s0\<lparr>gs_phases := ps\<rparr>, Inr (100, 101))"
    by (simp add: warm_phase_def passive_quote_def clamp_passive_def synthetic_quote_def ensure_quote_def defs s0_def
        clean_world_def)
  obtain s2 where 3: "place_phase ?W ?a {} (s0\<lparr>gs_phases := ps\<rparr>) = (s2, Inr {1})"
    and s2: "gs_world s2 = 1" "gs_executors s2 = [''e'']" "gs_failures s2 = []"
    by (simp add: place_phase_def await_all_def executor_oids_def check_leaks_def defs s0_def clean_world_def)
  have calls: "gt_report ?W ids w = w" "gt_update ?W w = (w, Inr ())" "gt_touch ?W w = (100, 101)" "gt_set_quote ?W q w = w"
    "gt_decide ?W w = (w, Inr [if odd w then StopAction ''e'' else CreateAction ''e''])" "gt_start ?W i w = (Suc w, Inr ())"
    "gt_orders ?W w x = (if odd w \<and> x = ''0xab'' then [[(''oid'', JNum (real w)), (''coin'', JStr ''ETH'')]] else [])"
    "gt_positions ?W w = []" "gt_exchange_id ?W w i = (if odd w then Some (int w) else None)" "gt_sleep ?W t w = w"
    "gt_off ?W w = w" for ids w q i x t
    by (simp_all add: clean_world_def)
  obtain s3 where 4: "refresh_phase ?W ?a (100, 101) {1} s2 = (s3, Inr ())"
    and s3: "gs_world s3 = 3" "gs_executors s3 = [''e'']" "gs_failures s3 = []"
    using s2 by (simp add: refresh_phase_def ensure_quote_def stop_all_def clean_stop stop_ids_def only_creates_def await_all_def
        executor_oids_def calls defs)
  obtain s4 where 5: "teardown_phase ?W ?a {} s3 = (s4, Inr ())"
    and s4: "gs_world s4 = 4" "gs_executors s4 = [''e'']" "gs_failures s4 = []"
    using s3 by (simp add: teardown_phase_def clear_orders_def clear_position_def stop_all_def clean_stop calls defs)
  have "quote_gate ?W ?a 0 = (s4, Inr 0)"
    using s4 by (simp add: quote_gate_def gate_body_def s0_def[symmetric] 1 2 3 4 5 gate_bind_def clean_stop calls
        set_world_def)
  then show ?thesis by blast
qed


section \<open>An interrupted gate\<close>

lemma halt_when_frame: "halt_when bad f s = (s', r) \<Longrightarrow> gs_phases s' = gs_phases s \<and> gs_raw s' = gs_raw s"
  by (auto simp: halt_when_def split: if_splits)

lemma start_phase_raw: "start_phase W a s = (s', r) \<Longrightarrow> gs_phases s' = gs_phases s \<and> gs_raw s' = gs_raw s"
  by (cases r) (auto simp: start_phase_def gate_bind_Inr gate_bind_Inl dest!: gate_frame halt_when_frame)

lemma warm_phase_raw: "warm_phase W a s = (s', r) \<Longrightarrow> gs_raw s' = gs_raw s"
  by (cases r) (auto simp: warm_phase_def gate_bind_Inr gate_bind_Inl Let_def dest!: gate_frame halt_when_frame)

lemma place_phase_raw: "place_phase W a pre s = (s', r) \<Longrightarrow> gs_raw s' = gs_raw s"
  by (cases r) (auto simp: place_phase_def gate_bind_Inr gate_bind_Inl Let_def split: if_splits dest!: gate_frame)

lemma refresh_phase_raw:
  "refresh_phase W a touch oids s = (s', r) \<Longrightarrow> gs_raw s' = gs_raw s
     \<and> (\<forall>u. r = Inr u \<longrightarrow> (\<exists>stops m new_oids old. Refresh stops m new_oids old \<in> set (gs_phases s')))"
  by (cases r) (auto simp: refresh_phase_def gate_bind_Inr gate_bind_Inl Let_def dest!: gate_frame, blast)

lemma clear_orders_phases: "clear_orders W a pre s = (s', r) \<Longrightarrow> gs_phases s' = gs_phases s"
  by (cases r) (auto simp: clear_orders_def gate_bind_Inr gate_bind_Inl Let_def split: if_splits
      dest!: read_frame raw_cancel_all_frame with_signer_frame)

lemma clear_position_phases: "clear_position W a s = (s', r) \<Longrightarrow> gs_phases s' = gs_phases s"
  by (cases r) (auto simp: clear_position_def gate_bind_Inr gate_bind_Inl split: if_splits
      dest!: gate_frame with_signer_frame)

lemma teardown_phases: "teardown_phase W a pre s = (s', r) \<Longrightarrow> set (gs_phases s) \<subseteq> set (gs_phases s')"
  by (cases r) (auto simp: teardown_phase_def gate_bind_Inr gate_bind_Inl Let_def
      dest!: clear_orders_phases clear_position_phases)


text \<open>A venue where the order stays and the second reading of the market fails.\<close>

definition stuck_world :: "nat gate_world" where
  "stuck_world =
     \<lparr>gt_ready = (\<lambda>w. (w, Inr ())),
      gt_orders = (\<lambda>w address. if w = 0 then [] else [[(''oid'', JNum 7), (''coin'', JStr ''ETH'')]]),
      gt_positions = (\<lambda>w. []), gt_touch = (\<lambda>w. (100, 101)), gt_on_start = (\<lambda>w. (w, Inr ())),
      gt_update = (\<lambda>w. if w = 0 then (w, Inr ()) else (w, Inl TimeoutError)),
      gt_quoting = (\<lambda>w. None), gt_set_quote = (\<lambda>q w. w), gt_decide = (\<lambda>w. (w, Inr [CreateAction ''e''])),
      gt_report = (\<lambda>ids w. w), gt_start = (\<lambda>i w. (1, Inr ())),
      gt_exchange_id = (\<lambda>w i. if w = 0 then None else Some 7), gt_early_stop = (\<lambda>i w. w), gt_closed = (\<lambda>w i. False),
      gt_stop = (\<lambda>i w. w), gt_sleep = (\<lambda>t w. w), gt_clock = (\<lambda>w. 0), gt_signer = Inr MasterRoute,
      gt_cancel = (\<lambda>oid w. (0, Inr ())), gt_market_close = (\<lambda>w. (w, Inr ())),
      gt_parse_int = (\<lambda>s. Inl ValueError), gt_parse_float = (\<lambda>s. Inl ValueError), gt_off = (\<lambda>w. w)\<rparr>"

definition stuck_args :: gate_args where
  "stuck_args =
     \<lparr>ga_max_position = 5 / 100, ga_max_notional = 60, ga_passive_bps = 8, ga_warmup_ticks = 0, ga_tick_interval = 2,
      ga_rest_seconds = 20, ga_timeout = 0, ga_dry_run = False, ga_coin = ''ETH'', ga_address = ''0xab'', ga_others = []\<rparr>"

lemma stuck_stop: "stop_executors stuck_world t ids w = (w, ids)"
proof -
  have wait: "await_closed stuck_world n d ids w = w" for n d by (induction n) (simp_all add: stuck_world_def)
  have "fold (gt_early_stop stuck_world) ids w = w" "fold (gt_stop stuck_world) ids w = w"
    by (induction ids) (simp_all add: stuck_world_def)
  moreover have "gt_closed stuck_world w i = False" for i by (simp add: stuck_world_def)
  ultimately show ?thesis by (simp add: stop_executors_def wait Let_def)
qed


end
