(* ===== verification/ResearchDrivers.thy ===== *)
theory ResearchDrivers imports GatewayBridgeProperties begin

text \<open>
  Command-line drivers against a live Gateway: \<open>src/opms/research/dryrun_dlmm.py\<close>,
  \<open>roundtrip_dlmm.py\<close> and \<open>keeper_dust_trial.py\<close>.  They read their plan from the environment and sign
  only with \<open>CONFIRM=yes\<close>.

  The HTTP server and the parsing of numbers are the parameters of the bridge; the keeper of the
  dust trial is the result of its two calls.  What is printed is left out, but a field whose
  formatting raises is not.
\<close>

section \<open>Reading the plan\<close>

definition env_required :: "environment \<Rightarrow> string \<Rightarrow> py_error + string" where
  "env_required env key = (case env key of Some v \<Rightarrow> Inr v | None \<Rightarrow> Inl KeyError)"

definition env_parsed :: "(string \<Rightarrow> py_error + 'a) \<Rightarrow> environment \<Rightarrow> string \<Rightarrow> 'a \<Rightarrow> py_error + 'a" where
  "env_parsed parse env key dflt = (case env key of Some s \<Rightarrow> parse s | None \<Rightarrow> Inr dflt)"

definition env_or :: "environment \<Rightarrow> string \<Rightarrow> string \<Rightarrow> string" where
  "env_or env key dflt = (case env key of Some s \<Rightarrow> s | None \<Rightarrow> dflt)"

definition confirmed :: "environment \<Rightarrow> bool" where
  "confirmed env = (env ''CONFIRM'' = Some ''yes'')"

definition network_of :: "environment \<Rightarrow> string" where
  "network_of env = env_or env ''NETWORK'' ''mainnet-beta''"

section \<open>The dry run\<close>

text \<open>\<open>f"{d['active_bin']:>6}"\<close> raises for None, a list and a dict.\<close>

definition printable :: "json \<Rightarrow> bool" where
  "printable v = (case v of JNull \<Rightarrow> False | JArr _ \<Rightarrow> False | JObj _ \<Rightarrow> False | _ \<Rightarrow> True)"

definition active_bin_of :: "json \<Rightarrow> json" where
  "active_bin_of data = (case data of JObj d \<Rightarrow> get_key ''active_bin'' d | _ \<Rightarrow> JNull)"

fun dry_cycles :: "'w externals_gw \<Rightarrow> gateway_config \<Rightarrow> string \<Rightarrow> nat \<Rightarrow> int \<Rightarrow> 'w gateway \<Rightarrow> ('w, int) gw_step" where
  "dry_cycles X cfg pool 0 ok g = (g, Inr ok)"
| "dry_cycles X cfg pool (Suc n) ok g =
     gw_bind (get_state X cfg pool g)
       (\<lambda>r g. if \<not> er_ok r then dry_cycles X cfg pool n ok g
              else if \<not> printable (active_bin_of (er_data r)) then (g, Inl TypeError)
              else dry_cycles X cfg pool n (ok + 1) g)"

definition dryrun_main :: "'w externals_gw \<Rightarrow> gateway_config \<Rightarrow> environment \<Rightarrow> 'w \<Rightarrow> ('w, nat) gw_step" where
  "dryrun_main X cfg0 env w =
     (case env_required env ''POOL'' of Inl e \<Rightarrow> (new_gateway w, Inl e) | Inr pool \<Rightarrow>
      case env_parsed (xg_int X) env ''CYCLES'' 20 of Inl e \<Rightarrow> (new_gateway w, Inl e) | Inr cycles \<Rightarrow>
      case env_parsed (xg_float X) env ''INTERVAL'' 3 of Inl e \<Rightarrow> (new_gateway w, Inl e) | Inr interval \<Rightarrow>
      let cfg = cfg0\<lparr>gc_network := network_of env\<rparr>;
          g0 = gw_start (new_gateway w);
          g1 = (if env_truthy env ''POSITION''
                then g0\<lparr>gw_positions := AList.update pool (JStr (env_or env ''POSITION'' [])) (gw_positions g0)\<rparr> else g0)
      in case dry_cycles X cfg pool (nat cycles) 0 g1 of
           (g, Inl e) \<Rightarrow> (gw_stop g, Inl e)
         | (g, Inr ok) \<Rightarrow> (gw_stop g, Inr (if ok = cycles then 0 else 1)))"

section \<open>The round trip\<close>

record roundtrip_plan =
  rt_pool :: string
  rt_position :: string
  rt_wallet :: string
  rt_lower :: real
  rt_upper :: real
  rt_base :: real
  rt_strategy :: int
  rt_slippage :: real

definition read_plan :: "'w externals_gw \<Rightarrow> environment \<Rightarrow> py_error + roundtrip_plan" where
  "read_plan X env =
     res_bind (env_required env ''POOL'') (\<lambda>pool.
     res_bind (env_required env ''POSITION'') (\<lambda>pos.
     res_bind (env_required env ''WALLET'') (\<lambda>wallet.
     res_bind (env_parsed (xg_float X) env ''LOWER'' (6985 / 100)) (\<lambda>lower.
     res_bind (env_parsed (xg_float X) env ''UPPER'' (8525 / 100)) (\<lambda>upper.
     res_bind (env_parsed (xg_float X) env ''BASE_AMT'' (14 / 1000)) (\<lambda>base_amt.
     res_bind (env_parsed (xg_int X) env ''STRATEGY'' 0) (\<lambda>strategy.
     res_bind (env_parsed (xg_float X) env ''SLIPPAGE_PCT'' 1) (\<lambda>slippage.
       Inr \<lparr>rt_pool = pool, rt_position = pos, rt_wallet = wallet, rt_lower = lower, rt_upper = upper,
            rt_base = base_amt, rt_strategy = strategy, rt_slippage = slippage\<rparr>))))))))"

text \<open>\<open>_get\<close> and \<open>_post\<close>: a refused status raises.  The log is oldest first.\<close>

type_synonym ('w, 'a) rt_step = "('w \<times> request list) \<times> (py_error + 'a)"

definition rt_send :: "'w externals_gw \<Rightarrow> environment \<Rightarrow> http_method \<Rightarrow> string \<Rightarrow> dict \<Rightarrow> 'w \<times> request list \<Rightarrow> ('w, json) rt_step" where
  "rt_send X env meth route body s =
     (let rq = \<lparr>rq_method = meth, rq_path = clmm route, rq_body = merge_dicts [(''network'', JStr (network_of env))] body\<rparr>;
          (w, outcome) = xg_http X (fst s) rq
      in ((w, snd s @ [rq]),
          case outcome of
            Body j \<Rightarrow> Inr j
          | StatusError _ _ \<Rightarrow> Inl (OtherError ''HTTPStatusError'')
          | Raised e \<Rightarrow> Inl (OtherError e)))"

definition rt_bind :: "('w, 'a) rt_step \<Rightarrow> ('a \<Rightarrow> 'w \<times> request list \<Rightarrow> ('w, 'b) rt_step) \<Rightarrow> ('w, 'b) rt_step" where
  "rt_bind m f = (case m of (s, Inl e) \<Rightarrow> (s, Inl e) | (s, Inr x) \<Rightarrow> f x s)"

text \<open>\<open>j.get(...)\<close> needs a dict, and \<open>:.2f\<close> a number.\<close>

definition need_dict :: "json \<Rightarrow> py_error + dict" where
  "need_dict j = (case j of JObj d \<Rightarrow> Inr d | _ \<Rightarrow> Inl (OtherError ''AttributeError''))"

definition two_decimals :: "json \<Rightarrow> py_error + unit" where
  "two_decimals v = (case v of JNum _ \<Rightarrow> Inr () | JBool _ \<Rightarrow> Inr () | JStr _ \<Rightarrow> Inl ValueError | _ \<Rightarrow> Inl TypeError)"

text \<open>What printing the plan needs: two prices, and a strategy that indexes the list of three names.\<close>

definition show_plan :: "roundtrip_plan \<Rightarrow> json \<Rightarrow> py_error + unit" where
  "show_plan p pos =
     res_bind (need_dict pos) (\<lambda>d.
     res_bind (two_decimals (get_key ''lowerPrice'' d)) (\<lambda>_.
     res_bind (two_decimals (get_key ''upperPrice'' d)) (\<lambda>_.
     res_check (-3 \<le> rt_strategy p \<and> rt_strategy p \<le> 2) (OtherError ''IndexError'') (Inr ()))))"

definition close_body :: "roundtrip_plan \<Rightarrow> dict" where
  "close_body p = [(''walletAddress'', JStr (rt_wallet p)), (''positionAddress'', JStr (rt_position p))]"

definition open_body :: "roundtrip_plan \<Rightarrow> dict" where
  "open_body p =
     [(''walletAddress'', JStr (rt_wallet p)), (''poolAddress'', JStr (rt_pool p)), (''lowerPrice'', JNum (rt_lower p)),
      (''upperPrice'', JNum (rt_upper p)), (''baseTokenAmount'', JNum (rt_base p)), (''quoteTokenAmount'', JNum 0),
      (''strategyType'', JNum (of_int (rt_strategy p))), (''slippagePct'', JNum (rt_slippage p))]"

definition roundtrip_main :: "'w externals_gw \<Rightarrow> environment \<Rightarrow> 'w \<Rightarrow> ('w, nat) rt_step" where
  "roundtrip_main X env w =
     (case read_plan X env of
        Inl e \<Rightarrow> ((w, []), Inl e)
      | Inr p \<Rightarrow>
          rt_bind (rt_send X env GET ''/position-info'' [(''positionAddress'', JStr (rt_position p))] (w, []))
            (\<lambda>pos s. case show_plan p pos of
               Inl e \<Rightarrow> (s, Inl e)
             | Inr _ \<Rightarrow>
                 if \<not> confirmed env then (s, Inr 0)
                 else rt_bind (rt_send X env POST ''/close-position'' (close_body p) s)
                   (\<lambda>closed s. case need_dict closed of Inl e \<Rightarrow> (s, Inl e) | Inr _ \<Rightarrow>
                      rt_bind (rt_send X env POST ''/open-position'' (open_body p) s)
                        (\<lambda>opened s. case need_dict opened of Inl e \<Rightarrow> (s, Inl e) | Inr _ \<Rightarrow> (s, Inr 0)))))"

section \<open>The dust trial\<close>

text \<open>One level of a ladder: bin, side and size.\<close>

type_synonym ladder_level = "int \<times> string \<times> real"

datatype dust_call = StartKeeper | DepositLadder "ladder_level list" | StopQuoting string | StopKeeper

record dust_keeper =
  dk_build :: "py_error + unit"
  dk_deposit :: "ladder_level list \<Rightarrow> py_error + string option"
  dk_stop_quoting :: "string \<Rightarrow> py_error + string option"

text \<open>
  Building, starting, one call and the \<open>finally\<close>; the call answers with the position id the keeper
  holds afterwards.
\<close>

definition with_keeper :: "dust_keeper \<Rightarrow> dust_call \<Rightarrow> (py_error + string option) \<Rightarrow> (string option \<Rightarrow> nat) \<Rightarrow> dust_call list \<times> (py_error + nat)" where
  "with_keeper K call res code =
     (case dk_build K of
        Inl e \<Rightarrow> ([], Inl e)
      | Inr _ \<Rightarrow> ([StartKeeper, call, StopKeeper], map_sum id code res))"

definition dust_ladder :: "int \<Rightarrow> int \<Rightarrow> int \<Rightarrow> real \<Rightarrow> ladder_level list" where
  "dust_ladder active lo hi amount = [(active + lo, ''ask'', amount / 2), (active + hi, ''ask'', amount / 2)]"

definition dust_open :: "'w externals_gw \<Rightarrow> dust_keeper \<Rightarrow> environment \<Rightarrow> http_outcome \<Rightarrow> dust_call list \<times> (py_error + nat)" where
  "dust_open X K env pool_info =
     (case pool_info of
        StatusError _ _ \<Rightarrow> ([], Inl (OtherError ''HTTPStatusError''))
      | Raised e \<Rightarrow> ([], Inl (OtherError e))
      | Body d \<Rightarrow>
          (case res_bind (required ''activeBinId'' d) (to_int (xg_int X)) of Inl e \<Rightarrow> ([], Inl e) | Inr active \<Rightarrow>
           case res_bind (required ''price'' d) (to_float (xg_float X)) of Inl e \<Rightarrow> ([], Inl e) | Inr price \<Rightarrow>
           case env_parsed (xg_int X) env ''BIN_OFFSET_LOW'' 2 of Inl e \<Rightarrow> ([], Inl e) | Inr lo \<Rightarrow>
           case env_parsed (xg_int X) env ''BIN_OFFSET_HIGH'' 4 of Inl e \<Rightarrow> ([], Inl e) | Inr hi \<Rightarrow>
           case env_parsed (xg_float X) env ''BASE_AMOUNT_TOTAL'' (14 / 1000) of Inl e \<Rightarrow> ([], Inl e) | Inr amount \<Rightarrow>
             if \<not> confirmed env then ([], Inr 0)
             else let ladder = dust_ladder active lo hi amount in
               with_keeper K (DepositLadder ladder) (dk_deposit K ladder)
                 (\<lambda>pos. case pos of Some (_ # _) \<Rightarrow> 0 | _ \<Rightarrow> 1)))"

definition dust_close :: "dust_keeper \<Rightarrow> environment \<Rightarrow> string \<Rightarrow> dust_call list \<times> (py_error + nat)" where
  "dust_close K env position =
     (if \<not> confirmed env then ([], Inr 0)
      else with_keeper K (StopQuoting position) (dk_stop_quoting K position) (\<lambda>pos. if pos = None then 0 else 1))"

definition dust_main :: "'w externals_gw \<Rightarrow> dust_keeper \<Rightarrow> environment \<Rightarrow> http_outcome \<Rightarrow> dust_call list \<times> (py_error + nat)" where
  "dust_main X K env pool_info =
     (case env_required env ''POOL'' of Inl e \<Rightarrow> ([], Inl e) | Inr _ \<Rightarrow>
      case env_required env ''WALLET'' of Inl e \<Rightarrow> ([], Inl e) | Inr _ \<Rightarrow>
      let mode = env_or env ''MODE'' ''open'' in
      if mode = ''open'' then dust_open X K env pool_info
      else if mode = ''close'' then
        (case env_required env ''POSITION'' of Inl e \<Rightarrow> ([], Inl e) | Inr position \<Rightarrow> dust_close K env position)
      else ([], Inl (OtherError ''SystemExit'')))"

section \<open>Nothing is signed unconfirmed\<close>

lemma dry_cycles_reads: "only_reads g (fst (dry_cycles X cfg pool n ok g))"
proof (induction n arbitrary: ok g)
  case (Suc n)
  show ?case
    unfolding dry_cycles.simps
    by (rule gw_only_reads.bind_R[OF gw_only_reads.get_state_R]) (simp add: Suc gw_only_reads.R_refl)
qed (simp add: gw_only_reads.R_refl)

lemma dryrun_reads: "list_all (\<lambda>rq. rq_method rq = GET) (gw_log (fst (dryrun_main X cfg env w)))"
proof -
  have reads: "list_all (\<lambda>rq. rq_method rq = GET) (gw_log (fst (dry_cycles X cfg pool n 0 g)))" if "gw_log g = []"
    for cfg pool n and g :: "'a gateway"
    using dry_cycles_reads[of g X cfg pool n 0] that by (auto simp: only_reads_def)
  have stop: "gw_log (gw_stop g) = gw_log g" for g :: "'a gateway" by (simp add: gw_stop_def)
  have "list_all (\<lambda>rq. rq_method rq = GET) (gw_log g)" if "dry_cycles X cfg pool n 0 g0 = (g, r)" "gw_log g0 = []"
    for cfg pool n g0 g r
    using reads[OF that(2), of cfg pool n] that(1) by simp
  then show ?thesis
    unfolding dryrun_main_def Let_def
    by (auto simp: stop new_gateway_def gw_start_def split: sum.split prod.split)
qed

lemma roundtrip_log:
  assumes "roundtrip_main X env w = (s, res)"
  shows "snd s = [] \<or> (\<exists>p get. read_plan X env = Inr p \<and> rq_method get = GET \<and> rq_path get = clmm ''/position-info''
      \<and> (snd s = [get] \<or> confirmed env \<and> (\<exists>closed. rq_method closed = POST \<and> rq_path closed = clmm ''/close-position''
            \<and> rq_body closed = merge_dicts [(''network'', JStr (network_of env))] (close_body p)
            \<and> (snd s = [get, closed] \<or> (\<exists>reopen. rq_method reopen = POST \<and> rq_path reopen = clmm ''/open-position''
                  \<and> rq_body reopen = merge_dicts [(''network'', JStr (network_of env))] (open_body p)
                  \<and> snd s = [get, closed, reopen])))))"
proof (cases "read_plan X env")
  case (Inr p)
  have one: "\<exists>w' r. rt_send X env meth route body (w0, log)
      = ((w', log @ [\<lparr>rq_method = meth, rq_path = clmm route, rq_body = merge_dicts [(''network'', JStr (network_of env))] body\<rparr>]), r)"
    for meth route body w0 log
    by (simp add: rt_send_def Let_def split: prod.split)
  obtain w1 r1 where 1: "rt_send X env GET ''/position-info'' [(''positionAddress'', JStr (rt_position p))] (w, [])
      = ((w1, [\<lparr>rq_method = GET, rq_path = clmm ''/position-info'', rq_body = merge_dicts [(''network'', JStr (network_of env))] [(''positionAddress'', JStr (rt_position p))]\<rparr>]), r1)"
    using one[of GET "''/position-info''" "[(''positionAddress'', JStr (rt_position p))]" w "[]"] by auto
  define get where "get = \<lparr>rq_method = GET, rq_path = clmm ''/position-info'',
      rq_body = merge_dicts [(''network'', JStr (network_of env))] [(''positionAddress'', JStr (rt_position p))]\<rparr>"
  define closed where "closed = \<lparr>rq_method = POST, rq_path = clmm ''/close-position'',
      rq_body = merge_dicts [(''network'', JStr (network_of env))] (close_body p)\<rparr>"
  define reopen where "reopen = \<lparr>rq_method = POST, rq_path = clmm ''/open-position'',
      rq_body = merge_dicts [(''network'', JStr (network_of env))] (open_body p)\<rparr>"
  obtain w2 r2 where 2: "rt_send X env POST ''/close-position'' (close_body p) (w1, [get]) = ((w2, [get, closed]), r2)"
    using one[of POST "''/close-position''" "close_body p" w1 "[get]"] by (auto simp: closed_def)
  obtain w3 r3 where 3: "rt_send X env POST ''/open-position'' (open_body p) (w2, [get, closed]) = ((w3, [get, closed, reopen]), r3)"
    using one[of POST "''/open-position''" "open_body p" w2 "[get, closed]"] by (auto simp: reopen_def)
  have "snd s = [get] \<or> confirmed env \<and> (snd s = [get, closed] \<or> snd s = [get, closed, reopen])"
    using assms Inr 1[folded get_def] 2 3
    by (auto simp: roundtrip_main_def rt_bind_def split: sum.splits if_splits)
  moreover have "rq_method get = GET" "rq_path get = clmm ''/position-info''" "rq_method closed = POST" "rq_path closed = clmm ''/close-position''"
    "rq_body closed = merge_dicts [(''network'', JStr (network_of env))] (close_body p)"
    "rq_method reopen = POST" "rq_path reopen = clmm ''/open-position''"
    "rq_body reopen = merge_dicts [(''network'', JStr (network_of env))] (open_body p)"
    by (simp_all add: get_def closed_def reopen_def)
  ultimately show ?thesis using Inr by metis
qed (use assms in \<open>auto simp: roundtrip_main_def\<close>)

lemma dust_calls:
  "fst (dust_main X K env info) = [] \<or> confirmed env \<and>
     (\<exists>call. fst (dust_main X K env info) = [StartKeeper, call, StopKeeper]
       \<and> ((\<exists>ladder. call = DepositLadder ladder \<and> list_all (\<lambda>(bin, side, size). side = ''ask'') ladder)
          \<or> (\<exists>position. call = StopQuoting position \<and> env ''POSITION'' = Some position)))"
proof -
  have opens: "fst (dust_open X K env info) = [] \<or> confirmed env \<and>
      (\<exists>ladder. fst (dust_open X K env info) = [StartKeeper, DepositLadder ladder, StopKeeper]
         \<and> list_all (\<lambda>(bin, side, size). side = ''ask'') ladder)"
    by (auto simp: dust_open_def dust_ladder_def with_keeper_def Let_def split: http_outcome.split sum.split)
  have closes: "fst (dust_close K env position) = [] \<or> confirmed env \<and>
      fst (dust_close K env position) = [StartKeeper, StopQuoting position, StopKeeper]" for position
    by (auto simp: dust_close_def with_keeper_def split: sum.split)
  have pos: "env_required env ''POSITION'' = Inr position \<Longrightarrow> env ''POSITION'' = Some position" for position
    by (auto simp: env_required_def split: option.splits)
  show ?thesis
    unfolding dust_main_def Let_def
    using opens closes pos by (auto split: sum.split)
qed

text \<open>
  Nothing is signed without confirmation: the dry run never sends anything but reads, and
  unless CONFIRM is yes the round trip sends only its one read and the dust trial does not even
  start a keeper.  Confirmed, the round trip first closes exactly the position named and opens
  another only when the close was answered; the dust trial makes one call, an ask-side deposit or
  a close of the position named, and always stops the keeper it started.
\<close>

theorem unconfirmed_drivers_sign_nothing:
  "list_all (\<lambda>rq. rq_method rq = GET) (gw_log (fst (dryrun_main X cfg env w)))
   \<and> (\<not> confirmed env \<longrightarrow> list_all (\<lambda>rq. rq_method rq = GET) (snd (fst (roundtrip_main X env w))) \<and> fst (dust_main X K env info) = [])
   \<and> (\<forall>rq \<in> set (snd (fst (roundtrip_main X env w))). rq_path rq = clmm ''/open-position'' \<longrightarrow>
        (\<exists>p get closed. read_plan X env = Inr p \<and> snd (fst (roundtrip_main X env w)) = [get, closed, rq]
           \<and> rq_path closed = clmm ''/close-position''
           \<and> map_of (rq_body closed) ''positionAddress'' = Some (JStr (rt_position p))))
   \<and> (fst (dust_main X K env info) \<noteq> [] \<longrightarrow> confirmed env \<and> last (fst (dust_main X K env info)) = StopKeeper
        \<and> (\<forall>position. StopQuoting position \<in> set (fst (dust_main X K env info)) \<longrightarrow> env ''POSITION'' = Some position))"
proof -
  obtain s res where r: "roundtrip_main X env w = (s, res)" by (metis surj_pair)
  note log = roundtrip_log[OF r]
  have paths: "clmm ''/open-position'' \<noteq> clmm ''/close-position''" "clmm ''/open-position'' \<noteq> clmm ''/position-info''"
    by (simp_all add: clmm_def)
  have pos: "map_of (merge_dicts [(''network'', JStr n)] (close_body p)) ''positionAddress'' = Some (JStr (rt_position p))" for n p
    by (simp add: merge_dicts_def close_body_def)
  have quiet: "list_all (\<lambda>rq. rq_method rq = GET) (snd s)" if "\<not> confirmed env"
    using log that by auto
  have order: "\<exists>p get closed. read_plan X env = Inr p \<and> snd s = [get, closed, rq] \<and> rq_path closed = clmm ''/close-position''
      \<and> map_of (rq_body closed) ''positionAddress'' = Some (JStr (rt_position p))"
    if "rq \<in> set (snd s)" "rq_path rq = clmm ''/open-position''" for rq
  proof -
    from that(1) log obtain p get where p: "read_plan X env = Inr p" "rq_path get = clmm ''/position-info''"
      and rest: "snd s = [get] \<or> (\<exists>closed. rq_path closed = clmm ''/close-position''
            \<and> rq_body closed = merge_dicts [(''network'', JStr (network_of env))] (close_body p)
            \<and> (snd s = [get, closed] \<or> (\<exists>reopen. snd s = [get, closed, reopen])))" by auto
    from rest consider "snd s = [get]"
      | closed where "rq_path closed = clmm ''/close-position''" "snd s = [get, closed]"
      | closed reopen where "rq_path closed = clmm ''/close-position''" "snd s = [get, closed, reopen]"
          "rq_body closed = merge_dicts [(''network'', JStr (network_of env))] (close_body p)" by blast
    then show ?thesis
    proof cases
      case (3 closed reopen)
      then have "rq = reopen" using that p(2) paths by auto
      with 3 p(1) pos show ?thesis by metis
    qed (use that p(2) paths in auto)
  qed
  have calls: "fst (dust_main X K env info) = [] \<or> confirmed env \<and> last (fst (dust_main X K env info)) = StopKeeper
      \<and> (\<forall>position. StopQuoting position \<in> set (fst (dust_main X K env info)) \<longrightarrow> env ''POSITION'' = Some position)"
    using dust_calls[of X K env info] by auto
  have none: "fst (dust_main X K env info) = []" if "\<not> confirmed env"
    using dust_calls[of X K env info] that by auto
  show ?thesis
    unfolding r fst_conv
  proof (intro conjI impI ballI)
    show "list_all (\<lambda>rq. rq_method rq = GET) (gw_log (fst (dryrun_main X cfg env w)))" by (rule dryrun_reads)
    show "fst (dust_main X K env info) \<noteq> [] \<Longrightarrow> \<forall>position. StopQuoting position \<in> set (fst (dust_main X K env info)) \<longrightarrow> env ''POSITION'' = Some position"
      using calls by simp
  qed (use quiet none order calls in \<open>simp_all\<close>)
qed

text \<open>A server that answers every request with a position and a signature.\<close>

definition sample_gateway :: "unit externals_gw" where
  "sample_gateway =
     \<lparr>xg_http = (\<lambda>w rq. (w, Body (JObj [(''lowerPrice'', JNum 70), (''upperPrice'', JNum 85)]))),
      xg_payload = (\<lambda>d. plain_result True None JNull), xg_float = (\<lambda>s. Inl ValueError), xg_int = (\<lambda>s. Inl ValueError)\<rparr>"

definition sample_keeper :: dust_keeper where
  "sample_keeper = \<lparr>dk_build = Inr (), dk_deposit = (\<lambda>_. Inr (Some ''p'')), dk_stop_quoting = (\<lambda>_. Inr None)\<rparr>"

definition plan_env :: environment where
  "plan_env = [''POOL'' \<mapsto> ''pool'', ''POSITION'' \<mapsto> ''pos'', ''WALLET'' \<mapsto> ''w'']"

definition signing_env :: environment where
  "signing_env = plan_env(''CONFIRM'' \<mapsto> ''yes'', ''MODE'' \<mapsto> ''close'')"

theorem unconfirmed_drivers_sign_nothing_witness:
  "fst (dust_main sample_gateway sample_keeper plan_env (Raised ''down'')) = []
   \<and> length (snd (fst (roundtrip_main sample_gateway signing_env ()))) = 3
   \<and> last (fst (dust_main sample_gateway sample_keeper signing_env (Raised ''down''))) = StopKeeper"
proof -
  let ?X = sample_gateway
  have no: "\<not> confirmed plan_env" by (simp add: confirmed_def plan_env_def)
  have plan: "read_plan ?X signing_env = Inr \<lparr>rt_pool = ''pool'', rt_position = ''pos'', rt_wallet = ''w'',
      rt_lower = 6985 / 100, rt_upper = 8525 / 100, rt_base = 14 / 1000, rt_strategy = 0, rt_slippage = 1\<rparr>"
    by (simp add: read_plan_def env_required_def env_parsed_def signing_env_def plan_env_def)
  have yes: "confirmed signing_env" by (simp add: confirmed_def signing_env_def)
  have three: "length (snd (fst (roundtrip_main ?X signing_env ()))) = 3"
    unfolding roundtrip_main_def plan
    by (simp add: yes rt_bind_def rt_send_def sample_gateway_def show_plan_def need_dict_def
        two_decimals_def get_or_def res_check_def Let_def)
  have dc: "fst (dust_close sample_keeper signing_env ''pos'') = [StartKeeper, StopQuoting ''pos'', StopKeeper]"
    by (simp add: dust_close_def with_keeper_def yes sample_keeper_def)
  have env: "signing_env ''POOL'' = Some ''pool''" "signing_env ''WALLET'' = Some ''w''" "signing_env ''POSITION'' = Some ''pos''"
    "signing_env ''MODE'' = Some ''close''"
    by (simp_all add: signing_env_def plan_env_def)
  have "fst (dust_main ?X sample_keeper signing_env (Raised ''down'')) = [StartKeeper, StopQuoting ''pos'', StopKeeper]"
    using dc by (simp add: dust_main_def env_required_def env_or_def env)
  then have "last (fst (dust_main ?X sample_keeper signing_env (Raised ''down''))) = StopKeeper"
    using unconfirmed_drivers_sign_nothing[where X = ?X and env = signing_env and K = sample_keeper and info = "Raised ''down''"]
    by simp
  moreover have "fst (dust_main ?X sample_keeper plan_env (Raised ''down'')) = []"
    using unconfirmed_drivers_sign_nothing[where X = ?X and env = plan_env and K = sample_keeper and info = "Raised ''down''"] no
    by blast
  ultimately show ?thesis using three by blast
qed

end
