(* ===== verification/DecisionDiff.thy ===== *)
theory DecisionDiff imports Json begin

text \<open>
  \<open>src/opms/research/diff_decision_logs.py\<close>: counting where two decision logs disagree, row by row.
  A row is a JSON dict; a value of a float field that is no number raises.
\<close>

section \<open>Comparing\<close>

definition compare_keys :: "string list" where
  "compare_keys = [''decision'', ''action'', ''urgency'', ''inventory_base'', ''inventory_quote'', ''net_delta'', ''mid'']"

definition float_keys :: "string list" where
  "float_keys = [''inventory_base'', ''inventory_quote'', ''net_delta'', ''mid'']"

text \<open>Equality of JSON values as Python's \<open>==\<close>: a bool equals its number, dicts ignore order.\<close>

fun numeric :: "json \<Rightarrow> real option" where
  "numeric (JNum x) = Some x"
| "numeric (JBool b) = Some (if b then 1 else 0)"
| "numeric _ = None"

fun json_eq :: "json \<Rightarrow> json \<Rightarrow> bool" where
  "json_eq (JArr xs) (JArr ys) = list_all2 json_eq xs ys"
| "json_eq (JObj d) (JObj e) =
     (length d = length e \<and> list_all (\<lambda>(k, v). case map_of e k of Some w \<Rightarrow> json_eq v w | None \<Rightarrow> False) d)"
| "json_eq (JStr s) (JStr t) = (s = t)"
| "json_eq JNull JNull = True"
| "json_eq v w = (numeric v \<noteq> None \<and> numeric v = numeric w)"


text \<open>\<open>_close\<close>: strictly within the tolerance; None equals only None.\<close>

definition close_to :: "json \<Rightarrow> json \<Rightarrow> real \<Rightarrow> py_error + bool" where
  "close_to a b tol =
     (if a = JNull \<or> b = JNull then Inr (json_eq a b)
      else case (numeric a, numeric b) of
             (Some x, Some y) \<Rightarrow> Inr (\<bar>x - y\<bar> < tol)
           | _ \<Rightarrow> Inl TypeError)"

definition key_differs :: "real \<Rightarrow> dict \<Rightarrow> dict \<Rightarrow> string \<Rightarrow> py_error + bool" where
  "key_differs tol ref cand k =
     (if k \<in> set float_keys then
        (case close_to (get_key k ref) (get_key k cand) tol of Inl e \<Rightarrow> Inl e | Inr c \<Rightarrow> Inr (\<not> c))
      else Inr (\<not> json_eq (get_key k ref) (get_key k cand)))"

text \<open>One row adds its disagreements to the counters, key by key.\<close>

fun compare_row :: "real \<Rightarrow> dict \<Rightarrow> dict \<Rightarrow> string list \<Rightarrow> (string \<Rightarrow> nat) \<Rightarrow> py_error + (string \<Rightarrow> nat)" where
  "compare_row tol ref cand [] m = Inr m"
| "compare_row tol ref cand (k # ks) m =
     (case key_differs tol ref cand k of
        Inl e \<Rightarrow> Inl e
      | Inr d \<Rightarrow> compare_row tol ref cand ks (if d then m(k := Suc (m k)) else m))"

fun compare_rows :: "real \<Rightarrow> (dict \<times> dict) list \<Rightarrow> (string \<Rightarrow> nat) \<Rightarrow> py_error + (string \<Rightarrow> nat)" where
  "compare_rows tol [] m = Inr m"
| "compare_rows tol ((ref, cand) # rows) m =
     (case compare_row tol ref cand compare_keys m of Inl e \<Rightarrow> Inl e | Inr m' \<Rightarrow> compare_rows tol rows m')"

record diff_report =
  dr_reference :: nat
  dr_candidate :: nat
  dr_compared :: nat
  dr_mismatches :: "string \<Rightarrow> nat"

definition compare_logs :: "dict list \<Rightarrow> dict list \<Rightarrow> real \<Rightarrow> py_error + diff_report" where
  "compare_logs reference candidate tol =
     (case compare_rows tol (zip reference candidate) (\<lambda>_. 0) of
        Inl e \<Rightarrow> Inl e
      | Inr m \<Rightarrow> Inr \<lparr>dr_reference = length reference, dr_candidate = length candidate,
                      dr_compared = min (length reference) (length candidate), dr_mismatches = m\<rparr>)"

section \<open>What the counters mean\<close>

lemma compare_row_counts:
  "distinct ks \<Longrightarrow> compare_row tol ref cand ks m = Inr m' \<Longrightarrow>
     m' k = m k + (if k \<in> set ks \<and> key_differs tol ref cand k = Inr True then 1 else 0)"
  by (induction ks arbitrary: m) (auto split: sum.splits if_splits)

lemma distinct_keys: "distinct compare_keys"
  by (simp add: compare_keys_def)

lemma compare_rows_counts:
  "compare_rows tol rows m = Inr m' \<Longrightarrow>
     m' k = m k + length (filter (\<lambda>(ref, cand). k \<in> set compare_keys \<and> key_differs tol ref cand k = Inr True) rows)"
  by (induction tol rows m rule: compare_rows.induct)
     (auto simp: compare_row_counts[OF distinct_keys] split: sum.splits)

text \<open>
  A counter is the number of compared rows whose field differs, so none exceeds the rows compared;
  rows one log has beyond the other count nowhere.
\<close>

theorem mismatches_count_the_differing_rows:
  assumes "compare_logs reference candidate tol = Inr r"
  shows "dr_mismatches r k = length (filter (\<lambda>(ref, cand). k \<in> set compare_keys \<and> key_differs tol ref cand k = Inr True) (zip reference candidate))
    \<and> dr_mismatches r k \<le> dr_compared r \<and> dr_compared r = min (dr_reference r) (dr_candidate r)"
proof -
  obtain m where m: "compare_rows tol (zip reference candidate) (\<lambda>_. 0) = Inr m"
    "r = \<lparr>dr_reference = length reference, dr_candidate = length candidate,
          dr_compared = min (length reference) (length candidate), dr_mismatches = m\<rparr>"
    using assms by (auto simp: compare_logs_def split: sum.splits)
  have "m k = length (filter (\<lambda>(ref, cand). k \<in> set compare_keys \<and> key_differs tol ref cand k = Inr True) (zip reference candidate))"
    using compare_rows_counts[OF m(1), of k] by simp
  moreover from this have "m k \<le> min (length reference) (length candidate)"
    using length_filter_le[of _ "zip reference candidate"] by (metis length_zip)
  ultimately show ?thesis by (simp add: m(2))
qed

text \<open>
  With a tolerance of zero a log differs from itself in every row that holds a number: the
  comparison is strict.
\<close>

lemma zero_tolerance_never_agrees:
  "key_differs 0 [(''mid'', JNum x)] [(''mid'', JNum x)] ''mid'' = Inr True"
  by (simp add: key_differs_def float_keys_def close_to_def get_or_def)

end
