(* ===== verification/DeriskGate.thy ===== *)
theory DeriskGate imports QuoteGate PerpController begin

text \<open>
  \<open>src/scripts/run_hb_mainnet_derisk_gate.py\<close>: the live gate that opens a real micro position and lets
  the controller take it down, first passively and then as an emergency.

  The venue, the connector, the controller and the executors are again one parameter state.
  What the gate shares with the quote gate (stopping executors, resting orders, the signer) is
  that theory's; configurations and actions are the controller's.  A loop over a deadline has as
  fuel the number of sleeps that reach the deadline.
\<close>

section \<open>What is read\<close>

abbreviation size_eps :: real where
  "size_eps \<equiv> 1 / 10 ^ 9"

record sent_order =
  so_ts :: real
  so_market :: bool
  so_action :: position_action

record 'w derisk_world =
  dw_base :: "'w gate_world"
  dw_connect :: "'w \<Rightarrow> 'w \<times> (py_error + unit)"
  dw_mid :: "'w \<Rightarrow> py_error + pynum"
  dw_update_balances :: "'w \<Rightarrow> 'w \<times> (py_error + unit)"
  dw_positions :: "'w \<Rightarrow> string \<Rightarrow> dict list"
  dw_frontend_orders :: "'w \<Rightarrow> string \<Rightarrow> dict list"
  dw_perp :: "'w \<Rightarrow> json"
  dw_spot :: "'w \<Rightarrow> json"
  dw_position :: "'w \<Rightarrow> py_error + real"
  dw_equity :: "'w \<Rightarrow> py_error + pynum option"
  dw_set_peak :: "real \<Rightarrow> 'w \<Rightarrow> 'w"
  dw_intent :: "'w \<Rightarrow> exec_intent option"
  dw_report :: "string list \<Rightarrow> 'w \<Rightarrow> 'w"
  dw_decide :: "'w \<Rightarrow> 'w \<times> (py_error + action list)"
  dw_plan :: "urgency \<Rightarrow> 'w \<Rightarrow> py_error + exec_config"
  dw_create :: "exec_config \<Rightarrow> 'w \<Rightarrow> 'w \<times> (py_error + string)"
  dw_fills :: "'w \<Rightarrow> nat"
  dw_sent :: "'w \<Rightarrow> sent_order list"
  dw_close_type :: "'w \<Rightarrow> string \<Rightarrow> string"
  dw_info_filled :: "'w \<Rightarrow> string \<Rightarrow> py_error + real"
  dw_attr_filled :: "'w \<Rightarrow> string \<Rightarrow> real"
  dw_retries :: "'w \<Rightarrow> string \<Rightarrow> nat"

text \<open>\<open>_reduce_only_orders\<close>, as the order ids; the other four fields only have to be there.\<close>

fun reduce_only_orders :: "string \<Rightarrow> dict list \<Rightarrow> py_error + json list" where
  "reduce_only_orders coin [] = Inr []"
| "reduce_only_orders coin (r # rs) =
     (case map_of r ''coin'' of None \<Rightarrow> Inl KeyError | Some c \<Rightarrow>
      if c = JStr coin \<and> truthy_json (get_key ''reduceOnly'' r) then
        (case map_of r ''oid'' of None \<Rightarrow> Inl KeyError | Some oid \<Rightarrow>
         res_check ({''side'', ''limitPx'', ''sz''} \<subseteq> fst ` set r) KeyError
           (res_bind (reduce_only_orders coin rs) (\<lambda>rest. Inr (oid # rest))))
      else reduce_only_orders coin rs)"

section \<open>Account indicators\<close>

record indicators =
  in_hb_equity :: "pynum option"
  in_usdc_total :: real
  in_usdc_hold :: real
  in_available :: real
  in_account_value :: real
  in_margin_used :: real
  in_notional :: real
  in_maintenance :: real
  in_withdrawable :: real
  in_unrealized :: real

fun first_usdc :: "json list \<Rightarrow> py_error + json" where
  "first_usdc [] = Inr (JObj [])"
| "first_usdc (b # bs) =
     res_bind (required ''coin'' b) (\<lambda>c. if c = JStr ''USDC'' then Inr b else first_usdc bs)"

fun int_pairs :: "(string \<Rightarrow> py_error + int) \<Rightarrow> json list \<Rightarrow> py_error + (int \<times> json) list" where
  "int_pairs parse [] = Inr []"
| "int_pairs parse (p # ps) =
     res_bind (iter_json p) (\<lambda>xs.
       case xs of
         [t, v] \<Rightarrow> res_bind (to_int parse t) (\<lambda>i. res_bind (int_pairs parse ps) (\<lambda>rest. Inr ((i, v) # rest)))
       | _ \<Rightarrow> Inl ValueError)"

definition dict_of :: "json \<Rightarrow> py_error + dict" where
  "dict_of j = (case j of JObj d \<Rightarrow> Inr d | _ \<Rightarrow> Inl attribute_error)"

fun unrealized_sum :: "(string \<Rightarrow> py_error + real) \<Rightarrow> json list \<Rightarrow> py_error + real" where
  "unrealized_sum parse [] = Inr 0"
| "unrealized_sum parse (e # es) =
     res_bind (required ''position'' e) (\<lambda>p. res_bind (required ''unrealizedPnl'' p) (\<lambda>v.
     res_bind (to_float parse v) (\<lambda>x. res_bind (unrealized_sum parse es) (\<lambda>rest. Inr (x + rest)))))"

definition account_indicators :: "'w derisk_world \<Rightarrow> 'w \<Rightarrow> py_error + indicators" where
  "account_indicators W w =
     (let num = to_float (gt_parse_float (dw_base W)); perp = dw_perp W w; spot = dw_spot W w;
          margin = (\<lambda>key. res_bind (required ''marginSummary'' perp) (\<lambda>m. res_bind (required key m) num)) in
      res_bind (required ''balances'' spot) (\<lambda>bs. res_bind (iter_json bs) (\<lambda>bl. res_bind (first_usdc bl) (\<lambda>usdc.
      res_bind (dict_of spot) (\<lambda>sd.
      res_bind (iter_json (get_or (JArr []) ''tokenToAvailableAfterMaintenance'' sd)) (\<lambda>al.
      res_bind (int_pairs (gt_parse_int (dw_base W)) al) (\<lambda>avail.
      res_bind (dw_equity W w) (\<lambda>equity.
      res_bind (dict_of usdc) (\<lambda>ud.
      res_bind (num (get_or (JNum 0) ''total'' ud)) (\<lambda>total.
      res_bind (num (get_or (JNum 0) ''hold'' ud)) (\<lambda>hold.
      res_bind (num (case map_of (rev avail) 0 of Some v \<Rightarrow> v | None \<Rightarrow> JNum 0)) (\<lambda>left.
      res_bind (margin ''accountValue'') (\<lambda>value.
      res_bind (margin ''totalMarginUsed'') (\<lambda>used.
      res_bind (margin ''totalNtlPos'') (\<lambda>ntl.
      res_bind (res_bind (required ''crossMaintenanceMarginUsed'' perp) num) (\<lambda>maint.
      res_bind (res_bind (required ''withdrawable'' perp) num) (\<lambda>withdrawable.
      res_bind (required ''assetPositions'' perp) (\<lambda>ps. res_bind (iter_json ps) (\<lambda>pl.
      res_bind (unrealized_sum (gt_parse_float (dw_base W)) pl) (\<lambda>pnl.
        Inr \<lparr>in_hb_equity = equity, in_usdc_total = total, in_usdc_hold = hold, in_available = left,
             in_account_value = value, in_margin_used = used, in_notional = ntl, in_maintenance = maint,
             in_withdrawable = withdrawable, in_unrealized = pnl\<rparr>))))))))))))))))))))"

record sample =
  sm_position :: real
  sm_controller :: real
  sm_urgency :: "urgency option"
  sm_quoting :: bool
  sm_resting :: "json list"
  sm_account :: indicators

text \<open>\<open>_equity_marks_unrealized_pnl\<close>: the first position whose cash drifted, in order of appearance.\<close>

definition cash_of :: "sample \<Rightarrow> real" where
  "cash_of m = in_usdc_total (sm_account m) - in_unrealized (sm_account m)"

definition cash_by_size :: "sample list \<Rightarrow> (real \<times> real list) list" where
  "cash_by_size ms =
     foldl (\<lambda>d m. AList.update (sm_position m) (case map_of d (sm_position m) of Some l \<Rightarrow> l @ [cash_of m] | None \<Rightarrow> [cash_of m]) d)
       [] (filter (\<lambda>m. size_eps < \<bar>sm_position m\<bar>) ms)"

definition equity_drift :: "sample list \<Rightarrow> real option" where
  "equity_drift ms =
     map_option fst (find (\<lambda>(size, cash). 1 < length cash \<and> 1 / 1000 < Max (set cash) - Min (set cash)) (cash_by_size ms))"

section \<open>Executors\<close>

type_synonym gate_executor = "string \<times> exec_config"

definition pa_executed :: "'w derisk_world \<Rightarrow> 'w \<Rightarrow> string \<Rightarrow> real" where
  "pa_executed W w i = (case dw_info_filled W w i of Inr x \<Rightarrow> x | Inl _ \<Rightarrow> dw_attr_filled W w i)"

definition pa_outcome_true :: "'w derisk_world \<Rightarrow> 'w \<Rightarrow> gate_executor \<Rightarrow> bool" where
  "pa_outcome_true W w e =
     (let total = (case ec_total_base (snd e) of Some t \<Rightarrow> t | None \<Rightarrow> 0)
      in str_contains ''COMPLETED'' (dw_close_type W w (fst e)) \<and> 0 < total \<and> total - size_eps \<le> pa_executed W w (fst e))"

section \<open>Waiting\<close>

fun wait_for :: "'w derisk_world \<Rightarrow> ('w \<Rightarrow> py_error + bool) \<Rightarrow> nat \<Rightarrow> real \<Rightarrow> real \<Rightarrow> 'w \<Rightarrow> 'w \<times> (py_error + bool)" where
  "wait_for W p 0 interval deadline w = (w, p w)"
| "wait_for W p (Suc n) interval deadline w =
     (if gt_clock (dw_base W) w < deadline then
        (case p w of
           Inl e \<Rightarrow> (w, Inl e)
         | Inr True \<Rightarrow> (w, Inr True)
         | Inr False \<Rightarrow> wait_for W p n interval deadline (gt_sleep (dw_base W) interval w))
      else (w, p w))"

definition wait_within :: "'w derisk_world \<Rightarrow> ('w \<Rightarrow> py_error + bool) \<Rightarrow> real \<Rightarrow> real \<Rightarrow> 'w \<Rightarrow> 'w \<times> (py_error + bool)" where
  "wait_within W p timeout interval w =
     wait_for W p (nat \<lceil>timeout / interval\<rceil>) interval (gt_clock (dw_base W) w + timeout) w"

text \<open>\<open>_wait_ready\<close>: any exception is swallowed until the deadline.\<close>

fun wait_ready :: "'w derisk_world \<Rightarrow> nat \<Rightarrow> real \<Rightarrow> 'w \<Rightarrow> 'w \<times> (py_error + pynum)" where
  "wait_ready W 0 deadline w = (w, Inl RuntimeError)"
| "wait_ready W (Suc n) deadline w =
     (if gt_clock (dw_base W) w < deadline then
        (case dw_mid W w of
           Inr mid \<Rightarrow>
             if py_lt (Num 0) mid then
               (case dw_update_balances W w of
                  (w1, Inr _) \<Rightarrow> (w1, Inr mid)
                | (w1, Inl _) \<Rightarrow> wait_ready W n deadline (gt_sleep (dw_base W) 1 w1))
             else wait_ready W n deadline (gt_sleep (dw_base W) 1 w)
         | Inl _ \<Rightarrow> wait_ready W n deadline (gt_sleep (dw_base W) 1 w))
      else (w, Inl RuntimeError))"

text \<open>\<open>_sleep_with_order_poll\<close>: sleep in slices and log the reduce-only orders before each.\<close>

fun poll_sleep :: "'w derisk_world \<Rightarrow> (string \<times> string) \<Rightarrow> nat \<Rightarrow> real \<Rightarrow> real \<Rightarrow> 'w \<Rightarrow> 'w \<times> (py_error + json list)" where
  "poll_sleep W ac 0 poll remaining w = (w, Inr [])"
| "poll_sleep W ac (Suc n) poll remaining w =
     (if 0 < remaining then
        (case reduce_only_orders (snd ac) (dw_frontend_orders W w (fst ac)) of
           Inl e \<Rightarrow> (w, Inl e)
         | Inr oids \<Rightarrow>
             (case poll_sleep W ac n poll (remaining - min poll remaining) (gt_sleep (dw_base W) (min poll remaining) w) of
                (w1, Inl e) \<Rightarrow> (w1, Inl e)
              | (w1, Inr rest) \<Rightarrow> (w1, Inr (oids @ rest))))
      else (w, Inr []))"

section \<open>The state of a run\<close>

record derisk_args =
  da_open_size :: real
  da_max_notional :: real
  da_cycle_s :: real
  da_derisk_timeout :: real
  da_deadline :: real
  da_timeout :: real
  da_dry_run :: bool
  da_coin :: string
  da_address :: string
  da_others :: "(string \<times> string) list"

record open_evidence =
  oe_venue :: real
  oe_controller :: real
  oe_venue_ok :: bool
  oe_reconciled :: bool
  oe_fill_seen :: bool

record cycles_evidence =
  ce_created :: "gate_executor list"
  ce_suppressed :: nat
  ce_flat :: bool
  ce_seconds :: real
  ce_started :: real
  ce_orders :: "sent_order list"
  ce_failures :: nat
  ce_fills :: nat
  ce_rested :: "json list"
  ce_log :: "json list"
  ce_samples :: "sample list"

datatype equity_problem = UnresolvedEquity | NonPositiveEquity

datatype derisk_failure =
    DirtyStart real "int set" | OpenNotional pynum | OpenMismatch real | NotReconciled real | NoFillSeen
  | PositionLeaked "(string \<times> real) list"
  | NoPassive | WrongPassive | ManyPassive nat | Rejections nat | NotFlat | NeverRested | NoTrueOutcome | NoDeriskFill
  | EquityDrift real | NotReduceOnly | ReopenFailed | BadEquity equity_problem
  | NoEscalation "urgency option" | ManyCreated nat | LateMarket real | NoMarketOrder | NoShortCycle | LateFlat bool real
  | DeriskException py_error | ForcedStop "string list" | TeardownDirty "int set" real | StillDirty "int set" real

datatype derisk_phase =
    PlanPhase exec_config exec_config | OpenPhase open_evidence | DeriskPhase cycles_evidence
  | ReopenPhase open_evidence | EmergencyPhase cycles_evidence

record 'w derisk =
  ds_world :: 'w
  ds_executors :: "gate_executor list"
  ds_failures :: "derisk_failure list"
  ds_phases :: "derisk_phase list"
  ds_raw :: "raw_call list"

type_synonym ('w, 'a) derisk_step = "'w derisk \<times> (gate_exn + 'a)"

definition dr_world :: "('w \<Rightarrow> 'w \<times> (py_error + 'a)) \<Rightarrow> 'w derisk \<Rightarrow> ('w, 'a) derisk_step" where
  "dr_world f s =
     (case f (ds_world s) of
        (w, Inl e) \<Rightarrow> (s\<lparr>ds_world := w\<rparr>, Inl (GateFailed e))
      | (w, Inr x) \<Rightarrow> (s\<lparr>ds_world := w\<rparr>, Inr x))"

definition dr_set :: "('w \<Rightarrow> 'w) \<Rightarrow> 'w derisk \<Rightarrow> 'w derisk" where
  "dr_set f s = s\<lparr>ds_world := f (ds_world s)\<rparr>"

definition dr_read :: "('w \<Rightarrow> py_error + 'a) \<Rightarrow> 'w derisk \<Rightarrow> ('w, 'a) derisk_step" where
  "dr_read f s = (case f (ds_world s) of Inl e \<Rightarrow> (s, Inl (GateFailed e)) | Inr x \<Rightarrow> (s, Inr x))"

definition dr_fail :: "derisk_failure list \<Rightarrow> 'w derisk \<Rightarrow> 'w derisk" where
  "dr_fail fs s = s\<lparr>ds_failures := ds_failures s @ fs\<rparr>"

definition dr_phase :: "derisk_phase \<Rightarrow> 'w derisk \<Rightarrow> 'w derisk" where
  "dr_phase p s = s\<lparr>ds_phases := ds_phases s @ [p]\<rparr>"

text \<open>\<open>failures.append(...)\<close> followed by \<open>raise RuntimeError\<close>.\<close>

definition dr_halt :: "bool \<Rightarrow> derisk_failure \<Rightarrow> 'w derisk \<Rightarrow> ('w, unit) derisk_step" where
  "dr_halt bad f s = (if bad then (dr_fail [f] s, Inl (GateFailed RuntimeError)) else (s, Inr ()))"

definition unless :: "bool \<Rightarrow> derisk_failure \<Rightarrow> derisk_failure list" where
  "unless ok f = (if ok then [] else [f])"

definition position_at :: "'w derisk_world \<Rightarrow> derisk_args \<Rightarrow> string \<Rightarrow> 'w \<Rightarrow> py_error + real" where
  "position_at W a address w = venue_position (gt_parse_float (dw_base W)) (da_coin a) (dw_positions W w address)"

definition resting_at :: "'w derisk_world \<Rightarrow> derisk_args \<Rightarrow> 'w \<Rightarrow> py_error + int set" where
  "resting_at W a w = resting_oids (gt_parse_int (dw_base W)) (da_coin a) (gt_orders (dw_base W) w (da_address a))"

text \<open>\<open>_create_executors\<close> on configurations; the shared list grows only when all were created.\<close>

fun make_executors :: "'w derisk_world \<Rightarrow> exec_config list \<Rightarrow> 'w derisk \<Rightarrow> ('w, gate_executor list) derisk_step" where
  "make_executors W [] s = (s, Inr [])"
| "make_executors W (c # cs) s =
     gate_bind (dr_world (dw_create W c) s) (\<lambda>i s. gate_bind (make_executors W cs s) (\<lambda>es s. (s, Inr ((i, c) # es))))"

definition add_executors :: "'w derisk_world \<Rightarrow> exec_config list \<Rightarrow> 'w derisk \<Rightarrow> ('w, gate_executor list) derisk_step" where
  "add_executors W cs s =
     gate_bind (make_executors W cs s) (\<lambda>es s. (s\<lparr>ds_executors := ds_executors s @ es\<rparr>, Inr es))"

definition open_ids :: "'w derisk_world \<Rightarrow> 'w derisk \<Rightarrow> string list" where
  "open_ids W s = filter (\<lambda>i. \<not> gt_closed (dw_base W) (ds_world s) i) (map fst (ds_executors s))"

section \<open>Opening\<close>

definition open_config :: "derisk_args \<Rightarrow> real \<Rightarrow> exec_config" where
  "open_config a ts =
     \<lparr>ec_type = ''order_executor'', ec_timestamp = ts, ec_side = Buy, ec_total_base = None, ec_total_quote = None,
      ec_amount = Some (da_open_size a), ec_price = None, ec_strategy = Some MarketStrategy, ec_child_qty = None,
      ec_time_limit = None, ec_refresh_time = None, ec_leverage = 1, ec_action = OPEN, ec_buffer_bps = None\<rparr>"

definition open_position :: "'w derisk_world \<Rightarrow> derisk_args \<Rightarrow> 'w derisk \<Rightarrow> ('w, open_evidence) derisk_step" where
  "open_position W a s =
     gate_bind (dr_world (gt_update (dw_base W)) s) (\<lambda>_ s.
     let before = dw_fills W (ds_world s); amount = da_open_size a in
     gate_bind (add_executors W [open_config a (gt_clock (dw_base W) (ds_world s))] s) (\<lambda>_ s.
     gate_bind (dr_world (wait_within W (\<lambda>w. res_bind (position_at W a (da_address a) w) (\<lambda>p. Inr (\<bar>p - amount\<bar> < size_eps)))
                  (da_timeout a) 2) s) (\<lambda>venue_ok s.
     gate_bind (dr_world (wait_within W (\<lambda>w. res_bind (dw_position W w) (\<lambda>p. Inr (\<bar>p - amount\<bar> < size_eps))) (da_timeout a) 1) s)
       (\<lambda>reconciled s.
     gate_bind (dr_world (wait_within W (\<lambda>w. Inr (before < dw_fills W w)) 10 1) s) (\<lambda>fill_seen s.
     gate_bind (dr_read (position_at W a (da_address a)) s) (\<lambda>venue s.
     gate_bind (dr_read (dw_position W) s) (\<lambda>held s.
       (s, Inr \<lparr>oe_venue = venue, oe_controller = held, oe_venue_ok = venue_ok, oe_reconciled = reconciled,
                oe_fill_seen = fill_seen\<rparr>))))))))"

section \<open>Control cycles\<close>

record cycles_acc =
  ca_created :: "gate_executor list"
  ca_suppressed :: nat
  ca_samples :: "sample list"
  ca_log :: "json list"

definition is_maker_config :: "exec_config \<Rightarrow> bool" where
  "is_maker_config c \<longleftrightarrow> ec_strategy c = Some LimitMaker"

definition creates_of :: "action list \<Rightarrow> exec_config list" where
  "creates_of acts = concat (map (\<lambda>act. case act of Create c \<Rightarrow> [c] | Stop _ \<Rightarrow> []) acts)"

definition stops_of :: "action list \<Rightarrow> string list" where
  "stops_of acts = concat (map (\<lambda>act. case act of Create _ \<Rightarrow> [] | Stop i \<Rightarrow> [i]) acts)"

text \<open>One pass: the early stops of known executors, the creates that are no quotes, and the sample.\<close>

definition derisk_cycle :: "'w derisk_world \<Rightarrow> derisk_args \<Rightarrow> cycles_acc \<Rightarrow> 'w derisk \<Rightarrow> ('w, cycles_acc) derisk_step" where
  "derisk_cycle W a acc s =
     gate_bind (dr_world (gt_update (dw_base W)) (dr_set (dw_report W (map fst (ds_executors s))) s)) (\<lambda>_ s.
     let intent = dw_intent W (ds_world s) in
     gate_bind (dr_world (dw_decide W) s) (\<lambda>acts s.
     let known = filter (\<lambda>i. i \<in> set (map fst (ds_executors s))) (stops_of acts);
         s1 = dr_set (fold (gt_early_stop (dw_base W)) known) s in
     gate_bind (add_executors W (filter (\<lambda>c. \<not> is_maker_config c) (creates_of acts)) s1) (\<lambda>new s.
     gate_bind (dr_read (position_at W a (da_address a)) s) (\<lambda>p s.
     gate_bind (dr_read (dw_position W) s) (\<lambda>held s.
     gate_bind (dr_read (\<lambda>w. reduce_only_orders (da_coin a) (dw_frontend_orders W w (da_address a))) s) (\<lambda>oids s.
     gate_bind (dr_read (account_indicators W) s) (\<lambda>account s.
       (s, Inr (acc\<lparr>ca_created := ca_created acc @ new,
                    ca_suppressed := ca_suppressed acc + length (filter is_maker_config (creates_of acts)),
                    ca_samples := ca_samples acc @
                      [\<lparr>sm_position = p, sm_controller = held, sm_urgency = map_option in_urgency intent,
                        sm_quoting = intent_is_quoting intent, sm_resting = oids, sm_account = account\<rparr>]\<rparr>)))))))))"

definition last_position :: "cycles_acc \<Rightarrow> real" where
  "last_position acc = sm_position (last (ca_samples acc))"

fun run_cycles :: "'w derisk_world \<Rightarrow> derisk_args \<Rightarrow> nat \<Rightarrow> real \<Rightarrow> cycles_acc \<Rightarrow> 'w derisk \<Rightarrow> ('w, cycles_acc \<times> bool) derisk_step" where
  "run_cycles W a 0 deadline acc s =
     gate_bind (dr_read (position_at W a (da_address a)) s) (\<lambda>p s. (s, Inr (acc, \<bar>p\<bar> < size_eps)))"
| "run_cycles W a (Suc n) deadline acc s =
     (if gt_clock (dw_base W) (ds_world s) < deadline then
        gate_bind (derisk_cycle W a acc s) (\<lambda>acc s.
          if \<bar>last_position acc\<bar> < size_eps then (s, Inr (acc, True))
          else
            gate_bind (dr_world (poll_sleep W (da_address a, da_coin a) (nat \<lceil>da_cycle_s a\<rceil>) 1 (da_cycle_s a)) s) (\<lambda>oids s.
              run_cycles W a n deadline (acc\<lparr>ca_log := ca_log acc @ oids\<rparr>) s))
      else gate_bind (dr_read (position_at W a (da_address a)) s) (\<lambda>p s. (s, Inr (acc, \<bar>p\<bar> < size_eps))))"

text \<open>Python's \<open>round(x, 1)\<close>, ties to even.\<close>

definition round1 :: "real \<Rightarrow> real" where
  "round1 x =
     (let n = \<lfloor>10 * x\<rfloor>; f = 10 * x - of_int n
      in of_int (if f < 1 / 2 \<or> f = 1 / 2 \<and> even n then n else n + 1) / 10)"

text \<open>
  A phase of cycles with what is recorded of it.  \<open>wait_first\<close> says whether the duration is read
  after waiting for the executors to close, as the passive phase does.
\<close>

definition cycles_phase :: "'w derisk_world \<Rightarrow> derisk_args \<Rightarrow> real \<Rightarrow> bool \<Rightarrow> json list \<Rightarrow> 'w derisk \<Rightarrow> ('w, cycles_evidence) derisk_step" where
  "cycles_phase W a seconds wait_first seen s =
     (let fills = dw_fills W (ds_world s); sent = length (dw_sent W (ds_world s)); started = gt_clock (dw_base W) (ds_world s) in
      gate_bind (run_cycles W a (nat \<lceil>seconds / da_cycle_s a\<rceil>) (started + seconds)
          \<lparr>ca_created = [], ca_suppressed = 0, ca_samples = [], ca_log = seen\<rparr> s) (\<lambda>(acc, flat) s.
      let early = round1 (gt_clock (dw_base W) (ds_world s) - started) in
      gate_bind (dr_world (wait_within W (\<lambda>w. Inr (list_all (\<lambda>e. gt_closed (dw_base W) w (fst e)) (ca_created acc))) 15 1) s) (\<lambda>_ s.
        (s, Inr \<lparr>ce_created = ca_created acc, ce_suppressed = ca_suppressed acc, ce_flat = flat,
                 ce_seconds = (if wait_first then round1 (gt_clock (dw_base W) (ds_world s) - started) else early),
                 ce_started = started, ce_orders = drop sent (dw_sent W (ds_world s)),
                 ce_failures = sum_list (map (\<lambda>e. dw_retries W (ds_world s) (fst e)) (ca_created acc)),
                 ce_fills = dw_fills W (ds_world s) - fills,
                 ce_rested = concat (map sm_resting (ca_samples acc)), ce_log = ca_log acc,
                 ce_samples = ca_samples acc\<rparr>))))"

section \<open>Verdicts\<close>

definition passive_ok :: "exec_config \<Rightarrow> bool" where
  "passive_ok c \<longleftrightarrow> ec_time_limit c = Some 60 \<and> ec_action c = CLOSE"

definition passive_executors :: "gate_executor list \<Rightarrow> gate_executor list" where
  "passive_executors es = filter (\<lambda>e. ec_type (snd e) = ''passive_aggressive_executor'') es"

definition derisk_verdict :: "(gate_executor \<Rightarrow> bool) \<Rightarrow> cycles_evidence \<Rightarrow> derisk_failure list" where
  "derisk_verdict completed ev =
     (let pa = passive_executors (ce_created ev) in
      (if pa = [] then [NoPassive] else unless (passive_ok (snd (hd pa))) WrongPassive)
      @ unless (length pa \<le> 1) (ManyPassive (length pa))
      @ unless (ce_failures ev = 0) (Rejections (ce_failures ev))
      @ unless (ce_flat ev) NotFlat
      @ unless (ce_rested ev \<noteq> [] \<or> ce_log ev \<noteq> []) NeverRested
      @ unless (pa = [] \<or> (\<exists>e\<in>set pa. completed e)) NoTrueOutcome
      @ unless (1 \<le> ce_fills ev) NoDeriskFill
      @ (case equity_drift (ce_samples ev) of None \<Rightarrow> [] | Some p \<Rightarrow> [EquityDrift p])
      @ unless (list_all (\<lambda>x. so_action x = CLOSE) (ce_orders ev)) NotReduceOnly)"

definition emergency_verdict :: "real \<Rightarrow> cycles_evidence \<Rightarrow> derisk_failure list" where
  "emergency_verdict deadline ev =
     (let created = ce_created ev; market = filter so_market (ce_orders ev);
          first = (case ce_samples ev of [] \<Rightarrow> None | m # _ \<Rightarrow> sm_urgency m) in
      unless (first = Some Emergency) (NoEscalation first)
      @ unless (length created \<le> 1) (ManyCreated (length created))
      @ unless (ce_failures ev = 0) (Rejections (ce_failures ev))
      @ (if market \<noteq> [] \<and> created \<noteq> [] then
           (let delay = round1 (so_ts (hd market) - ec_timestamp (snd (hd created))) in unless (delay \<le> 10) (LateMarket delay))
         else unless (ce_flat ev) NoMarketOrder)
      @ unless (created \<noteq> [] \<and> ec_time_limit (snd (hd created)) = Some 5) NoShortCycle
      @ unless (ce_flat ev \<and> ce_seconds ev \<le> deadline) (LateFlat (ce_flat ev) (ce_seconds ev))
      @ unless (list_all (\<lambda>x. so_action x = CLOSE) (ce_orders ev)) NotReduceOnly)"

definition equity_gate_failure :: "pynum option \<Rightarrow> equity_problem option" where
  "equity_gate_failure equity =
     (case equity of
        Some (Num x) \<Rightarrow> if x \<le> 0 then Some NonPositiveEquity else None
      | _ \<Rightarrow> Some UnresolvedEquity)"

section \<open>The gate\<close>

definition times_size :: "real \<Rightarrow> pynum \<Rightarrow> pynum" where
  "times_size amount mid =
     (case mid of Num m \<Rightarrow> Num (amount * m)
      | PosInf \<Rightarrow> if 0 < amount then PosInf else if amount < 0 then NegInf else NaN
      | NegInf \<Rightarrow> if 0 < amount then NegInf else if amount < 0 then PosInf else NaN
      | NaN \<Rightarrow> NaN)"

definition start_derisk :: "'w derisk_world \<Rightarrow> derisk_args \<Rightarrow> 'w derisk \<Rightarrow> ('w, unit) derisk_step" where
  "start_derisk W a s =
     gate_bind (dr_world (dw_connect W) s) (\<lambda>_ s.
     gate_bind (dr_world (\<lambda>w. wait_ready W (nat \<lceil>da_timeout a\<rceil>) (gt_clock (dw_base W) w + da_timeout a) w) s) (\<lambda>mid s.
     gate_bind (dr_read (position_at W a (da_address a)) s) (\<lambda>start s.
     gate_bind (dr_read (resting_at W a) s) (\<lambda>resting s.
     gate_bind (dr_halt (start \<noteq> 0 \<or> resting \<noteq> {}) (DirtyStart start resting) s) (\<lambda>_ s.
     let notional = times_size (da_open_size a) mid in
     dr_halt (py_lt (Num (da_max_notional a)) notional) (OpenNotional notional) s)))))"

text \<open>
  The request whose configurations are planned; what a controller in cycle \<open>cy\<close> makes of it.  The
  phase itself takes the plan from the world, as everything of the controller.
\<close>

definition planned_config :: "ctl_config \<Rightarrow> cycle \<Rightarrow> derisk_args \<Rightarrow> urgency \<Rightarrow> exec_config" where
  "planned_config cfg cy a u =
     execution_config cfg cy \<lparr>rq_side = Sell, rq_amount = da_open_size a, rq_urgency = u, rq_reduce_only = True\<rparr>"

text \<open>Printing the plan reads the child quantity of both configurations.\<close>

definition plan_phase :: "'w derisk_world \<Rightarrow> derisk_args \<Rightarrow> 'w derisk \<Rightarrow> ('w, unit) derisk_step" where
  "plan_phase W a s =
     gate_bind (dr_world (gt_on_start (dw_base W)) s) (\<lambda>_ s.
     gate_bind (dr_read (dw_plan W Normal) s) (\<lambda>passive s.
     gate_bind (dr_read (dw_plan W Emergency) s) (\<lambda>emergency s.
       if ec_child_qty passive = None \<or> ec_child_qty emergency = None
       then (dr_phase (PlanPhase passive emergency) s, Inl (GateFailed attribute_error))
       else if da_dry_run a then (dr_phase (PlanPhase passive emergency) s, Inl DryRunComplete)
       else (dr_phase (PlanPhase passive emergency) s, Inr ()))))"

fun leaked_positions :: "'w derisk_world \<Rightarrow> derisk_args \<Rightarrow> (string \<times> string) list \<Rightarrow> 'w derisk \<Rightarrow> ('w, (string \<times> real) list) derisk_step" where
  "leaked_positions W a [] s = (s, Inr [])"
| "leaked_positions W a ((aid, address) # others) s =
     gate_bind (dr_read (position_at W a address) s) (\<lambda>p s.
     gate_bind (leaked_positions W a others s) (\<lambda>rest s. (s, Inr ((aid, p) # rest))))"

definition open_phase :: "'w derisk_world \<Rightarrow> derisk_args \<Rightarrow> 'w derisk \<Rightarrow> ('w, unit) derisk_step" where
  "open_phase W a s =
     gate_bind (open_position W a s) (\<lambda>ev s.
     gate_bind (dr_read (account_indicators W) s) (\<lambda>_ s.
     gate_bind (dr_halt (\<not> oe_venue_ok ev) (OpenMismatch (oe_venue ev)) (dr_phase (OpenPhase ev) s)) (\<lambda>_ s.
     gate_bind (leaked_positions W a (da_others a)
        (dr_fail (unless (oe_reconciled ev) (NotReconciled (oe_controller ev)) @ unless (oe_fill_seen ev) NoFillSeen) s))
       (\<lambda>leaked s.
         (dr_fail (unless (list_all (\<lambda>(aid, p). \<bar>p\<bar> \<le> size_eps) leaked) (PositionLeaked leaked)) s, Inr ())))))"

definition passive_phase :: "'w derisk_world \<Rightarrow> derisk_args \<Rightarrow> 'w derisk \<Rightarrow> ('w, bool \<times> json list) derisk_step" where
  "passive_phase W a s =
     gate_bind (cycles_phase W a (da_derisk_timeout a) True [] s) (\<lambda>ev s.
       (dr_fail (derisk_verdict (pa_outcome_true W (ds_world s)) ev) (dr_phase (DeriskPhase ev) s),
        Inr (ce_flat ev, ce_log ev)))"

definition emergency_phase :: "'w derisk_world \<Rightarrow> derisk_args \<Rightarrow> json list \<Rightarrow> 'w derisk \<Rightarrow> ('w, unit) derisk_step" where
  "emergency_phase W a seen s =
     gate_bind (open_position W a (dr_set (\<lambda>w. fst (stop_executors (dw_base W) 15 (open_ids W s) w)) s)) (\<lambda>ev s.
     gate_bind (dr_halt (\<not> (oe_venue_ok ev \<and> oe_reconciled ev)) ReopenFailed (dr_phase (ReopenPhase ev) s)) (\<lambda>_ s.
     gate_bind (dr_read (dw_equity W) s) (\<lambda>equity s.
     case equity_gate_failure equity of
       Some f \<Rightarrow> dr_halt True (BadEquity f) s
     | None \<Rightarrow>
         gate_bind (cycles_phase W a (da_deadline a * 2) False seen
             (dr_set (dw_set_peak W ((case equity of Some (Num x) \<Rightarrow> x | _ \<Rightarrow> 0) / (8 / 10))) s)) (\<lambda>ev s.
           (dr_fail (emergency_verdict (da_deadline a) ev) (dr_phase (EmergencyPhase ev) s), Inr ())))))"

definition derisk_body :: "'w derisk_world \<Rightarrow> derisk_args \<Rightarrow> 'w derisk \<Rightarrow> ('w, unit) derisk_step" where
  "derisk_body W a s =
     gate_bind (start_derisk W a s) (\<lambda>_ s.
     gate_bind (plan_phase W a s) (\<lambda>_ s.
     gate_bind (open_phase W a s) (\<lambda>_ s.
     gate_bind (passive_phase W a s) (\<lambda>(flat, seen) s.
     if flat then emergency_phase W a seen s else (s, Inr ())))))"

section \<open>The teardown\<close>

fun cancel_raw :: "'w derisk_world \<Rightarrow> int list \<Rightarrow> 'w derisk \<Rightarrow> ('w, unit) derisk_step" where
  "cancel_raw W [] s = (s, Inr ())"
| "cancel_raw W (oid # oids) s =
     gate_bind (dr_world (gt_cancel (dw_base W) oid) (s\<lparr>ds_raw := ds_raw s @ [RawCancel oid]\<rparr>)) (\<lambda>_ s. cancel_raw W oids s)"

definition close_raw :: "'w derisk_world \<Rightarrow> real \<Rightarrow> 'w derisk \<Rightarrow> ('w, unit) derisk_step" where
  "close_raw W p s =
     (if p = 0 then (s, Inr ()) else dr_world (gt_market_close (dw_base W)) (s\<lparr>ds_raw := ds_raw s @ [RawClose]\<rparr>))"

definition raw_cleanup :: "'w derisk_world \<Rightarrow> derisk_args \<Rightarrow> int set \<Rightarrow> real \<Rightarrow> 'w derisk \<Rightarrow> ('w, unit) derisk_step" where
  "raw_cleanup W a left p s =
     (case gt_signer (dw_base W) of
        Inl e \<Rightarrow> (dr_fail [TeardownDirty left p] s, Inl (GateFailed e))
      | Inr _ \<Rightarrow>
          gate_bind (cancel_raw W (sorted_list_of_set left) (dr_fail [TeardownDirty left p] s)) (\<lambda>_ s.
          gate_bind (close_raw W p s) (\<lambda>_ s.
          gate_bind (dr_read (resting_at W a) (dr_set (gt_sleep (dw_base W) 3) s)) (\<lambda>left s.
          gate_bind (dr_read (position_at W a (da_address a)) s) (\<lambda>p s.
            (dr_fail (unless (left = {} \<and> p = 0) (StillDirty left p)) s, Inr ()))))))"

definition teardown_venue :: "'w derisk_world \<Rightarrow> derisk_args \<Rightarrow> 'w derisk \<Rightarrow> ('w, unit) derisk_step" where
  "teardown_venue W a s =
     gate_bind (dr_read (resting_at W a) (dr_set (gt_sleep (dw_base W) 2) s)) (\<lambda>left s.
     gate_bind (dr_read (position_at W a (da_address a)) s) (\<lambda>p s.
       if left \<noteq> {} \<or> p \<noteq> 0 then raw_cleanup W a left p s else (s, Inr ())))"

definition derisk_teardown :: "'w derisk_world \<Rightarrow> derisk_args \<Rightarrow> 'w derisk \<Rightarrow> ('w, unit) derisk_step" where
  "derisk_teardown W a s =
     (let (w, forced) = (if ds_executors s = [] then (ds_world s, [])
                         else stop_executors (dw_base W) 20 (open_ids W s) (ds_world s));
          s1 = dr_fail (unless (forced = []) (ForcedStop forced)) (s\<lparr>ds_world := w\<rparr>)
      in if da_dry_run a then (s1, Inr ()) else teardown_venue W a s1)"

text \<open>
  The handlers and the \<open>finally\<close>.  An exception of the teardown leaves at once; only then are the
  controller and the network left running.
\<close>

definition derisk_gate :: "'w derisk_world \<Rightarrow> derisk_args \<Rightarrow> 'w \<Rightarrow> 'w derisk \<times> (py_error + nat)" where
  "derisk_gate W a w =
     (case derisk_body W a \<lparr>ds_world = w, ds_executors = [], ds_failures = [], ds_phases = [], ds_raw = []\<rparr> of
        (s, res) \<Rightarrow>
          let s1 = (case res of
                 Inl (GateFailed e) \<Rightarrow> if e = system_exit then s else dr_fail [DeriskException e] s
               | _ \<Rightarrow> s)
          in case derisk_teardown W a s1 of
               (s2, Inl (GateFailed e)) \<Rightarrow> (s2, Inl e)
             | (s2, Inl DryRunComplete) \<Rightarrow> (s2, Inr 0)
             | (s2, Inr _) \<Rightarrow>
                 (dr_set (gt_off (dw_base W)) s2,
                  if res = Inl (GateFailed system_exit) then Inl system_exit
                  else Inr (if ds_failures s2 = [] then 0 else 1)))"

definition derisk_gate_main :: "environment \<Rightarrow> 'w derisk_world \<Rightarrow> derisk_args \<Rightarrow> 'w \<Rightarrow> 'w derisk option \<times> (py_error + nat)" where
  "derisk_gate_main env W a w =
     (if env ''OPMS_HB_MAINNET'' \<noteq> Some ''confirm'' \<or> env ''OPMS_HB_PLACE_ORDERS'' \<noteq> Some ''confirm'' then (None, Inr 2)
      else case derisk_gate W a w of (s, res) \<Rightarrow> (Some s, res))"

end
