(* ===== verification/DeriskGateProperties.thy ===== *)
theory DeriskGateProperties imports DeriskGate PerpControllerProperties begin

text \<open>
  What the de-risk gate guarantees: what a passed run has seen, that it never quotes, that its
  loops end at their deadlines, and what it does to an account it has refused.
\<close>

section \<open>What every step keeps\<close>

lemma gate_bind_inv:
  "P (fst m) \<Longrightarrow> (\<And>x t. P t \<Longrightarrow> P (fst (f x t))) \<Longrightarrow> P (fst (gate_bind m f))"
  by (auto simp: gate_bind_def split: prod.splits sum.splits)

lemma gate_bind_Pair: "gate_bind (s, Inl e) f = (s, Inl e)" "gate_bind (s, Inr x) f = f x s"
  by (simp_all add: gate_bind_def)

lemma unless_Nil [simp]: "unless ok f = [] \<longleftrightarrow> ok"
  by (simp add: unless_def)

lemma make_executors_configs: "make_executors W cs s = (s', Inr es) \<Longrightarrow> map snd es = cs"
proof (induction W cs s arbitrary: s' es rule: make_executors.induct)
  case (2 W c cs s)
  then show ?case by (auto simp: gate_bind_Inr)
qed simp

text \<open>
  A predicate that survives a change of the world, and executors that are no quotes, survives a
  whole phase; one that survives failures, phases and raw calls too survives the gate.
\<close>

locale derisk_invariant =
  fixes P :: "'w derisk \<Rightarrow> bool"
  assumes world: "P s \<Longrightarrow> P (s\<lparr>ds_world := w\<rparr>)"
    and grow: "P s \<Longrightarrow> \<forall>e\<in>set es. \<not> is_maker_config (snd e) \<Longrightarrow> P (s\<lparr>ds_executors := ds_executors s @ es\<rparr>)"
begin

lemmas bind_inv = gate_bind_inv[where P = P]

lemma dr_world_inv: "P s \<Longrightarrow> P (fst (dr_world f s))"
  using world by (auto simp: dr_world_def split: prod.split sum.split)

lemma dr_set_inv: "P s \<Longrightarrow> P (dr_set f s)"
  using world by (simp add: dr_set_def)

lemma dr_read_inv: "P s \<Longrightarrow> P (fst (dr_read f s))"
  by (simp add: dr_read_def split: sum.split)

lemma make_inv: "P s \<Longrightarrow> P (fst (make_executors W cs s))"
proof (induction W cs s rule: make_executors.induct)
  case (2 W c cs s)
  show ?case
    unfolding make_executors.simps by (intro bind_inv dr_world_inv 2) simp_all
qed simp

lemma add_inv:
  assumes "P s" "\<forall>c\<in>set cs. \<not> is_maker_config c"
  shows "P (fst (add_executors W cs s))"
proof (cases "make_executors W cs s")
  case (Pair t r)
  have t: "P t" using make_inv[OF assms(1), of W cs] Pair by simp
  show ?thesis
  proof (cases r)
    case (Inr es)
    have "map snd es = cs" using Pair Inr make_executors_configs by blast
    then have "\<forall>e\<in>set es. \<not> is_maker_config (snd e)" using assms(2) by fastforce
    with grow[OF t] show ?thesis by (simp add: add_executors_def Pair Inr gate_bind_Pair)
  qed (use t in \<open>simp add: add_executors_def Pair gate_bind_Pair\<close>)
qed

lemmas step_inv = bind_inv dr_world_inv dr_set_inv dr_read_inv add_inv

lemma open_inv: "P s \<Longrightarrow> P (fst (open_position W a s))"
  unfolding open_position_def Let_def
  by (intro step_inv) (simp_all add: open_config_def is_maker_config_def)

lemma cycle_inv: "P s \<Longrightarrow> P (fst (derisk_cycle W a acc s))"
  unfolding derisk_cycle_def Let_def by (intro step_inv) simp_all

lemma run_inv: "P s \<Longrightarrow> P (fst (run_cycles W a n deadline acc s))"
proof (induction n arbitrary: acc s)
  case (Suc n)
  show ?case
  proof (cases "gt_clock (dw_base W) (ds_world s) < deadline")
    case True
    have "P (fst (if \<bar>last_position acc'\<bar> < size_eps then (t, Inr (acc', True))
        else gate_bind (dr_world (poll_sleep W (da_address a, da_coin a) (nat \<lceil>da_cycle_s a\<rceil>) 1 (da_cycle_s a)) t)
          (\<lambda>oids u. run_cycles W a n deadline (acc'\<lparr>ca_log := ca_log acc' @ oids\<rparr>) u)))"
      if "P t" for t acc'
      using that by (auto intro!: bind_inv dr_world_inv Suc.IH)
    then show ?thesis using True Suc.prems by (auto intro!: bind_inv cycle_inv)
  next
    case False
    then show ?thesis using Suc.prems by (auto intro!: bind_inv dr_read_inv)
  qed
qed (auto intro!: bind_inv dr_read_inv)

lemma cycles_phase_inv: "P s \<Longrightarrow> P (fst (cycles_phase W a seconds wait_first seen s))"
  unfolding cycles_phase_def Let_def case_prod_beta
  by (intro step_inv run_inv) simp_all

lemma leaked_inv: "P s \<Longrightarrow> P (fst (leaked_positions W a others s))"
proof (induction W a others s rule: leaked_positions.induct)
  case (2 W a aid address others s)
  show ?case
    unfolding leaked_positions.simps by (intro bind_inv dr_read_inv 2) simp_all
qed simp

end

locale derisk_gate_invariant = derisk_invariant +
  assumes fail: "P s \<Longrightarrow> P (dr_fail fs s)"
    and phase: "P s \<Longrightarrow> P (dr_phase p s)"
    and raw: "P s \<Longrightarrow> P (s\<lparr>ds_raw := calls\<rparr>)"
begin

lemma halt_inv: "P s \<Longrightarrow> P (fst (dr_halt bad f s))"
  using fail by (simp add: dr_halt_def)

lemmas gate_inv = step_inv halt_inv fail phase raw open_inv cycles_phase_inv leaked_inv

lemma start_inv: "P s \<Longrightarrow> P (fst (start_derisk W a s))"
  unfolding start_derisk_def Let_def by (intro gate_inv)

lemma plan_inv: "P s \<Longrightarrow> P (fst (plan_phase W a s))"
  unfolding plan_phase_def by (auto intro!: gate_inv)

lemma open_phase_inv: "P s \<Longrightarrow> P (fst (open_phase W a s))"
  unfolding open_phase_def by (auto intro!: gate_inv)

lemma passive_inv: "P s \<Longrightarrow> P (fst (passive_phase W a s))"
  unfolding passive_phase_def by (auto intro!: gate_inv)

lemma emergency_inv: "P s \<Longrightarrow> P (fst (emergency_phase W a seen s))"
  unfolding emergency_phase_def by (auto intro!: gate_inv split: option.split)

lemma body_inv: "P s \<Longrightarrow> P (fst (derisk_body W a s))"
  unfolding derisk_body_def
  by (auto intro!: bind_inv start_inv plan_inv open_phase_inv passive_inv emergency_inv)

lemma cancel_inv: "P s \<Longrightarrow> P (fst (cancel_raw W oids s))"
  by (induction W oids s rule: cancel_raw.induct) (auto intro!: gate_inv)

lemma cleanup_after: "P (dr_fail [TeardownDirty left p] s) \<Longrightarrow> P (fst (raw_cleanup W a left p s))"
  unfolding raw_cleanup_def close_raw_def by (auto intro!: gate_inv cancel_inv split: sum.split)

lemma cleanup_inv: "P s \<Longrightarrow> P (fst (raw_cleanup W a left p s))"
  by (intro cleanup_after fail)

lemma teardown_inv: "P s \<Longrightarrow> P (fst (derisk_teardown W a s))"
  unfolding derisk_teardown_def teardown_venue_def Let_def
  using world by (auto intro!: gate_inv cleanup_inv simp del: unless_Nil split: prod.split)

end

definition never_quotes :: "'w derisk \<Rightarrow> bool" where
  "never_quotes s \<longleftrightarrow> (\<forall>e\<in>set (ds_executors s). \<not> is_maker_config (snd e))"

interpretation no_makers: derisk_gate_invariant never_quotes
  by unfold_locales (auto simp: never_quotes_def dr_fail_def dr_phase_def)

text \<open>What only the phases themselves touch.\<close>

definition same_report :: "'w derisk \<Rightarrow> 'w derisk \<Rightarrow> bool" where
  "same_report s t \<longleftrightarrow> ds_failures t = ds_failures s \<and> ds_phases t = ds_phases s \<and> ds_raw t = ds_raw s"

interpretation quiet: derisk_invariant "same_report s0" for s0
  by unfold_locales (auto simp: same_report_def)

section \<open>The gate never quotes\<close>

text \<open>
  C33: Whatever the venue, the controller and the executors answer, and however the run ends, the
  de-risk gate never starts a quote: no executor it holds is a LIMIT_MAKER order.
\<close>

theorem derisk_gate_never_quotes:
  "list_all (\<lambda>e. ec_strategy (snd e) \<noteq> Some LimitMaker) (ds_executors (fst (derisk_gate W a w)))"
proof -
  define s0 where "s0 = \<lparr>ds_world = w, ds_executors = [], ds_failures = [], ds_phases = [], ds_raw = []\<rparr>"
  have start: "never_quotes s0" by (simp add: s0_def never_quotes_def)
  have "never_quotes (fst (derisk_gate W a w))"
    unfolding derisk_gate_def s0_def[symmetric]
    using no_makers.body_inv[OF start, of W a]
    by (auto simp: Let_def split: prod.split sum.split gate_exn.split
        intro!: no_makers.dr_set_inv no_makers.fail dest: arg_cong[where f = fst] no_makers.teardown_inv)
      (metis no_makers.teardown_inv no_makers.fail fst_conv)+
  then show ?thesis by (simp add: never_quotes_def is_maker_config_def list_all_iff)
qed

section \<open>A refused account\<close>

lemma dr_simps [simp]:
  "ds_world (dr_fail fs s) = ds_world s" "ds_executors (dr_fail fs s) = ds_executors s" "ds_raw (dr_fail fs s) = ds_raw s"
  "ds_failures (dr_fail fs s) = ds_failures s @ fs" "ds_phases (dr_fail fs s) = ds_phases s"
  "ds_world (dr_phase p s) = ds_world s" "ds_executors (dr_phase p s) = ds_executors s" "ds_raw (dr_phase p s) = ds_raw s"
  "ds_failures (dr_phase p s) = ds_failures s" "ds_phases (dr_phase p s) = ds_phases s @ [p]"
  "ds_world (dr_set f s) = f (ds_world s)" "ds_executors (dr_set f s) = ds_executors s" "ds_raw (dr_set f s) = ds_raw s"
  "ds_failures (dr_set f s) = ds_failures s" "ds_phases (dr_set f s) = ds_phases s"
  by (simp_all add: dr_fail_def dr_phase_def dr_set_def)

text \<open>The executors and the failures already noted stay through the clean-up.\<close>

definition clean_up_keeps :: "'w derisk \<Rightarrow> 'w derisk \<Rightarrow> bool" where
  "clean_up_keeps s t \<longleftrightarrow> ds_executors t = ds_executors s \<and> (\<exists>fs. ds_failures t = ds_failures s @ fs)"

lemma cancel_raw_all:
  assumes "\<And>oid w. snd (gt_cancel (dw_base W) oid w) = Inr ()"
  shows "\<exists>w'. cancel_raw W oids s = (s\<lparr>ds_world := w', ds_raw := ds_raw s @ map RawCancel oids\<rparr>, Inr ())"
proof (induction oids arbitrary: s)
  case Nil
  have "s\<lparr>ds_world := ds_world s, ds_raw := ds_raw s @ map RawCancel []\<rparr> = s" by simp
  then show ?case by (metis cancel_raw.simps(1))
next
  case (Cons oid oids)
  obtain w' where "gt_cancel (dw_base W) oid (ds_world s) = (w', Inr ())"
    using assms[of oid "ds_world s"] by (metis prod.collapse)
  then have "cancel_raw W (oid # oids) s = cancel_raw W oids (s\<lparr>ds_world := w', ds_raw := ds_raw s @ [RawCancel oid]\<rparr>)"
    by (cases s) (simp add: dr_world_def gate_bind_Pair)
  with Cons[of "s\<lparr>ds_world := w', ds_raw := ds_raw s @ [RawCancel oid]\<rparr>"] show ?case by auto
qed

lemma raw_cleanup_calls:
  assumes "gt_signer (dw_base W) = Inr signer" "\<And>oid w. snd (gt_cancel (dw_base W) oid w) = Inr ()"
  shows "ds_raw (fst (raw_cleanup W a left p s)) = ds_raw s @ map RawCancel (sorted_list_of_set left) @ (if p = 0 then [] else [RawClose])
    \<and> clean_up_keeps s (fst (raw_cleanup W a left p s))"
proof -
  obtain w' where c: "cancel_raw W (sorted_list_of_set left) (dr_fail [TeardownDirty left p] s)
      = ((dr_fail [TeardownDirty left p] s)\<lparr>ds_world := w', ds_raw := ds_raw s @ map RawCancel (sorted_list_of_set left)\<rparr>, Inr ())"
    using cancel_raw_all[OF assms(2), of "sorted_list_of_set left" "dr_fail [TeardownDirty left p] s"] by auto
  define u where "u = (dr_fail [TeardownDirty left p] s)\<lparr>ds_world := w', ds_raw := ds_raw s @ map RawCancel (sorted_list_of_set left)\<rparr>"
  have u: "ds_raw u = ds_raw s @ map RawCancel (sorted_list_of_set left)" "clean_up_keeps s u"
    by (simp_all add: u_def clean_up_keeps_def)
  have close: "ds_raw (fst (close_raw W p u)) = ds_raw u @ (if p = 0 then [] else [RawClose]) \<and> clean_up_keeps s (fst (close_raw W p u))"
    using u(2) by (auto simp: close_raw_def dr_world_def clean_up_keeps_def split: prod.split sum.split)
  have read: "ds_raw (fst (gate_bind (dr_read f t) (\<lambda>x v. gate_bind (dr_read g v) (\<lambda>y v. (dr_fail (fs x y) v, Inr ()))))) = ds_raw t
      \<and> (clean_up_keeps s t \<longrightarrow> clean_up_keeps s (fst (gate_bind (dr_read f t) (\<lambda>x v. gate_bind (dr_read g v) (\<lambda>y v. (dr_fail (fs x y) v, Inr ()))))))"
    for f :: "'a \<Rightarrow> py_error + int set" and g :: "'a \<Rightarrow> py_error + real" and fs t
    by (auto simp: dr_read_def gate_bind_Pair clean_up_keeps_def split: sum.split)
  obtain v r where v: "close_raw W p u = (v, r)" by (metis surj_pair)
  have "raw_cleanup W a left p s = gate_bind (v, r) (\<lambda>_ s.
      gate_bind (dr_read (resting_at W a) (dr_set (gt_sleep (dw_base W) 3) s)) (\<lambda>left s.
      gate_bind (dr_read (position_at W a (da_address a)) s) (\<lambda>p s.
        (dr_fail (unless (left = {} \<and> p = 0) (StillDirty left p)) s, Inr ()))))"
    by (simp add: raw_cleanup_def assms(1) c gate_bind_Pair u_def[symmetric] v)
  with close read[of "resting_at W a" "dr_set (gt_sleep (dw_base W) 3) v"] u v show ?thesis
    by (cases r) (simp_all add: gate_bind_Pair clean_up_keeps_def)
qed

text \<open>
  C32: An account the gate refuses because it already has orders or a position is emptied all the
  same: nothing was placed, but the teardown cancels, through the raw exchange, every order it
  finds on the account and closes the position it finds, whoever put them there.
\<close>

theorem refused_account_is_emptied:
  assumes connected: "dw_connect W w = (w1, Inr ())"
    "wait_ready W (nat \<lceil>da_timeout a\<rceil>) (gt_clock (dw_base W) w1 + da_timeout a) w1 = (w2, Inr mid)"
    and dirty: "position_at W a (da_address a) w2 = Inr p" "resting_at W a w2 = Inr oids" "p \<noteq> 0 \<or> oids \<noteq> {}"
    and found: "position_at W a (da_address a) (gt_sleep (dw_base W) 2 w2) = Inr q"
      "resting_at W a (gt_sleep (dw_base W) 2 w2) = Inr left"
    and exchange: "gt_signer (dw_base W) = Inr signer" "\<And>oid w. snd (gt_cancel (dw_base W) oid w) = Inr ()"
    and real_run: "\<not> da_dry_run a"
  shows "DirtyStart p oids \<in> set (ds_failures (fst (derisk_gate W a w)))
    \<and> ds_executors (fst (derisk_gate W a w)) = []
    \<and> ds_raw (fst (derisk_gate W a w)) = map RawCancel (sorted_list_of_set left) @ (if q = 0 then [] else [RawClose])"
proof -
  let ?s = "\<lparr>ds_world = w2, ds_executors = [], ds_failures = [DirtyStart p oids, DeriskException RuntimeError], ds_phases = [], ds_raw = []\<rparr>"
  have body: "derisk_body W a \<lparr>ds_world = w, ds_executors = [], ds_failures = [], ds_phases = [], ds_raw = []\<rparr>
      = (?s\<lparr>ds_failures := [DirtyStart p oids]\<rparr>, Inl (GateFailed RuntimeError))"
    using connected dirty
    by (simp add: derisk_body_def start_derisk_def dr_world_def dr_read_def gate_bind_Pair dr_halt_def dr_fail_def)
  have tear: "derisk_teardown W a ?s = (if left \<noteq> {} \<or> q \<noteq> 0 then raw_cleanup W a left q (dr_set (gt_sleep (dw_base W) 2) ?s)
      else (dr_set (gt_sleep (dw_base W) 2) ?s, Inr ()))"
    using found real_run
    by (simp add: derisk_teardown_def teardown_venue_def dr_read_def gate_bind_Pair dr_fail_def unless_def dr_set_def)
  obtain t r where t: "derisk_teardown W a ?s = (t, r)" by (metis surj_pair)
  have "ds_raw t = map RawCancel (sorted_list_of_set left) @ (if q = 0 then [] else [RawClose]) \<and> clean_up_keeps ?s t"
  proof (cases "left \<noteq> {} \<or> q \<noteq> 0")
    case True
    then have "t = fst (raw_cleanup W a left q (dr_set (gt_sleep (dw_base W) 2) ?s))" using tear t by (metis fst_conv)
    then show ?thesis
      using raw_cleanup_calls[OF exchange, of a left q "dr_set (gt_sleep (dw_base W) 2) ?s"] by (simp add: clean_up_keeps_def)
  next
    case False
    then show ?thesis using tear t by (auto simp: clean_up_keeps_def)
  qed
  moreover have "fst (derisk_gate W a w) = t \<or> fst (derisk_gate W a w) = dr_set (gt_off (dw_base W)) t"
    unfolding derisk_gate_def body
    by (simp add: dr_fail_def t Let_def split: sum.split gate_exn.split)
  ultimately show ?thesis by (auto simp: clean_up_keeps_def)
qed

section \<open>A passed gate\<close>

lemma same_report_refl: "same_report s s"
  by (simp add: same_report_def)

lemma same_report_results:
  "dr_world f s = (t, r1) \<Longrightarrow> same_report s t" "dr_read g s = (t, r2) \<Longrightarrow> t = s"
  "open_position W a s = (t, r3) \<Longrightarrow> same_report s t" "cycles_phase W a secs wt seen s = (t, r4) \<Longrightarrow> same_report s t"
  using quiet.dr_world_inv[where f = f, OF same_report_refl[of s]] quiet.open_inv[where W = W and a = a, OF same_report_refl[of s]]
    quiet.cycles_phase_inv[where W = W and a = a and seconds = secs and wait_first = wt and seen = seen, OF same_report_refl[of s]]
  by (auto simp: dr_read_def split: sum.splits)

lemma leaked_positions_frame: "leaked_positions W a others s = (t, r) \<Longrightarrow> t = s"
proof (induction W a others s arbitrary: t r rule: leaked_positions.induct)
  case (2 W a aid address others s)
  from 2(2) show ?case by (cases r) (auto simp: gate_bind_Inr gate_bind_Inl dest!: same_report_results(2) 2(1))
qed simp

lemma halt_Inr: "dr_halt bad f s = (t, Inr u) \<longleftrightarrow> \<not> bad \<and> t = s"
  by (auto simp: dr_halt_def)

lemma start_passed: "start_derisk W a s = (t, Inr u) \<Longrightarrow> same_report s t"
  unfolding start_derisk_def gate_bind_Inr halt_Inr Let_def
  by (auto simp: same_report_def dest!: same_report_results)

lemma plan_passed:
  "plan_phase W a s = (t, Inr u) \<Longrightarrow> ds_failures t = ds_failures s \<and> ds_raw t = ds_raw s
     \<and> (\<exists>p e. ds_phases t = ds_phases s @ [PlanPhase p e])"
  unfolding plan_phase_def gate_bind_Inr
  by (auto simp: same_report_def split: if_splits dest!: same_report_results)

lemma open_passed:
  assumes "open_phase W a s = (t, Inr u)" "ds_failures t = []"
  shows "ds_failures s = [] \<and> ds_raw t = ds_raw s
    \<and> (\<exists>o1. ds_phases t = ds_phases s @ [OpenPhase o1] \<and> oe_venue_ok o1 \<and> oe_reconciled o1 \<and> oe_fill_seen o1)"
  using assms unfolding open_phase_def gate_bind_Inr halt_Inr
  by (auto simp: same_report_def dest!: same_report_results leaked_positions_frame)

lemma one_of: "xs \<noteq> [] \<Longrightarrow> length xs \<le> 1 \<Longrightarrow> \<exists>x. xs = [x]"
  by (cases xs) auto

lemma derisk_verdict_clean:
  assumes "derisk_verdict completed ev = []"
  shows "(\<exists>pa. passive_executors (ce_created ev) = [pa] \<and> passive_ok (snd pa) \<and> completed pa)
    \<and> ce_failures ev = 0 \<and> ce_flat ev \<and> (ce_rested ev \<noteq> [] \<or> ce_log ev \<noteq> []) \<and> 1 \<le> ce_fills ev
    \<and> equity_drift (ce_samples ev) = None \<and> list_all (\<lambda>x. so_action x = CLOSE) (ce_orders ev)"
  using assms unfolding derisk_verdict_def Let_def
  by (auto dest!: one_of split: if_splits option.splits)

lemma emergency_verdict_clean:
  assumes "emergency_verdict deadline ev = []"
  shows "(\<exists>e. ce_created ev = [e] \<and> ec_time_limit (snd e) = Some 5
        \<and> (filter so_market (ce_orders ev) \<noteq> [] \<longrightarrow>
             round1 (so_ts (hd (filter so_market (ce_orders ev))) - ec_timestamp (snd e)) \<le> 10))
    \<and> ce_failures ev = 0 \<and> (\<exists>m ms. ce_samples ev = m # ms \<and> sm_urgency m = Some Emergency)
    \<and> ce_flat ev \<and> ce_seconds ev \<le> deadline \<and> list_all (\<lambda>x. so_action x = CLOSE) (ce_orders ev)"
proof -
  have one: "\<exists>e. ce_created ev = [e]"
    using assms unfolding emergency_verdict_def Let_def by (intro one_of) auto
  then obtain e where "ce_created ev = [e]" by blast
  with assms show ?thesis
    unfolding emergency_verdict_def Let_def by (auto split: if_splits list.splits)
qed

lemma passive_passed:
  assumes "passive_phase W a s = (t, Inr (flat, seen))" "ds_failures t = []"
  shows "ds_failures s = [] \<and> ds_raw t = ds_raw s
    \<and> (\<exists>ev. ds_phases t = ds_phases s @ [DeriskPhase ev] \<and> flat = ce_flat ev
         \<and> derisk_verdict (pa_outcome_true W (ds_world t)) ev = [])"
  using assms unfolding passive_phase_def gate_bind_Inr
  by (auto simp: same_report_def dest!: same_report_results)

lemma emergency_passed:
  assumes "emergency_phase W a seen s = (t, Inr u)" "ds_failures t = []"
  shows "ds_failures s = [] \<and> ds_raw t = ds_raw s
    \<and> (\<exists>o2 ev. ds_phases t = ds_phases s @ [ReopenPhase o2, EmergencyPhase ev] \<and> oe_venue_ok o2 \<and> oe_reconciled o2
         \<and> emergency_verdict (da_deadline a) ev = [])"
  using assms unfolding emergency_phase_def gate_bind_Inr halt_Inr
  by (auto simp: same_report_def gate_bind_Inr halt_Inr split: option.splits dest!: same_report_results)

text \<open>The teardown adds failures and ends no dry run.\<close>

interpretation failures_grow: derisk_gate_invariant "\<lambda>t. \<exists>fs. ds_failures t = ds_failures s0 @ fs" for s0
  by unfold_locales (auto simp: dr_fail_def dr_phase_def)

lemma no_dry_derisk [simp]:
  "dr_world f s \<noteq> (t, Inl DryRunComplete)" "dr_read g s \<noteq> (t, Inl DryRunComplete)" "dr_halt bad h s \<noteq> (t, Inl DryRunComplete)"
  by (auto simp: dr_world_def dr_read_def dr_halt_def split: prod.splits sum.splits)

lemma no_dry_make [simp]: "make_executors W cs s \<noteq> (t, Inl DryRunComplete)"
  by (induction W cs s rule: make_executors.induct) (auto simp: gate_bind_Inl)

lemma no_dry_open [simp]: "open_position W a s \<noteq> (t, Inl DryRunComplete)"
  by (auto simp: open_position_def add_executors_def gate_bind_Inl Let_def)

lemma no_dry_cycle [simp]: "derisk_cycle W a acc s \<noteq> (t, Inl DryRunComplete)"
  by (auto simp: derisk_cycle_def add_executors_def gate_bind_Inl Let_def)

lemma no_dry_run_cycles [simp]: "run_cycles W a n deadline acc s \<noteq> (t, Inl DryRunComplete)"
  by (induction n arbitrary: acc s) (auto simp: gate_bind_Inl)

lemma no_dry_leaked [simp]: "leaked_positions W a others s \<noteq> (t, Inl DryRunComplete)"
  by (induction W a others s rule: leaked_positions.induct) (auto simp: gate_bind_Inl)

lemma derisk_dry_only_when_dry: "derisk_body W a s = (t, Inl DryRunComplete) \<Longrightarrow> da_dry_run a"
  by (auto simp: derisk_body_def start_derisk_def plan_phase_def open_phase_def passive_phase_def emergency_phase_def
      cycles_phase_def gate_bind_Inl Let_def split: if_splits option.splits prod.splits)

lemma no_dry_cancel_raw [simp]: "cancel_raw W oids s \<noteq> (t, Inl DryRunComplete)"
  by (induction W oids s rule: cancel_raw.induct) (auto simp: gate_bind_Inl)

lemma no_dry_teardown [simp]: "derisk_teardown W a s \<noteq> (t, Inl DryRunComplete)"
  by (auto simp: derisk_teardown_def teardown_venue_def raw_cleanup_def close_raw_def gate_bind_Inl Let_def
      split: if_splits sum.splits prod.splits)

lemma teardown_clean:
  assumes "derisk_teardown W a s = (t, Inr u)" "ds_failures t = []" "\<not> da_dry_run a"
  shows "ds_failures s = [] \<and> ds_raw t = ds_raw s \<and> ds_phases t = ds_phases s
    \<and> resting_at W a (ds_world t) = Inr {} \<and> position_at W a (da_address a) (ds_world t) = Inr 0"
proof -
  obtain fs where "ds_failures t = ds_failures s @ fs"
    using failures_grow.teardown_inv[where s = s and ?s0.0 = s and W = W and a = a] assms(1) by auto
  then have none: "ds_failures s = []" using assms(2) by simp
  obtain w forced where stop: "(if ds_executors s = [] then (ds_world s, []) else stop_executors (dw_base W) 20 (open_ids W s) (ds_world s)) = (w, forced)"
    by (metis surj_pair)
  let ?s = "dr_set (gt_sleep (dw_base W) 2) (dr_fail (unless (forced = []) (ForcedStop forced)) (s\<lparr>ds_world := w\<rparr>))"
  from assms(1,3) have "teardown_venue W a (dr_fail (unless (forced = []) (ForcedStop forced)) (s\<lparr>ds_world := w\<rparr>)) = (t, Inr u)"
    by (simp add: derisk_teardown_def stop)
  then obtain left p where read: "resting_at W a (ds_world ?s) = Inr left" "position_at W a (da_address a) (ds_world ?s) = Inr p"
    and rest: "(if left \<noteq> {} \<or> p \<noteq> 0 then raw_cleanup W a left p ?s else (?s, Inr ())) = (t, Inr u)"
    by (auto simp: teardown_venue_def gate_bind_Inr dr_read_def split: sum.splits)
  have "\<not> (left \<noteq> {} \<or> p \<noteq> 0)"
  proof
    assume "left \<noteq> {} \<or> p \<noteq> 0"
    with rest have "raw_cleanup W a left p ?s = (t, Inr u)" by simp
    then have "\<exists>fs. ds_failures t = ds_failures (dr_fail [TeardownDirty left p] ?s) @ fs"
      using failures_grow.cleanup_after[where ?s0.0 = "dr_fail [TeardownDirty left p] ?s" and s = ?s and left = left and p = p
          and W = W and a = a] by simp
    with assms(2) show False by simp
  qed
  with rest read none show ?thesis by auto
qed

text \<open>What a complete report says: both phases, with the verdicts' conditions written out.\<close>

definition passive_story :: "'w derisk_world \<Rightarrow> cycles_evidence \<Rightarrow> bool" where
  "passive_story W ev \<longleftrightarrow>
     (\<exists>pa v. passive_executors (ce_created ev) = [pa] \<and> ec_time_limit (snd pa) = Some 60 \<and> ec_action (snd pa) = CLOSE
        \<and> pa_outcome_true W v pa)
     \<and> ce_flat ev \<and> ce_failures ev = 0 \<and> (ce_rested ev \<noteq> [] \<or> ce_log ev \<noteq> []) \<and> 1 \<le> ce_fills ev
     \<and> equity_drift (ce_samples ev) = None \<and> list_all (\<lambda>x. so_action x = CLOSE) (ce_orders ev)"

definition emergency_story :: "real \<Rightarrow> cycles_evidence \<Rightarrow> bool" where
  "emergency_story deadline ev \<longleftrightarrow>
     (\<exists>e. ce_created ev = [e] \<and> ec_time_limit (snd e) = Some 5
        \<and> (filter so_market (ce_orders ev) \<noteq> [] \<longrightarrow>
             round1 (so_ts (hd (filter so_market (ce_orders ev))) - ec_timestamp (snd e)) \<le> 10))
     \<and> (\<exists>m ms. ce_samples ev = m # ms \<and> sm_urgency m = Some Emergency) \<and> ce_failures ev = 0
     \<and> ce_flat ev \<and> ce_seconds ev \<le> deadline \<and> list_all (\<lambda>x. so_action x = CLOSE) (ce_orders ev)"

lemma stories:
  "derisk_verdict (pa_outcome_true W v) ev = [] \<Longrightarrow> passive_story W ev"
  "emergency_verdict deadline ev = [] \<Longrightarrow> emergency_story deadline ev"
  using derisk_verdict_clean[of "pa_outcome_true W v" ev] emergency_verdict_clean[of deadline ev]
  unfolding passive_story_def emergency_story_def passive_ok_def by blast+

lemma derisk_body_passed:
  assumes b: "derisk_body W a s0 = (s1, Inr ())" and f1: "ds_failures s1 = []" and new: "ds_phases s0 = []" "ds_raw s0 = []"
  shows "ds_raw s1 = [] \<and> (\<exists>plan emergency o1 ev1 o2 ev2.
      ds_phases s1 = [PlanPhase plan emergency, OpenPhase o1, DeriskPhase ev1, ReopenPhase o2, EmergencyPhase ev2]
      \<and> oe_venue_ok o1 \<and> oe_reconciled o1 \<and> oe_fill_seen o1 \<and> passive_story W ev1
      \<and> oe_venue_ok o2 \<and> oe_reconciled o2 \<and> emergency_story (da_deadline a) ev2)"
proof -
  from b[unfolded derisk_body_def gate_bind_Inr] obtain t1 t2 t3 t4 flat seen where run:
    "start_derisk W a s0 = (t1, Inr ())" "plan_phase W a t1 = (t2, Inr ())" "open_phase W a t2 = (t3, Inr ())"
    "passive_phase W a t3 = (t4, Inr (flat, seen))"
    "(if flat then emergency_phase W a seen t4 else (t4, Inr ())) = (s1, Inr ())"
    by auto
  have f4: "ds_failures t4 = []" using run(5) f1 emergency_passed[of W a seen t4 s1] by (auto split: if_splits)
  obtain ev1 where p: "ds_failures t3 = []" "ds_raw t4 = ds_raw t3" "ds_phases t4 = ds_phases t3 @ [DeriskPhase ev1]"
    "flat = ce_flat ev1" "derisk_verdict (pa_outcome_true W (ds_world t4)) ev1 = []"
    using passive_passed[OF run(4) f4] by blast
  note d = stories(1)[OF p(5)]
  obtain o2 ev2 where e: "ds_raw s1 = ds_raw t4" "ds_phases s1 = ds_phases t4 @ [ReopenPhase o2, EmergencyPhase ev2]"
    "oe_venue_ok o2" "oe_reconciled o2" "emergency_verdict (da_deadline a) ev2 = []"
    using emergency_passed[OF _ f1, of W a seen t4] run(5) p(4) d by (auto simp: passive_story_def)
  have st: "ds_phases t1 = []" "ds_raw t1 = []" using start_passed[OF run(1)] new by (simp_all add: same_report_def)
  from open_passed[OF run(3) p(1)] plan_passed[OF run(2)] st show ?thesis
    using e(1-4) p(2,3) d stories(2)[OF e(5)] by auto
qed


section \<open>The controller's plan\<close>

text \<open>
  The configurations the gate insists on are the ones the controller builds: for a reduce-only
  sell of the opened size the passive plan is a closing executor on the 60-second cycle and, from
  the venue's minimum size on, the emergency plan is the 5-second one, so that planning passes; for a
  smaller size the emergency plan is a market order without a child quantity and the gate fails
  while printing it, before anything was opened.
\<close>

theorem controller_plan_meets_the_gate:
  assumes plan: "\<And>u w. dw_plan W u w = Inr (planned_config cfg cy a u)"
    and started: "gt_on_start (dw_base W) (ds_world s) = (w, Inr ())"
  shows "passive_ok (planned_config cfg cy a Normal)
    \<and> passive_executors [(i, planned_config cfg cy a Normal)] = [(i, planned_config cfg cy a Normal)]
    \<and> (min_order_size (cy_rules cy) \<le> da_open_size a \<longrightarrow>
         ec_time_limit (planned_config cfg cy a Emergency) = Some 5 \<and> ec_action (planned_config cfg cy a Emergency) = CLOSE)
    \<and> snd (plan_phase W a s) =
        (if da_open_size a < min_order_size (cy_rules cy) then Inl (GateFailed attribute_error)
         else if da_dry_run a then Inl DryRunComplete else Inr ())"
  by (simp add: planned_config_def passive_ok_def passive_executors_def execution_config_def pa_exec_config_def
      market_exec_config_def Let_def plan_phase_def dr_world_def started gate_bind_Pair dr_read_def plan)

section \<open>Equity marks the position\<close>

lemma cash_by_size_spec:
  "distinct (map fst (cash_by_size ms))
   \<and> (\<forall>p. map_of (cash_by_size ms) p =
       (let l = map cash_of (filter (\<lambda>m. size_eps < \<bar>sm_position m\<bar> \<and> sm_position m = p) ms) in if l = [] then None else Some l))"
proof (induction ms rule: rev_induct)
  case (snoc m ms)
  define d where "d = cash_by_size ms"
  have step: "cash_by_size (ms @ [m]) = (if size_eps < \<bar>sm_position m\<bar>
      then AList.update (sm_position m) (case map_of d (sm_position m) of Some l \<Rightarrow> l @ [cash_of m] | None \<Rightarrow> [cash_of m]) d else d)"
    by (simp add: cash_by_size_def d_def)
  have "distinct (map fst (cash_by_size (ms @ [m])))"
    using snoc unfolding step d_def[symmetric] by (simp add: distinct_keys_update)
  with snoc show ?case
    unfolding step d_def[symmetric] by (auto simp: Let_def split: option.split)
qed (simp add: cash_by_size_def)

lemma spread_wide:
  assumes "(l :: real list) \<noteq> []"
  shows "1 < length l \<and> 1 / 1000 < Max (set l) - Min (set l) \<longleftrightarrow> (\<exists>x\<in>set l. \<exists>y\<in>set l. 1 / 1000 < x - y)"
proof
  assume "1 < length l \<and> 1 / 1000 < Max (set l) - Min (set l)"
  then show "\<exists>x\<in>set l. \<exists>y\<in>set l. 1 / 1000 < x - y" using assms by (metis List.finite_set Max_in Min_in set_empty)
next
  assume "\<exists>x\<in>set l. \<exists>y\<in>set l. 1 / 1000 < x - y"
  then obtain x y where xy: "x \<in> set l" "y \<in> set l" "1 / 1000 < x - y" by blast
  have "x - y \<le> Max (set l) - Min (set l)" using xy by (simp add: diff_mono)
  moreover have "1 < length l" using xy by (cases l; cases "tl l") auto
  ultimately show "1 < length l \<and> 1 / 1000 < Max (set l) - Min (set l)" using xy by linarith
qed

text \<open>
  The equity check groups the samples by position and compares extremes; it passes exactly
  when any two samples taken at the same open position agree on the cash to a tenth of a cent.
\<close>

theorem equity_check_compares_all_pairs:
  "equity_drift ms = None \<longleftrightarrow>
     (\<forall>m\<in>set ms. \<forall>n\<in>set ms. size_eps < \<bar>sm_position m\<bar> \<and> sm_position n = sm_position m \<longrightarrow> cash_of m - cash_of n \<le> 1 / 1000)"
proof -
  define cashes where "cashes p = map cash_of (filter (\<lambda>m. size_eps < \<bar>sm_position m\<bar> \<and> sm_position m = p) ms)" for p
  have entries: "(p, l) \<in> set (cash_by_size ms) \<longleftrightarrow> cashes p \<noteq> [] \<and> l = cashes p" for p l
    using cash_by_size_spec[of ms] by (auto simp: map_of_eq_Some_iff[symmetric] cashes_def Let_def)
  have "equity_drift ms = None \<longleftrightarrow> (\<forall>p. cashes p \<noteq> [] \<longrightarrow> \<not> (1 < length (cashes p) \<and> 1 / 1000 < Max (set (cashes p)) - Min (set (cashes p))))"
    unfolding equity_drift_def by (auto simp: find_None_iff entries)
  also have "\<dots> \<longleftrightarrow> (\<forall>p. \<forall>x\<in>set (cashes p). \<forall>y\<in>set (cashes p). x - y \<le> 1 / 1000)"
    using spread_wide by (metis empty_iff list.set(1) not_le)
  also have "\<dots> \<longleftrightarrow> (\<forall>m\<in>set ms. \<forall>n\<in>set ms. size_eps < \<bar>sm_position m\<bar> \<and> sm_position n = sm_position m \<longrightarrow> cash_of m - cash_of n \<le> 1 / 1000)"
    by (auto simp: cashes_def)
  finally show ?thesis .
qed

section \<open>The loops end at their deadlines\<close>

text \<open>A clock that a sleep moves by its length at least and that no call moves back.\<close>

definition clock_ok :: "'w derisk_world \<Rightarrow> bool" where
  "clock_ok W \<longleftrightarrow>
     (let clock = gt_clock (dw_base W) in
      (\<forall>t w. 0 \<le> t \<longrightarrow> clock w + t \<le> clock (gt_sleep (dw_base W) t w))
      \<and> (\<forall>w. clock w \<le> clock (fst (gt_update (dw_base W) w))) \<and> (\<forall>w. clock w \<le> clock (fst (dw_decide W w)))
      \<and> (\<forall>c w. clock w \<le> clock (fst (dw_create W c w))) \<and> (\<forall>i w. clock w \<le> clock (gt_early_stop (dw_base W) i w))
      \<and> (\<forall>is w. clock w \<le> clock (dw_report W is w)))"

abbreviation clock_of :: "'w derisk_world \<Rightarrow> 'w derisk \<Rightarrow> real" where
  "clock_of W s \<equiv> gt_clock (dw_base W) (ds_world s)"

lemma clock_sleep: "clock_ok W \<Longrightarrow> 0 \<le> t \<Longrightarrow> gt_clock (dw_base W) w + t \<le> gt_clock (dw_base W) (gt_sleep (dw_base W) t w)"
  by (simp add: clock_ok_def Let_def)

lemma wait_for_fuel:
  assumes "clock_ok W" "0 < interval"
  shows "deadline - gt_clock (dw_base W) w \<le> real n * interval \<Longrightarrow>
    wait_for W p (n + k) interval deadline w = wait_for W p n interval deadline w"
proof (induction n arbitrary: w)
  case 0
  then show ?case by (cases k) simp_all
next
  case (Suc n)
  let ?w = "gt_sleep (dw_base W) interval w"
  have "deadline - gt_clock (dw_base W) ?w \<le> real n * interval"
    using clock_sleep[OF assms(1), of interval w] assms(2) Suc.prems by (simp add: algebra_simps)
  from Suc.IH[OF this] show ?case by (simp split: sum.split bool.split)
qed

lemma poll_sleep_clock:
  assumes "clock_ok W" "0 < poll"
  shows "poll_sleep W ac n poll remaining w = (w', Inr oids) \<Longrightarrow> remaining \<le> real n * poll \<Longrightarrow>
    gt_clock (dw_base W) w + remaining \<le> gt_clock (dw_base W) w'"
proof (induction n arbitrary: remaining w oids)
  case (Suc n)
  show ?case
  proof (cases "0 < remaining")
    case True
    let ?m = "min poll remaining"
    from Suc.prems(1) True obtain rest where rest:
      "poll_sleep W ac n poll (remaining - ?m) (gt_sleep (dw_base W) ?m w) = (w', Inr rest)"
      by (auto split: sum.splits prod.splits)
    have "remaining - ?m \<le> real n * poll" using Suc.prems(2) assms(2) by (auto simp: min_def algebra_simps)
    from Suc.IH[OF rest this] clock_sleep[OF assms(1), of ?m w] True assms(2) show ?thesis by simp
  qed (use Suc.prems in auto)
qed simp

lemma clock_make: "clock_ok W \<Longrightarrow> c \<le> clock_of W s \<Longrightarrow> c \<le> clock_of W (fst (make_executors W cs s))"
proof (induction cs arbitrary: s)
  case (Cons x cs)
  have "clock_of W s \<le> clock_of W (fst (dr_world (dw_create W x) s))"
    using Cons.prems(1) by (auto simp: clock_ok_def Let_def dr_world_def split: prod.split sum.split)
      (metis fst_conv)+
  with Cons show ?case
    unfolding make_executors.simps
    by (intro gate_bind_inv[where P = "\<lambda>t. c \<le> clock_of W t"]) auto
qed simp

lemma clock_early_stops: "clock_ok W \<Longrightarrow> gt_clock (dw_base W) w \<le> gt_clock (dw_base W) (fold (gt_early_stop (dw_base W)) is w)"
proof (induction "is" arbitrary: w)
  case (Cons i "is")
  have "gt_clock (dw_base W) w \<le> gt_clock (dw_base W) (gt_early_stop (dw_base W) i w)"
    using Cons.prems by (simp add: clock_ok_def Let_def)
  also note Cons.IH[OF Cons.prems, of "gt_early_stop (dw_base W) i w"]
  finally show ?case by simp
qed simp

lemma clock_world:
  "(\<And>w. gt_clock (dw_base W) w \<le> gt_clock (dw_base W) (fst (f w))) \<Longrightarrow> c \<le> clock_of W s \<Longrightarrow> c \<le> clock_of W (fst (dr_world f s))"
  by (auto simp: dr_world_def split: prod.split sum.split) (metis fst_conv order_trans)+

lemma clock_cycle:
  assumes "clock_ok W" "c \<le> clock_of W s"
  shows "c \<le> clock_of W (fst (derisk_cycle W a acc s))"
proof -
  note ok = assms(1)[unfolded clock_ok_def Let_def]
  have set: "c \<le> clock_of W (dr_set (dw_report W is) t)" if "c \<le> clock_of W t" for "is" t
    using ok that by (auto intro: order_trans)
  have stops: "c \<le> clock_of W (dr_set (fold (gt_early_stop (dw_base W)) is) t)" if "c \<le> clock_of W t" for "is" t
    using clock_early_stops[OF assms(1)] that by (auto intro: order_trans)
  have read: "c \<le> clock_of W (fst (dr_read g t))" if "c \<le> clock_of W t" for g :: "'a \<Rightarrow> py_error + 'x" and t
    using that by (simp add: dr_read_def split: sum.split)
  have add: "c \<le> clock_of W (fst (add_executors W cs t))" if "c \<le> clock_of W t" for cs t
    unfolding add_executors_def
    by (rule gate_bind_inv[where P = "\<lambda>t. c \<le> clock_of W t"]) (use clock_make[OF assms(1) that] in simp_all)
  note bind = gate_bind_inv[where P = "\<lambda>t. c \<le> clock_of W t"]
  show ?thesis
    unfolding derisk_cycle_def Let_def
    by (intro bind clock_world set stops add) (use ok assms(2) in \<open>auto simp: dr_read_def split: sum.split\<close>)
qed

lemma run_cycles_fuel:
  assumes "clock_ok W" "0 < da_cycle_s a"
  shows "deadline - clock_of W s \<le> real n * da_cycle_s a \<Longrightarrow>
    run_cycles W a (n + k) deadline acc s = run_cycles W a n deadline acc s"
proof (induction n arbitrary: acc s)
  case 0
  then show ?case by (cases k) simp_all
next
  case (Suc n)
  let ?sleep = "dr_world (poll_sleep W (da_address a, da_coin a) (nat \<lceil>da_cycle_s a\<rceil>) 1 (da_cycle_s a))"
  have later: "run_cycles W a (n + k) deadline acc'' v = run_cycles W a n deadline acc'' v"
    if "derisk_cycle W a acc s = (t, Inr acc')" "?sleep t = (v, Inr oids)" for t acc' v oids acc''
  proof -
    have "clock_of W s \<le> clock_of W t" using clock_cycle[OF assms(1) order_refl, of s a acc] that(1) by simp
    moreover have "clock_of W t + da_cycle_s a \<le> clock_of W v"
      using poll_sleep_clock[OF assms(1), of 1 "(da_address a, da_coin a)" "nat \<lceil>da_cycle_s a\<rceil>" "da_cycle_s a" "ds_world t"]
        that(2) assms(2) by (auto simp: dr_world_def split: prod.splits sum.splits)
    ultimately have "deadline - clock_of W v \<le> real n * da_cycle_s a" using Suc.prems by (simp add: algebra_simps)
    then show ?thesis by (rule Suc.IH)
  qed
  show ?case
    using later by (auto simp: gate_bind_def split: prod.split sum.split)
qed

text \<open>
  C34: The loops of the gate end at their deadlines: with a clock that sleeping moves on and nothing
  moves back, more passes than the deadline has room for change nothing, neither when waiting for
  a condition nor in the control cycles, so the number of passes the model allows is no limit.
\<close>

theorem gate_loops_end_at_their_deadlines:
  assumes "clock_ok W" "0 < interval" "0 < da_cycle_s a"
  shows "(nat \<lceil>timeout / interval\<rceil> \<le> m \<longrightarrow>
      wait_for W p m interval (gt_clock (dw_base W) w + timeout) w = wait_within W p timeout interval w)
    \<and> (nat \<lceil>seconds / da_cycle_s a\<rceil> \<le> n \<longrightarrow>
      run_cycles W a n (clock_of W s + seconds) acc s
        = run_cycles W a (nat \<lceil>seconds / da_cycle_s a\<rceil>) (clock_of W s + seconds) acc s)"
proof -
  have room: "x \<le> real (nat \<lceil>x / y\<rceil>) * y" if "0 < y" for x y :: real
  proof -
    have "x / y \<le> real (nat \<lceil>x / y\<rceil>)" by linarith
    then show ?thesis using that by (simp add: pos_divide_le_eq)
  qed
  show ?thesis
    using wait_for_fuel[OF assms(1,2), of "gt_clock (dw_base W) w + timeout" w "nat \<lceil>timeout / interval\<rceil>" p] room[OF assms(2), of timeout]
      run_cycles_fuel[OF assms(1,3), of "clock_of W s + seconds" s "nat \<lceil>seconds / da_cycle_s a\<rceil>"] room[OF assms(3), of seconds]
    unfolding wait_within_def by (auto simp: le_iff_add)
qed

section \<open>Sample runs\<close>

definition sample_base :: "('w \<Rightarrow> real) \<Rightarrow> (real \<Rightarrow> 'w \<Rightarrow> 'w) \<Rightarrow> dict list \<Rightarrow> 'w gate_world" where
  "sample_base clock sleep orders =
     \<lparr>gt_ready = (\<lambda>w. (w, Inr ())), gt_orders = (\<lambda>w address. orders), gt_positions = (\<lambda>w. []), gt_touch = (\<lambda>w. (0, 0)),
      gt_on_start = (\<lambda>w. (w, Inr ())), gt_update = (\<lambda>w. (w, Inr ())), gt_quoting = (\<lambda>w. None), gt_set_quote = (\<lambda>q w. w),
      gt_decide = (\<lambda>w. (w, Inr [])), gt_report = (\<lambda>ids w. w), gt_start = (\<lambda>i w. (w, Inr ())),
      gt_exchange_id = (\<lambda>w i. None), gt_early_stop = (\<lambda>i w. w), gt_closed = (\<lambda>w i. True), gt_stop = (\<lambda>i w. w),
      gt_sleep = sleep, gt_clock = clock, gt_signer = Inr MasterRoute, gt_cancel = (\<lambda>oid w. (w, Inr ())),
      gt_market_close = (\<lambda>w. (w, Inr ())), gt_parse_int = (\<lambda>s. Inl ValueError), gt_parse_float = (\<lambda>s. Inl ValueError),
      gt_off = (\<lambda>w. w)\<rparr>"

definition eth_position :: "real \<Rightarrow> dict list" where
  "eth_position x = [[(''position'', JObj [(''coin'', JStr ''ETH''), (''szi'', JNum x)])]]"

definition close_config :: "real \<Rightarrow> exec_config" where
  "close_config limit =
     \<lparr>ec_type = ''passive_aggressive_executor'', ec_timestamp = 0, ec_side = Sell, ec_total_base = Some 1, ec_total_quote = None,
      ec_amount = None, ec_price = None, ec_strategy = None, ec_child_qty = Some 1, ec_time_limit = Some limit,
      ec_refresh_time = None, ec_leverage = 1, ec_action = CLOSE, ec_buffer_bps = None\<rparr>"

text \<open>
  A run that goes well.  The states: 0 flat, 1 opened, 2 the closing order rests, 3 filled, 4 opened
  again, 5 closed by the emergency executor.
\<close>

definition good_world :: "nat derisk_world" where
  "good_world =
     \<lparr>dw_base = sample_base (\<lambda>w. 0) (\<lambda>t w. if w = 2 then 3 else w) [], dw_connect = (\<lambda>w. (w, Inr ())), dw_mid = (\<lambda>w. Inr (Num 50)),
      dw_update_balances = (\<lambda>w. (w, Inr ())),
      dw_positions = (\<lambda>w address. eth_position (if w \<in> {1, 2, 4} then 1 else 0)),
      dw_frontend_orders = (\<lambda>w address. if w = 2
        then [[(''coin'', JStr ''ETH''), (''oid'', JNum 9), (''reduceOnly'', JBool True), (''side'', JStr ''A''), (''limitPx'', JNum 50), (''sz'', JNum 1)]]
        else []),
      dw_perp = (\<lambda>w. JObj [(''marginSummary'', JObj [(''accountValue'', JNum 100), (''totalMarginUsed'', JNum 0), (''totalNtlPos'', JNum 0)]),
        (''crossMaintenanceMarginUsed'', JNum 0), (''withdrawable'', JNum 100), (''assetPositions'', JArr [])]),
      dw_spot = (\<lambda>w. JObj [(''balances'', JArr [JObj [(''coin'', JStr ''USDC''), (''total'', JNum 100)]])]),
      dw_position = (\<lambda>w. Inr (if w \<in> {1, 2, 4} then 1 else 0)), dw_equity = (\<lambda>w. Inr (Some (Num 100))), dw_set_peak = (\<lambda>x w. w),
      dw_intent = (\<lambda>w. if w < 4 then None else Some \<lparr>in_venue = ''hyperliquid'', in_coin = ''ETH'', in_account = ''e2_mm1'',
        target_inventory = 0, current_inventory = Some 1, in_quote = None, in_urgency = Emergency\<rparr>),
      dw_report = (\<lambda>ids w. w),
      dw_decide = (\<lambda>w. (w, Inr (if w = 1 then [Create (close_config 60)] else if w = 4 then [Create (close_config 5)] else []))),
      dw_plan = (\<lambda>u w. Inr (close_config (if u = Emergency then 5 else 60))), dw_create = (\<lambda>c w. (Suc w, Inr ''e'')),
      dw_fills = (\<lambda>w. if 2 \<le> w then w - 1 else w),
      dw_sent = (\<lambda>w. if w < 2 then [] else if w < 5 then [\<lparr>so_ts = 0, so_market = False, so_action = CLOSE\<rparr>]
        else [\<lparr>so_ts = 0, so_market = False, so_action = CLOSE\<rparr>, \<lparr>so_ts = 0, so_market = True, so_action = CLOSE\<rparr>]),
      dw_close_type = (\<lambda>w i. ''CloseType.COMPLETED''), dw_info_filled = (\<lambda>w i. Inr 1), dw_attr_filled = (\<lambda>w i. 0), dw_retries = (\<lambda>w i. 0)\<rparr>"

definition good_args :: derisk_args where
  "good_args =
     \<lparr>da_open_size = 1, da_max_notional = 60, da_cycle_s = 1, da_derisk_timeout = 2, da_deadline = 1, da_timeout = 1,
      da_dry_run = False, da_coin = ''ETH'', da_address = ''0xab'', da_others = []\<rparr>"

text \<open>An account that is in use, on a clock that only sleeping moves.\<close>

definition used_world :: "real derisk_world" where
  "used_world =
     \<lparr>dw_base = sample_base (\<lambda>w. w) (\<lambda>t w. w + t) [[(''oid'', JNum 7), (''coin'', JStr ''ETH'')]], dw_connect = (\<lambda>w. (w, Inr ())),
      dw_mid = (\<lambda>w. Inr (Num 50)), dw_update_balances = (\<lambda>w. (w, Inr ())), dw_positions = (\<lambda>w address. eth_position 1),
      dw_frontend_orders = (\<lambda>w address. []), dw_perp = (\<lambda>w. JNull), dw_spot = (\<lambda>w. JNull), dw_position = (\<lambda>w. Inr 1),
      dw_equity = (\<lambda>w. Inr None), dw_set_peak = (\<lambda>x w. w), dw_intent = (\<lambda>w. None), dw_report = (\<lambda>ids w. w),
      dw_decide = (\<lambda>w. (w, Inr [])), dw_plan = (\<lambda>u w. Inl RuntimeError), dw_create = (\<lambda>c w. (w, Inr ''e'')), dw_fills = (\<lambda>w. 0),
      dw_sent = (\<lambda>w. []), dw_close_type = (\<lambda>w i. []), dw_info_filled = (\<lambda>w i. Inr 0), dw_attr_filled = (\<lambda>w i. 0), dw_retries = (\<lambda>w i. 0)\<rparr>"

lemma used_clock: "clock_ok used_world"
  by (simp add: clock_ok_def used_world_def sample_base_def Let_def)

theorem gate_loops_end_at_their_deadlines_witness:
  "wait_for used_world (\<lambda>w. Inr False) 99 2 10 (0 :: real) = wait_within used_world (\<lambda>w. Inr False) 10 2 0"
  using gate_loops_end_at_their_deadlines[where W = used_world and interval = 2 and a = good_args and timeout = 10 and w = 0 and m = 99
      and p = "\<lambda>w. Inr False"] used_clock
  by (simp add: good_args_def used_world_def sample_base_def)

theorem refused_account_is_emptied_witness:
  "ds_executors (fst (derisk_gate used_world good_args 0)) = []
   \<and> ds_raw (fst (derisk_gate used_world good_args 0)) = [RawCancel 7, RawClose]"
proof -
  have ready: "wait_ready used_world (nat \<lceil>da_timeout good_args\<rceil>) (gt_clock (dw_base used_world) 0 + da_timeout good_args) 0 = (0, Inr (Num 50))"
    by (simp add: used_world_def good_args_def sample_base_def)
  have pos: "position_at used_world good_args (da_address good_args) w = Inr 1" for w
    by (simp add: position_at_def used_world_def eth_position_def position_of_def position_size_def get_or_def good_args_def)
  have orders: "resting_at used_world good_args w = Inr {7}" for w
    by (simp add: resting_at_def used_world_def sample_base_def good_args_def)
  have "\<And>oid w. snd (gt_cancel (dw_base used_world) oid w) = Inr ()" "gt_signer (dw_base used_world) = Inr MasterRoute"
    "dw_connect used_world 0 = (0, Inr ())" "\<not> da_dry_run good_args"
    by (simp_all add: used_world_def sample_base_def good_args_def)
  then show ?thesis
    using refused_account_is_emptied[where W = used_world and a = good_args and w = 0 and ?w1.0 = 0 and ?w2.0 = 0 and mid = "Num 50"
        and p = 1 and oids = "{7}" and q = 1 and left = "{7}" and signer = MasterRoute] ready pos orders by simp
qed

definition flat_account :: indicators where
  "flat_account = \<lparr>in_hb_equity = Some (Num 100), in_usdc_total = 100, in_usdc_hold = 0, in_available = 0, in_account_value = 100,
     in_margin_used = 0, in_notional = 0, in_maintenance = 0, in_withdrawable = 100, in_unrealized = 0\<rparr>"

definition sample_at :: "real \<Rightarrow> real \<Rightarrow> sample" where
  "sample_at p cash = \<lparr>sm_position = p, sm_controller = p, sm_urgency = None, sm_quoting = False, sm_resting = [],
     sm_account = flat_account\<lparr>in_usdc_total := cash\<rparr>\<rparr>"

theorem equity_check_compares_all_pairs_witness:
  "equity_drift [sample_at 1 100, sample_at 1 101] \<noteq> None"
  using equity_check_compares_all_pairs[of "[sample_at 1 100, sample_at 1 101]"]
  by (auto simp: sample_at_def flat_account_def cash_of_def)

section \<open>The good run\<close>

lemma wait_now: "p w = Inr True \<Longrightarrow> wait_for W p n interval deadline w = (w, Inr True)"
  by (cases n) simp_all

lemma wait_within_now: "p w = Inr True \<Longrightarrow> wait_within W p timeout interval w = (w, Inr True)"
  by (simp add: wait_within_def wait_now)

lemma good_fields:
  "da_open_size good_args = 1" "da_max_notional good_args = 60" "da_cycle_s good_args = 1" "da_derisk_timeout good_args = 2"
  "da_deadline good_args = 1" "da_timeout good_args = 1" "\<not> da_dry_run good_args" "da_coin good_args = ''ETH''" "da_others good_args = []"
  by (simp_all add: good_args_def)

lemma stop_none: "stop_executors B t [] w = (w, [])"
proof -
  have "await_closed B n d [] w = w" for n d by (cases n) simp_all
  then show ?thesis by (simp add: stop_executors_def Let_def)
qed

lemma good_position: "position_at good_world good_args address w = Inr (if w \<in> {1, 2, 4} then 1 else 0)"
  by (simp add: position_at_def good_world_def eth_position_def position_of_def position_size_def get_or_def good_args_def)

lemma good_resting: "resting_at good_world good_args w = Inr {}"
  by (simp add: resting_at_def good_world_def sample_base_def)

lemma good_account: "account_indicators good_world w = Inr flat_account"
  by (simp add: account_indicators_def good_world_def sample_base_def flat_account_def required_def get_or_def dict_of_def)

lemma good_orders:
  "reduce_only_orders ''ETH'' (dw_frontend_orders good_world w address) = Inr (if w = 2 then [JNum 9] else [])"
  by (simp add: good_world_def get_or_def res_check_def)

lemma good_calls:
  "gt_clock (dw_base good_world) w = 0" "gt_sleep (dw_base good_world) t w = (if w = 2 then 3 else w)"
  "gt_on_start (dw_base good_world) w = (w, Inr ())" "gt_update (dw_base good_world) w = (w, Inr ())"
  "gt_closed (dw_base good_world) w i = True" "gt_off (dw_base good_world) w = w" "dw_connect good_world w = (w, Inr ())"
  "dw_update_balances good_world w = (w, Inr ())" "dw_mid good_world w = Inr (Num 50)"
  "dw_position good_world w = Inr (if w \<in> {1, 2, 4} then 1 else 0)" "dw_equity good_world w = Inr (Some (Num 100))"
  "dw_set_peak good_world x w = w" "dw_report good_world ids w = w" "dw_create good_world c w = (Suc w, Inr ''e'')"
  "dw_decide good_world w = (w, Inr (if w = 1 then [Create (close_config 60)] else if w = 4 then [Create (close_config 5)] else []))"
  "dw_plan good_world u w = Inr (close_config (if u = Emergency then 5 else 60))"
  "dw_fills good_world w = (if 2 \<le> w then w - 1 else w)" "dw_retries good_world w i = 0"
  "dw_close_type good_world w i = ''CloseType.COMPLETED''" "dw_info_filled good_world w i = Inr 1"
  by (simp_all add: good_world_def sample_base_def)

lemma good_intent: "intent_is_quoting (dw_intent good_world w) = False"
  by (simp add: good_world_def intent_is_quoting_def)

lemmas good_steps = gate_bind_Pair dr_world_def dr_read_def dr_halt_def dr_set_def dr_fail_def dr_phase_def Let_def

lemma good_open:
  assumes "ds_world s \<in> {0, 3}"
  shows "open_position good_world good_args s =
    (s\<lparr>ds_world := Suc (ds_world s), ds_executors := ds_executors s @ [(''e'', open_config good_args 0)]\<rparr>,
     Inr \<lparr>oe_venue = 1, oe_controller = 1, oe_venue_ok = True, oe_reconciled = True, oe_fill_seen = True\<rparr>)"
  using assms
  by (auto simp: open_position_def good_steps good_calls add_executors_def wait_within_now good_position good_fields)

lemma good_cycle:
  "derisk_cycle good_world good_args acc s =
    (let w = ds_world s; new = (if w = 1 then [(''e'', close_config 60)] else if w = 4 then [(''e'', close_config 5)] else []);
         w' = (if new = [] then w else Suc w); p = (if w' \<in> {1, 2, 4} then 1 else 0)
     in (s\<lparr>ds_world := w', ds_executors := ds_executors s @ new\<rparr>,
         Inr (acc\<lparr>ca_created := ca_created acc @ new, ca_samples := ca_samples acc @
           [\<lparr>sm_position = p, sm_controller = p, sm_urgency = map_option in_urgency (dw_intent good_world w), sm_quoting = False,
             sm_resting = (if w' = 2 then [JNum 9] else []), sm_account = flat_account\<rparr>]\<rparr>)))"
  by (auto simp: derisk_cycle_def good_steps good_calls add_executors_def creates_of_def stops_of_def is_maker_config_def close_config_def
      good_position good_account good_orders good_fields good_intent)

definition good_sample :: "nat \<Rightarrow> nat \<Rightarrow> sample" where
  "good_sample before w =
     \<lparr>sm_position = (if w \<in> {1, 2, 4} then 1 else 0), sm_controller = (if w \<in> {1, 2, 4} then 1 else 0),
      sm_urgency = map_option in_urgency (dw_intent good_world before), sm_quoting = False,
      sm_resting = (if w = 2 then [JNum 9] else []), sm_account = flat_account\<rparr>"

lemma good_passive_cycles:
  assumes "ds_world s = 1"
  shows "run_cycles good_world good_args 2 2 \<lparr>ca_created = [], ca_suppressed = 0, ca_samples = [], ca_log = seen\<rparr> s =
    (s\<lparr>ds_world := 3, ds_executors := ds_executors s @ [(''e'', close_config 60)]\<rparr>,
     Inr (\<lparr>ca_created = [(''e'', close_config 60)], ca_suppressed = 0, ca_samples = [good_sample 1 2, good_sample 3 3],
           ca_log = seen @ [JNum 9]\<rparr>, True))"
  unfolding numeral_2_eq_2 using assms
  by (simp add: good_cycle good_calls good_steps last_position_def good_fields good_orders good_sample_def)

lemma good_emergency_cycles:
  assumes "ds_world s = 4"
  shows "run_cycles good_world good_args 2 2 \<lparr>ca_created = [], ca_suppressed = 0, ca_samples = [], ca_log = seen\<rparr> s =
    (s\<lparr>ds_world := 5, ds_executors := ds_executors s @ [(''e'', close_config 5)]\<rparr>,
     Inr (\<lparr>ca_created = [(''e'', close_config 5)], ca_suppressed = 0, ca_samples = [good_sample 4 5], ca_log = seen\<rparr>, True))"
  unfolding numeral_2_eq_2 using assms
  by (simp add: good_cycle good_calls good_steps last_position_def good_fields good_orders good_sample_def)

lemma good_passive:
  assumes "ds_world s = 1" "ds_failures s = []"
  shows "\<exists>t. passive_phase good_world good_args s = (t, Inr (True, [JNum 9])) \<and> ds_world t = 3 \<and> ds_failures t = []"
proof -
  obtain t ev where c: "cycles_phase good_world good_args 2 True [] s = (t, Inr ev)" and t: "ds_world t = 3" "ds_failures t = []"
    and ev: "ce_created ev = [(''e'', close_config 60)]" "ce_flat ev" "ce_failures ev = 0" "ce_fills ev = 1" "ce_log ev = [JNum 9]"
      "ce_orders ev = [\<lparr>so_ts = 0, so_market = False, so_action = CLOSE\<rparr>]" "ce_samples ev = [good_sample 1 2, good_sample 3 3]"
    using assms
    by (simp add: cycles_phase_def good_fields good_calls good_passive_cycles good_steps wait_within_now)
      (simp add: good_world_def)
  have "equity_drift [good_sample 1 2, good_sample 3 3] = None"
    by (simp add: equity_drift_def cash_by_size_def good_sample_def)
  moreover have "pa_outcome_true good_world 3 (''e'', close_config 60)"
    by (simp add: pa_outcome_true_def pa_executed_def good_calls close_config_def)
  ultimately have "derisk_verdict (pa_outcome_true good_world 3) ev = []"
    by (simp add: derisk_verdict_def ev passive_executors_def passive_ok_def close_config_def)
  then show ?thesis
    using t by (simp add: passive_phase_def good_fields c gate_bind_Pair ev)
qed

lemma good_emergency:
  assumes "ds_world s = 3" "ds_failures s = []"
  shows "\<exists>t. emergency_phase good_world good_args seen s = (t, Inr ()) \<and> ds_world t = 5 \<and> ds_failures t = []"
proof -
  have ids: "open_ids good_world s = []" by (simp add: open_ids_def good_calls)
  let ?u = "s\<lparr>ds_world := 4, ds_executors := ds_executors s @ [(''e'', open_config good_args 0)],
      ds_phases := ds_phases s @ [ReopenPhase \<lparr>oe_venue = 1, oe_controller = 1, oe_venue_ok = True, oe_reconciled = True, oe_fill_seen = True\<rparr>]\<rparr>"
  obtain t ev where c: "cycles_phase good_world good_args 2 False seen ?u = (t, Inr ev)" and t: "ds_world t = 5" "ds_failures t = []"
    and ev: "ce_created ev = [(''e'', close_config 5)]" "ce_flat ev" "ce_failures ev = 0" "ce_seconds ev = round1 0"
      "ce_orders ev = [\<lparr>so_ts = 0, so_market = True, so_action = CLOSE\<rparr>]" "ce_samples ev = [good_sample 4 5]"
    using assms
    by (simp add: cycles_phase_def good_fields good_calls good_emergency_cycles good_steps wait_within_now)
      (simp add: good_world_def)
  have "emergency_verdict 1 ev = []"
    by (simp add: emergency_verdict_def ev close_config_def round1_def good_sample_def) (simp add: good_world_def)
  then show ?thesis
    using t assms by (simp add: emergency_phase_def ids stop_none good_steps good_open good_fields good_calls equity_gate_failure_def)
      (simp add: c[simplified] gate_bind_Pair)
qed


text \<open>The same venue with the plan of a concrete controller.\<close>

definition planning_world :: "nat derisk_world" where
  "planning_world = good_world\<lparr>dw_plan := (\<lambda>u w. Inr (planned_config sample_cfg (sample_cycle 0 []) good_args u))\<rparr>"

theorem controller_plan_meets_the_gate_witness:
  "snd (plan_phase planning_world good_args \<lparr>ds_world = 0, ds_executors = [], ds_failures = [], ds_phases = [], ds_raw = []\<rparr>) = Inr ()
   \<and> ec_time_limit (planned_config sample_cfg (sample_cycle 0 []) good_args Emergency) = Some 5"
  using controller_plan_meets_the_gate[where W = planning_world and cfg = sample_cfg and cy = "sample_cycle 0 []" and a = good_args
      and s = "\<lparr>ds_world = 0, ds_executors = [], ds_failures = [], ds_phases = [], ds_raw = []\<rparr>" and w = 0]
  by (simp add: planning_world_def good_world_def sample_base_def good_fields sample_cycle_def)

end
