(* ===== verification/BookFeed.thy ===== *)
theory BookFeed imports Json begin

text \<open>
  \<open>src/opms/connectors/hl_bbo.py\<close>: the patch that gives Hummingbot's Hyperliquid order book the
  block-cadence touch of the \<open>bbo\<close> channel.

  The patched class is Hummingbot's: its four methods are the slots of \<open>source_class\<close>, and what
  the patch changes of an instance is \<open>book_source\<close>: the overlays by trading pair, the messages put
  on the queue and the requests sent, oldest first.  \<open>BookOverlay\<close> is perp_bot's: its state \<open>'o\<close>
  and its operations are parameters, as are the two translations between pairs and symbols.
\<close>

section \<open>Messages\<close>

type_synonym levels = "(real \<times> real) list"

record book_message =
  bm_pair :: string
  bm_update_id :: json
  bm_bids :: levels
  bm_asks :: levels
  bm_timestamp :: real

record 'o feed_lib =
  fl_new :: 'o
  fl_bbo :: "json \<Rightarrow> (real \<times> real) option \<Rightarrow> (real \<times> real) option \<Rightarrow> 'o \<Rightarrow> 'o \<times> (py_error + (levels \<times> levels) option)"
  fl_l2 :: "json \<Rightarrow> levels \<Rightarrow> levels \<Rightarrow> 'o \<Rightarrow> 'o \<times> (py_error + (levels \<times> levels) option)"
  fl_healthy :: "'o \<Rightarrow> bool"
  fl_symbol :: "string \<Rightarrow> py_error + string"
  fl_pair :: "dict \<Rightarrow> py_error + string"
  fl_float :: "string \<Rightarrow> py_error + real"

record 'o book_source =
  bs_overlays :: "(string \<times> 'o) list"
  bs_queue :: "book_message list"
  bs_sent :: "json list"

definition bbo_request :: "string \<Rightarrow> json" where
  "bbo_request coin =
     JObj [(''method'', JStr ''subscribe''), (''subscription'', JObj [(''type'', JStr ''bbo''), (''coin'', JStr coin)])]"

definition price_size :: "'o feed_lib \<Rightarrow> json \<Rightarrow> py_error + real \<times> real" where
  "price_size X row =
     res_bind (required ''px'' row) (\<lambda>p. res_bind (to_float (fl_float X) p) (\<lambda>px.
     res_bind (required ''sz'' row) (\<lambda>s. res_bind (to_float (fl_float X) s) (\<lambda>sz. Inr (px, sz)))))"

definition level :: "'o feed_lib \<Rightarrow> json \<Rightarrow> py_error + (real \<times> real) option" where
  "level X row = (if truthy_json row then res_bind (price_size X row) (\<lambda>l. Inr (Some l)) else Inr None)"

fun res_map :: "('a \<Rightarrow> py_error + 'b) \<Rightarrow> 'a list \<Rightarrow> py_error + 'b list" where
  "res_map f [] = Inr []"
| "res_map f (x # xs) = res_bind (f x) (\<lambda>y. res_bind (res_map f xs) (\<lambda>ys. Inr (y # ys)))"

text \<open>\<open>on_bbo(time, *(...))\<close> takes two levels, and \<open>bids, asks = (...)\<close> two sides: a third is still computed.\<close>

definition bbo_levels :: "'o feed_lib \<Rightarrow> json \<Rightarrow> py_error + (real \<times> real) option \<times> (real \<times> real) option" where
  "bbo_levels X data =
     res_bind (required ''bbo'' data) (\<lambda>j. res_bind (iter_json j) (\<lambda>rows. res_bind (res_map (level X) rows) (\<lambda>ls.
       case ls of [bid, ask] \<Rightarrow> Inr (bid, ask) | _ \<Rightarrow> Inl TypeError)))"

definition book_sides :: "'o feed_lib \<Rightarrow> json \<Rightarrow> py_error + levels \<times> levels" where
  "book_sides X data =
     res_bind (required ''levels'' data) (\<lambda>j. res_bind (iter_json j) (\<lambda>sides.
     res_bind (res_map (\<lambda>side. res_bind (iter_json side) (res_map (price_size X))) (take 3 sides)) (\<lambda>ls.
       case ls of [bids, asks] \<Rightarrow> Inr (bids, asks) | _ \<Rightarrow> Inl ValueError)))"

section \<open>The patched methods\<close>

definition is_bbo :: "dict \<Rightarrow> bool" where
  "is_bbo raw \<longleftrightarrow> get_key ''channel'' raw = JStr ''bbo''"

text \<open>A book with an empty side goes the unpatched way.\<close>

definition one_sided :: "dict \<Rightarrow> py_error + bool" where
  "one_sided raw =
     res_bind (required ''data'' (JObj raw)) (\<lambda>data.
       if is_bbo raw then Inr False
       else res_bind (required ''levels'' data) (\<lambda>j. res_bind (iter_json j) (\<lambda>sides. Inr (\<not> list_all truthy_json sides))))"

definition overlay_of :: "'o feed_lib \<Rightarrow> string \<Rightarrow> 'o book_source \<Rightarrow> 'o" where
  "overlay_of X pair s = (case map_of (bs_overlays s) pair of Some ov \<Rightarrow> ov | None \<Rightarrow> fl_new X)"

text \<open>The overlay's answer: for \<open>raw["channel"]\<close> the key has to be there.\<close>

definition merge_message :: "'o feed_lib \<Rightarrow> dict \<Rightarrow> json \<Rightarrow> 'o \<Rightarrow> 'o \<times> (py_error + (levels \<times> levels) option)" where
  "merge_message X raw data ov =
     (if map_of raw ''channel'' = None then (ov, Inl KeyError)
      else if is_bbo raw then
        (case required ''time'' data of Inl e \<Rightarrow> (ov, Inl e) | Inr t \<Rightarrow>
         case bbo_levels X data of Inl e \<Rightarrow> (ov, Inl e) | Inr (bid, ask) \<Rightarrow> fl_bbo X t bid ask ov)
      else
        (case book_sides X data of Inl e \<Rightarrow> (ov, Inl e) | Inr (bids, asks) \<Rightarrow>
         case required ''time'' data of Inl e \<Rightarrow> (ov, Inl e) | Inr t \<Rightarrow> fl_l2 X t bids asks ov))"

definition snapshot_message :: "string \<Rightarrow> json \<Rightarrow> levels \<times> levels \<Rightarrow> py_error + book_message" where
  "snapshot_message pair data merged =
     res_bind (required ''time'' data) (\<lambda>t.
       case t of
         JNum x \<Rightarrow> Inr \<lparr>bm_pair = pair, bm_update_id = t, bm_bids = fst merged, bm_asks = snd merged, bm_timestamp = x / 1000\<rparr>
       | JBool b \<Rightarrow> Inr \<lparr>bm_pair = pair, bm_update_id = t, bm_bids = fst merged, bm_asks = snd merged,
                        bm_timestamp = (if b then 1 else 0) / 1000\<rparr>
       | _ \<Rightarrow> Inl TypeError)"

definition parse_patched :: "'o feed_lib \<Rightarrow> (dict \<Rightarrow> 'o book_source \<Rightarrow> 'o book_source \<times> (py_error + unit)) \<Rightarrow> dict
    \<Rightarrow> 'o book_source \<Rightarrow> 'o book_source \<times> (py_error + unit)" where
  "parse_patched X original raw s =
     (case one_sided raw of
        Inl e \<Rightarrow> (s, Inl e)
      | Inr True \<Rightarrow> original raw s
      | Inr False \<Rightarrow>
         (case fl_pair X raw of
            Inl e \<Rightarrow> (s, Inl e)
          | Inr pair \<Rightarrow>
              (case required ''data'' (JObj raw) of Inl e \<Rightarrow> (s, Inl e) | Inr data \<Rightarrow>
               case merge_message X raw data (overlay_of X pair s) of (ov, answer) \<Rightarrow>
                 let s1 = s\<lparr>bs_overlays := AList.update pair ov (bs_overlays s)\<rparr> in
                 case answer of
                   Inl e \<Rightarrow> (s1, Inl e)
                 | Inr None \<Rightarrow> (s1, Inr ())
                 | Inr (Some merged) \<Rightarrow>
                    (case snapshot_message pair data merged of
                       Inl e \<Rightarrow> (s1, Inl e)
                     | Inr m \<Rightarrow> (s1\<lparr>bs_queue := bs_queue s1 @ [m]\<rparr>, Inr ())))))"

fun send_bbo :: "'o feed_lib \<Rightarrow> string list \<Rightarrow> 'o book_source \<Rightarrow> 'o book_source \<times> (py_error + unit)" where
  "send_bbo X [] s = (s, Inr ())"
| "send_bbo X (pair # pairs) s =
     (case fl_symbol X pair of
        Inl e \<Rightarrow> (s, Inl e)
      | Inr symbol \<Rightarrow> send_bbo X pairs (s\<lparr>bs_sent := bs_sent s @ [bbo_request symbol]\<rparr>))"

definition subscribe_patched :: "'o feed_lib \<Rightarrow> string list \<Rightarrow> ('o book_source \<Rightarrow> 'o book_source \<times> (py_error + unit))
    \<Rightarrow> 'o book_source \<Rightarrow> 'o book_source \<times> (py_error + unit)" where
  "subscribe_patched X pairs original s =
     (case original s of (s1, Inl e) \<Rightarrow> (s1, Inl e) | (s1, Inr _) \<Rightarrow> send_bbo X pairs s1)"

definition subscribe_pair_patched :: "'o feed_lib \<Rightarrow> (string \<Rightarrow> 'o book_source \<Rightarrow> 'o book_source \<times> (py_error + bool)) \<Rightarrow> string
    \<Rightarrow> 'o book_source \<Rightarrow> 'o book_source \<times> (py_error + bool)" where
  "subscribe_pair_patched X original pair s =
     (case original pair s of
        (s1, Inr True) \<Rightarrow>
          (case fl_symbol X pair of
             Inl e \<Rightarrow> (s1, Inl e)
           | Inr symbol \<Rightarrow> (s1\<lparr>bs_sent := bs_sent s1 @ [bbo_request (before_dash symbol)]\<rparr>, Inr True))
      | (s1, r) \<Rightarrow> (s1, r))"

definition route_patched :: "string \<Rightarrow> (dict \<Rightarrow> string) \<Rightarrow> dict \<Rightarrow> string" where
  "route_patched snapshot_key original raw = (if is_bbo raw then snapshot_key else original raw)"

record 'o source_class =
  sc_subscribe :: "'o book_source \<Rightarrow> 'o book_source \<times> (py_error + unit)"
  sc_subscribe_pair :: "string \<Rightarrow> 'o book_source \<Rightarrow> 'o book_source \<times> (py_error + bool)"
  sc_route :: "dict \<Rightarrow> string"
  sc_parse :: "dict \<Rightarrow> 'o book_source \<Rightarrow> 'o book_source \<times> (py_error + unit)"
  sc_patched :: bool

definition apply_patch :: "'o feed_lib \<Rightarrow> string list \<Rightarrow> string \<Rightarrow> 'o source_class \<Rightarrow> 'o source_class" where
  "apply_patch X pairs snapshot_key C =
     (if sc_patched C then C
      else \<lparr>sc_subscribe = subscribe_patched X pairs (sc_subscribe C),
            sc_subscribe_pair = subscribe_pair_patched X (sc_subscribe_pair C),
            sc_route = route_patched snapshot_key (sc_route C), sc_parse = parse_patched X (sc_parse C), sc_patched = True\<rparr>)"

text \<open>\<open>feed_healthy\<close>; a connector without a tracker or a data source has no overlays.\<close>

definition feed_healthy :: "'o feed_lib \<Rightarrow> 'o book_source option \<Rightarrow> string \<Rightarrow> bool" where
  "feed_healthy X source pair =
     (case source of
        None \<Rightarrow> True
      | Some s \<Rightarrow> (case map_of (bs_overlays s) pair of None \<Rightarrow> True | Some ov \<Rightarrow> fl_healthy X ov))"

section \<open>Pairs are kept apart\<close>

text \<open>A stream of messages; an exception of one is Hummingbot's to log, and the next one follows.\<close>

definition feed :: "'o source_class \<Rightarrow> dict list \<Rightarrow> 'o book_source \<Rightarrow> 'o book_source" where
  "feed C raws s = fold (\<lambda>raw s. fst (sc_parse C raw s)) raws s"

text \<open>What concerns one pair: its overlay and its messages.\<close>

definition view_of :: "string \<Rightarrow> 'o book_source \<Rightarrow> 'o option \<times> book_message list" where
  "view_of pair s = (map_of (bs_overlays s) pair, filter (\<lambda>m. bm_pair m = pair) (bs_queue s))"

text \<open>The unpatched parser puts messages of its pair on the queue and touches nothing else.\<close>

definition plain_parser :: "'o feed_lib \<Rightarrow> (dict \<Rightarrow> 'o book_source \<Rightarrow> 'o book_source \<times> (py_error + unit)) \<Rightarrow> bool" where
  "plain_parser X original \<longleftrightarrow>
     (\<forall>raw. \<exists>ms r. (\<forall>s. original raw s = (s\<lparr>bs_queue := bs_queue s @ ms\<rparr>, r)) \<and> (\<forall>m\<in>set ms. fl_pair X raw = Inr (bm_pair m)))"

lemma snapshot_pair: "snapshot_message pair data merged = Inr m \<Longrightarrow> bm_pair m = pair"
proof -
  assume "snapshot_message pair data merged = Inr m"
  then obtain t where "(case t of
         JNum x \<Rightarrow> Inr \<lparr>bm_pair = pair, bm_update_id = t, bm_bids = fst merged, bm_asks = snd merged, bm_timestamp = x / 1000\<rparr>
       | JBool b \<Rightarrow> Inr \<lparr>bm_pair = pair, bm_update_id = t, bm_bids = fst merged, bm_asks = snd merged,
                        bm_timestamp = (if b then 1 else 0) / 1000\<rparr>
       | _ \<Rightarrow> Inl TypeError) = Inr m"
    unfolding snapshot_message_def res_bind_Inr by blast
  then show ?thesis by (cases t) auto
qed

text \<open>A message of another pair changes nothing; one of the pair itself acts on the view alone.\<close>

lemma parse_other:
  assumes "plain_parser X original" "fl_pair X raw \<noteq> Inr pair"
  shows "view_of pair (fst (parse_patched X original raw s)) = view_of pair s"
proof -
  obtain ms r where ms: "\<And>s. original raw s = (s\<lparr>bs_queue := bs_queue s @ ms\<rparr>, r)" "\<forall>m\<in>set ms. fl_pair X raw = Inr (bm_pair m)"
    using assms(1) unfolding plain_parser_def by metis
  then have "filter (\<lambda>m. bm_pair m = pair) ms = []" using assms(2) by (auto simp: filter_empty_conv)
  then show ?thesis
    using assms(2) ms(1)
    by (auto simp: parse_patched_def view_of_def Let_def split: sum.splits bool.splits prod.splits option.splits
        dest!: snapshot_pair)
qed

lemma parse_own:
  assumes "plain_parser X original" "view_of pair s = view_of pair t" "fl_pair X raw = Inr pair"
  shows "view_of pair (fst (parse_patched X original raw s)) = view_of pair (fst (parse_patched X original raw t))"
proof -
  obtain ms r where ms: "\<And>s. original raw s = (s\<lparr>bs_queue := bs_queue s @ ms\<rparr>, r)"
    using assms(1) unfolding plain_parser_def by metis
  have ov: "overlay_of X pair s = overlay_of X pair t" using assms(2) by (simp add: view_of_def overlay_of_def)
  show ?thesis
    using assms(2,3)
    by (auto simp: parse_patched_def ms ov view_of_def Let_def split: sum.split bool.split prod.split option.split)
qed

text \<open>
  C35: The patched feed keeps trading pairs apart: after any stream of messages, the overlay of a
  pair and the messages queued for it are those of the stream of its own messages, and its health is that
  overlay's.  Patching twice is patching once.
\<close>

theorem patched_feed_keeps_pairs_apart:
  assumes "plain_parser X (sc_parse C)" "\<not> sc_patched C"
  shows "apply_patch X pairs key (apply_patch X pairs key C) = apply_patch X pairs key C
    \<and> view_of pair (feed (apply_patch X pairs key C) raws s)
        = view_of pair (feed (apply_patch X pairs key C) (filter (\<lambda>raw. fl_pair X raw = Inr pair) raws) s)
    \<and> feed_healthy X (Some (feed (apply_patch X pairs key C) raws s)) pair
        = feed_healthy X (Some (feed (apply_patch X pairs key C) (filter (\<lambda>raw. fl_pair X raw = Inr pair) raws) s)) pair"
proof -
  have parse: "sc_parse (apply_patch X pairs key C) = parse_patched X (sc_parse C)"
    using assms(2) by (simp add: apply_patch_def)
  have "view_of pair s = view_of pair t \<Longrightarrow>
      view_of pair (fold (\<lambda>raw s. fst (parse_patched X (sc_parse C) raw s)) raws s)
        = view_of pair (fold (\<lambda>raw s. fst (parse_patched X (sc_parse C) raw s)) (filter (\<lambda>raw. fl_pair X raw = Inr pair) raws) t)"
    for s t
  proof (induction raws arbitrary: s t)
    case (Cons raw raws)
    show ?case
    proof (cases "fl_pair X raw = Inr pair")
      case True
      with Cons.IH[OF parse_own[OF assms(1) Cons.prems True]] show ?thesis by simp
    next
      case False
      with Cons.IH[of "fst (parse_patched X (sc_parse C) raw s)" t] parse_other[OF assms(1) False] Cons.prems show ?thesis by simp
    qed
  qed simp
  from this[OF refl, of s] have view: "view_of pair (feed (apply_patch X pairs key C) raws s)
      = view_of pair (feed (apply_patch X pairs key C) (filter (\<lambda>raw. fl_pair X raw = Inr pair) raws) s)"
    by (simp add: feed_def parse)
  then show ?thesis by (simp add: feed_healthy_def view_of_def apply_patch_def)
qed

text \<open>Two pairs on a feed whose overlay keeps the last touch and answers with it.\<close>

definition touch_lib :: "(real \<times> real) option feed_lib" where
  "touch_lib =
     \<lparr>fl_new = None, fl_bbo = (\<lambda>t bid ask ov. (bid, Inr (case bid of Some l \<Rightarrow> Some ([l], []) | None \<Rightarrow> None))),
      fl_l2 = (\<lambda>t bids asks ov. (ov, Inr (Some (bids, asks)))), fl_healthy = (\<lambda>ov. ov \<noteq> None), fl_symbol = (\<lambda>pair. Inr pair),
      fl_pair = (\<lambda>raw. case get_key ''data'' raw of JObj d \<Rightarrow> (case get_key ''coin'' d of JStr c \<Rightarrow> Inr c | _ \<Rightarrow> Inl KeyError) | _ \<Rightarrow> Inl TypeError),
      fl_float = (\<lambda>s. Inl ValueError)\<rparr>"

definition plain_class :: "(real \<times> real) option source_class" where
  "plain_class =
     \<lparr>sc_subscribe = (\<lambda>s. (s, Inr ())), sc_subscribe_pair = (\<lambda>pair s. (s, Inr True)), sc_route = (\<lambda>raw. ''trades''),
      sc_parse = (\<lambda>raw s. (s, Inr ())), sc_patched = False\<rparr>"

definition bbo_of :: "string \<Rightarrow> real \<Rightarrow> dict" where
  "bbo_of coin px =
     [(''channel'', JStr ''bbo''), (''data'', JObj [(''coin'', JStr coin), (''time'', JNum 1000),
        (''bbo'', JArr [JObj [(''px'', JNum px), (''sz'', JNum 1)], JNull])])]"

theorem patched_feed_keeps_pairs_apart_witness:
  "view_of ''ETH'' (feed (apply_patch touch_lib [] ''snap'' plain_class) [bbo_of ''ETH'' 10, bbo_of ''BTC'' 20]
      \<lparr>bs_overlays = [], bs_queue = [], bs_sent = []\<rparr>)
    = (Some (Some (10, 1)), [\<lparr>bm_pair = ''ETH'', bm_update_id = JNum 1000, bm_bids = [(10, 1)], bm_asks = [], bm_timestamp = 1\<rparr>])"
proof -
  let ?s = "\<lparr>bs_overlays = [] :: (string \<times> (real \<times> real) option) list, bs_queue = [], bs_sent = []\<rparr>"
  have plain: "plain_parser touch_lib (sc_parse plain_class)" "\<not> sc_patched plain_class"
    by (auto simp: plain_parser_def plain_class_def intro!: exI[of _ "[] :: book_message list"])
  have only: "filter (\<lambda>raw. fl_pair touch_lib raw = Inr ''ETH'') [bbo_of ''ETH'' 10, bbo_of ''BTC'' 20] = [bbo_of ''ETH'' 10]"
    by (simp add: touch_lib_def bbo_of_def get_or_def)
  have "view_of ''ETH'' (feed (apply_patch touch_lib [] ''snap'' plain_class) [bbo_of ''ETH'' 10] ?s)
    = (Some (Some (10, 1)), [\<lparr>bm_pair = ''ETH'', bm_update_id = JNum 1000, bm_bids = [(10, 1)], bm_asks = [], bm_timestamp = 1\<rparr>])"
    by (simp add: feed_def apply_patch_def plain_class_def parse_patched_def one_sided_def is_bbo_def bbo_of_def required_def get_or_def
        touch_lib_def merge_message_def bbo_levels_def level_def price_size_def snapshot_message_def overlay_of_def view_of_def Let_def)
  then show ?thesis
    using patched_feed_keeps_pairs_apart[OF plain, of "[]" "''snap''" "''ETH''" "[bbo_of ''ETH'' 10, bbo_of ''BTC'' 20]" ?s] only
    by simp
qed

end
