(* ===== verification/KeeperWiring.thy ===== *)
theory KeeperWiring imports GatewayBridge ResearchDrivers begin

text \<open>
  How DLMM keepers are built and run: the constructor and lifecycle of
  \<open>src/opms/controllers/generic/dlmm_controller.py\<close>, the drivers \<open>run_shadow_dlmm.py\<close>,
  \<open>keeper_dryrun.py\<close> and \<open>keeper_dust_trial.py\<close>, and \<open>_build_keeper\<close> of \<open>shadow_step_a2.py\<close>, all under
  \<open>src/opms\<close>.

  \<open>VenueGrid\<close>, \<open>DLMMConfig\<close> and \<open>KeeperConfig\<close> are dlmm_bot's: records of what the code passes them,
  None where it leaves the library's default.  \<open>PairType\<close> is a parameter.  A run is the sequence of
  its calls, each of which may raise.
\<close>

section \<open>Keeper configurations\<close>

record venue_grid =
  vg_ref :: real
  vg_bin_step :: real
  vg_base_decimals :: int
  vg_quote_decimals :: int

record dlmm_params =
  dm_gamma :: real
  dm_kappa :: real
  dm_bin_step :: real
  dm_ref :: real
  dm_levels :: int
  dm_capital :: real
  dm_inner_offset :: "int option"
  dm_level_weight :: "real option"

record keeper_config =
  kc_params :: "dlmm_params option"
  kc_grid :: venue_grid
  kc_pool :: string
  kc_drift_bins :: "int option"
  kc_slippage_bins :: "int option"
  kc_refresh :: "real option"
  kc_pair_type :: string
  kc_dry_run :: bool
  kc_position :: "string option"
  kc_log_dir :: "string option option"
  kc_mints :: "string \<times> string"
  kc_executor :: "string option"
  kc_gas_price :: "real option option"

text \<open>What the controller's configuration and the drivers' arguments share.\<close>

record wiring =
  wi_wallet :: string
  wi_network :: string
  wi_pool :: string
  wi_ref_price :: real
  wi_bin_step :: int
  wi_base_decimals :: int
  wi_quote_decimals :: int
  wi_gamma :: real
  wi_kappa :: real
  wi_levels :: int
  wi_inner_offset :: int
  wi_capital :: real
  wi_level_weight :: real
  wi_drift_bins :: int
  wi_refresh :: real
  wi_pair_type :: string
  wi_mints :: "string \<times> string"
  wi_swap_path :: "string option"

definition grid_of :: "wiring \<Rightarrow> venue_grid" where
  "grid_of c =
     \<lparr>vg_ref = wi_ref_price c, vg_bin_step = of_int (wi_bin_step c), vg_base_decimals = wi_base_decimals c,
      vg_quote_decimals = wi_quote_decimals c\<rparr>"

definition params_of :: "wiring \<Rightarrow> dlmm_params" where
  "params_of c =
     \<lparr>dm_gamma = wi_gamma c, dm_kappa = wi_kappa c, dm_bin_step = of_int (wi_bin_step c), dm_ref = wi_ref_price c,
      dm_levels = wi_levels c, dm_capital = wi_capital c, dm_inner_offset = Some (wi_inner_offset c),
      dm_level_weight = Some (wi_level_weight c)\<rparr>"

text \<open>\<open>DLMMController.__init__\<close>: the bridge's configuration and the keeper's.\<close>

record dlmm_settings =
  ds_wiring :: wiring
  ds_dry_run :: bool
  ds_gas_price :: "real option"
  ds_log_path :: "string option"
  ds_log_dir :: string
  ds_book_key :: string

definition dlmm_coin :: "wiring \<Rightarrow> string" where
  "dlmm_coin c = (if CHR ''-'' \<in> set (wi_pool c) then before_dash (wi_pool c) else wi_pool c)"

definition dlmm_gateway :: "dlmm_settings \<Rightarrow> gateway_config \<Rightarrow> gateway_config" where
  "dlmm_gateway d dflt =
     (let c = ds_wiring d in
      dflt\<lparr>gc_wallet := wi_wallet c, gc_network := wi_network c, gc_base_decimals := wi_base_decimals c,
           gc_quote_decimals := wi_quote_decimals c\<rparr>)"

definition dlmm_keeper_config :: "(string \<Rightarrow> py_error + string) \<Rightarrow> dlmm_settings \<Rightarrow> py_error + keeper_config" where
  "dlmm_keeper_config pair_type d =
     (let c = ds_wiring d in
      res_bind (pair_type (wi_pair_type c)) (\<lambda>pt.
        Inr \<lparr>kc_params = Some (params_of c), kc_grid = grid_of c, kc_pool = wi_pool c, kc_drift_bins = Some (wi_drift_bins c),
             kc_slippage_bins = None, kc_refresh = Some (wi_refresh c), kc_pair_type = pt, kc_dry_run = ds_dry_run d,
             kc_position = None, kc_log_dir = None, kc_mints = wi_mints c, kc_executor = Some ''hummingbot-gateway'',
             kc_gas_price = Some (ds_gas_price d)\<rparr>))"

text \<open>\<open>run_<pool>_<nanoseconds>\<close>, and \<open>os.path.join\<close> of a directory and a relative name.\<close>

definition run_id_of :: "wiring \<Rightarrow> string \<Rightarrow> string" where
  "run_id_of c nanos = ''run_'' @ map (\<lambda>ch. if ch = CHR ''/'' then CHR ''_'' else ch) (wi_pool c) @ ''_'' @ nanos"

definition path_join :: "string \<Rightarrow> string \<Rightarrow> string" where
  "path_join dir name = (if dir = [] \<or> last dir = CHR ''/'' then dir @ name else dir @ ''/'' @ name)"

definition dlmm_log_path :: "dlmm_settings \<Rightarrow> string \<Rightarrow> string" where
  "dlmm_log_path d nanos =
     (case ds_log_path d of
        Some (ch # p) \<Rightarrow> ch # p
      | _ \<Rightarrow> path_join (ds_log_dir d) (run_id_of (ds_wiring d) nanos @ ''.jsonl''))"

text \<open>\<open>run_shadow_dlmm.main\<close>: the keeper is always dry, the bridge a fake one on request.\<close>

definition shadow_keeper_config :: "(string \<Rightarrow> py_error + string) \<Rightarrow> bool \<Rightarrow> wiring \<Rightarrow> py_error + keeper_config" where
  "shadow_keeper_config pair_type fake c =
     res_bind (pair_type (wi_pair_type c)) (\<lambda>pt.
       Inr \<lparr>kc_params = Some (params_of c), kc_grid = grid_of c, kc_pool = wi_pool c, kc_drift_bins = Some (wi_drift_bins c),
            kc_slippage_bins = None, kc_refresh = Some (wi_refresh c), kc_pair_type = pt, kc_dry_run = True,
            kc_position = None, kc_log_dir = None, kc_mints = wi_mints c,
            kc_executor = Some (if fake then ''FakeExecBridge'' else ''GatewayExecBridge''), kc_gas_price = None\<rparr>)"

definition shadow_gateway :: "wiring \<Rightarrow> gateway_config \<Rightarrow> gateway_config" where
  "shadow_gateway c dflt = dflt\<lparr>gc_wallet := wi_wallet c, gc_network := wi_network c\<rparr>"

text \<open>\<open>shadow_step_a2._build_keeper\<close>: the one that deposits.\<close>

definition a2_keeper_config :: "(string \<Rightarrow> py_error + string) \<Rightarrow> int \<Rightarrow> string option \<Rightarrow> wiring \<Rightarrow> py_error + keeper_config" where
  "a2_keeper_config pair_type slippage log_dir c =
     res_bind (pair_type (wi_pair_type c)) (\<lambda>pt.
       Inr \<lparr>kc_params = Some (params_of c), kc_grid = grid_of c, kc_pool = wi_pool c, kc_drift_bins = Some (wi_drift_bins c),
            kc_slippage_bins = Some slippage, kc_refresh = Some (wi_refresh c), kc_pair_type = pt, kc_dry_run = False,
            kc_position = None, kc_log_dir = Some log_dir, kc_mints = wi_mints c, kc_executor = None, kc_gas_price = None\<rparr>)"

text \<open>
  \<open>keeper_dust_trial._make_keeper\<close>: library parameters on a placeholder grid; a gas price is parsed
  only when it is set and not empty.
\<close>

definition bluechip :: string where
  "bluechip = ''BLUECHIP''"

definition dust_keeper_config :: "(string \<Rightarrow> py_error + real) \<Rightarrow> environment \<Rightarrow> string \<Rightarrow> string option \<Rightarrow> py_error + keeper_config" where
  "dust_keeper_config parse env pool position =
     res_bind (if env_truthy env ''GAS_TOKEN_PRICE_QUOTE'' then res_bind (parse (env_or env ''GAS_TOKEN_PRICE_QUOTE'' [])) (\<lambda>x. Inr (Some x))
               else Inr None) (\<lambda>gas.
       Inr \<lparr>kc_params = None, kc_grid = \<lparr>vg_ref = 1000, vg_bin_step = 80, vg_base_decimals = 9, vg_quote_decimals = 6\<rparr>,
            kc_pool = pool, kc_drift_bins = None, kc_slippage_bins = None, kc_refresh = None, kc_pair_type = bluechip,
            kc_dry_run = False, kc_position = position, kc_log_dir = Some (Some (env_or env ''EVENT_LOG_DIR'' ''logs/dlmm'')),
            kc_mints = (env_or env ''BASE_MINT'' [], env_or env ''QUOTE_MINT'' []), kc_executor = Some ''hummingbot-gateway'',
            kc_gas_price = Some gas\<rparr>)"

section \<open>Calibrating a grid\<close>

text \<open>Arithmetic on a JSON number; a power of a float, whose non-real results are one error.\<close>

definition num_of :: "json \<Rightarrow> py_error + real" where
  "num_of j = (case j of JNum x \<Rightarrow> Inr x | JBool b \<Rightarrow> Inr (if b then 1 else 0) | _ \<Rightarrow> Inl TypeError)"

definition float_pow :: "real \<Rightarrow> real \<Rightarrow> py_error + real" where
  "float_pow b x =
     (if b = 0 \<and> x < 0 then Inl ArithmeticError
      else if x = of_int \<lfloor>x\<rfloor> then Inr (b powi \<lfloor>x\<rfloor>)
      else if 0 \<le> b then Inr (b powr x) else Inl (OtherError ''complex''))"

definition calibrate_grid :: "json \<Rightarrow> py_error + venue_grid" where
  "calibrate_grid d =
     res_bind (required ''price'' d) (\<lambda>p. res_bind (required ''activeBinId'' d) (\<lambda>a. res_bind (required ''binStep'' d) (\<lambda>s.
     res_bind (num_of s) (\<lambda>bps. res_bind (num_of a) (\<lambda>active.
     res_bind (float_pow (1 + bps / 10000) active) (\<lambda>scale.
     res_bind (num_of p) (\<lambda>price.
     res_check (scale \<noteq> 0) ArithmeticError
       (Inr \<lparr>vg_ref = price / scale, vg_bin_step = bps, vg_base_decimals = 9, vg_quote_decimals = 6\<rparr>))))))))"

definition dryrun_keeper_config :: "environment \<Rightarrow> string \<Rightarrow> real \<Rightarrow> real \<Rightarrow> int \<Rightarrow> venue_grid \<Rightarrow> keeper_config" where
  "dryrun_keeper_config env pool interval capital lvls grid =
     \<lparr>kc_params = Some \<lparr>dm_gamma = 1, dm_kappa = 1 / 2, dm_bin_step = vg_bin_step grid, dm_ref = vg_ref grid, dm_levels = lvls,
        dm_capital = capital, dm_inner_offset = None, dm_level_weight = None\<rparr>,
      kc_grid = grid, kc_pool = pool, kc_drift_bins = None, kc_slippage_bins = None, kc_refresh = Some interval,
      kc_pair_type = bluechip, kc_dry_run = True, kc_position = None, kc_log_dir = Some (Some (env_or env ''EVENT_LOG_DIR'' ''logs/dlmm'')),
      kc_mints = (env_or env ''BASE_MINT'' [], env_or env ''QUOTE_MINT'' []), kc_executor = Some ''hummingbot-gateway'',
      kc_gas_price = None\<rparr>"

section \<open>Running\<close>

datatype wire_call =
    BridgeStart | EnsureRunStarted | SwapStart | EmitUnavailable string | KeeperRun nat
  | SwapStop | KeeperStop | LogClose | BridgeStop

text \<open>Calls in a row, up to the first that raises.\<close>

fun run_calls :: "(wire_call \<Rightarrow> py_error option) \<Rightarrow> wire_call list \<Rightarrow> wire_call list \<times> py_error option" where
  "run_calls R [] = ([], None)"
| "run_calls R (c # cs) =
     (case R c of Some e \<Rightarrow> ([c], Some e) | None \<Rightarrow> (case run_calls R cs of (done, r) \<Rightarrow> (c # done, r)))"

definition observe_swaps :: "bool \<Rightarrow> string \<Rightarrow> wire_call list" where
  "observe_swaps swaps reason = (if swaps then [SwapStart] else [EmitUnavailable reason])"

definition dlmm_on_start :: "(wire_call \<Rightarrow> py_error option) \<Rightarrow> bool \<Rightarrow> wire_call list \<times> py_error option" where
  "dlmm_on_start R swaps = run_calls R ([BridgeStart, EnsureRunStarted] @ observe_swaps swaps ''swap_stream_path is not configured'')"

definition stop_calls :: "bool \<Rightarrow> wire_call list" where
  "stop_calls swaps = (if swaps then [SwapStop] else []) @ [KeeperStop, LogClose, BridgeStop]"

definition dlmm_on_stop :: "(wire_call \<Rightarrow> py_error option) \<Rightarrow> bool \<Rightarrow> wire_call list \<times> py_error option" where
  "dlmm_on_stop R swaps = run_calls R (stop_calls swaps)"

text \<open>
  \<open>run_shadow_dlmm.main\<close> from the bridge on.  The keeper's run may raise, and with a duration end in
  \<open>TimeoutError\<close>, which is a normal end; the \<open>finally\<close> stops in one row.
\<close>

definition shadow_main :: "(wire_call \<Rightarrow> py_error option) \<Rightarrow> bool \<Rightarrow> bool \<Rightarrow> nat \<Rightarrow> wire_call list \<times> py_error option" where
  "shadow_main R fake swaps cycles =
     (let starts = (if fake then [] else [BridgeStart])
            @ (if swaps then [SwapStart] else [EnsureRunStarted, EmitUnavailable ''--swap-stream-path is not configured'']) in
      case run_calls R starts of
        (done, Some e) \<Rightarrow> (done, Some e)
      | (done, None) \<Rightarrow>
          let outcome = (case R (KeeperRun cycles) of Some e \<Rightarrow> if e = TimeoutError then None else Some e | None \<Rightarrow> None) in
          (case run_calls R (stop_calls swaps) of
             (stopped, Some e) \<Rightarrow> (done @ KeeperRun cycles # stopped, Some e)
           | (stopped, None) \<Rightarrow> (done @ KeeperRun cycles # stopped, outcome)))"

text \<open>
  \<open>keeper_dryrun._run\<close>: the environment, the calibration read, the calls, and the exit code from the
  number of decisions logged.
\<close>

definition keeper_dryrun :: "'w externals_gw \<Rightarrow> (wire_call \<Rightarrow> py_error option) \<Rightarrow> environment \<Rightarrow> http_outcome \<Rightarrow> nat
    \<Rightarrow> (wire_call list \<times> keeper_config option) \<times> (py_error + nat)" where
  "keeper_dryrun X R env pool_info logged =
     (case env_required env ''POOL'' of Inl e \<Rightarrow> (([], None), Inl e) | Inr pool \<Rightarrow>
      case env_parsed (xg_int X) env ''CYCLES'' 5 of Inl e \<Rightarrow> (([], None), Inl e) | Inr cycles \<Rightarrow>
      case env_parsed (xg_float X) env ''INTERVAL'' 5 of Inl e \<Rightarrow> (([], None), Inl e) | Inr interval \<Rightarrow>
      case env_parsed (xg_float X) env ''CAPITAL'' 5 of Inl e \<Rightarrow> (([], None), Inl e) | Inr capital \<Rightarrow>
      case env_parsed (xg_int X) env ''LEVELS'' 2 of Inl e \<Rightarrow> (([], None), Inl e) | Inr lvls \<Rightarrow>
      case (case pool_info of Body d \<Rightarrow> calibrate_grid d | StatusError _ _ \<Rightarrow> Inl (OtherError ''HTTPStatusError'')
            | Raised e \<Rightarrow> Inl (OtherError e)) of
        Inl e \<Rightarrow> (([], None), Inl e)
      | Inr grid \<Rightarrow>
          let kc = dryrun_keeper_config env pool interval capital lvls grid in
          (case run_calls R [BridgeStart, EnsureRunStarted, EmitUnavailable ''keeper_dryrun has no decoded swap source''] of
             (done, Some e) \<Rightarrow> ((done, Some kc), Inl e)
           | (done, None) \<Rightarrow>
               let calls = done @ [KeeperRun (nat cycles), BridgeStop] in
               ((calls, Some kc),
                case R BridgeStop of Some e \<Rightarrow> Inl e
                | None \<Rightarrow> (case R (KeeperRun (nat cycles)) of Some e \<Rightarrow> Inl e
                          | None \<Rightarrow> Inr (if int logged = cycles then 0 else 1)))))"

section \<open>What the wiring guarantees\<close>

text \<open>The keeper's pricing parameters describe the grid it is given.\<close>

definition well_wired :: "keeper_config \<Rightarrow> bool" where
  "well_wired kc \<longleftrightarrow>
     (case kc_params kc of None \<Rightarrow> True
      | Some p \<Rightarrow> dm_ref p = vg_ref (kc_grid kc) \<and> dm_bin_step p = vg_bin_step (kc_grid kc))"

lemmas keeper_configs = dlmm_keeper_config_def shadow_keeper_config_def a2_keeper_config_def dust_keeper_config_def
  dryrun_keeper_config_def

lemma run_calls_ok: "(\<And>c. c \<in> set cs \<Longrightarrow> R c = None) \<Longrightarrow> run_calls R cs = (cs, None)"
  by (induction cs) auto

lemma run_calls_cases:
  "run_calls R cs = (made, None) \<Longrightarrow> made = cs" "run_calls R cs = (made, Some e) \<Longrightarrow> \<exists>rest. cs = made @ rest \<and> made \<noteq> []"
  by (induction cs arbitrary: made) (auto split: option.splits prod.splits)

lemma dryrun_config:
  assumes "keeper_dryrun X R env info logged = ((calls, Some kc), r)"
  shows "\<exists>pool interval capital lvls grid. kc = dryrun_keeper_config env pool interval capital lvls grid \<and> env ''POOL'' = Some pool"
proof -
  from assms obtain pool where pool: "env_required env ''POOL'' = Inr pool"
    unfolding keeper_dryrun_def by (cases "env_required env ''POOL''") simp_all
  have "\<exists>interval capital lvls grid. kc = dryrun_keeper_config env pool interval capital lvls grid"
    using assms unfolding keeper_dryrun_def pool Let_def
    by (simp split: sum.split_asm prod.split_asm option.split_asm) blast+
  with pool show ?thesis by (auto simp: env_required_def split: option.splits)
qed

lemma dryrun_config_ok: "well_wired (dryrun_keeper_config env pool interval capital lvls grid)"
  "kc_dry_run (dryrun_keeper_config env pool interval capital lvls grid)" "kc_pool (dryrun_keeper_config env pool interval capital lvls grid) = pool"
  by (simp_all add: dryrun_keeper_config_def well_wired_def)

lemma keeper_config_ok:
  "dlmm_keeper_config pt d = Inr kc \<Longrightarrow> well_wired kc \<and> kc_dry_run kc = ds_dry_run d \<and> kc_pool kc = wi_pool (ds_wiring d)
     \<and> gc_base_decimals (dlmm_gateway d dflt) = vg_base_decimals (kc_grid kc)
     \<and> gc_quote_decimals (dlmm_gateway d dflt) = vg_quote_decimals (kc_grid kc)"
  "shadow_keeper_config pt fake c = Inr kc \<Longrightarrow> well_wired kc \<and> kc_dry_run kc \<and> kc_pool kc = wi_pool c"
  "a2_keeper_config pt slip ldir c = Inr kc \<Longrightarrow> well_wired kc \<and> \<not> kc_dry_run kc \<and> kc_pool kc = wi_pool c"
  "dust_keeper_config parse env pool position = Inr kc \<Longrightarrow> well_wired kc \<and> \<not> kc_dry_run kc \<and> kc_pool kc = pool"
  by (auto simp: keeper_configs well_wired_def params_of_def grid_of_def dlmm_gateway_def res_bind_Inr Let_def)

text \<open>
  Every keeper the repository builds is well formed: its pricing parameters are those of the grid
  it works on, whichever of the five places builds it; the shadow driver and the dry run build
  only dry keepers, the controller's is dry exactly when its configuration says so, only those of
  the dust trial and the rollout driver are live by construction, and the controller's bridge
  counts in the decimals of the keeper's grid.
\<close>

theorem built_keepers_are_well_wired:
  "(\<forall>kc. dlmm_keeper_config pt d = Inr kc \<longrightarrow> well_wired kc \<and> kc_dry_run kc = ds_dry_run d \<and> kc_pool kc = wi_pool (ds_wiring d)
        \<and> gc_base_decimals (dlmm_gateway d dflt) = vg_base_decimals (kc_grid kc)
        \<and> gc_quote_decimals (dlmm_gateway d dflt) = vg_quote_decimals (kc_grid kc))
   \<and> (\<forall>kc. shadow_keeper_config pt fake c = Inr kc \<longrightarrow> well_wired kc \<and> kc_dry_run kc \<and> kc_pool kc = wi_pool c)
   \<and> (\<forall>kc. a2_keeper_config pt slip ldir c = Inr kc \<longrightarrow> well_wired kc \<and> \<not> kc_dry_run kc \<and> kc_pool kc = wi_pool c)
   \<and> (\<forall>kc. dust_keeper_config parse env pool position = Inr kc \<longrightarrow> well_wired kc \<and> \<not> kc_dry_run kc \<and> kc_pool kc = pool)
   \<and> (\<forall>calls kc r. keeper_dryrun X R env info logged = ((calls, Some kc), r) \<longrightarrow> well_wired kc \<and> kc_dry_run kc
        \<and> Some (kc_pool kc) = env ''POOL'')"
  by (intro conjI allI impI; (drule keeper_config_ok dryrun_config; (elim exE conjE)?; simp add: dryrun_config_ok))

text \<open>
  A calibrated grid reproduces the price it was calibrated from: its reference price times the
  step to the power of the active bin is the pool's price, for every bin and any step that keeps
  prices positive.
\<close>

theorem calibrated_grid_reproduces_the_price:
  assumes "calibrate_grid (JObj [(''price'', JNum price), (''activeBinId'', JNum (of_int bin)), (''binStep'', JNum bps)]) = Inr grid"
  shows "vg_ref grid * (1 + vg_bin_step grid / 10000) powi bin = price"
  using assms
  by (auto simp: calibrate_grid_def required_def num_of_def float_pow_def res_bind_Inr res_check_Inr split: if_splits)

text \<open>
  What was started is stopped: when the closing calls do not raise, a started shadow run makes,
  after the keeper's run and whatever that run raised, every stop in order with the bridge last,
  and its outcome is the run's own, a timeout counting as success; the controller's \<open>on_stop\<close> stops what
  its \<open>on_start\<close> started, and a dry run always stops its bridge once the keeper ran.
\<close>

theorem started_keepers_are_stopped:
  assumes quiet: "\<And>c. c \<in> set (stop_calls swaps) \<Longrightarrow> R c = None"
  shows "dlmm_on_stop R swaps = (stop_calls swaps, None)
    \<and> (SwapStart \<in> set (fst (dlmm_on_start R swaps)) \<longrightarrow> SwapStop \<in> set (stop_calls swaps))
    \<and> (KeeperRun cycles \<in> set (fst (shadow_main R fake swaps cycles)) \<longrightarrow>
         (\<exists>starts. shadow_main R fake swaps cycles
            = (starts @ KeeperRun cycles # stop_calls swaps, if R (KeeperRun cycles) = Some TimeoutError then None else R (KeeperRun cycles))))
    \<and> (KeeperRun n \<in> set (fst (fst (keeper_dryrun X R env info logged))) \<longrightarrow>
         last (fst (fst (keeper_dryrun X R env info logged))) = BridgeStop)"
proof -
  have stop: "run_calls R (stop_calls swaps) = (stop_calls swaps, None)" using quiet by (rule run_calls_ok)
  have swap: "SwapStart \<in> set (fst (dlmm_on_start R swaps)) \<Longrightarrow> swaps"
    by (auto simp: dlmm_on_start_def observe_swaps_def split: if_splits option.splits)
  have "KeeperRun cycles \<in> set (fst (shadow_main R fake swaps cycles)) \<Longrightarrow>
      \<exists>starts. shadow_main R fake swaps cycles
        = (starts @ KeeperRun cycles # stop_calls swaps, if R (KeeperRun cycles) = Some TimeoutError then None else R (KeeperRun cycles))"
    by (auto simp: shadow_main_def stop Let_def split: prod.splits option.splits if_splits dest!: run_calls_cases)
  moreover have "KeeperRun n \<in> set (fst (fst (keeper_dryrun X R env info logged))) \<Longrightarrow>
      last (fst (fst (keeper_dryrun X R env info logged))) = BridgeStop"
    by (auto simp: keeper_dryrun_def Let_def split: sum.splits option.splits)
  ultimately show ?thesis using swap stop by (auto simp: dlmm_on_stop_def stop_calls_def)
qed

section \<open>Samples\<close>

definition sol_wiring :: wiring where
  "sol_wiring =
     \<lparr>wi_wallet = ''w'', wi_network = ''mainnet-beta'', wi_pool = ''SOL-USDC'', wi_ref_price = 150, wi_bin_step = 20,
      wi_base_decimals = 9, wi_quote_decimals = 6, wi_gamma = 1, wi_kappa = 1 / 2, wi_levels = 5, wi_inner_offset = 2,
      wi_capital = 1000, wi_level_weight = 1 / 5, wi_drift_bins = 3, wi_refresh = 5, wi_pair_type = ''bluechip'',
      wi_mints = ([], []), wi_swap_path = None\<rparr>"

definition sol_settings :: dlmm_settings where
  "sol_settings =
     \<lparr>ds_wiring = sol_wiring, ds_dry_run = True, ds_gas_price = None, ds_log_path = None, ds_log_dir = ''logs/dlmm'', ds_book_key = []\<rparr>"

theorem built_keepers_are_well_wired_witness:
  "\<exists>kc. dlmm_keeper_config Inr sol_settings = Inr kc \<and> well_wired kc \<and> kc_dry_run kc"
proof -
  obtain kc where kc: "dlmm_keeper_config Inr sol_settings = Inr kc" by (simp add: dlmm_keeper_config_def Let_def)
  then have "well_wired kc \<and> kc_dry_run kc = ds_dry_run sol_settings"
    using built_keepers_are_well_wired[where pt = Inr and d = sol_settings] by blast
  with kc show ?thesis by (simp add: sol_settings_def)
qed

theorem calibrated_grid_reproduces_the_price_witness:
  "\<exists>grid. calibrate_grid (JObj [(''price'', JNum 150), (''activeBinId'', JNum (of_int (-2))), (''binStep'', JNum 10000)]) = Inr grid
    \<and> vg_ref grid * (1 + vg_bin_step grid / 10000) powi (-2) = 150"
proof -
  obtain grid where g: "calibrate_grid (JObj [(''price'', JNum 150), (''activeBinId'', JNum (of_int (-2))), (''binStep'', JNum 10000)]) = Inr grid"
    by (simp add: calibrate_grid_def required_def num_of_def float_pow_def res_check_def)
  with calibrated_grid_reproduces_the_price[OF g] show ?thesis by blast
qed

text \<open>A run whose keeper raises.\<close>

definition failing_run :: "wire_call \<Rightarrow> py_error option" where
  "failing_run c = (case c of KeeperRun n \<Rightarrow> Some RuntimeError | _ \<Rightarrow> None)"

theorem started_keepers_are_stopped_witness:
  "shadow_main failing_run False True 20
    = ([BridgeStart, SwapStart, KeeperRun 20, SwapStop, KeeperStop, LogClose, BridgeStop], Some RuntimeError)"
proof -
  have quiet: "c \<in> set (stop_calls True) \<Longrightarrow> failing_run c = None" for c by (auto simp: stop_calls_def failing_run_def)
  have run: "fst (shadow_main failing_run False True 20) = [BridgeStart, SwapStart, KeeperRun 20, SwapStop, KeeperStop, LogClose, BridgeStop]"
    by (simp add: shadow_main_def failing_run_def stop_calls_def)
  have "KeeperRun 20 \<in> set (fst (shadow_main failing_run False True 20))" by (simp add: run)
  then obtain starts where "shadow_main failing_run False True 20
      = (starts @ KeeperRun 20 # stop_calls True, if failing_run (KeeperRun 20) = Some TimeoutError then None else failing_run (KeeperRun 20))"
    using started_keepers_are_stopped[where R = failing_run and swaps = True and cycles = 20 and fake = False, OF quiet] by blast
  with run show ?thesis by (simp add: failing_run_def)
qed

end
