(* ===== verification/SmokeGate.thy ===== *)
theory SmokeGate imports DeriskGateProperties AccountRouting begin

text \<open>
  \<open>src/scripts/run_hb_mainnet_smoke.py\<close>: the read-only start of a connector and a controller that
  must pass before any gate.  The venue and the controller are the state of the de-risk gate; the
  two nonces of the signer probe, the funding readings, the observer's registration and the
  controller's \<open>get_custom_info\<close> are readings of their own.  \<open>_build_connector\<close> is the parameter that
  takes the resolved credentials to the world of the test.
\<close>

record 'w smoke_world =
  sw_base :: "'w derisk_world"
  sw_nonces :: "py_error + int \<times> int"
  sw_balances :: "'w \<Rightarrow> py_error + unit"
  sw_funding :: "'w \<Rightarrow> py_error + real option"
  sw_observed :: "'w \<Rightarrow> bool"
  sw_info :: "'w \<Rightarrow> py_error + dict"

datatype smoke_failure =
    NonceReused | NoFunding | ImplausibleFunding "real list" | ObserverMissing | SmokeEquity equity_problem
  | InfoLacks "string list" | EquityNotArmed json json

text \<open>\<open>_nonce_patch_ok\<close>: two signatures at one instant carry different nonces.\<close>

definition nonce_patch_ok :: "'w smoke_world \<Rightarrow> py_error + bool" where
  "nonce_patch_ok W = res_bind (sw_nonces W) (\<lambda>(a, b). Inr (a \<noteq> b))"

text \<open>One reading per second; a missing one is not counted.\<close>

fun funding_samples :: "'w smoke_world \<Rightarrow> nat \<Rightarrow> 'w \<Rightarrow> 'w \<times> (py_error + real list)" where
  "funding_samples W 0 w = (w, Inr [])"
| "funding_samples W (Suc n) w =
     (case sw_funding W w of
        Inl e \<Rightarrow> (w, Inl e)
      | Inr r \<Rightarrow>
          (case funding_samples W n (gt_sleep (dw_base (sw_base W)) 1 w) of
             (w1, Inl e) \<Rightarrow> (w1, Inl e)
           | (w1, Inr rs) \<Rightarrow> (w1, Inr ((case r of Some x \<Rightarrow> [x] | None \<Rightarrow> []) @ rs))))"

definition funding_failures :: "real list \<Rightarrow> smoke_failure list" where
  "funding_failures rs =
     (if rs = [] then [NoFunding] else if \<exists>r\<in>set rs. 1 / 100 \<le> \<bar>r\<bar> then [ImplausibleFunding rs] else [])"

definition info_keys :: "string list" where
  "info_keys = [''fill_pnl'', ''markout'', ''slippage'', ''equity_resolved'', ''peak_equity_seeded'', ''quote_suspension_reason'']"

definition info_failures :: "dict \<Rightarrow> smoke_failure list" where
  "info_failures info =
     (let missing = filter (\<lambda>k. k \<notin> fst ` set info) info_keys in
      if missing \<noteq> [] then [InfoLacks missing]
      else if get_key ''equity_resolved'' info \<noteq> JBool True \<or> \<not> truthy_json (get_key ''peak_equity_seeded'' info)
      then [EquityNotArmed (get_key ''equity_resolved'' info) (get_key ''peak_equity_seeded'' info)]
      else [])"

text \<open>The body of the \<open>try\<close>: there is no handler, so an exception leaves after the network is stopped.\<close>

definition smoke_body :: "'w smoke_world \<Rightarrow> real \<Rightarrow> nat \<Rightarrow> 'w \<Rightarrow> 'w \<times> (py_error + smoke_failure list)" where
  "smoke_body W timeout samples w =
     (let D = sw_base W; B = dw_base D in
      case dw_connect D w of (w1, Inl e) \<Rightarrow> (w1, Inl e) | (w1, Inr _) \<Rightarrow>
      case wait_ready D (nat \<lceil>timeout\<rceil>) (gt_clock B w1 + timeout) w1 of (w2, Inl e) \<Rightarrow> (w2, Inl e) | (w2, Inr mid) \<Rightarrow>
      case sw_balances W w2 of Inl e \<Rightarrow> (w2, Inl e) | Inr _ \<Rightarrow>
      case funding_samples W samples w2 of (w3, Inl e) \<Rightarrow> (w3, Inl e) | (w3, Inr rates) \<Rightarrow>
      case gt_on_start B w3 of (w4, Inl e) \<Rightarrow> (w4, Inl e) | (w4, Inr _) \<Rightarrow>
      case gt_update B w4 of (w5, Inl e) \<Rightarrow> (w5, Inl e) | (w5, Inr _) \<Rightarrow>
      case dw_equity D w5 of Inl e \<Rightarrow> (w5, Inl e) | Inr equity \<Rightarrow>
      case sw_info W w5 of Inl e \<Rightarrow> (w5, Inl e) | Inr info \<Rightarrow>
        (w5, Inr (funding_failures rates @ (if sw_observed W w4 then [] else [ObserverMissing])
          @ (case equity_gate_failure equity of Some f \<Rightarrow> [SmokeEquity f] | None \<Rightarrow> []) @ info_failures info)))"

definition smoke_run :: "'w smoke_world \<Rightarrow> real \<Rightarrow> nat \<Rightarrow> 'w \<Rightarrow> 'w \<times> (py_error + nat)" where
  "smoke_run W timeout samples w =
     (case nonce_patch_ok W of Inl e \<Rightarrow> (w, Inl e) | Inr fresh \<Rightarrow>
      case smoke_body W timeout samples w of (w1, res) \<Rightarrow>
        (gt_off (dw_base (sw_base W)) w1,
         case res of Inl e \<Rightarrow> Inl e
         | Inr fs \<Rightarrow> Inr (if (if fresh then [] else [NonceReused]) @ fs = [] then 0 else 1)))"

definition smoke_main :: "environment \<Rightarrow> string \<Rightarrow> string option \<Rightarrow> (credentials \<Rightarrow> 'w smoke_world) \<Rightarrow> real \<Rightarrow> nat
    \<Rightarrow> 'w \<Rightarrow> 'w \<times> (py_error + nat)" where
  "smoke_main env account use_vault build timeout samples w =
     (if env ''OPMS_HB_MAINNET'' \<noteq> Some ''confirm'' then (w, Inr 2)
      else case smoke_resolve env account use_vault of
             Inl e \<Rightarrow> (w, Inl e)
           | Inr cr \<Rightarrow> smoke_run (build cr) timeout samples w)"

section \<open>A passed smoke test\<close>

lemma funding_ok: "funding_failures rs = [] \<longleftrightarrow> rs \<noteq> [] \<and> (\<forall>r\<in>set rs. \<bar>r\<bar> < 1 / 100)"
  by (force simp: funding_failures_def)

lemma info_ok:
  "info_failures info = [] \<longleftrightarrow> set info_keys \<subseteq> fst ` set info \<and> get_key ''equity_resolved'' info = JBool True
     \<and> truthy_json (get_key ''peak_equity_seeded'' info)"
  by (auto simp: info_failures_def Let_def filter_empty_conv)

lemma equity_ok: "equity_gate_failure q = None \<longleftrightarrow> (\<exists>x>0. q = Some (Num x))"
  by (auto simp: equity_gate_failure_def split: option.split pynum.split)

text \<open>
  A smoke test that exits with zero has seen an order book, at least one funding rate and none
  of a percent or more, the fill observer registered, a positive finite equity, the six readings
  the gates rely on with the equity resolved and its peak seeded, and two distinct nonces; and only
  with the mainnet confirmation, on the connector of the credentials that the account resolves to.
\<close>

theorem passed_smoke_is_armed:
  assumes "smoke_main env account use_vault build timeout samples w = (w', Inr 0)"
  shows "\<exists>cr W. env ''OPMS_HB_MAINNET'' = Some ''confirm'' \<and> smoke_resolve env account use_vault = Inr cr \<and> W = build cr
    \<and> (\<exists>a b. sw_nonces W = Inr (a, b) \<and> a \<noteq> b)
    \<and> (\<exists>w2 mid rates w3. funding_samples W samples w2 = (w3, Inr rates) \<and> rates \<noteq> [] \<and> (\<forall>r\<in>set rates. \<bar>r\<bar> < 1 / 100)
         \<and> (\<exists>n d w1. wait_ready (sw_base W) n d w1 = (w2, Inr mid)))
    \<and> (\<exists>w4 w5 x info. sw_observed W w4 \<and> gt_update (dw_base (sw_base W)) w4 = (w5, Inr ())
         \<and> 0 < x \<and> dw_equity (sw_base W) w5 = Inr (Some (Num x))
         \<and> sw_info W w5 = Inr info \<and> set info_keys \<subseteq> fst ` set info \<and> get_key ''equity_resolved'' info = JBool True
         \<and> truthy_json (get_key ''peak_equity_seeded'' info) \<and> w' = gt_off (dw_base (sw_base W)) w5)"
proof -
  obtain cr where env: "env ''OPMS_HB_MAINNET'' = Some ''confirm''" and cr: "smoke_resolve env account use_vault = Inr cr"
    and run0: "smoke_run (build cr) timeout samples w = (w', Inr 0)"
    using assms unfolding smoke_main_def by (auto split: if_splits sum.splits)
  define W where "W = build cr"
  obtain fresh w5 res where nonce: "nonce_patch_ok W = Inr fresh" and body: "smoke_body W timeout samples w = (w5, res)"
    using run0 unfolding smoke_run_def W_def by (auto split: if_splits sum.splits prod.splits)
  with run0 obtain fs where fs: "res = Inr fs" "fs = []" "fresh" "w' = gt_off (dw_base (sw_base W)) w5"
    unfolding smoke_run_def W_def by (auto split: if_splits sum.splits)
  have nonces: "\<exists>a b. sw_nonces W = Inr (a, b) \<and> a \<noteq> b"
    using nonce fs(3) by (auto simp: nonce_patch_ok_def res_bind_Inr)
  note run = body[unfolded fs(1) smoke_body_def Let_def]
  from run obtain w1 w2 mid rates w3 w4 equity info where steps:
    "wait_ready (sw_base W) (nat \<lceil>timeout\<rceil>) (gt_clock (dw_base (sw_base W)) w1 + timeout) w1 = (w2, Inr mid)"
    "funding_samples W samples w2 = (w3, Inr rates)" "gt_update (dw_base (sw_base W)) w4 = (w5, Inr ())"
    "dw_equity (sw_base W) w5 = Inr equity" "sw_info W w5 = Inr info"
    "fs = funding_failures rates @ (if sw_observed W w4 then [] else [ObserverMissing])
      @ (case equity_gate_failure equity of Some f \<Rightarrow> [SmokeEquity f] | None \<Rightarrow> []) @ info_failures info"
    by (auto split: prod.splits sum.splits)
  then have ok: "funding_failures rates = []" "sw_observed W w4" "equity_gate_failure equity = None" "info_failures info = []"
    using fs(2) by (auto split: if_splits option.splits)
  from ok(3) obtain x where "0 < x" "equity = Some (Num x)" using equity_ok by blast
  with steps ok fs(4) have seen: "(\<exists>w2 mid rates w3. funding_samples W samples w2 = (w3, Inr rates) \<and> rates \<noteq> []
         \<and> (\<forall>r\<in>set rates. \<bar>r\<bar> < 1 / 100) \<and> (\<exists>n d w1. wait_ready (sw_base W) n d w1 = (w2, Inr mid)))
    \<and> (\<exists>w4 w5 x info. sw_observed W w4 \<and> gt_update (dw_base (sw_base W)) w4 = (w5, Inr ())
         \<and> 0 < x \<and> dw_equity (sw_base W) w5 = Inr (Some (Num x))
         \<and> sw_info W w5 = Inr info \<and> set info_keys \<subseteq> fst ` set info \<and> get_key ''equity_resolved'' info = JBool True
         \<and> truthy_json (get_key ''peak_equity_seeded'' info) \<and> w' = gt_off (dw_base (sw_base W)) w5)"
    unfolding funding_ok info_ok by blast
  show ?thesis by (rule exI[of _ cr], rule exI[of _ W]) (intro conjI env cr W_def nonces seen[THEN conjunct1] seen[THEN conjunct2])
qed

definition armed_world :: "credentials \<Rightarrow> nat smoke_world" where
  "armed_world cr =
     \<lparr>sw_base = good_world, sw_nonces = Inr (1, 2), sw_balances = (\<lambda>w. Inr ()), sw_funding = (\<lambda>w. Inr (Some (1 / 10000))),
      sw_observed = (\<lambda>w. True), sw_info = (\<lambda>w. Inr (map (\<lambda>k. (k, JBool True)) info_keys))\<rparr>"

definition smoke_env :: environment where
  "smoke_env =
     [''OPMS_HB_MAINNET'' \<mapsto> ''confirm'', ''HYPERLIQUID_E2_MM1_ACCOUNT_ADDRESS'' \<mapsto> ''0xAB'', ''HYPERLIQUID_E2_MM1_PRIVATE_KEY'' \<mapsto> ''k'']"

theorem passed_smoke_is_armed_witness:
  "\<exists>w' cr. smoke_main smoke_env ''e2_mm1'' (Some ''yes'') armed_world 1 2 0 = (w', Inr 0)
     \<and> smoke_resolve smoke_env ''e2_mm1'' (Some ''yes'') = Inr cr \<and> sw_observed (armed_world cr) w'"
proof -
  have info: "info_failures (map (\<lambda>k. (k, JBool True)) info_keys) = []"
    by (simp add: info_failures_def info_keys_def get_or_def)
  have upper: "str_upper ''e2_mm1'' = ''E2_MM1''" by code_simp
  have cr: "\<exists>cr. smoke_resolve smoke_env ''e2_mm1'' (Some ''yes'') = Inr cr"
    by (simp add: smoke_resolve_def smoke_env_def env_text_def account_var_def address_var_def Let_def upper)
  have rates: "funding_samples (armed_world cr) 2 0 = (0, Inr [1 / 10000, 1 / 10000])" for cr
    unfolding numeral_2_eq_2 by (simp add: armed_world_def good_calls)
  have "smoke_env ''OPMS_HB_MAINNET'' = Some ''confirm''" by (simp add: smoke_env_def)
  with cr have run: "smoke_main smoke_env ''e2_mm1'' (Some ''yes'') armed_world 1 2 0 = (0, Inr 0)"
    using rates info
    by (auto simp: smoke_main_def smoke_run_def nonce_patch_ok_def smoke_body_def Let_def armed_world_def good_calls funding_failures_def
        equity_gate_failure_def)
  from run passed_smoke_is_armed[OF run] show ?thesis by (auto simp: armed_world_def)
qed

end
