(* ===== verification/ControllerInit.thy ===== *)
theory ControllerInit imports AccountRouting PerpCycle begin

text \<open>
  How a controller of \<open>src/opms/controllers/generic/perp_mm_controller.py\<close> comes to be: its
  configuration class with the constraints of its fields, and \<open>PerpMMController.__init__\<close>, with the
  portfolio book it joins.

  \<open>PerpPairConfig\<close>, \<open>Caps\<close>, \<open>RiskConfig\<close> and \<open>GateConfig\<close> are records of what the code passes to
  perp_bot and mm_core.  The keeper they make is a parameter, as are its ledger and its markout
  tracker, the portfolio gate of a new client, and the directory the decision log needs.
\<close>

section \<open>Configuration\<close>

record perp_settings =
  st_connector :: string
  st_pair :: string
  st_venue :: string
  st_account :: string
  st_gamma :: real
  st_kappa :: real
  st_pricing_model :: string
  st_arrival_rate :: "real option"
  st_sigma :: "real option"
  st_half_spread :: real
  st_maker_fee :: real
  st_min_edge :: real
  st_reprice :: real
  st_max_data_age :: "real option"
  st_widen :: real
  st_max_position :: real
  st_critical_position :: real
  st_quote_size :: "real option"
  st_price_tick :: "real option"
  st_target_inventory :: real
  st_leverage :: int
  st_regime_stop :: bool
  st_toxic_markout :: "real option"
  st_collateral :: string
  st_log_path :: "string option"
  st_shadow :: bool
  st_update_interval :: real
  st_margin_soft :: real
  st_margin_hard :: real
  st_margin_ttl :: real
  st_stop_limit :: real
  st_liveness_timeout :: real
  st_cooldown :: real
  st_refresh_interval :: real
  st_buffer :: real
  st_request_timeout :: real
  st_failure_threshold :: nat
  st_backoff_initial :: real
  st_backoff_max :: real
  st_cycle_timeout :: real
  st_position_side :: "string option"

text \<open>The class's defaults, for the three fields it asks for.\<close>

definition default_settings :: "string \<Rightarrow> string \<Rightarrow> string \<Rightarrow> perp_settings" where
  "default_settings connector pair venue =
     \<lparr>st_connector = connector, st_pair = pair, st_venue = venue, st_account = ''default'', st_gamma = 1 / 2,
      st_kappa = 3 / 10, st_pricing_model = ''legacy'', st_arrival_rate = None, st_sigma = None, st_half_spread = 10,
      st_maker_fee = 3 / 2, st_min_edge = 0, st_reprice = 2, st_max_data_age = Some 15, st_widen = 2,
      st_max_position = 10, st_critical_position = 20, st_quote_size = None, st_price_tick = None,
      st_target_inventory = 0, st_leverage = 1, st_regime_stop = True, st_toxic_markout = Some (- 1),
      st_collateral = ''USD'', st_log_path = None, st_shadow = False, st_update_interval = 5, st_margin_soft = 1 / 5,
      st_margin_hard = 1 / 10, st_margin_ttl = 10, st_stop_limit = 15, st_liveness_timeout = 15, st_cooldown = 30,
      st_refresh_interval = 20, st_buffer = 8, st_request_timeout = 5, st_failure_threshold = 3, st_backoff_initial = 2,
      st_backoff_max = 60, st_cycle_timeout = 15, st_position_side = None\<rparr>"

definition positive_opt :: "real option \<Rightarrow> bool" where
  "positive_opt x = (case x of None \<Rightarrow> True | Some v \<Rightarrow> 0 < v)"

text \<open>The constraints \<open>gt\<close> and \<open>ge\<close> of the fields.\<close>

definition validate_settings :: "perp_settings \<Rightarrow> py_error + perp_settings" where
  "validate_settings s =
     (if positive_opt (st_arrival_rate s) \<and> positive_opt (st_sigma s) \<and> 0 < st_half_spread s \<and> 0 \<le> st_min_edge s
        \<and> 0 < st_reprice s \<and> positive_opt (st_max_data_age s) \<and> positive_opt (st_quote_size s)
        \<and> positive_opt (st_price_tick s) \<and> 0 \<le> st_buffer s
      then Inr s else Inl ValueError)"

definition settings_coin :: "perp_settings \<Rightarrow> string" where
  "settings_coin s = before_dash (st_pair s)"

text \<open>The launcher's and the topology check's view of a configuration.\<close>

definition settings_market :: "perp_settings \<Rightarrow> topo_config" where
  "settings_market s = \<lparr>tc_connector = st_connector s, tc_pair = st_pair s, tc_account = st_account s\<rparr>"

section \<open>The keeper's configuration\<close>

record caps =
  cp_max_position :: real
  cp_critical_position :: real

record risk_config =
  rk_margin_soft :: real
  rk_margin_hard :: real
  rk_regime_stop :: bool
  rk_toxic_markout :: "real option"

record pair_config =
  pc_coin :: string
  pc_gamma :: real
  pc_kappa :: real
  pc_pricing_model :: string
  pc_arrival_rate :: "real option"
  pc_sigma :: "real option"
  pc_half_spread :: real
  pc_maker_fee :: real
  pc_min_edge :: real
  pc_widen :: real
  pc_exchange :: string
  pc_account :: string
  pc_target_inventory :: real
  pc_leverage :: int
  pc_quote_size :: "real option"
  pc_price_tick :: "real option"
  pc_max_data_age :: "real option"
  pc_caps :: caps
  pc_risk :: risk_config

definition pair_config_of :: "perp_settings \<Rightarrow> pair_config" where
  "pair_config_of s =
     \<lparr>pc_coin = settings_coin s, pc_gamma = st_gamma s, pc_kappa = st_kappa s, pc_pricing_model = st_pricing_model s,
      pc_arrival_rate = st_arrival_rate s, pc_sigma = st_sigma s, pc_half_spread = st_half_spread s,
      pc_maker_fee = st_maker_fee s, pc_min_edge = st_min_edge s, pc_widen = st_widen s, pc_exchange = st_venue s,
      pc_account = st_account s, pc_target_inventory = st_target_inventory s, pc_leverage = st_leverage s,
      pc_quote_size = st_quote_size s, pc_price_tick = st_price_tick s, pc_max_data_age = st_max_data_age s,
      pc_caps = \<lparr>cp_max_position = st_max_position s, cp_critical_position = st_critical_position s\<rparr>,
      pc_risk = \<lparr>rk_margin_soft = st_margin_soft s, rk_margin_hard = st_margin_hard s, rk_regime_stop = st_regime_stop s,
                 rk_toxic_markout = st_toxic_markout s\<rparr>\<rparr>"

lemma pair_config_of_simps [simp]:
  "pc_exchange (pair_config_of s) = st_venue s" "pc_coin (pair_config_of s) = settings_coin s"
  "pc_account (pair_config_of s) = st_account s" "pc_leverage (pair_config_of s) = st_leverage s"
  by (simp_all add: pair_config_of_def)

text \<open>What the controller itself reads of its configuration, with the book it joined.\<close>

definition ctl_config_of :: "perp_settings \<Rightarrow> stop_book option \<Rightarrow> ctl_config" where
  "ctl_config_of s book =
     \<lparr>cf_venue = st_venue s, cf_coin = settings_coin s, cf_account = st_account s, cf_pair = st_pair s,
      cf_leverage = st_leverage s, cf_shadow = st_shadow s, cf_max_data_age = st_max_data_age s,
      cf_reprice_bps = st_reprice s, cf_fee_bps = st_maker_fee s, cf_edge_bps = st_min_edge s, cf_buffer_bps = st_buffer s,
      cf_liveness_timeout = st_liveness_timeout s, cf_cooldown = st_cooldown s, cf_refresh_interval = st_refresh_interval s,
      cf_stop_limit = st_stop_limit s, cf_collateral = st_collateral s, cf_margin_ttl = st_margin_ttl s,
      cf_backoff_initial = st_backoff_initial s, cf_position_side = st_position_side s, cf_book = book\<rparr>"

section \<open>Construction\<close>

text \<open>A member without a colon makes a tuple of one, which the book cannot unpack.\<close>

definition portfolio_join :: "environment \<Rightarrow> member \<Rightarrow> py_error + stop_book option" where
  "portfolio_join env key =
     (let db = env_text env ''OPMS_PORTFOLIO_STOP_DB''; raw = env_text env ''OPMS_PORTFOLIO_MEMBERS'' in
      if (db \<noteq> []) \<noteq> (raw \<noteq> []) then Inl ValueError
      else if db = [] then Inr None
      else case parse_members raw of
             None \<Rightarrow> Inl ValueError
           | Some ms \<Rightarrow>
               res_bind (new_stop_book db ms (Num 20)) (\<lambda>b. if key \<in> set ms then Inr (Some b) else Inl ValueError))"

record ('k, 'l, 'm, 'g) keeper_lib =
  kl_new :: "pair_config \<Rightarrow> string option \<Rightarrow> bool \<Rightarrow> py_error + 'k"
  kl_ledger :: "'k \<Rightarrow> 'l"
  kl_markout :: "'k \<Rightarrow> 'm"
  kl_gate :: 'g
  kl_make_dirs :: "string \<Rightarrow> py_error option"

record ('k, 'l, 'm, 'p, 'g) perp_mm =
  pm_config :: ctl_config
  pm_interval :: real
  pm_keeper :: 'k
  pm_client :: "('p, 'g) client"
  pm_observer :: "('l, 'm) observer"
  pm_ctl :: ctl
  pm_margin_cache :: "(real \<times> real) option"
  pm_transform :: bool

definition new_client :: "'g \<Rightarrow> ('p, 'g) client" where
  "new_client gate = \<lparr>cl_positions = (\<lambda>_. None), last_intent = None, last_portfolio_intent = None, portfolio_gate = gate\<rparr>"

text \<open>
  \<open>PerpMMController.__init__\<close>.  \<open>given\<close> is an update interval of the caller, by position or by
  name; the table is the one in the file of the book.
\<close>

definition init_controller :: "('k, 'l, 'm, 'g) keeper_lib \<Rightarrow> environment \<Rightarrow> leg_table \<Rightarrow> real option \<Rightarrow> perp_settings
    \<Rightarrow> py_error + ('k, 'l, 'm, 'p, 'g) perp_mm" where
  "init_controller X env table given s =
     res_bind (case st_log_path s of
                 Some (c # p) \<Rightarrow> (case kl_make_dirs X (c # p) of Some e \<Rightarrow> Inl e | None \<Rightarrow> Inr ())
               | _ \<Rightarrow> Inr ()) (\<lambda>_.
     res_bind (kl_new X (pair_config_of s) (st_log_path s) (st_shadow s)) (\<lambda>k.
     res_bind (portfolio_join env (st_account s, settings_coin s)) (\<lambda>book.
       let cfg = ctl_config_of s book in
       Inr \<lparr>pm_config = cfg, pm_interval = (case given of Some i \<Rightarrow> i | None \<Rightarrow> st_update_interval s), pm_keeper = k,
            pm_client = new_client (kl_gate X), pm_observer = new_observer (st_pair s) (kl_ledger X k) (kl_markout X k),
            pm_ctl = new_ctl cfg (st_failure_threshold s) (st_backoff_initial s) (st_backoff_max s) table,
            pm_margin_cache = None, pm_transform = (book \<noteq> None)\<rparr>)))"

section \<open>The launcher and the constructor agree\<close>

text \<open>Checking all controllers at once is checking each: what the launcher accepts, every constructor does.\<close>

lemma setup_is_every_join:
  assumes "cfgs \<noteq> []"
  shows "portfolio_setup env cfgs = Inr stop \<longleftrightarrow> (\<forall>cfg\<in>set cfgs. portfolio_join env (member_key cfg) = Inr stop)"
proof -
  let ?db = "env_text env ''OPMS_PORTFOLIO_STOP_DB''" and ?raw = "env_text env ''OPMS_PORTFOLIO_MEMBERS''"
  obtain c cs where c: "cfgs = c # cs" using assms by (cases cfgs) auto
  show ?thesis
  proof (cases "(?db \<noteq> []) \<noteq> (?raw \<noteq> []) \<or> ?db = [] \<or> parse_members ?raw = None")
    case True
    then show ?thesis by (auto simp: portfolio_setup_def portfolio_join_def Let_def c)
  next
    case False
    then obtain ms where ms: "parse_members ?raw = Some ms" "?db \<noteq> []" "?raw \<noteq> []" by auto
    then show ?thesis
      by (cases "new_stop_book ?db ms (Num 20)")
         (auto simp: portfolio_setup_def portfolio_join_def Let_def c list_all_iff)
  qed
qed

lemma member_key_settings: "lc_market cfg = settings_market s \<Longrightarrow> member_key cfg = (st_account s, settings_coin s)"
  by (simp add: member_key_def settings_market_def settings_coin_def)

lemma launch_setup: "opms_launch caps cfgs connectors dotenv env = (flags, Inr stop) \<Longrightarrow> portfolio_setup env cfgs = Inr stop"
  by (auto simp: opms_launch_def Let_def res_bind_Inr split: sum.splits prod.splits)

text \<open>
  C36: A launch that was accepted does not lose a controller to the portfolio book: every
  controller of it whose keeper can be made and whose log directory exists is constructed, on the very
  book the launcher checked, so that all of them share its file, members and staleness, its account and coin
  are a member, and its intents go through the basket exactly when there is a book.  It
  starts quiet: no pending intent, a closed circuit, quotes allowed from the start.  The keeper and the controller
  are given the same venue, coin, account and leverage.
\<close>

theorem launched_controllers_are_constructed:
  assumes launch: "opms_launch caps cfgs connectors dotenv env = (flags, Inr stop)"
    and cfg: "cfg \<in> set cfgs" "lc_market cfg = settings_market s"
    and keeper: "kl_new X (pair_config_of s) (st_log_path s) (st_shadow s) = Inr k"
    and dirs: "\<And>p. kl_make_dirs X p = None"
  shows "\<exists>p. init_controller X env table given s = Inr p \<and> pm_keeper p = k \<and> cf_book (pm_config p) = stop
    \<and> (pm_transform p \<longleftrightarrow> stop \<noteq> None)
    \<and> (\<forall>b. stop = Some b \<longrightarrow> book_ok b \<and> (cf_account (pm_config p), cf_coin (pm_config p)) \<in> set (members b))
    \<and> (pc_exchange (pair_config_of s), pc_coin (pair_config_of s), pc_account (pair_config_of s), pc_leverage (pair_config_of s))
        = (cf_venue (pm_config p), cf_coin (pm_config p), cf_account (pm_config p), cf_leverage (pm_config p))
    \<and> last_intent (pm_client p) = None \<and> ob_last_fill (pm_observer p) = None
    \<and> (\<forall>now\<ge>0. allow_request (c_breaker (pm_ctl p)) now \<and> allow_quotes (c_watchdog (pm_ctl p)) now)"
proof -
  have accepted: "portfolio_setup env cfgs = Inr stop" using launch_setup[OF launch] .
  with cfg setup_is_every_join[of cfgs env stop] member_key_settings[OF cfg(2)]
  have join: "portfolio_join env (st_account s, settings_coin s) = Inr stop" by force
  have member: "\<forall>b. stop = Some b \<longrightarrow> book_ok b \<and> (st_account s, settings_coin s) \<in> set (members b)"
    using portfolio_setup_ok[OF accepted] cfg(1) member_key_settings[OF cfg(2)] by metis
  have "(case st_log_path s of
                 Some (c # p) \<Rightarrow> (case kl_make_dirs X (c # p) of Some e \<Rightarrow> Inl e | None \<Rightarrow> Inr ())
               | _ \<Rightarrow> Inr ()) = Inr ()"
    by (simp add: dirs split: option.split list.split)
  then show ?thesis
    using member
    by (simp add: init_controller_def keeper join Let_def ctl_config_of_def new_client_def new_observer_def
        new_ctl_def new_breaker_def new_watchdog_def allow_request_def allow_quotes_def)
qed

text \<open>
  The launcher's check of the portfolio variables and the constructors' are equivalent: for a
  launch of at least one controller, the launcher accepts them with a book exactly when every
  controller's constructor joins that same book.  So neither a fleet the launcher accepts loses a controller
  to them, nor does the launcher refuse one that would have come up.
\<close>

theorem launcher_and_constructors_agree:
  assumes "ss \<noteq> []" "map lc_market cfgs = map settings_market ss"
  shows "portfolio_setup env cfgs = Inr stop
    \<longleftrightarrow> (\<forall>s\<in>set ss. portfolio_join env (st_account s, settings_coin s) = Inr stop)"
proof -
  have "cfgs \<noteq> []" using assms by auto
  have key: "member_key cfg = (tc_account (lc_market cfg), before_dash (tc_pair (lc_market cfg)))" for cfg
    by (simp add: member_key_def)
  have "(\<lambda>m. (tc_account m, before_dash (tc_pair m))) ` set (map lc_market cfgs)
      = (\<lambda>m. (tc_account m, before_dash (tc_pair m))) ` set (map settings_market ss)" using assms(2) by simp
  then have "member_key ` set cfgs = (\<lambda>s. (st_account s, settings_coin s)) ` set ss"
    by (simp add: image_image key[abs_def] settings_market_def settings_coin_def)
  then show ?thesis unfolding setup_is_every_join[OF \<open>cfgs \<noteq> []\<close>] by (metis (no_types, lifting) imageE imageI)
qed

section \<open>A basket of two accounts\<close>

definition basket_env :: environment where
  "basket_env =
     [''OPMS_PORTFOLIO_STOP_DB'' \<mapsto> ''/b'', ''OPMS_PORTFOLIO_MEMBERS'' \<mapsto> ''a:ETH,b:SOL'',
      ''HYPERLIQUID_A_ACCOUNT_ADDRESS'' \<mapsto> ''0x1'']"

definition eth_settings :: perp_settings where
  "eth_settings = (default_settings ''hl'' ''ETH-USD'' ''hyperliquid'')\<lparr>st_account := ''a''\<rparr>"

definition eth_launch :: launch_config where
  "eth_launch = \<lparr>lc_id = ''c'', lc_market = settings_market eth_settings\<rparr>"

definition unit_lib :: "(unit, unit, unit, unit) keeper_lib" where
  "unit_lib = \<lparr>kl_new = (\<lambda>_ _ _. Inr ()), kl_ledger = id, kl_markout = id, kl_gate = (), kl_make_dirs = (\<lambda>_. None)\<rparr>"

definition basket_book :: stop_book where
  "basket_book = \<lparr>book_path = ''/b'', members = [(''a'', ''ETH''), (''b'', ''SOL'')], stale_s = 20\<rparr>"

lemma basket_setup: "portfolio_setup basket_env [eth_launch] = Inr (Some basket_book)"
proof -
  have parse: "parse_members ''a:ETH,b:SOL'' = Some [(''a'', ''ETH''), (''b'', ''SOL'')]" by code_simp
  show ?thesis
    by (simp add: portfolio_setup_def basket_env_def env_text_def parse new_stop_book_def str_startswith_def basket_book_def
        eth_launch_def member_key_def settings_market_def eth_settings_def default_settings_def before_dash_def)
qed

theorem launched_controllers_are_constructed_witness:
  "\<exists>flags. opms_launch (\<lambda>_. Inr ''net'') [eth_launch] [(''hl'', Some ''0x1'', False)] Map.empty basket_env
       = (flags, Inr (Some basket_book))
     \<and> (\<exists>p :: (unit, unit, unit, unit, unit) perp_mm. init_controller unit_lib basket_env [] None eth_settings = Inr p
          \<and> cf_book (pm_config p) = Some basket_book)"
proof -
  have var: "address_var ''a'' = ''HYPERLIQUID_A_ACCOUNT_ADDRESS''" by code_simp
  have pair: "st_pair eth_settings = ''ETH-USD''" "st_connector eth_settings = ''hl''" "st_account eth_settings = ''a''"
    by (simp_all add: eth_settings_def default_settings_def)
  have addr: "env_text basket_env ''HYPERLIQUID_A_ACCOUNT_ADDRESS'' = ''0x1''" by (simp add: basket_env_def env_text_def)
  have market: "lc_market eth_launch = \<lparr>tc_connector = ''hl'', tc_pair = ''ETH-USD'', tc_account = ''a''\<rparr>"
    by (simp add: eth_launch_def settings_market_def pair)
  have native: "\<not> native_only ''hl'' [''ETH-USD'']" by code_simp
  obtain flags where l: "opms_launch (\<lambda>_. Inr ''net'') [eth_launch] [(''hl'', Some ''0x1'', False)] Map.empty basket_env
       = (flags, Inr (Some basket_book))"
    by (simp add: opms_launch_def basket_setup validate_controller_topology_def get_venue_capabilities_def Let_def
        restrict_hyperliquid_market_scope_def pairs_by_connector_def add_pair_def market native
        check_account_routing_def var addr)
  have "\<exists>p :: (unit, unit, unit, unit, unit) perp_mm. init_controller unit_lib basket_env [] None eth_settings = Inr p
      \<and> pm_keeper p = () \<and> cf_book (pm_config p) = Some basket_book"
    using launched_controllers_are_constructed[OF l, of eth_launch eth_settings unit_lib "()" "[]" None]
    by (simp add: eth_launch_def unit_lib_def) blast
  with l show ?thesis by blast
qed

theorem launcher_and_constructors_agree_witness:
  "portfolio_join basket_env (''a'', ''ETH'') = Inr (Some basket_book)"
  using launcher_and_constructors_agree[of "[eth_settings]" "[eth_launch]" basket_env "Some basket_book"] basket_setup
  by (simp add: eth_launch_def eth_settings_def default_settings_def settings_coin_def before_dash_def)

end
