(* ===== verification/ACRuns.thy ===== *)
theory ACRuns imports ACSchedule begin

text \<open>
  Runs of the Almgren-Chriss executor (\<open>src/opms/executors/ac_schedule_executor.py\<close>): any sequence
  of control ticks, events and calls from the moment Hummingbot starts it, and what holds at the
  end of every one of them.
\<close>

section \<open>Runs\<close>

text \<open>A tick carries what it reads: the clock, the forecast and Hummingbot's records of the orders.\<close>

datatype ac_event =
    AcTick venue "py_error + real list" real
  | AcCompleted venue string real
  | AcFailed string
  | AcCanceled string
  | AcStop bool
  | AcRetries real

fun ac_apply :: "ac_config \<Rightarrow> real \<Rightarrow> (call list \<Rightarrow> string) \<Rightarrow> ac_event \<Rightarrow> ac_state \<Rightarrow> ac_state" where
  "ac_apply cfg d new_id (AcTick vn volumes now) s = ac_control_task cfg d new_id vn volumes now s"
| "ac_apply cfg d new_id (AcCompleted vn oid executed) s = ac_completed vn oid executed s"
| "ac_apply cfg d new_id (AcFailed oid) s = ac_failed_event oid s"
| "ac_apply cfg d new_id (AcCanceled oid) s = ac_canceled_event oid s"
| "ac_apply cfg d new_id (AcStop keep) s = ac_early_stop keep s"
| "ac_apply cfg d new_id (AcRetries now) s = ac_evaluate_max_retries now s"

definition ac_run :: "ac_config \<Rightarrow> real \<Rightarrow> (call list \<Rightarrow> string) \<Rightarrow> ac_event list \<Rightarrow> ac_state \<Rightarrow> ac_state" where
  "ac_run cfg d new_id evs s = fold (ac_apply cfg d new_id) evs s"

text \<open>\<open>ExecutorBase.start\<close> sets the status.\<close>

definition ac_started :: "ac_state \<Rightarrow> ac_state" where
  "ac_started s = s\<lparr>ac_status := Running\<rparr>"

definition placed :: "ac_state \<Rightarrow> call list" where
  "placed s = filter (\<lambda>c. case c of Place _ _ _ _ \<Rightarrow> True | _ \<Rightarrow> False) (ac_sent s)"

lemma ac_run_induct:
  assumes "P s" "\<And>ev t. ev \<in> set evs \<Longrightarrow> P t \<Longrightarrow> P (ac_apply cfg d new_id ev t)"
  shows "P (ac_run cfg d new_id evs s)"
  using assms by (induction evs arbitrary: s) (auto simp: ac_run_def)

section \<open>Orders and slices\<close>

text \<open>
  Every order placed is tracked as submitted or as failed, a failure is counted as a retry, and
  no more orders are tracked than slices were taken; before the schedule is final no
  slice was taken.
\<close>

definition ac_ok :: "ac_state \<Rightarrow> bool" where
  "ac_ok s \<longleftrightarrow> length (placed s) = length (ac_submitted s) + length (ac_failed s) \<and> ac_retries s = length (ac_failed s)
     \<and> length (ac_submitted s) \<le> ac_idx s \<and> ac_idx s \<le> length (ac_schedule s)
     \<and> (\<not> ac_resolved s \<longrightarrow> ac_idx s = 0) \<and> (\<forall>c\<in>set (placed s). \<exists>oid q. c = Place oid Market q NaN)"

lemma placed_simps [simp]:
  "placed (s\<lparr>ac_sent := StopCall # cs\<rparr>) = placed (s\<lparr>ac_sent := cs\<rparr>)"
  "placed (s\<lparr>ac_sent := Place oid ty q p # cs\<rparr>) = Place oid ty q p # placed (s\<lparr>ac_sent := cs\<rparr>)"
  by (simp_all add: placed_def)

lemma placed_cong: "ac_sent s = ac_sent t \<Longrightarrow> placed s = placed t"
  by (simp add: placed_def)

lemma ac_ok_close: "ac_ok s \<Longrightarrow> ac_ok (ac_close ct now s)"
  by (simp add: ac_ok_def ac_close_def placed_def)

lemma ac_ok_submit: "ac_ok s \<Longrightarrow> ac_resolved s \<Longrightarrow> ac_ok (submit_next_slice cfg new_id vn now s)"
  by (auto simp: ac_ok_def submit_next_slice_def Let_def placed_def)

lemma ac_ok_resolve: "ac_ok s \<Longrightarrow> ac_ok (resolve_volume_schedule cfg d volumes s) \<and> ac_resolved (resolve_volume_schedule cfg d volumes s)"
  by (auto simp: ac_ok_def resolve_volume_schedule_def Let_def placed_def split: sum.split)

lemma ac_ok_tick: "ac_ok s \<Longrightarrow> ac_ok (ac_tick cfg d new_id vn volumes now s)"
proof -
  assume s: "ac_ok s"
  let ?r = "resolve_volume_schedule cfg d volumes s"
  let ?t = "if ac_start ?r = None then ?r\<lparr>ac_start := Some now\<rparr> else ?r"
  have "ac_ok ?t" "ac_resolved ?t" using ac_ok_resolve[OF s, of cfg d volumes] by (auto simp: ac_ok_def placed_def)
  then show ?thesis
    unfolding ac_tick_def Let_def by (auto intro: ac_ok_close ac_ok_submit split: option.split)
qed

lemma ac_ok_failed: "ac_ok s \<Longrightarrow> ac_ok (ac_failed_event oid s)"
proof -
  assume s: "ac_ok s"
  show ?thesis
  proof (cases "find_tracked oid s")
    case None
    with s show ?thesis by (simp add: ac_failed_event_def)
  next
    case (Some t)
    then have "t \<in> set (ac_submitted s)"
      by (auto simp: find_tracked_def find_Some_iff)
    then have "length (remove1 t (ac_submitted s)) = length (ac_submitted s) - 1" "0 < length (ac_submitted s)"
      by (auto simp: length_remove1)
    with s Some show ?thesis
      by (auto simp: ac_ok_def ac_failed_event_def placed_def)
  qed
qed

lemma ac_ok_completed: "ac_ok s \<Longrightarrow> ac_ok (ac_completed vn oid executed s)"
  by (simp add: ac_completed_def ac_ok_def Let_def placed_def split: option.split)

lemma ac_ok_stop: "ac_ok s \<Longrightarrow> ac_ok (ac_early_stop keep s)"
  by (simp add: ac_early_stop_def ac_ok_def placed_def)

lemma ac_ok_apply: "ac_ok s \<Longrightarrow> ac_ok (ac_apply cfg d new_id ev s)"
proof (cases ev)
  case (AcTick vn volumes now)
  moreover assume "ac_ok s"
  ultimately show ?thesis
    by (auto simp: ac_control_task_def intro: ac_ok_tick ac_ok_close split: run_status.split)
next
  case (AcRetries now)
  moreover assume "ac_ok s"
  ultimately show ?thesis by (simp add: ac_evaluate_max_retries_def ac_ok_close)
qed (simp_all add: ac_ok_completed ac_ok_failed ac_ok_stop ac_canceled_event_def)

lemma ac_ok_started: "new_ac cfg m = Inr s0 \<Longrightarrow> ac_ok (ac_started s0)"
  by (auto simp: new_ac_def ac_ok_def ac_started_def placed_def split: sum.splits if_splits)

text \<open>Without a forecast the schedule is the one the constructor bounded.\<close>

lemma schedule_fixed:
  "ac_resolved s \<Longrightarrow> ac_resolved (ac_apply cfg d new_id ev s) \<and> ac_schedule (ac_apply cfg d new_id ev s) = ac_schedule s"
  by (cases ev)
     (auto simp: ac_control_task_def ac_tick_def resolve_volume_schedule_def submit_next_slice_def ac_close_def ac_completed_def
        ac_failed_event_def ac_canceled_event_def ac_early_stop_def ac_evaluate_max_retries_def Let_def
        split: run_status.split option.split)


definition fresh_id :: "call list \<Rightarrow> string" where
  "fresh_id cs = replicate (length cs) CHR ''o''"

definition nothing_done :: venue where
  "nothing_done = \<lparr>vn_done = (\<lambda>_. False), vn_executed = (\<lambda>_. 0)\<rparr>"

definition full_run :: "ac_event list" where
  "full_run =
     [AcTick nothing_done (Inr []) 0, AcCompleted nothing_done '''' 2, AcTick nothing_done (Inr []) 20,
      AcCompleted nothing_done ''o'' 2, AcTick nothing_done (Inr []) 40, AcCompleted nothing_done ''oo'' 2,
      AcTick nothing_done (Inr []) 60]"

lemma full_run_filled:
  "ac_filled (ac_run sample_ac 60 fresh_id full_run (ac_started sample_ac_state)) = 6"
  "ac_submitted (ac_run sample_ac 60 fresh_id full_run (ac_started sample_ac_state)) \<noteq> []"
  by (simp_all add: ac_run_def full_run_def ac_control_task_def ac_tick_def resolve_volume_schedule_def submit_next_slice_def
      ac_completed_def find_tracked_def ac_all_done_def slice_amount_def working_executed_def Let_def fresh_id_def
      nothing_done_def sample_ac_def sample_ac_state_def ac_started_def)


section \<open>Completion needs Hummingbot's record of the order\<close>

text \<open>
  An event that reads no order as done: the executor tracks an order by its id, and no callback of it
  attaches Hummingbot's record of the order, without which a tracked order is not done.
\<close>

fun unattached :: "ac_event \<Rightarrow> bool" where
  "unattached (AcTick vn _ _) \<longleftrightarrow> (\<forall>oid. \<not> vn_done vn oid)"
| "unattached (AcCompleted vn _ _) \<longleftrightarrow> (\<forall>oid. \<not> vn_done vn oid)"
| "unattached (AcFailed _) \<longleftrightarrow> True"
| "unattached (AcCanceled _) \<longleftrightarrow> True"
| "unattached (AcStop _) \<longleftrightarrow> False"
| "unattached (AcRetries _) \<longleftrightarrow> False"

definition alive :: "ac_state \<Rightarrow> bool" where
  "alive s \<longleftrightarrow> ac_status s \<in> {Running, ShuttingDown, Terminated} \<and> (ac_submitted s \<noteq> [] \<longrightarrow> ac_status s = Running)"

lemma not_all_done: "\<forall>oid. \<not> vn_done vn oid \<Longrightarrow> ac_all_done vn s \<Longrightarrow> ac_submitted s = []"
  by (cases "ac_submitted s") (auto simp: ac_all_done_def)

lemma submitted_resolve [simp]:
  "ac_submitted (resolve_volume_schedule cfg d volumes s) = ac_submitted s"
  "ac_status (resolve_volume_schedule cfg d volumes s) = ac_status s"
  by (simp_all add: resolve_volume_schedule_def Let_def split: sum.split)

lemma alive_tick: "\<forall>oid. \<not> vn_done vn oid \<Longrightarrow> ac_status s = Running \<Longrightarrow> alive (ac_tick cfg d new_id vn volumes now s)"
  by (auto simp: alive_def ac_tick_def Let_def ac_close_def submit_next_slice_def dest: not_all_done split: option.split)

lemma alive_apply: "unattached ev \<Longrightarrow> alive s \<Longrightarrow> alive (ac_apply cfg d new_id ev s)"
proof (cases ev)
  case (AcTick vn volumes now)
  moreover assume "unattached ev" "alive s"
  ultimately show ?thesis
    by (cases "ac_status s") (auto simp: ac_control_task_def alive_tick, auto simp: alive_def ac_close_def)
next
  case (AcCompleted vn oid executed)
  moreover assume "unattached ev" "alive s"
  ultimately show ?thesis
    by (auto simp: alive_def ac_completed_def Let_def dest!: not_all_done split: option.split)
qed (auto simp: alive_def ac_failed_event_def ac_canceled_event_def split: option.split)



end
