(* ===== verification/CredentialImport.thy ===== *)
theory CredentialImport imports AccountRouting begin

text \<open>
  \<open>scripts/import_hl_mainnet_credentials.py\<close> and \<open>scripts/import_hl_testnet_credentials.py\<close>: what they
  write into Hummingbot's encrypted store, and in which order.

  Hummingbot's \<open>Security\<close> is a parameter: each of its calls may raise.  A call the scripts make is
  recorded; the store itself is the last configuration written to each connector's slot.
\<close>

section \<open>The store\<close>

record hb_slot =
  sl_connector :: string
  sl_mode :: string
  sl_vault :: bool
  sl_address :: string
  sl_key :: string

datatype store_call = StorePassword string | SecLogin string | UpdateConfig hb_slot

record security =
  sec_new_password :: "py_error + bool"
  sec_store :: "string \<Rightarrow> py_error + unit"
  sec_login :: "string \<Rightarrow> py_error + bool"
  sec_config :: "hb_slot \<Rightarrow> py_error + unit"
  sec_update :: "hb_slot \<Rightarrow> py_error + unit"

text \<open>\<open>import_credentials\<close>: a first password is stored, a later one has to match.\<close>

definition write_slot :: "security \<Rightarrow> string \<Rightarrow> hb_slot \<Rightarrow> store_call list \<times> (py_error + unit)" where
  "write_slot S password slot =
     (case sec_new_password S of
        Inl e \<Rightarrow> ([], Inl e)
      | Inr fresh \<Rightarrow>
          let stored = (if fresh then [StorePassword password] else []) in
          case (if fresh then sec_store S password else Inr ()) of
            Inl e \<Rightarrow> (stored, Inl e)
          | Inr _ \<Rightarrow>
              (case sec_login S password of
                 Inl e \<Rightarrow> (stored @ [SecLogin password], Inl e)
               | Inr False \<Rightarrow> (stored @ [SecLogin password], Inl system_exit)
               | Inr True \<Rightarrow>
                   (case sec_config S slot of
                      Inl e \<Rightarrow> (stored @ [SecLogin password], Inl e)
                    | Inr _ \<Rightarrow> (stored @ [SecLogin password, UpdateConfig slot], sec_update S slot))))"

section \<open>The two scripts\<close>

definition mainnet_slot :: "credentials \<Rightarrow> hb_slot" where
  "mainnet_slot cr =
     \<lparr>sl_connector = ''hyperliquid_perpetual'', sl_mode = ''api_wallet'', sl_vault = cr_vault cr, sl_address = cr_address cr,
      sl_key = cr_key cr\<rparr>"

definition mainnet_import :: "security \<Rightarrow> environment \<Rightarrow> string \<Rightarrow> string option \<Rightarrow> bool \<Rightarrow> store_call list \<times> (py_error + unit)" where
  "mainnet_import S env account use_vault dry_run =
     (case import_resolve env account use_vault of
        Inl e \<Rightarrow> ([], Inl e)
      | Inr cr \<Rightarrow>
          if dry_run then ([], Inr ())
          else (case env ''HB_PASSWORD'' of None \<Rightarrow> ([], Inl KeyError) | Some pw \<Rightarrow> write_slot S pw (mainnet_slot cr)))"

definition required_vars :: "string list" where
  "required_vars = [''HYPERLIQUID_L4TEST_MAIN_PRIVATE_KEY'', ''HYPERLIQUID_L4TEST_MAIN_ACCOUNT_ADDRESS'', ''HB_PASSWORD'']"

text \<open>\<open>_read_env\<close>: key, address and password.\<close>

definition read_testnet_env :: "environment \<Rightarrow> py_error + (string \<times> string \<times> string)" where
  "read_testnet_env env =
     (if list_all (env_truthy env) required_vars
      then Inr (env_text env (required_vars ! 0), env_text env (required_vars ! 1), env_text env (required_vars ! 2))
      else Inl system_exit)"

definition testnet_slot :: "string \<Rightarrow> string \<Rightarrow> hb_slot" where
  "testnet_slot key address =
     \<lparr>sl_connector = ''hyperliquid_perpetual_testnet'', sl_mode = ''arb_wallet'', sl_vault = False, sl_address = address,
      sl_key = key\<rparr>"

definition testnet_import :: "security \<Rightarrow> environment \<Rightarrow> bool \<Rightarrow> store_call list \<times> (py_error + unit)" where
  "testnet_import S env dry_run =
     (case read_testnet_env env of
        Inl e \<Rightarrow> ([], Inl e)
      | Inr (key, address, pw) \<Rightarrow> if dry_run then ([], Inr ()) else write_slot S pw (testnet_slot key address))"

text \<open>The store after the calls: one slot for each connector.\<close>

fun store_after :: "store_call list \<Rightarrow> (string \<Rightarrow> hb_slot option) \<Rightarrow> string \<Rightarrow> hb_slot option" where
  "store_after [] m = m"
| "store_after (UpdateConfig slot # cs) m = store_after cs (m(sl_connector slot \<mapsto> slot))"
| "store_after (c # cs) m = store_after cs m"

section \<open>What an import leaves behind\<close>

lemma write_slot_calls:
  assumes "write_slot S pw slot = (calls, res)" "UpdateConfig x \<in> set calls"
  shows "x = slot \<and> sec_login S pw = Inr True \<and> last calls = UpdateConfig slot \<and> res = sec_update S slot"
  using assms by (auto simp: write_slot_def Let_def split: sum.splits if_splits bool.splits)

lemma write_slot_ok:
  assumes "write_slot S pw slot = (calls, Inr ())"
  shows "store_after calls m = m(sl_connector slot \<mapsto> slot) \<and> sec_login S pw = Inr True"
  using assms by (auto simp: write_slot_def Let_def split: sum.splits if_splits bool.splits)

lemma store_untouched: "\<forall>slot. UpdateConfig slot \<in> set calls \<longrightarrow> sl_connector slot \<noteq> c \<Longrightarrow> store_after calls m c = m c"
  by (induction calls m rule: store_after.induct) auto

text \<open>What the mainnet script writes, if it writes.\<close>

lemma mainnet_import_calls:
  assumes "mainnet_import S env account use_vault dry_run = (calls, res)" "UpdateConfig x \<in> set calls"
  shows "\<not> dry_run \<and> (\<exists>cr. import_resolve env account use_vault = Inr cr \<and> x = mainnet_slot cr)
    \<and> (\<exists>pw. env ''HB_PASSWORD'' = Some pw \<and> sec_login S pw = Inr True)"
  using assms by (auto simp: mainnet_import_def split: sum.splits if_splits option.splits dest: write_slot_calls)

text \<open>
  The mainnet script writes at most its own connector's slot, with exactly the credentials the
  account resolves to, and only after a login with the declared password; the testnet script never touches that
  slot, and a dry run of either writes nothing.  After two imports the slot is the second account's:
  the launcher then accepts every controller of the second account and refuses every controller of
  the first, unless both are the same address.
\<close>

theorem last_import_decides_the_route:
  assumes first: "mainnet_import S env a va False = (calls1, Inr ())"
    and second: "mainnet_import S env b vb False = (calls2, Inr ())"
    and cfgs: "tc_account (lc_market cfg_a) = a" "tc_account (lc_market cfg_b) = b"
  shows "\<exists>cr slot. import_resolve env b vb = Inr cr \<and> slot = mainnet_slot cr
    \<and> (\<forall>t dry. store_after (calls1 @ calls2 @ fst (testnet_import S t dry)) m ''hyperliquid_perpetual'' = Some slot)
    \<and> (\<forall>c. c \<noteq> ''hyperliquid_perpetual'' \<longrightarrow> store_after (calls1 @ calls2) m c = m c)
    \<and> (\<exists>pw. env ''HB_PASSWORD'' = Some pw \<and> sec_login S pw = Inr True)
    \<and> fst (mainnet_import S env a va True) = []
    \<and> check_account_routing env cfg_b (Some (sl_address slot)) = Inr ()
    \<and> (check_account_routing env cfg_a (Some (sl_address slot)) = Inr ()
         \<longleftrightarrow> str_lower (env_text env (address_var a)) = str_lower (env_text env (address_var b)))"
proof -
  have run: "\<exists>cr pw. import_resolve env x v = Inr cr \<and> env ''HB_PASSWORD'' = Some pw \<and> write_slot S pw (mainnet_slot cr) = (calls, Inr ())"
    if "mainnet_import S env x v False = (calls, Inr ())" for x v calls
    using that by (auto simp: mainnet_import_def split: sum.splits option.splits)
  obtain cra pw where a: "import_resolve env a va = Inr cra" "env ''HB_PASSWORD'' = Some pw"
    "write_slot S pw (mainnet_slot cra) = (calls1, Inr ())" using run[OF first] by blast
  obtain crb where b: "import_resolve env b vb = Inr crb" "write_slot S pw (mainnet_slot crb) = (calls2, Inr ())"
    using run[OF second] a(2) by auto
  have append: "store_after (xs @ ys) m = store_after ys (store_after xs m)" for xs ys m
    by (induction xs m rule: store_after.induct) (simp_all add: fun_upd_def)
  have conn: "sl_connector (mainnet_slot cr) = ''hyperliquid_perpetual''" for cr by (simp add: mainnet_slot_def)
  have test: "store_after (fst (testnet_import S t dry)) n ''hyperliquid_perpetual'' = n ''hyperliquid_perpetual''" for t dry n
  proof (rule store_untouched, intro allI impI)
    fix slot assume "UpdateConfig slot \<in> set (fst (testnet_import S t dry))"
    then obtain pw' key address where "UpdateConfig slot \<in> set (fst (write_slot S pw' (testnet_slot key address)))"
      by (auto simp: testnet_import_def split: sum.splits if_splits)
    then have "slot = testnet_slot key address" using write_slot_calls by (metis prod.collapse)
    then show "sl_connector slot \<noteq> ''hyperliquid_perpetual''" by (simp add: testnet_slot_def)
  qed
  have addr: "cr_address cr = str_lower (env_text env (address_var x)) \<and> env_text env (address_var x) \<noteq> []"
    if "import_resolve env x v = Inr cr" for x v cr
    using that by (auto simp: import_resolve_def Let_def split: if_splits option.splits)
  have lower: "str_lower (str_lower s) = str_lower s" for s
    by (simp add: str_lower_def) (auto simp: lower_char_def Let_def)
  have empty: "str_lower s = [] \<longleftrightarrow> s = []" for s by (simp add: str_lower_def)
  have route: "check_account_routing env cfg (Some (sl_address (mainnet_slot cr))) = Inr ()
      \<longleftrightarrow> str_lower (env_text env (address_var x)) = str_lower (env_text env (address_var y))"
    if "tc_account (lc_market cfg) = x" "import_resolve env y v = Inr cr" "env_text env (address_var x) \<noteq> []" for cfg x y v cr
    using that addr[OF that(2)] by (auto simp: check_account_routing_def Let_def mainnet_slot_def lower empty)
  show ?thesis
    using a b write_slot_ok[OF a(3)] write_slot_ok[OF b(2)] addr[OF a(1)] addr[OF b(1)]
    by (intro exI[of _ crb] exI[of _ "mainnet_slot crb"])
       (simp add: append test conn route[OF cfgs(1) b(1)] route[OF cfgs(2) b(1)] mainnet_import_def)
qed

definition open_store :: security where
  "open_store =
     \<lparr>sec_new_password = Inr False, sec_store = (\<lambda>_. Inr ()), sec_login = (\<lambda>pw. Inr (pw = ''p'')), sec_config = (\<lambda>_. Inr ()),
      sec_update = (\<lambda>_. Inr ())\<rparr>"

definition two_accounts :: environment where
  "two_accounts =
     [''HYPERLIQUID_A_ACCOUNT_ADDRESS'' \<mapsto> ''0x1'', ''HYPERLIQUID_A_PRIVATE_KEY'' \<mapsto> ''k'',
      ''HYPERLIQUID_B_ACCOUNT_ADDRESS'' \<mapsto> ''0x2'', ''HYPERLIQUID_B_PRIVATE_KEY'' \<mapsto> ''l'', ''HB_PASSWORD'' \<mapsto> ''p'']"

definition account_config :: "string \<Rightarrow> launch_config" where
  "account_config account = \<lparr>lc_id = account, lc_market = \<lparr>tc_connector = ''hl'', tc_pair = ''ETH-USD'', tc_account = account\<rparr>\<rparr>"

theorem last_import_decides_the_route_witness:
  "\<exists>slot :: hb_slot. check_account_routing two_accounts (account_config ''b'') (Some (sl_address slot)) = Inr ()
     \<and> check_account_routing two_accounts (account_config ''a'') (Some (sl_address slot)) \<noteq> Inr ()"
proof -
  have names: "address_var ''a'' = ''HYPERLIQUID_A_ACCOUNT_ADDRESS''" "address_var ''b'' = ''HYPERLIQUID_B_ACCOUNT_ADDRESS''"
    "account_var ''a'' ''PRIVATE_KEY'' = ''HYPERLIQUID_A_PRIVATE_KEY''" "account_var ''b'' ''PRIVATE_KEY'' = ''HYPERLIQUID_B_PRIVATE_KEY''"
    "str_lower (str_strip ''no'') = ''no''" "str_lower ''0x1'' = ''0x1''" "str_lower ''0x2'' = ''0x2''"
    by code_simp+
  have run: "\<exists>calls. mainnet_import open_store two_accounts x (Some ''no'') False = (calls, Inr ())" if "x \<in> {''a'', ''b''}" for x
  proof -
    have texts: "env_text two_accounts ''HYPERLIQUID_A_ACCOUNT_ADDRESS'' = ''0x1''" "env_text two_accounts ''HYPERLIQUID_B_ACCOUNT_ADDRESS'' = ''0x2''"
      "env_text two_accounts ''HYPERLIQUID_A_PRIVATE_KEY'' = ''k''" "env_text two_accounts ''HYPERLIQUID_B_PRIVATE_KEY'' = ''l''"
      "env_truthy two_accounts ''HB_PASSWORD''" "two_accounts ''HB_PASSWORD'' = Some ''p''"
      by (simp_all add: two_accounts_def env_text_def env_truthy_def)
    have "\<exists>calls. write_slot open_store ''p'' slot = (calls, Inr ())" for slot
      by (simp add: write_slot_def open_store_def)
    moreover have "\<exists>cr. import_resolve two_accounts x (Some ''no'') = Inr cr"
      using that by (auto simp: import_resolve_def names texts Let_def)
    ultimately show ?thesis by (auto simp: mainnet_import_def texts)
  qed
  obtain c1 where c1: "mainnet_import open_store two_accounts ''a'' (Some ''no'') False = (c1, Inr ())"
    using run[of "''a''"] by auto
  obtain c2 where c2: "mainnet_import open_store two_accounts ''b'' (Some ''no'') False = (c2, Inr ())"
    using run[of "''b''"] by auto
  have acc: "tc_account (lc_market (account_config x)) = x" for x by (simp add: account_config_def)
  from last_import_decides_the_route[OF c1 c2 acc acc, of Map.empty]
  obtain slot :: hb_slot where slot: "check_account_routing two_accounts (account_config ''b'') (Some (sl_address slot)) = Inr ()"
    "check_account_routing two_accounts (account_config ''a'') (Some (sl_address slot)) = Inr ()
      \<longleftrightarrow> str_lower (env_text two_accounts (address_var ''a'')) = str_lower (env_text two_accounts (address_var ''b''))"
    by blast
  have "str_lower (env_text two_accounts (address_var ''a'')) \<noteq> str_lower (env_text two_accounts (address_var ''b''))"
    by (simp add: names two_accounts_def env_text_def)
  with slot show ?thesis by blast
qed

end
