(* ===== verification/ExecutorRegistry.thy ===== *)
theory ExecutorRegistry imports PerpControllerProperties begin

text \<open>
  What importing \<open>src/opms/controllers/generic/perp_mm_controller.py\<close> does to Hummingbot: it enters
  its two executors into the orchestrator's table and their configurations into the union type
  that \<open>ExecutorInfo\<close> validates.  Hummingbot's own entries are parameters; a configuration type is
  named by its \<open>type\<close> tag.
\<close>

section \<open>The registry\<close>

text \<open>A type annotation: \<open>__args__\<close> is empty unless it is a union, and \<open>Union[T, T]\<close> is \<open>T\<close>.\<close>

datatype annotation = Single string | UnionOf "string list"

fun annotation_args :: "annotation \<Rightarrow> string list" where
  "annotation_args (Single t) = []"
| "annotation_args (UnionOf ts) = ts"

fun annotation_types :: "annotation \<Rightarrow> string list" where
  "annotation_types (Single t) = [t]"
| "annotation_types (UnionOf ts) = ts"

fun union_with :: "annotation \<Rightarrow> string \<Rightarrow> annotation" where
  "union_with (Single t) x = (if t = x then Single t else UnionOf [t, x])"
| "union_with (UnionOf ts) x = (if x \<in> set ts then UnionOf ts else UnionOf (ts @ [x]))"

record 'c registry_state =
  rg_mapping :: "(string \<times> 'c) list"
  rg_info :: annotation
  rg_rebuilds :: nat

text \<open>\<open>dict.setdefault\<close> keeps an entry that is there.\<close>

definition set_default :: "'k \<Rightarrow> 'v \<Rightarrow> ('k \<times> 'v) list \<Rightarrow> ('k \<times> 'v) list" where
  "set_default k v d = (if map_of d k = None then d @ [(k, v)] else d)"

definition own_types :: "string list" where
  "own_types = [''passive_aggressive_executor'', ''buffered_maker_executor'']"

definition add_info_type :: "string \<Rightarrow> annotation \<Rightarrow> annotation" where
  "add_info_type t a = (if t \<in> set (annotation_args a) then a else union_with a t)"

definition register_executors :: "'c \<Rightarrow> 'c \<Rightarrow> 'c registry_state \<Rightarrow> 'c registry_state" where
  "register_executors pa maker R =
     (let mapping = set_default ''buffered_maker_executor'' maker (set_default ''passive_aggressive_executor'' pa (rg_mapping R));
          info = fold add_info_type own_types (rg_info R) in
      R\<lparr>rg_mapping := mapping, rg_info := info,
        rg_rebuilds := (if \<exists>t\<in>set own_types. t \<in> set (annotation_args info) then Suc (rg_rebuilds R) else rg_rebuilds R)\<rparr>)"

text \<open>The lookup of \<open>_create_executors\<close>, as Hummingbot's orchestrator makes it.\<close>

definition executor_class :: "'c registry_state \<Rightarrow> exec_config \<Rightarrow> py_error + 'c" where
  "executor_class R e = (case map_of (rg_mapping R) (ec_type e) of None \<Rightarrow> Inl RuntimeError | Some c \<Rightarrow> Inr c)"

text \<open>An executor's report can be built when its configuration's type is one of the union.\<close>

definition reportable :: "'c registry_state \<Rightarrow> exec_config \<Rightarrow> bool" where
  "reportable R e \<longleftrightarrow> ec_type e \<in> set (annotation_types (rg_info R))"

section \<open>Every executor asked for exists\<close>

lemma map_of_set_default:
  "map_of (set_default k v d) k' = (case map_of d k' of Some w \<Rightarrow> Some w | None \<Rightarrow> if k' = k then Some v else None)"
  by (auto simp: set_default_def map_add_def split: option.split)

lemma set_default_same: "map_of d k \<noteq> None \<Longrightarrow> set_default k v d = d"
  by (auto simp: set_default_def)

lemma types_add: "set (annotation_types (add_info_type t a)) = insert t (set (annotation_types a))"
  by (cases a) (auto simp: add_info_type_def)

lemma add_again: "t \<in> set (annotation_types a) \<Longrightarrow> add_info_type t a = a"
  by (cases a) (auto simp: add_info_type_def)

lemma created_types:
  assumes "Create e \<in> set (snd (determine_executor_actions targets policy cfg cy intent c))"
  shows "ec_type e \<in> set own_types \<union> {''order_executor''}"
proof -
  have exec: "ec_type (execution_config cfg cy req) \<in> set own_types \<union> {''order_executor''}" for req
    by (simp add: own_types_def execution_config_def pa_exec_config_def market_exec_config_def Let_def split: urgency.split)
  have closing: "ec_type e \<in> set own_types \<union> {''order_executor''}"
    if "Create e \<in> set (snd (snd (closing_cycle cfg cy intent c)))"
    using closing_Create[OF that] exec by blast
  have quoting: "ec_type e \<in> set own_types \<union> {''order_executor''}"
    if "Create e \<in> set (snd (snd (quoting_cycle targets policy cfg cy i c)))" for i
  proof (cases "is_quote_config e")
    case True
    with quoting_Create[OF that] obtain specs where "Create e \<in> set (quote_create_actions cfg cy specs)" by auto
    then show ?thesis by (rule quote_create_Create) (simp add: quote_config_def own_types_def)
  next
    case False
    with quoting_Create[OF that] exec show ?thesis by auto
  qed
  show ?thesis
    using determine_Create[OF assms] closing quoting by (cases intent) (auto split: if_splits)
qed

lemma registered:
  "map_of (rg_mapping (register_executors pa maker R)) k
     = (case map_of (rg_mapping R) k of Some c \<Rightarrow> Some c
        | None \<Rightarrow> if k = ''passive_aggressive_executor'' then Some pa else if k = ''buffered_maker_executor'' then Some maker else None)"
  by (simp add: register_executors_def Let_def map_of_set_default split: option.split)

lemma registered_types:
  "set (annotation_types (rg_info (register_executors pa maker R))) = set own_types \<union> set (annotation_types (rg_info R))"
  by (auto simp: register_executors_def Let_def own_types_def types_add)

text \<open>
  C39: Once the controller's module is imported, every executor the controller asks for can be made and
  reported: whatever a decision creates, Hummingbot's table has a class for its type and the report union
  has its configuration, provided Hummingbot knows its own order executor.  The import takes nothing away:
  every entry of the table keeps its class, every type of the union stays, and importing again changes neither.
\<close>

theorem created_executors_are_registered:
  assumes "Create e \<in> set (snd (determine_executor_actions targets policy cfg cy intent c))"
    and own: "map_of (rg_mapping R) ''order_executor'' = Some oe" "''order_executor'' \<in> set (annotation_types (rg_info R))"
    and R': "R' = register_executors pa maker R"
  shows "(\<exists>cls. executor_class R' e = Inr cls) \<and> reportable R' e
    \<and> (\<forall>k cls. map_of (rg_mapping R) k = Some cls \<longrightarrow> map_of (rg_mapping R') k = Some cls)
    \<and> set (annotation_types (rg_info R)) \<subseteq> set (annotation_types (rg_info R'))
    \<and> rg_mapping (register_executors pa' maker' R') = rg_mapping R' \<and> rg_info (register_executors pa' maker' R') = rg_info R'"
proof -
  have type: "ec_type e \<in> set own_types \<union> {''order_executor''}" by (rule created_types[OF assms(1)])
  have mapped: "\<exists>cls. map_of (rg_mapping R') t = Some cls" if "t \<in> set own_types \<union> {''order_executor''}" for t
  proof (cases "map_of (rg_mapping R) t")
    case None
    with own(1) that have "t \<in> set own_types" by (cases "t = ''order_executor''") simp_all
    with None show ?thesis unfolding R' registered by (cases "t = ''passive_aggressive_executor''") (simp_all add: own_types_def)
  qed (simp add: R' registered)
  have "\<exists>cls. executor_class R' e = Inr cls" using mapped[OF type] by (auto simp: executor_class_def)
  moreover have "reportable R' e" using type own(2) unfolding reportable_def R' registered_types by auto
  moreover have "rg_mapping (register_executors pa' maker' R') = rg_mapping R'"
    using mapped[of "''passive_aggressive_executor''"] mapped[of "''buffered_maker_executor''"]
    by (auto simp: register_executors_def[of pa'] Let_def own_types_def set_default_same)
  moreover have "rg_info (register_executors pa' maker' R') = rg_info R'"
    using registered_types[of pa maker R, folded R']
    by (auto simp: register_executors_def[of pa'] Let_def own_types_def add_again)
  ultimately show ?thesis unfolding R' registered registered_types by (auto split: option.split)
qed

definition stock_registry :: "string registry_state" where
  "stock_registry = \<lparr>rg_mapping = [(''order_executor'', ''OrderExecutor'')], rg_info = UnionOf [''order_executor'', ''twap_executor''], rg_rebuilds = 0\<rparr>"

theorem created_executors_are_registered_witness:
  "executor_class (register_executors ''PA'' ''Maker'' stock_registry) (quote_config sample_cfg 5 Buy 1 99 False) = Inr ''Maker''
   \<and> reportable (register_executors ''PA'' ''Maker'' stock_registry) (quote_config sample_cfg 5 Buy 1 99 False)
   \<and> executor_class stock_registry (quote_config sample_cfg 5 Buy 1 99 False) = Inl RuntimeError"
proof -
  have "reportable (register_executors ''PA'' ''Maker'' stock_registry) (quote_config sample_cfg 5 Buy 1 99 False)"
    using created_executors_are_registered[OF sample_creates_bid[of "\<lambda>_ _. None" "\<lambda>_ _ _ _ _. None"] _ _ refl,
        of stock_registry "''OrderExecutor''" "''PA''" "''Maker''" "''PA''" "''Maker''"]
    by (simp add: stock_registry_def)
  then show ?thesis by (simp add: executor_class_def registered quote_config_def stock_registry_def)
qed

end
