(* ===== verification/ControllerReports.thy ===== *)
theory ControllerReports imports PerpCycleProperties SmokeGate Hedging begin

text \<open>
  The controllers' reports: the snapshots of \<open>src/opms/resilience.py\<close> as dicts, \<open>get_custom_info\<close> of
  \<open>perp_mm_controller.py\<close> and of \<open>dlmm_controller.py\<close> under \<open>src/opms/controllers/generic\<close>, and what
  \<open>scripts/run_hb_mainnet_smoke.py\<close> can conclude from the first one.

  What the ledger, the markout tracker and the keeper's accounting print of themselves are parameters.
\<close>

section \<open>Snapshots\<close>

definition json_opt :: "('a \<Rightarrow> json) \<Rightarrow> 'a option \<Rightarrow> json" where
  "json_opt f x = (case x of None \<Rightarrow> JNull | Some v \<Rightarrow> f v)"

fun circuit_name :: "circuit_state \<Rightarrow> string" where
  "circuit_name Open = ''open''"
| "circuit_name HalfOpen = ''half_open''"
| "circuit_name Backoff = ''backoff''"
| "circuit_name Closed = ''closed''"

definition breaker_dict :: "breaker \<Rightarrow> real \<Rightarrow> dict" where
  "breaker_dict b now =
     (let snap = breaker_snap b now in
      [(''state'', JStr (circuit_name (snap_state snap))), (''consecutive_failures'', JNum (real (snap_failures snap))),
       (''retry_in_s'', JNum (snap_retry_in snap)), (''rate_limited'', JBool (snap_rate_limited snap)),
       (''last_failure_kind'', json_opt JStr (snap_kind snap)), (''last_error'', json_opt JStr (snap_error snap))])"

fun quote_name :: "quote_state \<Rightarrow> string" where
  "quote_name QOpen = ''open''"
| "quote_name QMissing = ''missing''"
| "quote_name QLive = ''live''"
| "quote_name QIdle = ''idle''"

fun side_name :: "side \<Rightarrow> string" where
  "side_name Buy = ''buy''"
| "side_name Sell = ''sell''"

definition watchdog_dict :: "watchdog \<Rightarrow> real \<Rightarrow> dict" where
  "watchdog_dict w now =
     (let snap = watchdog_snap w now in
      [(''state'', JStr (quote_name (wsnap_state snap))), (''expected_sides'', JArr (map (JStr \<circ> side_name) (wsnap_expected snap))),
       (''live_sides'', JArr (map (JStr \<circ> side_name) (wsnap_live snap))), (''missing_for_s'', JNum (wsnap_missing_for snap)),
       (''last_live_at'', json_opt JNum (wsnap_last_live snap)), (''retry_in_s'', JNum (wsnap_retry_in snap)),
       (''trips'', JNum (real (wsnap_trips snap)))])"

section \<open>The perp controller\<close>

record ('l, 'm) report_lib =
  rp_explain :: "'l \<Rightarrow> pynum \<Rightarrow> py_error + json"
  rp_markout :: "'m \<Rightarrow> json"
  rp_slippage :: "pynum list \<Rightarrow> json"

definition peak_equity_seeded :: "pynum \<Rightarrow> bool" where
  "peak_equity_seeded peak \<longleftrightarrow> is_finite peak \<and> py_lt (Num 0) peak"

definition perp_custom_info :: "('l, 'm) report_lib \<Rightarrow> real \<Rightarrow> py_error + pynum \<Rightarrow> pynum \<Rightarrow> ('l, 'm) observer \<Rightarrow> ctl \<Rightarrow> py_error + dict" where
  "perp_custom_info L now mid peak ob c =
     res_bind mid (\<lambda>m. res_bind (rp_explain L (ob_ledger ob) (explain_mid (Some m) ob)) (\<lambda>pnl.
       Inr [(''fill_pnl'', pnl), (''markout'', rp_markout L (ob_markout ob)), (''slippage'', rp_slippage L (ob_slippage ob)),
            (''quote_liveness'', JObj (watchdog_dict (c_watchdog c) now)), (''venue_circuit'', JObj (breaker_dict (c_breaker c) now)),
            (''quote_refresh_reason'', json_opt JStr (c_refresh_reason c)),
            (''quote_cancel_to_inactive_s'', json_opt JNum (c_cancel_latency c)),
            (''equity_resolved'', json_opt JBool (c_equity_resolved c)), (''peak_equity_seeded'', JBool (peak_equity_seeded peak)),
            (''quote_suspension_reason'', json_opt JStr (c_suspension c))]))"

section \<open>The DLMM controller\<close>

record dlmm_view =
  dv_last :: "(string \<times> string) option"
  dv_active_bin :: "int option"
  dv_center_bin :: "int option"
  dv_inventory :: "real \<times> real"
  dv_prices :: "real list"
  dv_pnl :: "real \<Rightarrow> real \<Rightarrow> py_error + real"

text \<open>\<open>market_data_provider\<close> may be missing; the accounting is asked only at a positive price.\<close>

definition dlmm_custom_info :: "real option \<Rightarrow> bool \<Rightarrow> 'k dlmm_ctl \<Rightarrow> dlmm_view \<Rightarrow> py_error + dict" where
  "dlmm_custom_info clock dry_run c v =
     (let ts = (case clock of Some t \<Rightarrow> t | None \<Rightarrow> 0);
          mid = (if dv_prices v = [] then 0 else last (dv_prices v)) in
      res_bind (if 0 < mid then dv_pnl v ts mid else Inr 0) (\<lambda>total.
        Inr [(''last_decision'', JStr (case dv_last v of Some (d, _) \<Rightarrow> d | None \<Rightarrow> ''none'')),
             (''last_action'', JStr (case dv_last v of Some (_, a) \<Rightarrow> a | None \<Rightarrow> ''none'')),
             (''active_bin'', json_opt (\<lambda>b. JNum (of_int b)) (dv_active_bin v)),
             (''center_bin'', json_opt (\<lambda>b. JNum (of_int b)) (dv_center_bin v)),
             (''inventory_base'', JNum (fst (dv_inventory v))), (''inventory_quote'', JNum (snd (dv_inventory v))),
             (''pnl_total'', JNum total), (''cycle_count'', JNum (real (dc_cycle_count c))), (''dry_run'', JBool dry_run)]))"

section \<open>What the smoke test reads off the report\<close>

lemma peak_seeded_iff: "peak_equity_seeded p \<longleftrightarrow> positive_price p"
  by (cases p) (simp_all add: peak_equity_seeded_def)

lemma info_of_report:
  assumes "perp_custom_info L now mid peak ob c = Inr info"
  shows "info_failures info = [] \<longleftrightarrow> c_equity_resolved c = Some True \<and> positive_price peak"
proof -
  have keys: "set info_keys \<subseteq> fst ` set info"
    using assms by (auto simp: perp_custom_info_def res_bind_Inr info_keys_def)
  have "get_key ''equity_resolved'' info = json_opt JBool (c_equity_resolved c)"
    "get_key ''peak_equity_seeded'' info = JBool (positive_price peak)"
    using assms by (auto simp: perp_custom_info_def res_bind_Inr get_or_def peak_seeded_iff)
  then show ?thesis unfolding info_ok using keys by (auto simp: json_opt_def split: option.split)
qed

lemma resolved_frame:
  "c_equity_resolved (fst (portfolio_transform targets cfg cy d i p m c)) = c_equity_resolved c"
  "c_equity_resolved (note_peak_equity peak c) = c_equity_resolved c"
  by (auto simp: portfolio_transform_def note_peak_equity_def split: option.split prod.split sum.split)

lemma resolved_blind: "c_equity_resolved (w_ctl (fst (blind_step targets X cfg cy ps v))) = c_equity_resolved (w_ctl v)"
  using resolved_frame(1)[of targets cfg cy OtherDecision None _ _ "w_ctl v"]
  by (auto simp: blind_step_def Let_def split: prod.split sum.split option.split) (metis fst_conv)+

text \<open>
  The smoke test's check of the controller's report is a check of its equity: after a data update
  that returns, the report has every key the test asks for, and the test finds nothing wrong with it
  exactly when the update read a finite equity and the keeper's session peak is a positive finite number.  A
  missing collateral reading, an infinite one, or a keeper whose peak was never seeded is always reported.
\<close>

theorem smoke_check_reads_the_equity:
  assumes update: "update_processed_data targets X cfg cy rd w = (w', None)"
    and tick: "\<And>k cl c k' cl' c' e. x_tick X k cl c = ((k', cl', c'), e) \<Longrightarrow> c_equity_resolved c' = c_equity_resolved c"
    and report: "perp_custom_info L now mid (x_peak X (w_keeper w')) (w_observer w') (w_ctl w') = Inr info"
  shows "info_failures info = [] \<longleftrightarrow>
    (\<exists>x. current_equity cfg (rd_balances rd) = Inr (Some x)) \<and> positive_price (x_peak X (w_keeper w'))"
proof -
  obtain equity where eq: "current_equity cfg (rd_balances rd) = Inr equity"
    using update unfolding update_processed_data_def Let_def prod.case_eq_if by (cases "current_equity cfg (rd_balances rd)") auto
  have "c_equity_resolved (w_ctl w') = Some (equity \<noteq> None)"
  proof (cases equity)
    case None
    with update eq show ?thesis
      unfolding update_processed_data_def Let_def prod.case_eq_if
      by (auto simp: resolved_frame resolved_blind note_equity_def split: option.splits)
  next
    case (Some x)
    with update eq show ?thesis
      unfolding update_processed_data_def Let_def
      by (auto simp: resolved_frame note_equity_def dest!: tick split: option.splits prod.splits)
  qed
  then show ?thesis unfolding info_of_report[OF report] using eq by auto
qed

definition plain_report :: "(real, unit) report_lib" where
  "plain_report = \<lparr>rp_explain = (\<lambda>_ _. Inr JNull), rp_markout = (\<lambda>_. JNull), rp_slippage = (\<lambda>_. JNull)\<rparr>"

definition funded_readings :: "real readings" where
  "funded_readings = sample_readings\<lparr>rd_balances := [(''USD'', Inr (Num 250))]\<rparr>"

definition seeded_externals :: "(real, unit, real, unit) externals" where
  "seeded_externals = plain_externals\<lparr>x_peak := (\<lambda>_. Num 250)\<rparr>"

theorem smoke_check_reads_the_equity_witness:
  "\<exists>w' info. update_processed_data (\<lambda>_ _. None) seeded_externals sample_cfg (sample_cycle 9 []) funded_readings sample_world = (w', None)
     \<and> perp_custom_info plain_report 9 (Inr (Num 100)) (Num 250) (w_observer w') (w_ctl w') = Inr info \<and> info_failures info = []"
proof -
  let ?u = "update_processed_data (\<lambda>_ _. None) seeded_externals sample_cfg (sample_cycle 9 []) funded_readings sample_world"
  have eq: "current_equity sample_cfg (rd_balances funded_readings) = Inr (Some 250)"
    by (simp add: funded_readings_def current_equity_def equity_key_def equity_labels_def sample_cfg_def)
  have "snd ?u = None"
    unfolding update_processed_data_def Let_def prod.case_eq_if eq sum.case by (simp add: seeded_externals_def plain_externals_def)
  then have u: "?u = (fst ?u, None)" by (metis prod.collapse)
  obtain info where i: "perp_custom_info plain_report 9 (Inr (Num 100)) (Num 250) (w_observer (fst ?u)) (w_ctl (fst ?u)) = Inr info"
    by (simp add: perp_custom_info_def plain_report_def)
  have "info_failures info = []"
    using smoke_check_reads_the_equity[OF u, of plain_report 9 "Inr (Num 100)" info] i eq
    by (simp add: seeded_externals_def plain_externals_def)
  with u i show ?thesis by blast
qed

end
