(* ===== verification/GateTools.thy ===== *)
theory GateTools imports DeriskGateProperties AccountRouting begin

text \<open>
  What the two order-placing gates share besides their phases (\<open>scripts/run_hb_mainnet_quote_gate.py\<close> and
  \<open>scripts/run_hb_mainnet_derisk_gate.py\<close>): the accounts they watch, the strategy their executors
  trade through, with its record of the orders, and the artifact they write.

  A connector is a parameter, with a state of its own; \<open>str\<close> of a value that is neither a number nor
  text is the text that comes with it.
\<close>

section \<open>The accounts\<close>

definition other_account_ids :: "string list" where
  "other_account_ids = [''e2_main'', ''e2_mm1'', ''e2_mm2'', ''e3_main'', ''e3_sub1'']"

definition account_addresses :: "environment \<Rightarrow> (string \<times> string) list" where
  "account_addresses env =
     map (\<lambda>aid. (aid, str_lower (env_text env (address_var aid))))
       (filter (\<lambda>aid. env_truthy env (address_var aid)) other_account_ids)"

definition others_of :: "environment \<Rightarrow> string \<Rightarrow> (string \<times> string) list" where
  "others_of env address = filter (\<lambda>(aid, a). a \<noteq> address) (account_addresses env)"

text \<open>The arguments of a gate once its account is resolved; the connector is made of the credentials.\<close>

definition quote_gate_on :: "environment \<Rightarrow> string \<Rightarrow> string option \<Rightarrow> (credentials \<Rightarrow> 'w gate_world) \<Rightarrow> gate_args \<Rightarrow> 'w
    \<Rightarrow> 'w gate option \<times> (py_error + nat)" where
  "quote_gate_on env account use_vault build a w =
     (if env ''OPMS_HB_MAINNET'' \<noteq> Some ''confirm'' \<or> env ''OPMS_HB_PLACE_ORDERS'' \<noteq> Some ''confirm'' then (None, Inr 2)
      else case smoke_resolve env account use_vault of
             Inl e \<Rightarrow> (None, Inl e)
           | Inr cr \<Rightarrow>
               quote_gate_main env (build cr) (a\<lparr>ga_address := cr_address cr, ga_others := others_of env (cr_address cr)\<rparr>) w)"

section \<open>The strategy\<close>

record strategy_order =
  sg_connector :: string
  sg_pair :: string
  sg_side :: side
  sg_type :: order_type
  sg_amount :: real
  sg_price :: "pynum option"
  sg_action :: position_action

datatype strategy_call = PlaceOrder real strategy_order | CancelOrder string string string

record 'w connectors =
  ct_known :: "string \<Rightarrow> bool"
  ct_place :: "strategy_order \<Rightarrow> 'w \<Rightarrow> 'w \<times> (py_error + string)"
  ct_cancel :: "string \<Rightarrow> string \<Rightarrow> string \<Rightarrow> 'w \<Rightarrow> 'w \<times> (py_error + string)"

text \<open>\<open>_GateStrategy\<close>: every call goes to the connector of its name.\<close>

fun gate_call :: "'w connectors \<Rightarrow> strategy_call \<Rightarrow> 'w \<Rightarrow> 'w \<times> (py_error + string)" where
  "gate_call C (PlaceOrder ts r) w = (if ct_known C (sg_connector r) then ct_place C r w else (w, Inl KeyError))"
| "gate_call C (CancelOrder conn pair oid) w = (if ct_known C conn then ct_cancel C conn pair oid w else (w, Inl KeyError))"

record order_note =
  nt_ts :: real
  nt_side :: side
  nt_type :: order_type
  nt_amount :: real
  nt_price :: "pynum option"
  nt_action :: position_action

text \<open>\<open>_RecordingStrategy\<close>: an order is noted before it is sent; a price that is missing or not a number is None.\<close>

definition note_of :: "real \<Rightarrow> strategy_order \<Rightarrow> order_note" where
  "note_of ts r =
     \<lparr>nt_ts = ts, nt_side = sg_side r, nt_type = sg_type r, nt_amount = sg_amount r,
      nt_price = (if sg_price r = Some NaN then None else sg_price r), nt_action = sg_action r\<rparr>"

fun recording_call :: "'w connectors \<Rightarrow> strategy_call \<Rightarrow> order_note list \<times> 'w \<Rightarrow> (order_note list \<times> 'w) \<times> (py_error + string)" where
  "recording_call C (PlaceOrder ts r) (ns, w) =
     (case gate_call C (PlaceOrder ts r) w of (w', res) \<Rightarrow> ((ns @ [note_of ts r], w'), res))"
| "recording_call C (CancelOrder conn pair oid) (ns, w) =
     (case gate_call C (CancelOrder conn pair oid) w of (w', res) \<Rightarrow> ((ns, w'), res))"

text \<open>The calls of the executors in the order they come, each with its answer.\<close>

fun run_strategy :: "(strategy_call \<Rightarrow> 's \<Rightarrow> 's \<times> (py_error + string)) \<Rightarrow> strategy_call list \<Rightarrow> 's \<Rightarrow> 's \<times> (py_error + string) list" where
  "run_strategy step [] s = (s, [])"
| "run_strategy step (c # cs) s =
     (case step c s of (s1, r) \<Rightarrow> (case run_strategy step cs s1 of (s2, rs) \<Rightarrow> (s2, r # rs)))"

fun notes_of :: "strategy_call list \<Rightarrow> order_note list" where
  "notes_of [] = []"
| "notes_of (PlaceOrder ts r # cs) = note_of ts r # notes_of cs"
| "notes_of (CancelOrder _ _ _ # cs) = notes_of cs"

section \<open>The artifact\<close>

text \<open>
  Python values as the reports have them: a key carries its \<open>str\<close>; a data class, or a value of any
  other type, comes with its fields or with its \<open>str\<close>.
\<close>

datatype pykey = TextKey string | OtherKey string

datatype pyval =
    PNone | PBool bool | PInt int | PFloat pynum | PText string | PDecimal pynum
  | PDict "(pykey \<times> pyval) list" | PList "pyval list" | PTuple "pyval list" | PSet "pyval list"
  | PDataclass "(string \<times> pyval) list" | POther string

fun key_text :: "pykey \<Rightarrow> string" where
  "key_text (TextKey s) = s"
| "key_text (OtherKey s) = s"

text \<open>A dict comprehension: a later value replaces an earlier one of the same key, in its place.\<close>

definition dict_comp :: "(pykey \<times> 'v) list \<Rightarrow> (pykey \<times> 'v) list" where
  "dict_comp kvs = foldl (\<lambda>d (k, v). AList.update k v d) [] kvs"

fun jsonable :: "pyval \<Rightarrow> pyval" where
  "jsonable (PDataclass fs) = PDict (dict_comp (map (\<lambda>(k, v). (TextKey k, jsonable v)) fs))"
| "jsonable (PDecimal x) = PFloat x"
| "jsonable (PDict kvs) = PDict (dict_comp (map (\<lambda>(k, v). (TextKey (key_text k), jsonable v)) kvs))"
| "jsonable (PList vs) = PList (map jsonable vs)"
| "jsonable (PTuple vs) = PList (map jsonable vs)"
| "jsonable (PSet vs) = PList (map jsonable vs)"
| "jsonable (POther s) = PText s"
| "jsonable v = v"

text \<open>What \<open>json.dumps\<close> writes without a \<open>TypeError\<close> and without changing a key.\<close>

fun json_value :: "pyval \<Rightarrow> bool" where
  "json_value (PDict kvs) \<longleftrightarrow> distinct (map fst kvs) \<and> list_all (\<lambda>(k, v). (\<exists>s. k = TextKey s) \<and> json_value v) kvs"
| "json_value (PList vs) \<longleftrightarrow> list_all json_value vs"
| "json_value (PDecimal _) \<longleftrightarrow> False"
| "json_value (PTuple _) \<longleftrightarrow> False"
| "json_value (PSet _) \<longleftrightarrow> False"
| "json_value (PDataclass _) \<longleftrightarrow> False"
| "json_value (POther _) \<longleftrightarrow> False"
| "json_value _ \<longleftrightarrow> True"

section \<open>The artifact can be written\<close>

lemma update_absent: "k \<notin> fst ` set d \<Longrightarrow> AList.update k v d = d @ [(k, v)]"
  by (rule update_new) (simp add: map_of_eq_None_iff)

lemma dict_from: "distinct (map fst (d @ kvs)) \<Longrightarrow> foldl (\<lambda>d (k, v). AList.update k v d) d kvs = d @ kvs"
proof (induction kvs arbitrary: d)
  case (Cons kv kvs)
  obtain k v where kv: "kv = (k, v)" by (cases kv)
  with Cons.prems have "AList.update k v d = d @ [(k, v)]" by (intro update_absent) auto
  with Cons kv show ?case by simp
qed simp

lemma dict_comp_distinct: "distinct (map fst kvs) \<Longrightarrow> dict_comp kvs = kvs"
  using dict_from[of "[]" kvs] by (simp add: dict_comp_def)

lemma dict_step:
  "distinct (map fst d) \<Longrightarrow> distinct (map fst (foldl (\<lambda>d (k, v). AList.update k v d) d kvs))
    \<and> set (foldl (\<lambda>d (k, v). AList.update k v d) d kvs) \<subseteq> set d \<union> set kvs"
proof (induction kvs arbitrary: d)
  case (Cons kv kvs)
  obtain k v where kv: "kv = (k, v)" by (cases kv)
  have "distinct (map fst (AList.update k v d))" using Cons.prems by (rule distinct_update)
  with Cons.IH[of "AList.update k v d"] set_update_subset[of k v d] kv show ?case by auto
qed simp

lemma dict_comp_ok: "distinct (map fst (dict_comp kvs))" "set (dict_comp kvs) \<subseteq> set kvs"
  using dict_step[of "[]" kvs] by (simp_all add: dict_comp_def)

lemma jsonable_ok: "json_value (jsonable v)"
proof (induction v rule: jsonable.induct)
  case (1 fs)
  have "\<exists>f x. (f, x) \<in> set fs \<and> k = TextKey f \<and> v = jsonable x"
    if "(k, v) \<in> set (dict_comp (map (\<lambda>(k, v). (TextKey k, jsonable v)) fs))" for k v
    using subsetD[OF dict_comp_ok(2) that] by auto
  with 1 show ?case by (fastforce simp: dict_comp_ok(1) list_all_iff)
next
  case (3 kvs)
  have "\<exists>f x. (f, x) \<in> set kvs \<and> k = TextKey (key_text f) \<and> v = jsonable x"
    if "(k, v) \<in> set (dict_comp (map (\<lambda>(k, v). (TextKey (key_text k), jsonable v)) kvs))" for k v
    using subsetD[OF dict_comp_ok(2) that] by auto
  with 3 show ?case by (fastforce simp: dict_comp_ok(1) list_all_iff)
qed (auto simp: list_all_iff)

lemma jsonable_fixed: "json_value v \<Longrightarrow> jsonable v = v"
proof (induction v rule: jsonable.induct)
  case (3 kvs)
  have "(TextKey (key_text k), jsonable v) = (k, v)" if "(k, v) \<in> set kvs" for k v
    using 3(1)[OF that refl] 3(2) that by (fastforce simp: list_all_iff)
  then have "map (\<lambda>(k, v). (TextKey (key_text k), jsonable v)) kvs = kvs"
    by (intro map_idI) auto
  with 3(2) show ?case by (simp add: dict_comp_distinct)
qed (auto simp: list_all_iff intro!: map_idI)

text \<open>
  C40: The artifact of a gate can always be written: whatever values a report holds, its JSON form has only
  what the JSON writer accepts, at every depth, with text keys and no key twice; and bringing a value into
  that form again changes nothing, so that evidence already converted is kept as it is.
\<close>

theorem artifacts_are_json:
  "json_value (jsonable v) \<and> jsonable (jsonable v) = jsonable v"
  using jsonable_ok[of v] jsonable_fixed by blast

section \<open>The record of the orders\<close>

text \<open>
  Recording changes nothing and misses nothing: for every sequence of orders and cancellations, the
  recording strategy gives the executors the same answers and leaves the connectors as the plain one does, and
  its record is exactly the orders asked for, in their order, those that the connector refused included.
\<close>

theorem recording_is_transparent:
  "run_strategy (recording_call C) calls (ns, w)
     = (case run_strategy (gate_call C) calls w of (w', answers) \<Rightarrow> ((ns @ notes_of calls, w'), answers))"
proof (induction calls arbitrary: ns w)
  case (Cons c cs)
  show ?case by (cases c) (auto simp: Cons.IH split: prod.splits)
qed simp

section \<open>The accounts watched\<close>

lemma others_fst: "fst ` set (others_of env address) = {aid \<in> set other_account_ids. env_truthy env (address_var aid)
    \<and> str_lower (env_text env (address_var aid)) \<noteq> address}"
  unfolding others_of_def account_addresses_def by (simp add: image_def)

text \<open>
  A gate that passes for real was confirmed, traded on the account its credentials resolve to, and looked for
  its orders on every other account of the family that is configured, and never on its own, where it found none of them.
\<close>

theorem passed_gate_watched_the_family:
  assumes "quote_gate_on env account use_vault build a w = (Some s, Inr 0)" "\<not> ga_dry_run a"
  shows "\<exists>cr. smoke_resolve env account use_vault = Inr cr \<and> env ''OPMS_HB_PLACE_ORDERS'' = Some ''confirm''
    \<and> (\<exists>n oids resting leaked. gate_phase.Place n oids resting leaked \<in> set (gs_phases s) \<and> oids \<noteq> {} \<and> oids \<subseteq> resting
        \<and> (\<forall>(aid, found)\<in>set leaked. found = {})
        \<and> (\<forall>aid\<in>set other_account_ids. env_truthy env (address_var aid) \<longrightarrow>
             (aid \<in> fst ` set leaked \<longleftrightarrow> str_lower (env_text env (address_var aid)) \<noteq> cr_address cr)))"
proof -
  obtain cr where cr: "env ''OPMS_HB_PLACE_ORDERS'' = Some ''confirm''" "smoke_resolve env account use_vault = Inr cr"
    and gate: "quote_gate (build cr) (a\<lparr>ga_address := cr_address cr, ga_others := others_of env (cr_address cr)\<rparr>) w = (s, Inr 0)"
    using assms(1) by (auto simp: quote_gate_on_def quote_gate_main_def split: if_splits sum.splits prod.splits)
  let ?a = "a\<lparr>ga_address := cr_address cr, ga_others := others_of env (cr_address cr)\<rparr>"
  have "\<not> ga_dry_run ?a" using assms(2) by simp
  from passed_gate_story[OF gate this] obtain n oids resting leaked where seen:
    "gate_phase.Place n oids resting leaked \<in> set (gs_phases s)" "oids \<noteq> {}" "oids \<subseteq> resting" "\<forall>(aid, found)\<in>set leaked. found = {}"
    "map fst leaked = map fst (others_of env (cr_address cr))"
    by (elim conjE exE) (rule that; simp)
  from seen(5) have "fst ` set leaked = fst ` set (others_of env (cr_address cr))" by (metis list.set_map)
  then have "aid \<in> fst ` set leaked \<longleftrightarrow> str_lower (env_text env (address_var aid)) \<noteq> cr_address cr"
    if "aid \<in> set other_account_ids" "env_truthy env (address_var aid)" for aid
    using that unfolding others_fst by simp
  with seen cr show ?thesis by blast
qed

definition family_env :: environment where
  "family_env =
     [''OPMS_HB_MAINNET'' \<mapsto> ''confirm'', ''OPMS_HB_PLACE_ORDERS'' \<mapsto> ''confirm'',
      ''HYPERLIQUID_E2_MM1_ACCOUNT_ADDRESS'' \<mapsto> ''0xAB'', ''HYPERLIQUID_E2_MM1_PRIVATE_KEY'' \<mapsto> ''k'',
      ''HYPERLIQUID_E3_MAIN_ACCOUNT_ADDRESS'' \<mapsto> ''0xCD'']"

theorem passed_gate_watched_the_family_witness:
  "\<exists>s. quote_gate_on family_env ''e2_mm1'' (Some ''yes'') (\<lambda>_. clean_world) clean_args 0 = (Some s, Inr 0)
     \<and> (\<exists>leaked n oids resting. gate_phase.Place n oids resting leaked \<in> set (gs_phases s) \<and> ''e3_main'' \<in> fst ` set leaked)"
proof -
  have names: "address_var ''e2_main'' = ''HYPERLIQUID_E2_MAIN_ACCOUNT_ADDRESS''" "address_var ''e2_mm1'' = ''HYPERLIQUID_E2_MM1_ACCOUNT_ADDRESS''"
    "address_var ''e2_mm2'' = ''HYPERLIQUID_E2_MM2_ACCOUNT_ADDRESS''" "address_var ''e3_main'' = ''HYPERLIQUID_E3_MAIN_ACCOUNT_ADDRESS''"
    "address_var ''e3_sub1'' = ''HYPERLIQUID_E3_SUB1_ACCOUNT_ADDRESS''" "account_var ''e2_mm1'' ''PRIVATE_KEY'' = ''HYPERLIQUID_E2_MM1_PRIVATE_KEY''"
    "str_lower ''0xAB'' = ''0xab''" "str_lower ''0xCD'' = ''0xcd''"
    by code_simp+
  have texts: "env_text family_env ''HYPERLIQUID_E2_MM1_ACCOUNT_ADDRESS'' = ''0xAB''" "env_text family_env ''HYPERLIQUID_E2_MM1_PRIVATE_KEY'' = ''k''"
    "env_text family_env ''HYPERLIQUID_E3_MAIN_ACCOUNT_ADDRESS'' = ''0xCD''"
    by (simp_all add: family_env_def env_text_def)
  have set: "env_truthy family_env ''HYPERLIQUID_E2_MM1_ACCOUNT_ADDRESS''" "env_truthy family_env ''HYPERLIQUID_E3_MAIN_ACCOUNT_ADDRESS''"
    "\<not> env_truthy family_env ''HYPERLIQUID_E2_MAIN_ACCOUNT_ADDRESS''" "\<not> env_truthy family_env ''HYPERLIQUID_E2_MM2_ACCOUNT_ADDRESS''"
    "\<not> env_truthy family_env ''HYPERLIQUID_E3_SUB1_ACCOUNT_ADDRESS''"
    by (simp_all add: family_env_def env_truthy_def)
  have cr: "smoke_resolve family_env ''e2_mm1'' (Some ''yes'') = Inr \<lparr>cr_address = ''0xab'', cr_key = ''k'', cr_vault = True\<rparr>"
    by (simp add: smoke_resolve_def names texts Let_def)
  have others: "others_of family_env ''0xab'' = [(''e3_main'', ''0xcd'')]"
    by (simp add: others_of_def account_addresses_def other_account_ids_def names texts set)
  have same: "clean_args\<lparr>ga_address := ''0xab'', ga_others := [(''e3_main'', ''0xcd'')]\<rparr> = clean_args" by (simp add: clean_args_def)
  have conf: "family_env ''OPMS_HB_MAINNET'' = Some ''confirm''" "family_env ''OPMS_HB_PLACE_ORDERS'' = Some ''confirm''"
    by (simp_all add: family_env_def)
  obtain s where "quote_gate clean_world clean_args 0 = (s, Inr 0)" using clean_gate_passes by blast
  then have run: "quote_gate_on family_env ''e2_mm1'' (Some ''yes'') (\<lambda>_. clean_world) clean_args 0 = (Some s, Inr 0)"
    by (simp add: quote_gate_on_def quote_gate_main_def conf cr others same)
  have "\<not> ga_dry_run clean_args" by (simp add: clean_args_def)
  from passed_gate_watched_the_family[OF run this] obtain n oids resting leaked where
    "gate_phase.Place n oids resting leaked \<in> set (gs_phases s)"
    "\<forall>aid\<in>set other_account_ids. env_truthy family_env (address_var aid) \<longrightarrow>
       (aid \<in> fst ` set leaked \<longleftrightarrow> str_lower (env_text family_env (address_var aid)) \<noteq> ''0xab'')"
    unfolding cr by (metis (no_types, lifting) sum.inject(2) credentials.select_convs(1))
  moreover from this(2) have "''e3_main'' \<in> fst ` set leaked" by (simp add: other_account_ids_def names texts set)
  ultimately show ?thesis using run by blast
qed

end
