(* ===== verification/MonitorSignals.thy ===== *)
theory MonitorSignals imports SoakMonitor begin

text \<open>
  The processes under \<open>scripts/monitor_hl_soak.py\<close>: how it asks whether they are alive, how it interrupts
  them, and the loop of \<open>main\<close> with both in place of the readings that \<open>SoakMonitor\<close> takes for granted.
\<close>

section \<open>Processes\<close>

text \<open>
  What \<open>os.kill\<close> finds under a positive process id: nothing, or a process and whether the caller may signal it.
\<close>

type_synonym proc_table = "nat \<Rightarrow> bool option"

definition os_kill :: "proc_table \<Rightarrow> nat \<Rightarrow> py_error + unit" where
  "os_kill T p =
     (case T p of None \<Rightarrow> Inl (OtherError ''ProcessLookupError'')
      | Some False \<Rightarrow> Inl (OtherError ''PermissionError'')
      | Some True \<Rightarrow> Inr ())"

definition process_alive :: "proc_table \<Rightarrow> nat \<Rightarrow> py_error + bool" where
  "process_alive T p =
     (case os_kill T p of
        Inr _ \<Rightarrow> Inr True
      | Inl e \<Rightarrow> if e = OtherError ''ProcessLookupError'' then Inr False else Inl e)"

text \<open>\<open>all\<close> and \<open>any\<close> over \<open>_alive\<close>: both stop at the first answer that decides.\<close>

fun all_of :: "proc_table \<Rightarrow> nat list \<Rightarrow> py_error + bool" where
  "all_of T [] = Inr True"
| "all_of T (p # ps) = res_bind (process_alive T p) (\<lambda>b. if b then all_of T ps else Inr False)"

fun any_of :: "proc_table \<Rightarrow> nat list \<Rightarrow> py_error + bool" where
  "any_of T [] = Inr False"
| "any_of T (p # ps) = res_bind (process_alive T p) (\<lambda>b. if b then Inr True else any_of T ps)"

text \<open>The processes that got the signal, and what left the loop.\<close>

fun signal_all :: "proc_table \<Rightarrow> nat list \<Rightarrow> nat list \<times> (py_error + unit)" where
  "signal_all T [] = ([], Inr ())"
| "signal_all T (p # ps) =
     (case os_kill T p of
        Inr _ \<Rightarrow> (case signal_all T ps of (sent, r) \<Rightarrow> (p # sent, r))
      | Inl e \<Rightarrow> if e = OtherError ''ProcessLookupError'' then signal_all T ps else ([], Inl e))"

section \<open>The loop\<close>

text \<open>The processes when the loop looks at them and when it signals them, and the other readings of a cycle.\<close>

record mon_scene =
  sc_check :: proc_table
  sc_after :: proc_table
  sc_input :: mon_input

definition end_with_signal :: "mon_scene \<Rightarrow> nat list \<Rightarrow> monitor \<Rightarrow> nat list \<Rightarrow> monitor \<times> nat list \<times> (py_error + nat)" where
  "end_with_signal sc ps m sent =
     (case signal_all (sc_after sc) ps of (sent', r) \<Rightarrow> (m, sent @ sent', res_bind r (\<lambda>_. Inr 1)))"

text \<open>
  Only the signal of a breach found in the accounts is sent inside the \<open>try\<close>: what it raises is a read error.
\<close>

definition from_accounts :: "mon_args \<Rightarrow> mon_input \<Rightarrow> monitor \<Rightarrow> bool" where
  "from_accounts a i m \<longleftrightarrow> quiet_logs a (mo_started m) i \<and> (\<exists>ss. mi_read i = Inr ss)"

fun watch_processes :: "mon_args \<Rightarrow> nat list \<Rightarrow> mon_scene list \<Rightarrow> monitor \<Rightarrow> nat list
    \<Rightarrow> (monitor \<times> nat list \<times> (py_error + nat)) option" where
  "watch_processes a ps [] m sent = None"
| "watch_processes a ps (sc # scs) m sent =
     (case all_of (sc_check sc) ps of
        Inl e \<Rightarrow> Some (m, sent, Inl e)
      | Inr up \<Rightarrow>
          if up \<and> mi_now (sc_input sc) < mo_deadline m then
            (case mon_cycle a (sc_input sc) m of
               (m', Sleep _) \<Rightarrow> watch_processes a ps scs m' sent
             | (m', Escape e) \<Rightarrow> Some (m', sent, Inl e)
             | (m', Interrupt) \<Rightarrow>
                 (case signal_all (sc_after sc) ps of
                    (sent', Inl e) \<Rightarrow>
                      if from_accounts a (sc_input sc) m then
                        (case read_failed a (mi_error_at (sc_input sc)) m' of
                           (m'', Sleep _) \<Rightarrow> watch_processes a ps scs m'' (sent @ sent')
                         | (m'', Escape e') \<Rightarrow> Some (m'', sent @ sent', Inl e')
                         | (m'', Interrupt) \<Rightarrow> Some (end_with_signal sc ps m'' (sent @ sent')))
                      else Some (m', sent @ sent', Inl e)
                  | (sent', Inr _) \<Rightarrow> Some (m', sent @ sent', Inr 1)))
          else if mo_deadline m \<le> mi_now (sc_input sc) then
            (case any_of (sc_check sc) ps of
               Inl e \<Rightarrow> Some (m, sent, Inl e)
             | Inr True \<Rightarrow> Some (end_with_signal sc ps m sent)
             | Inr False \<Rightarrow> Some (m, sent, Inr 0))
          else Some (m, sent, Inr 0))"

section \<open>Every process that is there is interrupted\<close>

definition own :: "proc_table \<Rightarrow> nat list \<Rightarrow> bool" where
  "own T ps \<longleftrightarrow> (\<forall>p\<in>set ps. T p \<noteq> Some False)"

definition present :: "proc_table \<Rightarrow> nat list \<Rightarrow> nat list" where
  "present T ps = filter (\<lambda>p. T p \<noteq> None) ps"

definition scene_reading :: "nat list \<Rightarrow> mon_scene \<Rightarrow> mon_input" where
  "scene_reading ps sc = (sc_input sc)\<lparr>mi_alive := map (\<lambda>p. sc_check sc p \<noteq> None) ps\<rparr>"

lemma alive_own: "T p \<noteq> Some False \<Longrightarrow> process_alive T p = Inr (T p \<noteq> None)"
  by (auto simp: process_alive_def os_kill_def split: option.split bool.split)

lemma all_of_own: "own T ps \<Longrightarrow> all_of T ps = Inr (all_alive (map (\<lambda>p. T p \<noteq> None) ps))"
  by (induction ps) (auto simp: own_def alive_own all_alive_def)

lemma any_of_own: "own T ps \<Longrightarrow> any_of T ps = Inr (any_alive (map (\<lambda>p. T p \<noteq> None) ps))"
  by (induction ps) (auto simp: own_def alive_own any_alive_def)

lemma signal_all_own: "own T ps \<Longrightarrow> signal_all T ps = (present T ps, Inr ())"
  by (induction ps) (auto simp: own_def present_def os_kill_def split: option.split bool.split)

lemma signal_all_refused:
  assumes "own T before" "T p = Some False"
  shows "signal_all T (before @ p # rest) = (present T before, Inl (OtherError ''PermissionError''))"
  using assms by (induction before) (auto simp: own_def present_def os_kill_def split: option.split bool.split)

lemma mon_cycle_reading [simp]: "mon_cycle a (scene_reading ps sc) m = mon_cycle a (sc_input sc) m"
  by (auto simp: mon_cycle_def scene_reading_def split: option.split sum.split)

text \<open>
  Where no process belongs to another user, the loop with its processes is the loop over readings: it
  ends when that one ends, with its exit code or exception, and when that one interrupts, the signal has reached
  exactly the processes that were still there, whichever of them had died meanwhile.
\<close>

theorem interrupt_reaches_every_process:
  assumes "\<And>sc. sc \<in> set scs \<Longrightarrow> own (sc_check sc) ps \<and> own (sc_after sc) ps"
  shows "case run_monitor a (map (scene_reading ps) scs) m of
      None \<Rightarrow> watch_processes a ps scs m [] = None
    | Some (m', Inl e) \<Rightarrow> watch_processes a ps scs m [] = Some (m', [], Inl e)
    | Some (m', Inr (code, interrupted)) \<Rightarrow>
        \<exists>sc\<in>set scs. watch_processes a ps scs m [] = Some (m', if interrupted then present (sc_after sc) ps else [], Inr code)"
  using assms
proof (induction scs arbitrary: m)
  case (Cons sc scs)
  have own: "own (sc_check sc) ps" "own (sc_after sc) ps" using Cons.prems by auto
  have now: "mi_now (scene_reading ps sc) = mi_now (sc_input sc)" "mi_alive (scene_reading ps sc) = map (\<lambda>p. sc_check sc p \<noteq> None) ps"
    by (simp_all add: scene_reading_def)
  note facts = all_of_own[OF own(1)] any_of_own[OF own(1)] signal_all_own[OF own(2)] now
  show ?case
  proof (cases "all_alive (map (\<lambda>p. sc_check sc p \<noteq> None) ps) \<and> mi_now (sc_input sc) < mo_deadline m")
    case True
    obtain m1 st where c: "mon_cycle a (sc_input sc) m = (m1, st)" by force
    have IH: "case run_monitor a (map (scene_reading ps) scs) m1 of
        None \<Rightarrow> watch_processes a ps scs m1 [] = None
      | Some (m', Inl e) \<Rightarrow> watch_processes a ps scs m1 [] = Some (m', [], Inl e)
      | Some (m', Inr (code, interrupted)) \<Rightarrow>
          \<exists>sc\<in>set scs. watch_processes a ps scs m1 [] = Some (m', if interrupted then present (sc_after sc) ps else [], Inr code)"
      using Cons.IH Cons.prems by simp
    show ?thesis
    proof (cases st)
      case (Sleep d)
      have "run_monitor a (map (scene_reading ps) (sc # scs)) m = run_monitor a (map (scene_reading ps) scs) m1"
        "watch_processes a ps (sc # scs) m [] = watch_processes a ps scs m1 []"
        using True c Sleep by (simp_all add: facts)
      with IH show ?thesis by (fastforce split: option.splits sum.splits prod.splits)
    qed (use True c in \<open>simp_all add: facts\<close>)
  next
    case False
    then show ?thesis by (auto simp: facts end_with_signal_def split: if_splits)
  qed
qed simp

definition gone_scene :: mon_scene where
  "gone_scene = \<lparr>sc_check = [3 \<mapsto> True, 5 \<mapsto> True], sc_after = [5 \<mapsto> True],
     sc_input = sample_reading True 300 (Inl ValueError)\<rparr>"

theorem interrupt_reaches_every_process_witness:
  "watch_processes sample_mon [3, 5] [gone_scene] (new_monitor 0 60) [] = Some (new_monitor 0 60, [5], Inr 1)"
proof -
  have own: "own (sc_check gone_scene) [3, 5] \<and> own (sc_after gone_scene) [3, 5]" by (simp add: gone_scene_def own_def)
  have "run_monitor sample_mon (map (scene_reading [3, 5]) [gone_scene]) (new_monitor 0 60) = Some (new_monitor 0 60, Inr (1, True))"
    by (simp add: scene_reading_def gone_scene_def sample_reading_def new_monitor_def any_alive_def ex_bool_eq)
  with interrupt_reaches_every_process[of "[gone_scene]" "[3, 5]" sample_mon "new_monitor 0 60"] own show ?thesis
    by (simp add: present_def) (simp add: gone_scene_def)
qed

section \<open>A signal that is refused\<close>

text \<open>
  One process that may not be signalled (its id was reused by another user after the loop looked) keeps
  the interrupt from every process listed after it; and when the breach was found in the accounts the monitor
  does not end either: the refusal is counted as a read error and it goes on watching.
\<close>

theorem refused_signal_spares_the_rest:
  assumes "all_of (sc_check sc) ps = Inr True" "mi_now (sc_input sc) < mo_deadline m"
    and breach: "quiet_logs a (mo_started m) (sc_input sc)" "mi_read (sc_input sc) = Inr samples"
      "sample_breach a (max (mo_peak m) (sum_list (map sm_equity samples))) samples = Some b"
    and refused: "ps = before @ p # rest" "own (sc_after sc) before" "sc_after sc p = Some False"
    and outage: "0 < ma_max_read_outage a"
  shows "\<exists>m'. mo_errors m' = 1 \<and> mo_first_error m' = Some (mi_error_at (sc_input sc))
    \<and> watch_processes a ps (sc # scs) m sent = watch_processes a ps scs m' (sent @ present (sc_after sc) before)"
proof -
  have sig: "signal_all (sc_after sc) ps = (present (sc_after sc) before, Inl (OtherError ''PermissionError''))"
    unfolding refused(1) by (rule signal_all_refused[OF refused(2,3)])
  obtain m1 where c: "mon_cycle a (sc_input sc) m = (m1, Interrupt)" and m1: "mo_errors m1 = 0" "mo_first_error m1 = None"
    using breach by (auto simp: mon_cycle_def quiet_logs_def read_succeeded_def emit_event_def Let_def)
  obtain m2 st where r: "read_failed a (mi_error_at (sc_input sc)) m1 = (m2, st)" by force
  have st: "\<exists>d. st = Sleep d" "mo_errors m2 = 1" "mo_first_error m2 = Some (mi_error_at (sc_input sc))"
    using r m1 outage
    by (auto simp: read_failed_def read_error_delay_s_def float_of_int_pow2[of 0, simplified] read_outage_breached_def emit_event_def Let_def
        split: sum.splits if_splits)
  have "from_accounts a (sc_input sc) m" using breach by (simp add: from_accounts_def)
  with st show ?thesis by (intro exI[of _ m2]) (auto simp: assms(1,2) c sig r)
qed

definition broke_sample :: account_sample where
  "broke_sample = sample_of ''e2_main'' 0 0 0 1 [] 0"

definition refused_scene :: mon_scene where
  "refused_scene = \<lparr>sc_check = [3 \<mapsto> True, 5 \<mapsto> True, 7 \<mapsto> True], sc_after = [3 \<mapsto> True, 5 \<mapsto> False, 7 \<mapsto> True],
     sc_input = sample_reading True 10 (Inr [broke_sample])\<rparr>"

theorem refused_signal_spares_the_rest_witness:
  "\<exists>m'. mo_errors m' = 1 \<and> watch_processes sample_mon [3, 5, 7] (refused_scene # scs) (new_monitor 0 60) [] = watch_processes sample_mon [3, 5, 7] scs m' [3]"
proof -
  have sent: "present (sc_after refused_scene) [3] = [3]" by (simp add: refused_scene_def present_def ex_bool_eq)
  have eq0: "sm_equity broke_sample = 0" "sm_account broke_sample = ''e2_main''" by (simp_all add: broke_sample_def sample_of_def Let_def)
  have "\<exists>m'. mo_errors m' = 1 \<and> mo_first_error m' = Some (mi_error_at (sc_input refused_scene))
    \<and> watch_processes sample_mon [3, 5, 7] (refused_scene # scs) (new_monitor 0 60) []
        = watch_processes sample_mon [3, 5, 7] scs m' ([] @ present (sc_after refused_scene) [3])"
    by (rule refused_signal_spares_the_rest[where samples = "[broke_sample]" and p = 5 and rest = "[7]" and b = "NoEquity ''e2_main''"])
      (auto simp: refused_scene_def sample_reading_def new_monitor_def sample_mon_def own_def process_alive_def os_kill_def
        quiet_logs_def sample_breach_def account_breach_def eq0 ex_bool_eq)
  then show ?thesis unfolding sent append_Nil by blast
qed

end
