(* ===== verification/Spec2Isabelle.thy ===== *)
theory Spec2Isabelle
  imports PassiveAggressiveDryBook PerpCycleProperties ACSchedule Hedging Topology GatewayBridgeProperties
    SoakMonitor SoakPreparation ShadowStep TwapRoundTrip IsolatedRuntime TvlMonitor DeployChecks QuoteGate ResearchDrivers DecisionDiff DeriskGateProperties
    BookFeed KeeperWiring SmokeGate ControllerInit ACRuns CredentialImport
    ExecutorRegistry ControllerReports GateTools MonitorSignals
begin

text \<open>
  A verification development for hb-enhanced-opms: the order and position management layer that
  runs perp and DLMM market makers on Hummingbot, with the scripts that prepare, watch, gate and
  clean up its live runs.

  \<^bold>\<open>The program and its model.\<close>  Paths are under \<open>src/src/opms\<close> unless they start with
  \<open>scripts\<close> or \<open>deploy\<close>, which are under \<open>src\<close>.

  Perp market making.  A keeper (package perp_bot) decides an intent; \<open>PerpMMController\<close> turns it
  into executor actions and Hummingbot runs the executors.
  \<^item> \<open>Resilience\<close>: \<open>resilience.py\<close>, the venue circuit breaker and the quote liveness watchdog;
    records \<open>breaker\<close> and \<open>watchdog\<close>, one operation per method.
  \<^item> \<open>PerpBridge\<close>: \<open>controllers/generic/perp_mm_bridge.py\<close>, the pending-intent latch
    (\<open>client\<close>) and the translation of intents to order specs and execution requests.
  \<^item> \<open>PortfolioStop\<close>: \<open>controllers/generic/portfolio_stop.py\<close>, the stop book that the controllers
    of one account share through SQLite.
  \<^item> \<open>PerpController\<close> and \<open>PerpCycle\<close>: \<open>controllers/generic/perp_mm_controller.py\<close>.  The first is the
    decision (\<open>determine_executor_actions\<close> and its helpers) on the record \<open>ctl\<close> and the readings
    \<open>cycle\<close>; the second is what surrounds it: position, margin and equity readings, the data
    update, the basket and \<open>control_task\<close> with its fail-safe.  \<open>ControllerInit\<close> is how a controller is
    configured and constructed, and that the launcher's checks are those of the constructors;
    \<open>ExecutorRegistry\<close> is what importing the module enters into Hummingbot's tables.  \<open>PerpControllerSafety\<close>,
    \<open>PerpControllerProperties\<close> and \<open>PerpCycleProperties\<close> hold the lemmas, over single cycles and
    over runs (\<open>ctl_run\<close>).
  \<^item> \<open>PassiveAggressive\<close>: \<open>executors/passive_aggressive_executor.py\<close>, the executor that works a
    position through child orders: record \<open>executor\<close>, one function per tick step and per event
    callback, runs as the relation \<open>pa_reach\<close>.  \<open>PassiveAggressiveAccounts\<close> has its accounting
    invariant, \<open>..Safety\<close> the child slots, \<open>..Submissions\<close> and \<open>..Runs\<close> what it submits, \<open>..Venue\<close>
    the honest venue, \<open>..History\<close> credit as a function of the events and the meaning of the reports,
    \<open>..DryBook\<close> that it ends without a price.
  \<^item> \<open>BufferedMaker\<close>: \<open>executors/buffered_maker_executor.py\<close>.
  \<^item> \<open>FillAnalytics\<close>: \<open>analytics/fill_observer.py\<close>.

  Other executors and controllers.
  \<^item> \<open>ACMath\<close>, \<open>VolumeForecast\<close>, \<open>ACSchedule\<close>, \<open>ACRuns\<close>: \<open>executors/_ac_math.py\<close>, \<open>forecasting\<close> and
    \<open>executors/ac_schedule_executor.py\<close>, the Almgren-Chriss schedule, the executor that follows it
    (record \<open>ac_state\<close>, one function per callback) and its runs (\<open>ac_run\<close>).
  \<^item> \<open>TwapRoundTrip\<close>: \<open>controllers/generic/twap_roundtrip_controller.py\<close>.
  \<^item> \<open>Hedging\<close>: \<open>shared_risk_book.py\<close>, \<open>hedge_controller.py\<close> and the data update of
    \<open>dlmm_controller.py\<close>, which meet in a registry of shared books.  \<open>KeeperWiring\<close> is the
    constructor and lifecycle of the latter, beside the other places that build and run a DLMM keeper:
    \<open>research/run_shadow_dlmm.py\<close>, \<open>keeper_dryrun.py\<close>, \<open>keeper_dust_trial.py\<close>, \<open>shadow_step_a2.py\<close>.
  \<^item> \<open>TvlMonitor\<close>: \<open>risk/tvl_monitor.py\<close>, which writes the kill sentinel.

  Connecting to venues.
  \<^item> \<open>Topology\<close>: \<open>connectors/topology.py\<close>, no two controllers on one netted market.
  \<^item> \<open>GatewayBridge\<close>, \<open>GatewayBridgeProperties\<close>: \<open>gateway/exec_bridge.py\<close>, every verb as a step on
    \<open>gateway\<close> that logs its HTTP requests.
  \<^item> \<open>BookFeed\<close>: \<open>connectors/hl_bbo.py\<close>, the patched order book source (\<open>book_source\<close>) of Hyperliquid.
  \<^item> \<open>IsolatedRuntime\<close>: \<open>isolated_runtime.py\<close> and its entry point
    \<open>deploy/hummingbot/scripts/run_hummingbot_isolated.py\<close>.

  Running live.
  \<^item> \<open>SoakCalibration\<close>, \<open>SoakPreparation\<close>: \<open>soak_calibration.py\<close>, \<open>scripts/prepare_calibrated_soak.py\<close> and
    \<open>scripts/validate_calibrated_soak.py\<close>, from a calibration report to a run that may start.
  \<^item> \<open>AccountRouting\<close>, \<open>DeployChecks\<close>: which account each script trades on, the launcher
    \<open>deploy/hummingbot/scripts/opms_perp_mm.py\<close> and the two deployment validators beside it.
  \<^item> \<open>CredentialImport\<close>: \<open>scripts/import_hl_mainnet_credentials.py\<close> and its testnet sibling.
  \<^item> \<open>AccountGate\<close>: \<open>scripts/check_hl_account_state.py\<close> and \<open>scripts/cleanup_hl_soak.py\<close>.
  \<^item> \<open>SoakMonitor\<close>: \<open>scripts/monitor_hl_soak.py\<close>, the loop over readings that may interrupt a run;
    \<open>MonitorSignals\<close> puts the processes it watches and signals under that loop.
  \<^item> \<open>SmokeGate\<close>, \<open>QuoteGate\<close>, \<open>DeriskGate\<close>, \<open>DeriskGateProperties\<close>: the read-only smoke test and the two
    gates that place orders, \<open>scripts/run_hb_mainnet_smoke.py\<close>, \<open>scripts/run_hb_mainnet_quote_gate.py\<close> and
    \<open>scripts/run_hb_mainnet_derisk_gate.py\<close>.  \<open>GateTools\<close> is what the two gates share besides their
    phases: the accounts they watch, the strategy their executors trade through, the artifact.
  \<^item> \<open>ControllerReports\<close>: the snapshots of \<open>resilience.py\<close>, \<open>get_custom_info\<close> of the perp and DLMM
    controllers, and what the smoke test reads off it.
  \<^item> \<open>ShadowStep\<close>, \<open>ResearchDrivers\<close>, \<open>DecisionDiff\<close>: the drivers of \<open>research\<close>.

  \<open>Prelude\<close> and \<open>Json\<close> hold what all of them share: Python's numbers that may not be finite, errors,
  strings, dicts as association lists, JSON values.

  \<^bold>\<open>How the code is read.\<close>  A class is a record and a method a function that returns the updated
  record; an exception is a value (\<open>py_error + 'a\<close>), with the state it leaves behind where there is
  one.  Floats and Decimals are exact reals: the rounding of binary64 and of 28-digit Decimals is
  not modelled.  Where a value may be infinite or not a number, it is a \<open>pynum\<close> and the model
  branches as the code does; the one overflow the program can reach, the conversion of an unbounded
  int to float in a back-off, is \<open>float_of_int\<close>.  A cycle reads the clock and each price once.
  What is not under \<open>src\<close> is a parameter: Hummingbot's connectors and orchestrator, mm_core,
  perp_bot, dlmm_bot, the HTTP server, wallets, and the parsing of numbers out of strings.
  Where a component drives such code through many calls (the gates, the rollout driver), the
  outside is one state of type \<open>'w\<close> with the calls as a record of functions.  Files are
  their contents, and writing one and reading it back are taken as inverse.  Error texts are kept
  as constructors with their arguments.

  \<^bold>\<open>Interfaces.\<close>  \<open>Interfaces\<close> states the contracts as locales: \<open>timed_gate\<close> and its extensions
  \<open>request_circuit\<close> and \<open>quote_gate\<close> (a gate that stays shut for its time), \<open>intent_latch\<close> (an
  intent that is not displaced by a weaker one) and \<open>basket_stop\<close>.  They are interpreted on the
  breaker, the watchdog, the maker's retry gate, the bridge's client and the stop book in those
  theories.  \<open>gateway_reads\<close> and \<open>gateway_relation\<close> lift a relation on gateway states from single
  requests to every verb; \<open>derisk_invariant\<close> and \<open>derisk_gate_invariant\<close> do the same for the
  phases of the de-risk gate.

  \<^bold>\<open>What is shown.\<close>  A failing control cycle ends in a flatten and never in a quote; quotes stand
  alone, are bounded, and stay away while the circuit, the equity or a close forbids them; closes
  only reduce.  The passive-aggressive executor never asks for more than it has left and, on an
  honest venue, never trades more than it was given; its credit is a function of the events; it ends.
  The Almgren-Chriss executor places no more orders than slices and failures, and keeps running
  after its last fill unless Hummingbot's record of the orders is attached.
  Breaker and watchdog follow their histories.  The schedule trades its quantity along the
  Almgren-Chriss curve.  The Gateway bridge writes only inside its tolerance.  The monitor exits
  with zero only when every reading was clean, it always ends, and its interrupt reaches every process
  that is its own; cleanup stays in scope.  A
  prepared run is accepted back and an accepted one is what was calibrated.  A passed gate has
  seen what it claims, on every account it watches, and the de-risk gate never quotes.  Every executor the
  controller asks for is registered once its module is imported.  Some theorems state what the code does
  against its documentation: the manifest's findings name them.

  \<^bold>\<open>Fuel.\<close>  A loop over a deadline takes as fuel the number of sleeps that reach the deadline
  (one per second, per interval or per cycle); \<open>gate_loops_end_at_their_deadlines\<close> shows for the
  de-risk gate that more changes nothing.  The monitor runs over the list of its readings, the
  rollout driver over its maximal number of cycles, the executors over sequences of events.

  \<^bold>\<open>Not modelled.\<close>  Logging, printing and argument defaults; \<open>_pa_summary\<close> of the de-risk gate and
  \<open>A2Report.to_dict\<close>, which only format; the gates' \<open>_pump\<close> and \<open>_log_to\<close>, which tick Hummingbot's
  connector and attach log handlers; the module under
  \<open>deploy/hummingbot/controllers\<close> that only re-exports a class; what happens inside
  Hummingbot's encrypted store and its connectors.
\<close>

end
